(* ===== verification/Rust_Prelude.thy ===== *)
theory Rust_Prelude
  imports Main "HOL-Library.Word" "HOL-Library.Product_Lexorder"
begin

text \<open>
  The Rust vocabulary shared by every component of the development: machine integers and byte
  strings, the outcome of a fallible call (with a panic kept apart from a returned error), calls
  that read and write the chain state, the loop and iterator shapes the sources use, big endian and
  decimal renderings, UTF-8 validity and \<^verbatim>\<open>core::time::Duration\<close>. The collection
  \<open>comp_ok\<close> inverts a successful run of a call; the collection \<open>comp_run\<close> evaluates a call.
\<close>

named_theorems comp_ok
named_theorems comp_run
named_theorems comp_err
named_theorems readonly_intros

section \<open>Machine types\<close>

type_synonym u8 = "8 word"
type_synonym u32 = "32 word"
type_synonym u64 = "64 word"
type_synonym u128 = "128 word"
type_synonym u256 = "256 word"
type_synonym h256 = "256 word"
type_synonym h160 = "160 word"
type_synonym byte = "8 word"
type_synonym bytes = "8 word list"
type_synonym ('k, 'v) btree_map = "('k \<times> 'v) list"

section \<open>Outcomes and stateful calls\<close>

datatype ('e, 'a) outcome = Ok 'a | Err 'e | Panic

type_synonym ('s, 'e, 'a) comp = "'s \<Rightarrow> ('e, 'a) outcome \<times> 's"

definition ret :: "'a \<Rightarrow> ('s, 'e, 'a) comp" where
  "ret a = (\<lambda>s. (Ok a, s))"

definition fail :: "'e \<Rightarrow> ('s, 'e, 'a) comp" where
  "fail e = (\<lambda>s. (Err e, s))"

definition panic :: "('s, 'e, 'a) comp" where
  "panic = (\<lambda>s. (Panic, s))"

definition reads :: "('s \<Rightarrow> ('e, 'a) outcome) \<Rightarrow> ('s, 'e, 'a) comp" where
  "reads r = (\<lambda>s. (r s, s))"

definition asks :: "('s \<Rightarrow> 'a) \<Rightarrow> ('s, 'e, 'a) comp" where
  "asks f = (\<lambda>s. (Ok (f s), s))"

definition modify :: "('s \<Rightarrow> 's) \<Rightarrow> ('s, 'e, unit) comp" where
  "modify f = (\<lambda>s. (Ok (), f s))"

text \<open>Sequencing: the statement separator together with the \<^verbatim>\<open>?\<close> operator.\<close>

definition bindC :: "('s, 'e, 'a) comp \<Rightarrow> ('a \<Rightarrow> ('s, 'e, 'b) comp) \<Rightarrow> ('s, 'e, 'b) comp" where
  "bindC m f = (\<lambda>s. case m s of
     (Ok a, s') \<Rightarrow> f a s'
   | (Err e, s') \<Rightarrow> (Err e, s')
   | (Panic, s') \<Rightarrow> (Panic, s'))"

definition ensure :: "bool \<Rightarrow> 'e \<Rightarrow> ('s, 'e, unit) comp" where
  "ensure b e = (if b then ret () else fail e)"

definition ok_or :: "'a option \<Rightarrow> 'e \<Rightarrow> ('s, 'e, 'a) comp" where
  "ok_or x e = (case x of None \<Rightarrow> fail e | Some a \<Rightarrow> ret a)"

text \<open>\<^verbatim>\<open>Option::expect\<close>, and every call of a standard function that panics instead of
  returning.\<close>

definition expect :: "'a option \<Rightarrow> ('s, 'e, 'a) comp" where
  "expect x = (case x of None \<Rightarrow> panic | Some a \<Rightarrow> ret a)"

definition map_err :: "('e \<Rightarrow> 'f) \<Rightarrow> ('s, 'e, 'a) comp \<Rightarrow> ('s, 'f, 'a) comp" where
  "map_err g m = (\<lambda>s. case m s of
     (Ok a, s') \<Rightarrow> (Ok a, s')
   | (Err e, s') \<Rightarrow> (Err (g e), s')
   | (Panic, s') \<Rightarrow> (Panic, s'))"

text \<open>A call whose \<^verbatim>\<open>Result\<close> is kept as a value instead of being propagated.\<close>

definition attempt :: "('s, 'e, 'a) comp \<Rightarrow> ('s, 'f, 'e + 'a) comp" where
  "attempt m = (\<lambda>s. case m s of
     (Ok a, s') \<Rightarrow> (Ok (Inr a), s')
   | (Err e, s') \<Rightarrow> (Ok (Inl e), s')
   | (Panic, s') \<Rightarrow> (Panic, s'))"

definition propagate :: "'e + 'a \<Rightarrow> ('s, 'e, 'a) comp" where
  "propagate r = (case r of Inl e \<Rightarrow> fail e | Inr a \<Rightarrow> ret a)"

text \<open>\<^verbatim>\<open>Result::is_ok\<close> of a read.\<close>

definition is_ok :: "('s \<Rightarrow> ('e, 'a) outcome) \<Rightarrow> ('s, 'f, bool) comp" where
  "is_ok r = (\<lambda>s. case r s of Ok _ \<Rightarrow> (Ok True, s) | Err _ \<Rightarrow> (Ok False, s) | Panic \<Rightarrow> (Panic, s))"

text \<open>A \<^verbatim>\<open>for\<close> loop whose body may leave with \<^verbatim>\<open>?\<close>.\<close>

primrec for_each :: "('x \<Rightarrow> ('s, 'e, unit) comp) \<Rightarrow> 'x list \<Rightarrow> ('s, 'e, unit) comp" where
  "for_each f [] = ret ()"
| "for_each f (x # xs) = bindC (f x) (\<lambda>_. for_each f xs)"

text \<open>\<^verbatim>\<open>iter.map(f).collect::<Result<Vec<_>, _>>()\<close>: stops at the first error.\<close>

primrec collect :: "('x \<Rightarrow> ('s, 'e, 'b) comp) \<Rightarrow> 'x list \<Rightarrow> ('s, 'e, 'b list) comp" where
  "collect f [] = ret []"
| "collect f (x # xs) = bindC (f x) (\<lambda>y. bindC (collect f xs) (\<lambda>ys. ret (y # ys)))"

text \<open>A storage transaction (\<^verbatim>\<open>#[frame_support::transactional]\<close>, and the storage layer
  around every extrinsic): an error, like a panic, rolls every write back.\<close>

definition transactional :: "('s, 'e, 'a) comp \<Rightarrow> ('s, 'e, 'a) comp" where
  "transactional m = (\<lambda>s. case m s of
     (Ok a, s') \<Rightarrow> (Ok a, s')
   | (Err e, s') \<Rightarrow> (Err e, s)
   | (Panic, s') \<Rightarrow> (Panic, s))"

lemmas comp_defs_basic = ret_def fail_def panic_def reads_def asks_def modify_def

subsection \<open>Inverting a successful run\<close>

lemma ret_Ok [comp_ok]: "ret a s = (Ok b, s') \<longleftrightarrow> b = a \<and> s' = s"
  by (auto simp: ret_def)

lemma fail_Ok [comp_ok]: "fail e s = (Ok b, s') \<longleftrightarrow> False"
  by (auto simp: fail_def)

lemma panic_Ok [comp_ok]: "panic s = (Ok b, s') \<longleftrightarrow> False"
  by (auto simp: panic_def)

lemma reads_Ok [comp_ok]: "reads r s = (Ok b, s') \<longleftrightarrow> r s = Ok b \<and> s' = s"
  by (auto simp: reads_def)

lemma asks_Ok [comp_ok]: "asks f s = (Ok b, s') \<longleftrightarrow> b = f s \<and> s' = s"
  by (auto simp: asks_def)

lemma modify_Ok [comp_ok]: "modify f s = (Ok b, s') \<longleftrightarrow> s' = f s"
  by (auto simp: modify_def)

lemma bindC_Ok [comp_ok]:
  "bindC m f s = (Ok b, s'') \<longleftrightarrow> (\<exists>a s'. m s = (Ok a, s') \<and> f a s' = (Ok b, s''))"
  by (auto simp: bindC_def split: prod.splits outcome.splits)

lemma ensure_Ok [comp_ok]: "ensure c e s = (Ok b, s') \<longleftrightarrow> c \<and> s' = s"
  by (auto simp: ensure_def ret_def fail_def)

lemma ok_or_Ok [comp_ok]: "ok_or x e s = (Ok b, s') \<longleftrightarrow> x = Some b \<and> s' = s"
  by (auto simp: ok_or_def ret_def fail_def split: option.splits)

lemma expect_Ok [comp_ok]: "expect x s = (Ok b, s') \<longleftrightarrow> x = Some b \<and> s' = s"
  by (auto simp: expect_def ret_def panic_def split: option.splits)

lemma map_err_Ok [comp_ok]: "map_err g m s = (Ok b, s') \<longleftrightarrow> m s = (Ok b, s')"
  by (auto simp: map_err_def split: prod.splits outcome.splits)

lemma attempt_Ok [comp_ok]:
  "attempt m s = (Ok r, s') \<longleftrightarrow>
     (case r of Inl e \<Rightarrow> m s = (Err e, s') | Inr a \<Rightarrow> m s = (Ok a, s'))"
  by (auto simp: attempt_def split: prod.splits outcome.splits sum.splits)

lemma reads_Err [comp_ok]: "reads r s = (Err e, s') \<longleftrightarrow> r s = Err e \<and> s' = s"
  by (auto simp: reads_def)

lemma is_ok_Ok [comp_ok]:
  "is_ok r s = (Ok b, s') \<longleftrightarrow> s' = s \<and> r s \<noteq> Panic \<and> b = (\<exists>a. r s = Ok a)"
  by (auto simp: is_ok_def split: outcome.splits)

lemma bindC_attempt_Ok:
  "bindC (attempt m) f s = (Ok b, s'') \<longleftrightarrow>
     (\<exists>e s'. m s = (Err e, s') \<and> f (Inl e) s' = (Ok b, s'')) \<or>
     (\<exists>a s'. m s = (Ok a, s') \<and> f (Inr a) s' = (Ok b, s''))"
  by (auto simp: bindC_def attempt_def split: prod.splits outcome.splits)

lemma propagate_Ok [comp_ok]: "propagate r s = (Ok b, s') \<longleftrightarrow> r = Inr b \<and> s' = s"
  by (auto simp: propagate_def ret_def fail_def split: sum.splits)

lemma transactional_Ok [comp_ok]: "transactional m s = (Ok b, s') \<longleftrightarrow> m s = (Ok b, s')"
  by (auto simp: transactional_def split: prod.splits outcome.splits)

subsection \<open>Inverting a run that returns an error\<close>

lemma bindC_Err [comp_err]:
  "bindC m f s = (Err e, s'') \<longleftrightarrow>
     m s = (Err e, s'') \<or> (\<exists>a s'. m s = (Ok a, s') \<and> f a s' = (Err e, s''))"
  by (auto simp: bindC_def split: prod.splits outcome.splits)

lemma simple_Err [comp_err]:
  "ret a s = (Err e, s') \<longleftrightarrow> False"
  "fail d s = (Err e, s') \<longleftrightarrow> d = e \<and> s' = s"
  "panic s = (Err e, s') \<longleftrightarrow> False"
  "asks g s = (Err e, s') \<longleftrightarrow> False"
  "modify h s = (Err e, s') \<longleftrightarrow> False"
  by (auto simp: comp_defs_basic)

lemma guard_Err [comp_err]:
  "ensure c d s = (Err e, s') \<longleftrightarrow> \<not> c \<and> d = e \<and> s' = s"
  "ok_or x d s = (Err e, s') \<longleftrightarrow> x = None \<and> d = e \<and> s' = s"
  "expect x s = (Err e, s') \<longleftrightarrow> False"
  "propagate q s = (Err e, s') \<longleftrightarrow> q = Inl e \<and> s' = s"
  "attempt m s = (Err f, s') \<longleftrightarrow> False"
  "map_err g m s = (Err f, s') \<longleftrightarrow> (\<exists>e. m s = (Err e, s') \<and> f = g e)"
  by (auto simp: ensure_def ok_or_def expect_def propagate_def attempt_def map_err_def comp_defs_basic
      split: option.splits sum.splits prod.splits outcome.splits)

subsection \<open>Evaluating a run\<close>

lemmas comp_defs = ret_def fail_def panic_def reads_def asks_def modify_def ensure_def ok_or_def
  expect_def map_err_def attempt_def propagate_def

lemma bindC_run [comp_run]:
  "m s = (Ok a, s') \<Longrightarrow> bindC m f s = f a s'"
  "m s = (Err e, s') \<Longrightarrow> bindC m f s = (Err e, s')"
  "m s = (Panic, s') \<Longrightarrow> bindC m f s = (Panic, s')"
  by (simp_all add: bindC_def)

lemma simple_run [comp_run]:
  "ret a s = (Ok a, s)"
  "fail e s = (Err e, s)"
  "panic s = (Panic, s)"
  "reads r s = (r s, s)"
  "asks g s = (Ok (g s), s)"
  "modify h s = (Ok (), h s)"
  by (simp_all add: comp_defs)

lemma guard_run [comp_run]:
  "ensure True e s = (Ok (), s)"
  "ensure False e s = (Err e, s)"
  "ok_or (Some a) e s = (Ok a, s)"
  "ok_or None e s = (Err e, s)"
  "expect (Some a) s = (Ok a, s)"
  "expect None s = (Panic, s)"
  "propagate (Inr a) s = (Ok a, s)"
  "propagate (Inl e) s = (Err e, s)"
  by (simp_all add: comp_defs)

text \<open>The same, unconditional, for evaluating a call on a concrete state.\<close>

lemma comp_app:
  "bindC m f s = (case m s of (Ok a, s') \<Rightarrow> f a s' | (Err e, s') \<Rightarrow> (Err e, s') | (Panic, s') \<Rightarrow> (Panic, s'))"
  "ret a s = (Ok a, s)"
  "fail e s = (Err e, s)"
  "panic s = (Panic, s)"
  "reads r s = (r s, s)"
  "asks g s = (Ok (g s), s)"
  "modify h s = (Ok (), h s)"
  "ensure c e s = (if c then Ok () else Err e, s)"
  "ok_or x e s = (case x of None \<Rightarrow> Err e | Some b \<Rightarrow> Ok b, s)"
  "expect x s = (case x of None \<Rightarrow> Panic | Some b \<Rightarrow> Ok b, s)"
  "is_ok v s = (case v s of Ok _ \<Rightarrow> (Ok True, s) | Err _ \<Rightarrow> (Ok False, s) | Panic \<Rightarrow> (Panic, s))"
  "propagate q s = (case q of Inl e \<Rightarrow> Err e | Inr b \<Rightarrow> Ok b, s)"
  "map_err k m s = (case m s of (Ok a, s') \<Rightarrow> (Ok a, s') | (Err e, s') \<Rightarrow> (Err (k e), s') | (Panic, s') \<Rightarrow> (Panic, s'))"
  "attempt m s = (case m s of (Ok a, s') \<Rightarrow> (Ok (Inr a), s') | (Err e, s') \<Rightarrow> (Ok (Inl e), s') | (Panic, s') \<Rightarrow> (Panic, s'))"
  "transactional m s = (case m s of (Ok a, s') \<Rightarrow> (Ok a, s') | (Err e, s') \<Rightarrow> (Err e, s) | (Panic, s') \<Rightarrow> (Panic, s))"
  by (simp_all add: comp_defs is_ok_def bindC_def transactional_def split: option.split sum.split)

lemma transactional_rollback:
  "transactional m s = (r, s') \<Longrightarrow> (\<forall>a. r \<noteq> Ok a) \<Longrightarrow> s' = s"
  by (auto simp: transactional_def split: prod.splits outcome.splits)

lemma bindC_assoc: "bindC (bindC m f) g = bindC m (\<lambda>a. bindC (f a) g)"
  by (auto simp: bindC_def fun_eq_iff split: prod.split outcome.split)

lemma bindC_ret: "bindC (ret a) f = f a"
  by (simp add: bindC_def ret_def fun_eq_iff)

lemma snd_bindC:
  "snd (bindC m f s) = (case fst (m s) of Ok a \<Rightarrow> snd (f a (snd (m s))) | _ \<Rightarrow> snd (m s))"
  by (simp add: bindC_def split: prod.splits outcome.splits)

lemma snd_map_err: "snd (map_err g m s) = snd (m s)"
  by (simp add: map_err_def split: prod.splits outcome.splits)

lemma snd_attempt: "snd (attempt m s) = snd (m s)"
  by (simp add: attempt_def split: prod.splits outcome.splits)

lemma snd_transactional:
  "snd (transactional m s) = (case fst (m s) of Ok a \<Rightarrow> snd (m s) | _ \<Rightarrow> s)"
  by (simp add: transactional_def split: prod.splits outcome.splits)

text \<open>Whether a run returns a value, as an executable test.\<close>

definition succeeds :: "('s, 'e, 'a) comp \<Rightarrow> 's \<Rightarrow> bool" where
  "succeeds m s = (case fst (m s) of Ok _ \<Rightarrow> True | _ \<Rightarrow> False)"

lemma succeeds_run: "succeeds m s \<Longrightarrow> \<exists>r. m s = (Ok r, snd (m s))"
  by (cases "m s"; cases "fst (m s)") (auto simp: succeeds_def)

subsection \<open>Calls that do not write\<close>

definition readonly :: "('s, 'e, 'a) comp \<Rightarrow> bool" where
  "readonly m \<longleftrightarrow> (\<forall>s. snd (m s) = s)"

lemma readonlyD: "readonly m \<Longrightarrow> m s = (r, s') \<Longrightarrow> s' = s"
  by (metis readonly_def snd_conv)

lemma readonly_basic [readonly_intros]:
  "readonly (ret a)" "readonly (fail e)" "readonly panic" "readonly (reads r)"
  "readonly (asks g)" "readonly (ensure c e)" "readonly (ok_or x e)" "readonly (expect x)"
  "readonly (propagate q)" "readonly (is_ok v)"
  by (auto simp: readonly_def comp_defs is_ok_def split: option.splits sum.splits outcome.splits)

lemma readonly_bindC [readonly_intros]:
  "readonly m \<Longrightarrow> (\<And>a. readonly (f a)) \<Longrightarrow> readonly (bindC m f)"
  by (simp add: readonly_def snd_bindC split: outcome.split)

lemma readonly_map_err [readonly_intros]: "readonly m \<Longrightarrow> readonly (map_err g m)"
  by (simp add: readonly_def snd_map_err split: outcome.split)

lemma readonly_attempt [readonly_intros]: "readonly m \<Longrightarrow> readonly (attempt m)"
  by (simp add: readonly_def snd_attempt split: outcome.split)

lemma readonly_for_each [readonly_intros]: "(\<And>x. readonly (f x)) \<Longrightarrow> readonly (for_each f xs)"
  by (induction xs) (simp_all add: readonly_basic readonly_bindC)

lemma readonly_collect [readonly_intros]: "(\<And>x. readonly (f x)) \<Longrightarrow> readonly (collect f xs)"
  by (induction xs) (simp_all add: readonly_basic readonly_bindC)

lemma readonly_if [readonly_intros]:
  "readonly m \<Longrightarrow> readonly n \<Longrightarrow> readonly (if c then m else n)"
  by simp

lemma readonly_bindC_unit_Ok:
  fixes m :: "('s, 'e, unit) comp"
  assumes "readonly m"
  shows "bindC m f s = (Ok b, s') \<longleftrightarrow> m s = (Ok (), s) \<and> f () s = (Ok b, s')"
proof -
  obtain r t where run: "m s = (r, t)" by (rule prod.exhaust)
  with assms have t: "t = s" by (rule readonlyD)
  show ?thesis
    by (cases r) (simp_all add: bindC_def run t)
qed

lemma readonly_bindC_Ok:
  assumes "readonly m"
  shows "bindC m f s = (Ok b, s') \<longleftrightarrow> (\<exists>a. m s = (Ok a, s) \<and> f a s = (Ok b, s'))"
proof -
  obtain r t where run: "m s = (r, t)" by (rule prod.exhaust)
  with assms have t: "t = s" by (rule readonlyD)
  show ?thesis
    by (cases r) (simp_all add: bindC_def run t)
qed

lemma for_each_readonly_Ok:
  assumes "\<And>x. readonly (f x)"
  shows "for_each f xs s = (Ok u, s') \<longleftrightarrow> s' = s \<and> (\<forall>x \<in> set xs. f x s = (Ok (), s))"
proof (induction xs)
  case Nil
  show ?case by (auto simp: ret_def)
next
  case (Cons x xs)
  show ?case
    unfolding for_each.simps readonly_bindC_unit_Ok [OF assms] Cons.IH by (simp add: conj_left_commute)
qed

lemma for_each_readonly_blocked:
  assumes ro: "\<And>x. readonly (f x)"
    and x: "x \<in> set xs" and bad: "\<And>u. fst (f x s) \<noteq> Ok u"
  shows "\<exists>r. for_each f xs s = (r, s) \<and> (\<forall>u. r \<noteq> Ok u)"
proof -
  obtain r t where run: "for_each f xs s = (r, t)" by (rule prod.exhaust)
  have t: "t = s" using readonlyD [OF readonly_for_each [where f = f, OF ro] run] .
  have "r \<noteq> Ok u" for u
  proof
    assume "r = Ok u"
    with run t have "\<forall>x \<in> set xs. f x s = (Ok (), s)"
      using for_each_readonly_Ok [where f = f, OF ro] by blast
    with x bad [of "()"] show False by simp
  qed
  with run t show ?thesis by auto
qed

lemma bindC_blocked:
  assumes "m s = (r, s)" and "\<And>u. r \<noteq> Ok u"
  shows "\<exists>q. bindC m f s = (q, s) \<and> (\<forall>v. q \<noteq> Ok v)"
proof (cases r)
  case (Ok a)
  with assms(2) show ?thesis by blast
next
  case (Err e)
  with assms(1) show ?thesis by (simp add: bindC_def)
next
  case Panic
  with assms(1) show ?thesis by (simp add: bindC_def)
qed

text \<open>A call guarded by checks that do not write: nothing happens when a check fails.\<close>

lemma readonly_guard_blocked:
  fixes m :: "('s, 'e, unit) comp"
  assumes "readonly m" and "m s \<noteq> (Ok (), s)"
  shows "snd (bindC m f s) = s" and "fst (bindC m f s) \<noteq> Ok r"
proof -
  obtain q t where run: "m s = (q, t)" by (rule prod.exhaust)
  from readonlyD [OF assms(1) run] have t: "t = s" .
  show "snd (bindC m f s) = s" "fst (bindC m f s) \<noteq> Ok r"
    using assms(2) run t by (cases q; simp add: bindC_def)+
qed

lemma readonly_then_unchanged:
  assumes "readonly m" and "\<And>a. m s = (Ok a, s) \<Longrightarrow> snd (f a s) = s"
  shows "snd (bindC m f s) = s"
proof -
  obtain q t where run: "m s = (q, t)" by (rule prod.exhaust)
  from readonlyD [OF assms(1) run] have t: "t = s" .
  show ?thesis using assms(2) run t by (cases q) (simp_all add: bindC_def)
qed

lemma blocked_unchanged:
  "snd (m s) = s \<Longrightarrow> (\<And>r. fst (m s) \<noteq> Ok r) \<Longrightarrow> snd (bindC m f s) = s"
  by (simp add: snd_bindC split: outcome.split)

subsection \<open>Invariants of a run\<close>

text \<open>A predicate of the state that a call keeps, whatever it returns.\<close>

definition keeps :: "('s \<Rightarrow> bool) \<Rightarrow> ('s, 'e, 'a) comp \<Rightarrow> bool" where
  "keeps P m \<longleftrightarrow> (\<forall>s. P s \<longrightarrow> P (snd (m s)))"

lemma keepsI: "(\<And>s. P s \<Longrightarrow> P (snd (m s))) \<Longrightarrow> keeps P m"
  by (simp add: keeps_def)

lemma keepsD: "keeps P m \<Longrightarrow> m s = (r, s') \<Longrightarrow> P s \<Longrightarrow> P s'"
  by (metis keeps_def snd_conv)

lemma readonly_keeps: "readonly m \<Longrightarrow> keeps P m"
  by (simp add: readonly_def keeps_def)

lemma keeps_basic:
  "keeps P (ret a)" "keeps P (fail e)" "keeps P panic" "keeps P (reads r)" "keeps P (asks g)"
  "keeps P (ensure c e)" "keeps P (ok_or x e)" "keeps P (expect x)" "keeps P (propagate q)"
  "keeps P (is_ok v)"
  by (rule readonly_keeps, rule readonly_basic)+

lemma keeps_bindC: "keeps P m \<Longrightarrow> (\<And>a. keeps P (f a)) \<Longrightarrow> keeps P (bindC m f)"
  by (simp add: keeps_def snd_bindC split: outcome.split)

lemma keeps_bindC_reads: "(\<And>s a. r s = Ok a \<Longrightarrow> keeps P (f a)) \<Longrightarrow> keeps P (bindC (reads r) f)"
  by (simp add: keeps_def snd_bindC reads_def split: outcome.split)

lemma keeps_map_err: "keeps P m \<Longrightarrow> keeps P (map_err g m)"
  by (simp add: keeps_def snd_map_err split: outcome.split)

lemma keeps_attempt: "keeps P m \<Longrightarrow> keeps P (attempt m)"
  by (simp add: keeps_def snd_attempt split: outcome.split)

lemma keeps_transactional: "keeps P m \<Longrightarrow> keeps P (transactional m)"
  by (simp add: keeps_def snd_transactional split: outcome.split)

lemma keeps_for_each: "(\<And>x. keeps P (f x)) \<Longrightarrow> keeps P (for_each f xs)"
  by (induction xs) (simp_all add: keeps_basic keeps_bindC)

lemma keeps_for_each_set: "(\<And>x. x \<in> set xs \<Longrightarrow> keeps P (f x)) \<Longrightarrow> keeps P (for_each f xs)"
  by (induction xs) (simp_all add: keeps_basic keeps_bindC)

lemma keeps_collect: "(\<And>x. keeps P (f x)) \<Longrightarrow> keeps P (collect f xs)"
  by (induction xs) (simp_all add: keeps_basic keeps_bindC)

lemma keeps_collect_set: "(\<And>x. x \<in> set xs \<Longrightarrow> keeps P (f x)) \<Longrightarrow> keeps P (collect f xs)"
  by (induction xs) (simp_all add: keeps_basic keeps_bindC)

lemma keeps_if: "keeps P m \<Longrightarrow> keeps P n \<Longrightarrow> keeps P (if c then m else n)"
  by simp

lemmas keeps_intros = keeps_basic keeps_bindC keeps_map_err keeps_attempt keeps_for_each
  keeps_collect keeps_transactional

text \<open>Every element of a successful traversal had a run of its own.\<close>

lemma collect_Ok_nth:
  assumes "collect f xs s = (Ok ys, s')" and "i < length xs"
  shows "\<exists>t t'. f (xs ! i) t = (Ok (ys ! i), t')"
  using assms
proof (induction xs arbitrary: s ys i)
  case Nil
  then show ?case by simp
next
  case (Cons x xs)
  from Cons.prems(1) obtain y zs t where
    x: "f x s = (Ok y, t)" and rest: "collect f xs t = (Ok zs, s')" and ys: "ys = y # zs"
    by (auto simp: comp_ok)
  show ?case
  proof (cases i)
    case 0
    with x ys show ?thesis by auto
  next
    case (Suc j)
    with Cons.prems(2) Cons.IH [OF rest, of j] ys show ?thesis by simp
  qed
qed

text \<open>
  A traversal whose step establishes a fact of its element, and keeps the facts of elements with
  another key, establishes the facts of all its elements.
\<close>

lemma collect_establishes:
  assumes est: "\<And>x t y t'. x \<in> set xs \<Longrightarrow> f x t = (Ok y, t') \<Longrightarrow> good y \<Longrightarrow> P x t'"
    and keep: "\<And>x x'. x \<in> set xs \<Longrightarrow> x' \<in> set xs \<Longrightarrow> k x \<noteq> k x' \<Longrightarrow> keeps (P x) (f x')"
    and "collect f xs s = (Ok ys, s')" and "distinct (map k xs)" and "i < length xs" and "good (ys ! i)"
  shows "P (xs ! i) s'"
  using assms
proof (induction xs arbitrary: s ys i)
  case Nil
  then show ?case by simp
next
  case (Cons x xs)
  from Cons.prems(3) obtain y zs t where
    x: "f x s = (Ok y, t)" and rest: "collect f xs t = (Ok zs, s')" and ys: "ys = y # zs"
    by (auto simp: comp_ok)
  show ?case
  proof (cases i)
    case 0
    with Cons.prems(1) [of x s y t] x ys Cons.prems(6) have here: "P x t" by simp
    have "\<forall>x' \<in> set xs. k x \<noteq> k x'" using Cons.prems(4) by auto
    then have "keeps (P x) (collect f xs)"
      using Cons.prems(2) [of x] by (intro keeps_collect_set) simp
    from keepsD [OF this rest here] 0 show ?thesis by simp
  next
    case (Suc j)
    have "P (xs ! j) s'"
    proof (rule Cons.IH [OF _ _ rest])
      show "\<And>x t y t'. x \<in> set xs \<Longrightarrow> f x t = (Ok y, t') \<Longrightarrow> good y \<Longrightarrow> P x t'"
        using Cons.prems(1) by (meson list.set_intros(2))
      show "\<And>x x'. x \<in> set xs \<Longrightarrow> x' \<in> set xs \<Longrightarrow> k x \<noteq> k x' \<Longrightarrow> keeps (P x) (f x')"
        using Cons.prems(2) by simp
    qed (use Cons.prems(4-6) Suc ys in simp_all)
    with Suc show ?thesis by simp
  qed
qed

text \<open>When every step keeps the facts of all elements, the keys need not differ.\<close>

lemma collect_establishes_all:
  assumes est: "\<And>x t y t'. x \<in> set xs \<Longrightarrow> f x t = (Ok y, t') \<Longrightarrow> good y \<Longrightarrow> P x t'"
    and keep: "\<And>x x'. x' \<in> set xs \<Longrightarrow> keeps (P x) (f x')"
    and "collect f xs s = (Ok ys, s')" and "i < length xs" and "good (ys ! i)"
  shows "P (xs ! i) s'"
  using assms
proof (induction xs arbitrary: s ys i)
  case Nil
  then show ?case by simp
next
  case (Cons x xs)
  from Cons.prems(3) obtain y zs t where
    x: "f x s = (Ok y, t)" and rest: "collect f xs t = (Ok zs, s')" and ys: "ys = y # zs"
    by (auto simp: comp_ok)
  show ?case
  proof (cases i)
    case 0
    with Cons.prems(1) [of x s y t] x ys Cons.prems(5) have here: "P x t" by simp
    have "keeps (P x) (collect f xs)" using Cons.prems(2) by (intro keeps_collect_set) simp
    from keepsD [OF this rest here] 0 show ?thesis by simp
  next
    case (Suc j)
    have "P (xs ! j) s'"
      by (rule Cons.IH [OF _ _ rest]) (use Cons.prems Suc ys in \<open>auto simp: nth_Cons'\<close>)
    with Suc show ?thesis by simp
  qed
qed

text \<open>A traversal does not succeed when the step of one of its elements always panics.\<close>

lemma collect_panics:
  assumes "x \<in> set xs" and "\<And>t. fst (f x t) = Panic"
  shows "collect f xs s \<noteq> (Ok ys, s')"
  using assms
proof (induction xs arbitrary: s ys)
  case (Cons y xs)
  show ?case
  proof
    assume "collect f (y # xs) s = (Ok ys, s')"
    then obtain v t zs where y: "f y s = (Ok v, t)" and rest: "collect f xs t = (Ok zs, s')" by (auto simp: comp_ok)
    from y Cons.prems(2) [of s] have "x \<noteq> y" by auto
    with Cons.prems Cons.IH [of t zs] rest show False by auto
  qed
qed simp

lemma collect_Ok_elem:
  "collect f xs s = (Ok ys, s') \<Longrightarrow> y \<in> set ys \<Longrightarrow> \<exists>x \<in> set xs. \<exists>t t'. f x t = (Ok y, t')"
  by (induction xs arbitrary: s ys) (fastforce simp: comp_ok)+

lemma collect_propagate: "collect propagate qs s = (Ok ys, s') \<longleftrightarrow> s' = s \<and> qs = map Inr ys"
  by (induction qs arbitrary: ys) (auto simp: comp_ok)

lemma for_each_succeeds:
  assumes "\<And>x t. x \<in> set xs \<Longrightarrow> \<exists>t'. f x t = (Ok (), t')"
  shows "\<exists>s'. for_each f xs s = (Ok (), s')"
  using assms
proof (induction xs arbitrary: s)
  case Nil
  show ?case by (simp add: ret_def)
next
  case (Cons x xs)
  from Cons.prems [of x s] obtain t where "f x s = (Ok (), t)" by auto
  moreover from Cons.IH Cons.prems have "\<exists>s'. for_each f xs t = (Ok (), s')" by simp
  ultimately show ?case by (simp add: bindC_def)
qed

lemma collect_Ok_length: "collect f xs s = (Ok ys, s') \<Longrightarrow> length ys = length xs"
  by (induction xs arbitrary: s ys) (fastforce simp: comp_ok)+

lemma fst_Ok_run: "fst x = Ok a \<Longrightarrow> x = (Ok a, snd x)"
  by (metis prod.collapse)

end
