(* ===== verification/Rust_Bytes.thy ===== *)
theory Rust_Bytes
  imports Rust_Prelude
begin

text \<open>
  Byte strings as the sources build and read them: ASCII literals, big endian integers, decimal
  rendering and \<^verbatim>\<open>u32::from_str\<close>, \<^verbatim>\<open>str::split\<close>, UTF-8 validity and
  \<^verbatim>\<open>core::time::Duration\<close>, with the round trips the components rely on. A Rust
  \<^verbatim>\<open>String\<close> is its UTF-8 bytes. A duration is its number of nanoseconds.
\<close>

definition ascii :: "string \<Rightarrow> bytes" where
  "ascii cs = map of_char cs"

lemma ascii_append [simp]: "ascii (xs @ ys) = ascii xs @ ascii ys"
  by (simp add: ascii_def)

lemma length_ascii [simp]: "length (ascii xs) = length xs"
  by (simp add: ascii_def)

section \<open>Big endian bytes\<close>

definition be_bytes :: "nat \<Rightarrow> 'a::len word \<Rightarrow> bytes" where
  "be_bytes n w = map (\<lambda>i. ucast (drop_bit (8 * i) w)) (rev [0..<n])"

lemma length_be_bytes [simp]: "length (be_bytes n w) = n"
  by (simp add: be_bytes_def)

lemma be_bytes_nth:
  assumes "i < n"
  shows "rev (be_bytes n w) ! i = ucast (drop_bit (8 * i) w)"
  using assms by (simp add: be_bytes_def rev_map)

lemma bit_of_byte:
  fixes w :: "'a::len word"
  assumes "j < 8"
  shows "bit (ucast (drop_bit (8 * i) w) :: byte) j = bit w (8 * i + j)"
  using assms by (simp add: bit_ucast_iff bit_drop_bit_eq)

lemma be_bytes_inj:
  fixes v w :: "'a::len word"
  assumes len: "LENGTH('a) \<le> 8 * n" and eq: "be_bytes n v = be_bytes n w"
  shows "v = w"
proof (rule bit_word_eqI)
  fix k assume k: "k < LENGTH('a)"
  define i j where "i = k div 8" and "j = k mod 8"
  then have ij: "k = 8 * i + j" "j < 8" "i < n"
    using k len by auto
  have "ucast (drop_bit (8 * i) v) = (ucast (drop_bit (8 * i) w) :: byte)"
    using eq be_bytes_nth [OF ij(3), of v] be_bytes_nth [OF ij(3), of w] by simp
  then have "bit (ucast (drop_bit (8 * i) v) :: byte) j = bit (ucast (drop_bit (8 * i) w) :: byte) j"
    by simp
  then show "bit v k = bit w k"
    by (simp only: bit_of_byte [OF ij(2)] ij(1))
qed

lemma append_eq_same_length:
  "length xs = length ys \<Longrightarrow> xs @ us = ys @ vs \<longleftrightarrow> xs = ys \<and> us = vs"
  by simp

section \<open>Decimal numerals\<close>

fun decimal_digits :: "nat \<Rightarrow> nat list" where
  "decimal_digits n = (if n < 10 then [n] else decimal_digits (n div 10) @ [n mod 10])"

declare decimal_digits.simps [simp del]

definition digit_byte :: "nat \<Rightarrow> byte" where
  "digit_byte d = 48 + of_nat d"

definition decimal :: "nat \<Rightarrow> bytes" where
  "decimal n = map digit_byte (decimal_digits n)"

definition is_digit :: "byte \<Rightarrow> bool" where
  "is_digit b \<longleftrightarrow> 48 \<le> b \<and> b \<le> 57"

definition digits_value :: "bytes \<Rightarrow> nat" where
  "digits_value bs = foldl (\<lambda>acc b. 10 * acc + (unat b - 48)) 0 bs"

text \<open>\<^verbatim>\<open>u32::from_str\<close>: an optional plus sign, at least one digit, no overflow.\<close>

definition u32_from_str :: "bytes \<Rightarrow> u32 option" where
  "u32_from_str bs =
     (let ds = (case bs of b # c # cs \<Rightarrow> if b = 43 then c # cs else bs | _ \<Rightarrow> bs) in
      if ds \<noteq> [] \<and> list_all is_digit ds \<and> digits_value ds < 2 ^ 32
      then Some (of_nat (digits_value ds)) else None)"

lemma decimal_digits_bound: "\<forall>d \<in> set (decimal_digits n). d < 10"
proof (induction n rule: decimal_digits.induct)
  case (1 n)
  show ?case
  proof (cases "n < 10")
    case True
    then show ?thesis by (simp add: decimal_digits.simps [of n])
  next
    case False
    with "1.IH" have "\<forall>d \<in> set (decimal_digits (n div 10)). d < 10" by blast
    with False show ?thesis by (simp add: decimal_digits.simps [of n])
  qed
qed

lemma decimal_digits_nonempty: "decimal_digits n \<noteq> []"
  by (subst decimal_digits.simps) simp

lemma decimal_digits_value: "foldl (\<lambda>acc d. 10 * acc + d) 0 (decimal_digits n) = n"
proof (induction n rule: decimal_digits.induct)
  case (1 n)
  show ?case
  proof (cases "n < 10")
    case True
    then show ?thesis by (simp add: decimal_digits.simps [of n])
  next
    case False
    with "1.IH" have "foldl (\<lambda>acc d. 10 * acc + d) 0 (decimal_digits (n div 10)) = n div 10" by blast
    with False show ?thesis by (simp add: decimal_digits.simps [of n])
  qed
qed

lemma unat_digit_byte: "d < 10 \<Longrightarrow> unat (digit_byte d) = 48 + d"
  by (simp add: digit_byte_def unat_word_ariths unat_of_nat)

lemma digit_byte_is_digit: "d < 10 \<Longrightarrow> is_digit (digit_byte d)"
  by (simp add: is_digit_def word_le_nat_alt unat_digit_byte)

lemma digit_byte_neq: "d < 10 \<Longrightarrow> digit_byte d \<noteq> 43 \<and> digit_byte d \<noteq> 45"
  using unat_digit_byte [of d] by auto

lemma foldl_digit_bytes:
  "\<forall>d \<in> set ds. d < 10 \<Longrightarrow>
   foldl (\<lambda>acc b. 10 * acc + (unat b - 48)) a (map digit_byte ds) = foldl (\<lambda>acc d. 10 * acc + d) a ds"
  by (induction ds arbitrary: a) (simp_all add: unat_digit_byte)

lemma digits_value_decimal: "digits_value (decimal n) = n"
  by (simp add: digits_value_def decimal_def foldl_digit_bytes decimal_digits_bound decimal_digits_value)

lemma decimal_all_digits: "list_all is_digit (decimal n)"
  using decimal_digits_bound [of n]
  by (auto simp: decimal_def list_all_iff intro: digit_byte_is_digit)

lemma decimal_no_sign: "b \<in> set (decimal n) \<Longrightarrow> b \<noteq> 43 \<and> b \<noteq> 45"
  using decimal_digits_bound [of n] digit_byte_neq by (auto simp: decimal_def)

lemma decimal_nonempty: "decimal n \<noteq> []"
  by (simp add: decimal_def decimal_digits_nonempty)

lemma u32_from_str_decimal: "u32_from_str (decimal (unat (w :: u32))) = Some w"
proof -
  let ?ds = "decimal (unat w)"
  have strip: "(case ?ds of b # c # cs \<Rightarrow> if b = 43 then c # cs else ?ds | _ \<Rightarrow> ?ds) = ?ds"
    using decimal_no_sign [of _ "unat w"] by (auto split: list.splits)
  have "unat w < 2 ^ 32" using unsigned_less [of w] by simp
  then show ?thesis
    unfolding u32_from_str_def strip Let_def
    by (simp add: decimal_nonempty decimal_all_digits digits_value_decimal)
qed

section \<open>Splitting\<close>

text \<open>\<^verbatim>\<open>s.split(sep).last()\<close>: the part after the last separator, always present.\<close>

definition last_segment :: "byte \<Rightarrow> bytes \<Rightarrow> bytes" where
  "last_segment sep s = rev (takeWhile (\<lambda>b. b \<noteq> sep) (rev s))"

lemma last_segment_after:
  assumes "sep \<notin> set t"
  shows "last_segment sep (p @ sep # t) = t"
proof -
  have "takeWhile (\<lambda>b. b \<noteq> sep) (rev t @ sep # rev p) = rev t"
    using assms by (subst takeWhile_append2) auto
  then show ?thesis by (simp add: last_segment_def)
qed

lemma last_segment_no_sep: "sep \<notin> set (last_segment sep s)"
  by (auto simp: last_segment_def dest: set_takeWhileD)

definition starts_with :: "bytes \<Rightarrow> bytes \<Rightarrow> bool" where
  "starts_with p s \<longleftrightarrow> take (length p) s = p"

lemma starts_with_append [simp]: "starts_with p (p @ s)"
  by (simp add: starts_with_def)

section \<open>UTF-8 validity\<close>

definition utf8_cont :: "byte \<Rightarrow> bool" where
  "utf8_cont b \<longleftrightarrow> 128 \<le> b \<and> b \<le> 191"

fun utf8_valid :: "bytes \<Rightarrow> bool" where
  "utf8_valid [] = True"
| "utf8_valid (a # bs) =
     (if a < 128 then utf8_valid bs
      else case bs of [] \<Rightarrow> False | b # cs \<Rightarrow>
        if 194 \<le> a \<and> a \<le> 223 then utf8_cont b \<and> utf8_valid cs
        else case cs of [] \<Rightarrow> False | c # ds \<Rightarrow>
          if 224 \<le> a \<and> a \<le> 239 then
            utf8_cont b \<and> (a = 224 \<longrightarrow> 160 \<le> b) \<and> (a = 237 \<longrightarrow> b \<le> 159) \<and> utf8_cont c \<and> utf8_valid ds
          else case ds of [] \<Rightarrow> False | d # es \<Rightarrow>
            240 \<le> a \<and> a \<le> 244 \<and> utf8_cont b \<and> (a = 240 \<longrightarrow> 144 \<le> b) \<and> (a = 244 \<longrightarrow> b \<le> 143) \<and>
            utf8_cont c \<and> utf8_cont d \<and> utf8_valid es)"

lemma utf8_valid_ascii: "(\<And>b. b \<in> set bs \<Longrightarrow> b < 128) \<Longrightarrow> utf8_valid bs"
  by (induction bs) auto

section \<open>Durations\<close>

type_synonym duration = nat

definition nanos_per_sec :: nat where
  "nanos_per_sec = 1000000000"

definition from_secs :: "u64 \<Rightarrow> duration" where
  "from_secs x = unat x * nanos_per_sec"

definition as_secs :: "duration \<Rightarrow> u64" where
  "as_secs d = of_nat (d div nanos_per_sec)"

lemma nanos_pos [simp]: "0 < nanos_per_sec"
  by (simp add: nanos_per_sec_def)

lemma as_secs_from_secs [simp]: "as_secs (from_secs x) = x"
  by (simp add: as_secs_def from_secs_def nanos_per_sec_def)

lemma from_secs_le [simp]: "from_secs x \<le> from_secs y \<longleftrightarrow> x \<le> y"
  by (simp add: from_secs_def word_le_nat_alt)

lemma from_secs_inj [simp]: "from_secs x = from_secs y \<longleftrightarrow> x = y"
  by (metis as_secs_from_secs)

end
