(* ===== verification/Ismp_State_Machine.thy ===== *)
theory Ismp_State_Machine
  imports Rust_Bytes
begin

text \<open>
  State machine identifiers (\<^verbatim>\<open>modules/ismp/core/src/host.rs\<close>): the enumeration, its derived
  order, its \<^verbatim>\<open>Display\<close> and \<^verbatim>\<open>FromStr\<close> implementations, and the round trip between
  them. \<^verbatim>\<open>Display\<close> fails on an identifier that is not UTF-8, and
  \<^verbatim>\<open>to_string\<close> panics when it does; \<^verbatim>\<open>FromStr\<close> panics when the tail it copies is
  not four bytes long.
\<close>

text \<open>\<^verbatim>\<open>ConsensusStateId\<close> and \<^verbatim>\<open>ConsensusClientId\<close>: arrays of four bytes.\<close>

type_synonym ConsensusStateId = "byte \<times> byte \<times> byte \<times> byte"
type_synonym ConsensusClientId = "byte \<times> byte \<times> byte \<times> byte"

fun id_bytes :: "ConsensusStateId \<Rightarrow> bytes" where
  "id_bytes (a, b, c, d) = [a, b, c, d]"

text \<open>\<^verbatim>\<open>id.copy_from_slice(bytes)\<close> into a four byte array: panics on any other length.\<close>

fun copy_from_slice4 :: "bytes \<Rightarrow> ConsensusStateId option" where
  "copy_from_slice4 [a, b, c, d] = Some (a, b, c, d)"
| "copy_from_slice4 _ = None"

datatype StateMachine =
    Evm u32
  | Polkadot u32
  | Kusama u32
  | Substrate ConsensusStateId
  | Tendermint ConsensusStateId

fun is_evm :: "StateMachine \<Rightarrow> bool" where
  "is_evm (Evm _) = True"
| "is_evm _ = False"

fun is_substrate :: "StateMachine \<Rightarrow> bool" where
  "is_substrate (Polkadot _) = True"
| "is_substrate (Kusama _) = True"
| "is_substrate (Substrate _) = True"
| "is_substrate _ = False"

section \<open>The derived order\<close>

text \<open>\<^verbatim>\<open>#[derive(Ord)]\<close> compares the variant first, then the payload.\<close>

fun sm_key :: "StateMachine \<Rightarrow> nat \<times> u32 \<times> ConsensusStateId" where
  "sm_key (Evm i) = (0, i, (0, 0, 0, 0))"
| "sm_key (Polkadot i) = (1, i, (0, 0, 0, 0))"
| "sm_key (Kusama i) = (2, i, (0, 0, 0, 0))"
| "sm_key (Substrate i) = (3, 0, i)"
| "sm_key (Tendermint i) = (4, 0, i)"

lemma sm_key_inj: "sm_key x = sm_key y \<Longrightarrow> x = y"
  by (cases x; cases y) simp_all

instantiation StateMachine :: linorder
begin

definition less_eq_StateMachine :: "StateMachine \<Rightarrow> StateMachine \<Rightarrow> bool" where
  "less_eq_StateMachine x y \<longleftrightarrow> sm_key x \<le> sm_key y"

definition less_StateMachine :: "StateMachine \<Rightarrow> StateMachine \<Rightarrow> bool" where
  "less_StateMachine x y \<longleftrightarrow> sm_key x < sm_key y"

instance
proof
  fix x y z :: StateMachine
  show "x < y \<longleftrightarrow> x \<le> y \<and> \<not> y \<le> x"
    unfolding less_StateMachine_def less_eq_StateMachine_def by (rule less_le_not_le)
  show "x \<le> x" unfolding less_eq_StateMachine_def by simp
  show "x \<le> y \<Longrightarrow> y \<le> z \<Longrightarrow> x \<le> z"
    unfolding less_eq_StateMachine_def by (rule order_trans)
  show "x \<le> y \<Longrightarrow> y \<le> x \<Longrightarrow> x = y"
    unfolding less_eq_StateMachine_def by (rule sm_key_inj) (rule antisym)
  show "x \<le> y \<or> y \<le> x" unfolding less_eq_StateMachine_def by (rule linear)
qed

end

section \<open>Display\<close>

definition utf8_string :: "bytes \<Rightarrow> bytes option" where
  "utf8_string bs = (if utf8_valid bs then Some bs else None)"

text \<open>\<^verbatim>\<open>Display::fmt\<close>; \<open>None\<close> is the formatting error, on which
  \<^verbatim>\<open>to_string\<close> panics.\<close>

fun StateMachine_fmt :: "StateMachine \<Rightarrow> bytes option" where
  "StateMachine_fmt (Evm i) = Some (ascii ''EVM-'' @ decimal (unat i))"
| "StateMachine_fmt (Polkadot i) = Some (ascii ''POLKADOT-'' @ decimal (unat i))"
| "StateMachine_fmt (Kusama i) = Some (ascii ''KUSAMA-'' @ decimal (unat i))"
| "StateMachine_fmt (Substrate i) =
     map_option (\<lambda>s. ascii ''SUBSTRATE-'' @ s) (utf8_string (id_bytes i))"
| "StateMachine_fmt (Tendermint i) =
     map_option (\<lambda>s. ascii ''TNDRMINT-'' @ s) (utf8_string (id_bytes i))"

section \<open>FromStr\<close>

definition invalid_state_machine :: "bytes \<Rightarrow> bytes" where
  "invalid_state_machine name = ascii ''invalid state machine: '' @ name"

definition parse_u32_tail :: "bytes \<Rightarrow> (u32 \<Rightarrow> StateMachine) \<Rightarrow> (bytes, StateMachine) outcome" where
  "parse_u32_tail name mk =
     (case u32_from_str (last_segment 45 name) of
        None \<Rightarrow> Err (invalid_state_machine name)
      | Some i \<Rightarrow> Ok (mk i))"

definition parse_id_tail ::
  "bytes \<Rightarrow> (ConsensusStateId \<Rightarrow> StateMachine) \<Rightarrow> (bytes, StateMachine) outcome" where
  "parse_id_tail name mk =
     (case copy_from_slice4 (last_segment 45 name) of
        None \<Rightarrow> Panic
      | Some i \<Rightarrow> Ok (mk i))"

definition StateMachine_from_str :: "bytes \<Rightarrow> (bytes, StateMachine) outcome" where
  "StateMachine_from_str s =
     (if starts_with (ascii ''EVM-'') s then parse_u32_tail s Evm
      else if starts_with (ascii ''POLKADOT-'') s then parse_u32_tail s Polkadot
      else if starts_with (ascii ''KUSAMA-'') s then parse_u32_tail s Kusama
      else if starts_with (ascii ''SUBSTRATE-'') s then parse_id_tail s Substrate
      else if starts_with (ascii ''TNDRMINT-'') s then parse_id_tail s Tendermint
      else Err (ascii ''Unknown state machine: '' @ s))"

section \<open>Round trip\<close>

lemma ascii_split:
  "ascii ''EVM-'' = ascii ''EVM'' @ [45]" "ascii ''POLKADOT-'' = ascii ''POLKADOT'' @ [45]"
  "ascii ''KUSAMA-'' = ascii ''KUSAMA'' @ [45]" "ascii ''SUBSTRATE-'' = ascii ''SUBSTRATE'' @ [45]"
  "ascii ''TNDRMINT-'' = ascii ''TNDRMINT'' @ [45]"
  by (simp_all add: ascii_def)

lemma starts_with_distinct [simp]:
  "starts_with (ascii ''EVM-'') (ascii ''POLKADOT-'' @ t) = False"
  "starts_with (ascii ''EVM-'') (ascii ''KUSAMA-'' @ t) = False"
  "starts_with (ascii ''POLKADOT-'') (ascii ''KUSAMA-'' @ t) = False"
  "starts_with (ascii ''EVM-'') (ascii ''SUBSTRATE-'' @ t) = False"
  "starts_with (ascii ''POLKADOT-'') (ascii ''SUBSTRATE-'' @ t) = False"
  "starts_with (ascii ''KUSAMA-'') (ascii ''SUBSTRATE-'' @ t) = False"
  "starts_with (ascii ''EVM-'') (ascii ''TNDRMINT-'' @ t) = False"
  "starts_with (ascii ''POLKADOT-'') (ascii ''TNDRMINT-'' @ t) = False"
  "starts_with (ascii ''KUSAMA-'') (ascii ''TNDRMINT-'' @ t) = False"
  "starts_with (ascii ''SUBSTRATE-'') (ascii ''TNDRMINT-'' @ t) = False"
  by (simp_all add: starts_with_def ascii_def)

lemma last_segment_dash:
  "45 \<notin> set t \<Longrightarrow> last_segment 45 (ascii p @ [45] @ t) = t"
  using last_segment_after [of 45 t "ascii p"] by simp

lemma decimal_no_dash: "45 \<notin> set (decimal n)"
  using decimal_no_sign by blast

lemma tail_u32:
  "last_segment 45 (ascii ''EVM-'' @ decimal n) = decimal n"
  "last_segment 45 (ascii ''POLKADOT-'' @ decimal n) = decimal n"
  "last_segment 45 (ascii ''KUSAMA-'' @ decimal n) = decimal n"
  unfolding ascii_split append_assoc by (rule last_segment_dash, rule decimal_no_dash)+

lemma tail_id:
  "45 \<notin> set t \<Longrightarrow> last_segment 45 (ascii ''SUBSTRATE-'' @ t) = t"
  "45 \<notin> set t \<Longrightarrow> last_segment 45 (ascii ''TNDRMINT-'' @ t) = t"
  unfolding ascii_split append_assoc by (rule last_segment_dash, assumption)+

lemma copy_from_slice4_id_bytes [simp]: "copy_from_slice4 (id_bytes i) = Some i"
  by (cases i) simp

lemma length_id_bytes [simp]: "length (id_bytes i) = 4"
  by (cases i) simp

lemma copy_from_slice4_None: "length bs \<noteq> 4 \<Longrightarrow> copy_from_slice4 bs = None"
  by (cases bs rule: copy_from_slice4.cases) auto

fun sm_id :: "StateMachine \<Rightarrow> bytes" where
  "sm_id (Substrate i) = id_bytes i"
| "sm_id (Tendermint i) = id_bytes i"
| "sm_id _ = []"

lemma from_str_fmt:
  assumes "StateMachine_fmt m = Some s" and "45 \<notin> set (sm_id m)"
  shows "StateMachine_from_str s = Ok m"
  using assms
  by (cases m)
    (auto simp: StateMachine_from_str_def parse_u32_tail_def parse_id_tail_def tail_u32 tail_id
       u32_from_str_decimal utf8_string_def split: if_splits)

lemma fmt_total_iff:
  "StateMachine_fmt m = None \<longleftrightarrow> \<not> utf8_valid (sm_id m)"
  by (cases m) (auto simp: utf8_string_def)

end
