(* ===== verification/Ismp_Types.thy ===== *)
theory Ismp_Types
  imports Ismp_State_Machine
begin

text \<open>
  The data of the protocol (\<^verbatim>\<open>modules/ismp/core/src\<close>: \<^verbatim>\<open>consensus.rs\<close>,
  \<^verbatim>\<open>router.rs\<close>, \<^verbatim>\<open>messaging.rs\<close>, \<^verbatim>\<open>error.rs\<close>,
  \<^verbatim>\<open>events.rs\<close>, \<^verbatim>\<open>dispatcher.rs\<close>): commitments and heights, requests and
  responses with their timeouts, encodings and commitments, the protocol messages, errors and
  events. The keccak hash is a parameter of every definition that uses it. An encoding is
  \<open>None\<close> where the code panics, which is where the name of a chain is not UTF-8.
\<close>

section \<open>Consensus and state commitments\<close>

record StateCommitment =
  sc_timestamp :: u64
  sc_overlay_root :: "h256 option"
  sc_state_root :: h256

definition StateCommitment_timestamp :: "StateCommitment \<Rightarrow> duration" where
  "StateCommitment_timestamp c = from_secs (sc_timestamp c)"

record StateMachineId =
  state_id :: StateMachine
  consensus_state_id :: ConsensusStateId

record StateMachineHeight =
  smh_id :: StateMachineId
  smh_height :: u64

record IntermediateState =
  is_height :: StateMachineHeight
  is_commitment :: StateCommitment

record StateCommitmentHeight =
  sch_commitment :: StateCommitment
  sch_height :: u64

type_synonym VerifiedCommitments = "(StateMachine, StateCommitmentHeight list) btree_map"

section \<open>Requests\<close>

record PostRequest =
  pr_source :: StateMachine
  pr_dest :: StateMachine
  pr_nonce :: u64
  pr_from :: bytes
  pr_to :: bytes
  pr_timeout_timestamp :: u64
  pr_body :: bytes

record GetRequest =
  gr_source :: StateMachine
  gr_dest :: StateMachine
  gr_nonce :: u64
  gr_from :: bytes
  gr_keys :: "bytes list"
  gr_height :: u64
  gr_context :: bytes
  gr_timeout_timestamp :: u64

datatype Request = ReqPost PostRequest | ReqGet GetRequest

definition get_timeout :: "u64 \<Rightarrow> duration" where
  "get_timeout t = (if t = 0 then from_secs (- 1) else from_secs t)"

definition PostRequest_timeout :: "PostRequest \<Rightarrow> duration" where
  "PostRequest_timeout r = get_timeout (pr_timeout_timestamp r)"

definition PostRequest_timed_out :: "PostRequest \<Rightarrow> duration \<Rightarrow> bool" where
  "PostRequest_timed_out r t \<longleftrightarrow> PostRequest_timeout r \<le> t"

definition GetRequest_timeout :: "GetRequest \<Rightarrow> duration" where
  "GetRequest_timeout r = get_timeout (gr_timeout_timestamp r)"

fun Request_source_chain :: "Request \<Rightarrow> StateMachine" where
  "Request_source_chain (ReqGet g) = gr_source g"
| "Request_source_chain (ReqPost p) = pr_source p"

fun Request_source_module :: "Request \<Rightarrow> bytes" where
  "Request_source_module (ReqGet g) = gr_from g"
| "Request_source_module (ReqPost p) = pr_from p"

fun Request_destination_module :: "Request \<Rightarrow> bytes" where
  "Request_destination_module (ReqGet g) = gr_from g"
| "Request_destination_module (ReqPost p) = pr_to p"

fun Request_dest_chain :: "Request \<Rightarrow> StateMachine" where
  "Request_dest_chain (ReqGet g) = gr_dest g"
| "Request_dest_chain (ReqPost p) = pr_dest p"

fun Request_nonce :: "Request \<Rightarrow> u64" where
  "Request_nonce (ReqGet g) = gr_nonce g"
| "Request_nonce (ReqPost p) = pr_nonce p"

fun Request_body :: "Request \<Rightarrow> bytes option" where
  "Request_body (ReqGet _) = None"
| "Request_body (ReqPost p) = Some (pr_body p)"

fun Request_keys :: "Request \<Rightarrow> bytes list option" where
  "Request_keys (ReqPost _) = None"
| "Request_keys (ReqGet g) = Some (gr_keys g)"

definition Request_timeout :: "Request \<Rightarrow> duration" where
  "Request_timeout r =
     get_timeout (case r of ReqPost p \<Rightarrow> pr_timeout_timestamp p | ReqGet g \<Rightarrow> gr_timeout_timestamp g)"

definition Request_timed_out :: "Request \<Rightarrow> duration \<Rightarrow> bool" where
  "Request_timed_out r t \<longleftrightarrow> Request_timeout r \<le> t"

definition option_cat :: "bytes option list \<Rightarrow> bytes option" where
  "option_cat xs = (if None \<in> set xs then None else Some (concat (map the xs)))"

fun Request_encode :: "Request \<Rightarrow> bytes option" where
  "Request_encode (ReqPost p) = option_cat
     [StateMachine_fmt (pr_source p), StateMachine_fmt (pr_dest p),
      Some (be_bytes 8 (pr_nonce p)), Some (be_bytes 8 (pr_timeout_timestamp p)),
      Some (pr_from p), Some (pr_to p), Some (pr_body p)]"
| "Request_encode (ReqGet g) = option_cat
     [StateMachine_fmt (gr_source g), StateMachine_fmt (gr_dest g),
      Some (be_bytes 8 (gr_nonce g)), Some (be_bytes 8 (gr_height g)),
      Some (be_bytes 8 (gr_timeout_timestamp g)), Some (gr_from g),
      Some (concat (gr_keys g)), Some (gr_context g)]"

section \<open>Responses\<close>

record PostResponse =
  prs_post :: PostRequest
  prs_response :: bytes
  prs_timeout_timestamp :: u64

record StorageValue =
  sv_key :: bytes
  sv_value :: "bytes option"

record GetResponse =
  grs_get :: GetRequest
  grs_values :: "StorageValue list"

datatype Response = ResPost PostResponse | ResGet GetResponse

definition PostResponse_request :: "PostResponse \<Rightarrow> Request" where
  "PostResponse_request r = ReqPost (prs_post r)"

definition PostResponse_source_module :: "PostResponse \<Rightarrow> bytes" where
  "PostResponse_source_module r = pr_to (prs_post r)"

definition PostResponse_destination_module :: "PostResponse \<Rightarrow> bytes" where
  "PostResponse_destination_module r = pr_from (prs_post r)"

definition PostResponse_source_chain :: "PostResponse \<Rightarrow> StateMachine" where
  "PostResponse_source_chain r = pr_dest (prs_post r)"

definition PostResponse_dest_chain :: "PostResponse \<Rightarrow> StateMachine" where
  "PostResponse_dest_chain r = pr_source (prs_post r)"

definition PostResponse_nonce :: "PostResponse \<Rightarrow> u64" where
  "PostResponse_nonce r = pr_nonce (prs_post r)"

definition PostResponse_timeout :: "PostResponse \<Rightarrow> duration" where
  "PostResponse_timeout r = get_timeout (prs_timeout_timestamp r)"

definition PostResponse_timed_out :: "PostResponse \<Rightarrow> duration \<Rightarrow> bool" where
  "PostResponse_timed_out r t \<longleftrightarrow> PostResponse_timeout r \<le> t"

definition PostResponse_encode :: "PostResponse \<Rightarrow> bytes option" where
  "PostResponse_encode r = (let p = prs_post r in option_cat
     [StateMachine_fmt (pr_source p), StateMachine_fmt (pr_dest p),
      Some (be_bytes 8 (pr_nonce p)), Some (be_bytes 8 (pr_timeout_timestamp p)),
      Some (pr_from p), Some (pr_to p), Some (pr_body p),
      Some (prs_response r), Some (be_bytes 8 (prs_timeout_timestamp r))])"

definition GetResponse_encode :: "GetResponse \<Rightarrow> bytes option" where
  "GetResponse_encode r = option_cat
     [Request_encode (ReqGet (grs_get r)),
      Some (fold (\<lambda>v acc. acc @ sv_key v @ (case sv_value v of None \<Rightarrow> [] | Some x \<Rightarrow> x)) (grs_values r) [])]"

fun Response_request :: "Response \<Rightarrow> Request" where
  "Response_request (ResPost r) = ReqPost (prs_post r)"
| "Response_request (ResGet r) = ReqGet (grs_get r)"

fun Response_destination_module :: "Response \<Rightarrow> bytes" where
  "Response_destination_module (ResGet r) = gr_from (grs_get r)"
| "Response_destination_module (ResPost r) = pr_from (prs_post r)"

fun Response_source_chain :: "Response \<Rightarrow> StateMachine" where
  "Response_source_chain (ResGet r) = gr_dest (grs_get r)"
| "Response_source_chain (ResPost r) = pr_dest (prs_post r)"

fun Response_dest_chain :: "Response \<Rightarrow> StateMachine" where
  "Response_dest_chain (ResGet r) = gr_source (grs_get r)"
| "Response_dest_chain (ResPost r) = pr_source (prs_post r)"

fun Response_nonce :: "Response \<Rightarrow> u64" where
  "Response_nonce (ResGet r) = gr_nonce (grs_get r)"
| "Response_nonce (ResPost r) = pr_nonce (prs_post r)"

fun Response_timed_out :: "Response \<Rightarrow> duration \<Rightarrow> bool" where
  "Response_timed_out (ResGet r) t \<longleftrightarrow> GetRequest_timeout (grs_get r) \<le> t"
| "Response_timed_out (ResPost r) t \<longleftrightarrow> PostResponse_timeout r \<le> t"

fun Response_response :: "Response \<Rightarrow> bytes option" where
  "Response_response (ResGet _) = None"
| "Response_response (ResPost r) = Some (prs_response r)"

fun Response_encode :: "Response \<Rightarrow> bytes option" where
  "Response_encode (ResPost r) = PostResponse_encode r"
| "Response_encode (ResGet r) = GetResponse_encode r"

datatype RequestResponse = RRRequest "Request list" | RRResponse "Response list"

datatype Timeout = TimeoutRequest Request | TimeoutResponse PostResponse

section \<open>Errors\<close>

record Meta =
  meta_source :: StateMachine
  meta_dest :: StateMachine
  meta_nonce :: u64

definition Meta_of_request :: "Request \<Rightarrow> Meta" where
  "Meta_of_request r =
     \<lparr>meta_source = Request_source_chain r, meta_dest = Request_dest_chain r, meta_nonce = Request_nonce r\<rparr>"

definition Meta_of_response :: "Response \<Rightarrow> Meta" where
  "Meta_of_response r =
     \<lparr>meta_source = Response_source_chain r, meta_dest = Response_dest_chain r, meta_nonce = Response_nonce r\<rparr>"

definition Meta_of_post_response :: "PostResponse \<Rightarrow> Meta" where
  "Meta_of_post_response r =
     \<lparr>meta_source = PostResponse_source_chain r, meta_dest = PostResponse_dest_chain r,
      meta_nonce = PostResponse_nonce r\<rparr>"

datatype Error =
    UnbondingPeriodElapsed ConsensusStateId
  | ChallengePeriodNotElapsed StateMachineId duration duration
  | ConsensusStateNotFound ConsensusStateId
  | StateCommitmentNotFound StateMachineHeight
  | FrozenConsensusClient ConsensusStateId
  | RequestCommitmentNotFound Meta
  | RequestVerificationFailed Meta
  | RequestTimeoutNotElapsed Meta duration duration
  | RequestTimeoutVerificationFailed Meta
  | ResponseVerificationFailed Meta
  | ConsensusProofVerificationFailed ConsensusClientId
  | ExpiredConsensusClient ConsensusClientId
  | CannotHandleMessage
  | MembershipProofVerificationFailed bytes
  | NonMembershipProofVerificationFailed bytes
  | Custom bytes
  | CannotCreateAlreadyExistingConsensusClient ConsensusClientId
  | InsufficientProofHeight
  | ModuleNotFound bytes
  | ConsensusStateIdNotRecognized ConsensusStateId
  | ChallengePeriodNotConfigured StateMachineId
  | DuplicateConsensusStateId ConsensusStateId
  | UnnbondingPeriodNotConfigured ConsensusStateId
  | ModuleDispatchError bytes Meta
  | UnknownRequest Meta
  | UnknownResponse Meta
  | UnsolicitedResponse Meta
  | RequestTimeoutError Meta
  | ResponseTimeoutError Meta
  | DuplicateRequest Meta
  | DuplicateResponse Meta
  | RequestProofMetadataNotValid Meta
  | RequestProxyProhibited Meta
  | ResponseProxyProhibited Meta
  | InvalidRequestDestination Meta
  | InvalidResponseDestination Meta
  | InvalidResponseType Meta

text \<open>\<^verbatim>\<open>anyhow::Error\<close>: a protocol error, or the message of some other one.\<close>

datatype anyhow = AnyIsmp Error | AnyMsg bytes

fun Request_get_request :: "Request \<Rightarrow> Error + GetRequest" where
  "Request_get_request (ReqPost _) = Inl (Custom (ascii ''Expected Get request''))"
| "Request_get_request (ReqGet g) = Inr g"

section \<open>Messages\<close>

record Proof =
  proof_height :: StateMachineHeight
  proof_proof :: bytes

record ConsensusMessage =
  cm_consensus_proof :: bytes
  cm_consensus_state_id :: ConsensusStateId
  cm_signer :: bytes

record FraudProofMessage =
  fp_proof_1 :: bytes
  fp_proof_2 :: bytes
  fp_consensus_state_id :: ConsensusStateId

record CreateConsensusState =
  ccs_consensus_state :: bytes
  ccs_consensus_client_id :: ConsensusClientId
  ccs_consensus_state_id :: ConsensusStateId
  ccs_unbonding_period :: u64
  ccs_challenge_periods :: "(StateMachine, u64) btree_map"
  ccs_state_machine_commitments :: "(StateMachineId \<times> StateCommitmentHeight) list"

record RequestMessage =
  rqm_requests :: "PostRequest list"
  rqm_proof :: Proof
  rqm_signer :: bytes

record ResponseMessage =
  rsm_datagram :: RequestResponse
  rsm_proof :: Proof
  rsm_signer :: bytes

definition ResponseMessage_requests :: "ResponseMessage \<Rightarrow> Request list" where
  "ResponseMessage_requests m =
     (case rsm_datagram m of
        RRResponse rs \<Rightarrow> map Response_request rs
      | RRRequest rs \<Rightarrow> rs)"

datatype TimeoutMessage =
    TmPost "Request list" Proof
  | TmPostResponse "PostResponse list" Proof
  | TmGet "Request list"

fun TimeoutMessage_requests :: "TimeoutMessage \<Rightarrow> Request list" where
  "TimeoutMessage_requests (TmPost rs _) = rs"
| "TimeoutMessage_requests (TmGet rs) = rs"
| "TimeoutMessage_requests (TmPostResponse rs _) = map PostResponse_request rs"

fun TimeoutMessage_timeout_proof :: "TimeoutMessage \<Rightarrow> Error + Proof" where
  "TimeoutMessage_timeout_proof (TmPost _ p) = Inr p"
| "TimeoutMessage_timeout_proof _ = Inl (Custom (ascii ''Method should not be called on Get request''))"

datatype Message =
    MsgConsensus ConsensusMessage
  | MsgFraudProof FraudProofMessage
  | MsgRequest RequestMessage
  | MsgResponse ResponseMessage
  | MsgTimeout TimeoutMessage

section \<open>Commitments of requests and responses\<close>

definition hash_request :: "(bytes \<Rightarrow> h256) \<Rightarrow> Request \<Rightarrow> h256 option" where
  "hash_request keccak r = map_option keccak (Request_encode r)"

definition hash_post_response :: "(bytes \<Rightarrow> h256) \<Rightarrow> PostResponse \<Rightarrow> h256 option" where
  "hash_post_response keccak r = map_option keccak (PostResponse_encode r)"

definition hash_get_response :: "(bytes \<Rightarrow> h256) \<Rightarrow> GetResponse \<Rightarrow> h256 option" where
  "hash_get_response keccak r = map_option keccak (GetResponse_encode r)"

fun hash_response :: "(bytes \<Rightarrow> h256) \<Rightarrow> Response \<Rightarrow> h256 option" where
  "hash_response keccak (ResPost r) = hash_post_response keccak r"
| "hash_response keccak (ResGet r) = hash_get_response keccak r"

section \<open>Events\<close>

record RequestResponseHandled =
  rrh_commitment :: h256
  rrh_relayer :: bytes

record TimeoutHandled =
  th_commitment :: h256
  th_source :: StateMachine
  th_dest :: StateMachine

datatype Event =
    EvStateMachineUpdated StateMachineId u64
  | EvStateCommitmentVetoed StateMachineHeight bytes
  | EvPostRequest PostRequest
  | EvPostResponse PostResponse
  | EvGetResponse GetResponse
  | EvGetRequest GetRequest
  | EvPostRequestHandled RequestResponseHandled
  | EvPostResponseHandled RequestResponseHandled
  | EvPostRequestTimeoutHandled TimeoutHandled
  | EvPostResponseTimeoutHandled TimeoutHandled
  | EvGetRequestHandled RequestResponseHandled
  | EvGetRequestTimeoutHandled TimeoutHandled

type_synonym DispatchResult = "anyhow + Event"

datatype MessageResult =
    MrConsensusMessage "Event list"
  | MrFrozenClient ConsensusStateId
  | MrRequest "DispatchResult list"
  | MrResponse "DispatchResult list"
  | MrTimeout "DispatchResult list"

record ConsensusClientCreatedResult =
  cccr_consensus_client_id :: ConsensusClientId
  cccr_consensus_state_id :: ConsensusStateId

section \<open>Dispatching\<close>

record DispatchPost =
  dp_dest :: StateMachine
  dp_from :: bytes
  dp_to :: bytes
  dp_timeout :: u64
  dp_body :: bytes

record DispatchGet =
  dg_dest :: StateMachine
  dg_from :: bytes
  dg_keys :: "bytes list"
  dg_height :: u64
  dg_context :: bytes
  dg_timeout :: u64

datatype DispatchRequest = DispPost DispatchPost | DispGet DispatchGet

record ('acc, 'bal) FeeMetadata =
  fee_payer :: 'acc
  fee_fee :: 'bal

end
