(* ===== verification/Ismp_Host.thy ===== *)
theory Ismp_Host
  imports Ismp_Types
begin

text \<open>
  The interfaces of the protocol core as records of operations over a host state, with the
  default methods of the \<^verbatim>\<open>IsmpHost\<close> trait. A reading method is a function of the state, a
  writing method a call. Consensus clients, state machine clients, modules and the router are the
  objects behind \<^verbatim>\<open>Box<dyn _>\<close> in the sources; clients read the host and do not write it.

  The locale \<open>ismp_host\<close> and the three it extends state what the documentation of the trait promises of its
  storage operations: what a read returns after a write, and which reads a write leaves alone.
\<close>

section \<open>Clients, modules and routers\<close>

record 's StateMachineClient =
  verify_membership :: "'s \<Rightarrow> RequestResponse \<Rightarrow> StateCommitment \<Rightarrow> Proof \<Rightarrow> (Error, unit) outcome"
  receipts_state_trie_key :: "'s \<Rightarrow> RequestResponse \<Rightarrow> (Error, bytes list) outcome"
  verify_state_proof ::
    "'s \<Rightarrow> bytes list \<Rightarrow> StateCommitment \<Rightarrow> Proof \<Rightarrow> (Error, (bytes, bytes option) btree_map) outcome"

record 's ConsensusClient =
  verify_consensus ::
    "'s \<Rightarrow> ConsensusStateId \<Rightarrow> bytes \<Rightarrow> bytes \<Rightarrow> (Error, bytes \<times> VerifiedCommitments) outcome"
  verify_fraud_proof :: "'s \<Rightarrow> bytes \<Rightarrow> bytes \<Rightarrow> bytes \<Rightarrow> (Error, unit) outcome"
  cc_consensus_client_id :: ConsensusClientId
  cc_state_machine :: "'s \<Rightarrow> StateMachine \<Rightarrow> (Error, 's StateMachineClient) outcome"

record 's IsmpModule =
  on_accept :: "PostRequest \<Rightarrow> ('s, anyhow, unit) comp"
  on_response :: "Response \<Rightarrow> ('s, anyhow, unit) comp"
  on_timeout :: "Timeout \<Rightarrow> ('s, anyhow, unit) comp"

type_synonym 's IsmpRouter = "bytes \<Rightarrow> 's \<Rightarrow> (anyhow, 's IsmpModule) outcome"

section \<open>The host trait\<close>

record 's IsmpHost =
  h_keccak256 :: "bytes \<Rightarrow> h256"
  h_host_state_machine :: "'s \<Rightarrow> StateMachine"
  h_latest_commitment_height :: "StateMachineId \<Rightarrow> 's \<Rightarrow> (Error, u64) outcome"
  h_state_machine_commitment :: "StateMachineHeight \<Rightarrow> 's \<Rightarrow> (Error, StateCommitment) outcome"
  h_consensus_update_time :: "ConsensusStateId \<Rightarrow> 's \<Rightarrow> (Error, duration) outcome"
  h_state_machine_update_time :: "StateMachineHeight \<Rightarrow> 's \<Rightarrow> (Error, duration) outcome"
  h_consensus_client_id :: "ConsensusStateId \<Rightarrow> 's \<Rightarrow> ConsensusClientId option"
  h_consensus_state :: "ConsensusStateId \<Rightarrow> 's \<Rightarrow> (Error, bytes) outcome"
  h_timestamp :: "'s \<Rightarrow> duration"
  h_is_consensus_client_frozen :: "ConsensusStateId \<Rightarrow> 's \<Rightarrow> (Error, unit) outcome"
  h_request_commitment :: "h256 \<Rightarrow> 's \<Rightarrow> (Error, unit) outcome"
  h_response_commitment :: "h256 \<Rightarrow> 's \<Rightarrow> (Error, unit) outcome"
  h_next_nonce :: "'s \<Rightarrow> u64 \<times> 's"
  h_request_receipt :: "Request \<Rightarrow> 's \<Rightarrow> (Error, unit option) outcome"
  h_response_receipt :: "Response \<Rightarrow> 's \<Rightarrow> (Error, unit option) outcome"
  h_store_consensus_state_id :: "ConsensusStateId \<Rightarrow> ConsensusClientId \<Rightarrow> ('s, Error, unit) comp"
  h_store_consensus_state :: "ConsensusStateId \<Rightarrow> bytes \<Rightarrow> ('s, Error, unit) comp"
  h_store_unbonding_period :: "ConsensusStateId \<Rightarrow> u64 \<Rightarrow> ('s, Error, unit) comp"
  h_store_consensus_update_time :: "ConsensusStateId \<Rightarrow> duration \<Rightarrow> ('s, Error, unit) comp"
  h_store_state_machine_update_time :: "StateMachineHeight \<Rightarrow> duration \<Rightarrow> ('s, Error, unit) comp"
  h_store_state_machine_commitment :: "StateMachineHeight \<Rightarrow> StateCommitment \<Rightarrow> ('s, Error, unit) comp"
  h_delete_state_commitment :: "StateMachineHeight \<Rightarrow> ('s, Error, unit) comp"
  h_freeze_consensus_client :: "ConsensusStateId \<Rightarrow> ('s, Error, unit) comp"
  h_store_latest_commitment_height :: "StateMachineHeight \<Rightarrow> ('s, Error, unit) comp"
  h_delete_request_commitment :: "Request \<Rightarrow> ('s, Error, bytes) comp"
  h_delete_response_commitment :: "PostResponse \<Rightarrow> ('s, Error, bytes) comp"
  h_delete_request_receipt :: "Request \<Rightarrow> ('s, Error, bytes) comp"
  h_delete_response_receipt :: "Response \<Rightarrow> ('s, Error, bytes) comp"
  h_store_request_receipt :: "Request \<Rightarrow> bytes \<Rightarrow> ('s, Error, unit) comp"
  h_store_response_receipt :: "Response \<Rightarrow> bytes \<Rightarrow> ('s, Error, unit) comp"
  h_store_request_commitment :: "Request \<Rightarrow> bytes \<Rightarrow> ('s, Error, unit) comp"
  h_store_response_commitment :: "PostResponse \<Rightarrow> bytes \<Rightarrow> ('s, Error, unit) comp"
  h_consensus_clients :: "'s \<Rightarrow> 's ConsensusClient list"
  h_challenge_period :: "StateMachineId \<Rightarrow> 's \<Rightarrow> duration option"
  h_store_challenge_period :: "StateMachineId \<Rightarrow> u64 \<Rightarrow> ('s, Error, unit) comp"
  h_allowed_proxy :: "'s \<Rightarrow> StateMachine option"
  h_unbonding_period :: "ConsensusStateId \<Rightarrow> 's \<Rightarrow> duration option"
  h_ismp_router :: "'s IsmpRouter"

section \<open>Rendering identifiers in error messages\<close>

text \<open>\<^verbatim>\<open>{:?}\<close> of a four byte array.\<close>

definition debug_id4 :: "ConsensusStateId \<Rightarrow> bytes" where
  "debug_id4 i = (case id_bytes i of
      [a, b, c, d] \<Rightarrow> ascii ''['' @ decimal (unat a) @ ascii '', '' @ decimal (unat b) @ ascii '', '' @
        decimal (unat c) @ ascii '', '' @ decimal (unat d) @ ascii '']''
    | _ \<Rightarrow> [])"

fun debug_StateMachine :: "StateMachine \<Rightarrow> bytes" where
  "debug_StateMachine (Evm i) = ascii ''Evm('' @ decimal (unat i) @ ascii '')''"
| "debug_StateMachine (Polkadot i) = ascii ''Polkadot('' @ decimal (unat i) @ ascii '')''"
| "debug_StateMachine (Kusama i) = ascii ''Kusama('' @ decimal (unat i) @ ascii '')''"
| "debug_StateMachine (Substrate i) = ascii ''Substrate('' @ debug_id4 i @ ascii '')''"
| "debug_StateMachine (Tendermint i) = ascii ''Tendermint('' @ debug_id4 i @ ascii '')''"

definition debug_StateMachineHeight :: "StateMachineHeight \<Rightarrow> bytes" where
  "debug_StateMachineHeight h =
     ascii ''StateMachineHeight { id: StateMachineId { state_id: '' @ debug_StateMachine (state_id (smh_id h)) @
     ascii '', consensus_state_id: '' @ debug_id4 (consensus_state_id (smh_id h)) @
     ascii '' }, height: '' @ decimal (unat (smh_height h)) @ ascii '' }''"

section \<open>Default methods\<close>

definition find_client :: "ConsensusClientId \<Rightarrow> 's ConsensusClient list \<Rightarrow> 's ConsensusClient option" where
  "find_client i cs = find (\<lambda>c. cc_consensus_client_id c = i) cs"

definition consensus_client :: "'s IsmpHost \<Rightarrow> ConsensusClientId \<Rightarrow> ('s, Error, 's ConsensusClient) comp" where
  "consensus_client H i =
     bindC (asks (h_consensus_clients H)) (\<lambda>cs.
       ok_or (find_client i cs)
         (Custom (ascii ''Consensus client for id '' @ debug_id4 i @ ascii '' not found'')))"

definition is_expired :: "'s IsmpHost \<Rightarrow> ConsensusStateId \<Rightarrow> ('s, Error, unit) comp" where
  "is_expired H i =
     bindC (asks (h_timestamp H)) (\<lambda>host_timestamp.
     bindC (asks (h_unbonding_period H i)) (\<lambda>up.
     bindC (ok_or up (UnnbondingPeriodNotConfigured i)) (\<lambda>unbonding_period.
     bindC (reads (h_consensus_update_time H i)) (\<lambda>last_update.
       ensure (\<not> unbonding_period \<le> host_timestamp - last_update) (UnbondingPeriodElapsed i)))))"

definition is_allowed_proxy :: "'s IsmpHost \<Rightarrow> StateMachine \<Rightarrow> 's \<Rightarrow> bool" where
  "is_allowed_proxy H source s =
     (case h_allowed_proxy H s of Some proxy \<Rightarrow> proxy = source | None \<Rightarrow> False)"

definition is_router :: "'s IsmpHost \<Rightarrow> 's \<Rightarrow> bool" where
  "is_router H s =
     (case h_allowed_proxy H s of Some proxy \<Rightarrow> proxy = h_host_state_machine H s | None \<Rightarrow> False)"

lemma consensus_client_Ok:
  "consensus_client H i s = (Ok c, s') \<longleftrightarrow> s' = s \<and> find_client i (h_consensus_clients H s) = Some c"
  by (auto simp: consensus_client_def comp_ok)

lemma find_client_id: "find_client i cs = Some c \<Longrightarrow> c \<in> set cs \<and> cc_consensus_client_id c = i"
  by (auto simp: find_client_def find_Some_iff)

lemma is_expired_Ok:
  "is_expired H i s = (Ok u, s') \<longleftrightarrow> s' = s \<and>
     (\<exists>p t. h_unbonding_period H i s = Some p \<and> h_consensus_update_time H i s = Ok t \<and>
            h_timestamp H s - t < p)"
  by (auto simp: is_expired_def comp_ok)

lemma readonly_defaults [readonly_intros]:
  "readonly (consensus_client H i)" "readonly (is_expired H i)"
  unfolding consensus_client_def is_expired_def by (intro readonly_intros)+

section \<open>Guards shared by the handlers\<close>

definition verify_delay_passed :: "'s IsmpHost \<Rightarrow> StateMachineHeight \<Rightarrow> ('s, Error, bool) comp" where
  "verify_delay_passed H height =
     bindC (reads (h_state_machine_update_time H height)) (\<lambda>update_time.
     bindC (asks (h_challenge_period H (smh_id height))) (\<lambda>cp.
     bindC (ok_or cp (ChallengePeriodNotConfigured (smh_id height))) (\<lambda>delay_period.
     bindC (asks (h_timestamp H)) (\<lambda>current_timestamp.
       ret (as_secs delay_period = 0 \<or> delay_period < current_timestamp - update_time)))))"

definition validate_state_machine ::
  "'s IsmpHost \<Rightarrow> StateMachineHeight \<Rightarrow> ('s, Error, 's StateMachineClient) comp" where
  "validate_state_machine H height =
     (let csid = consensus_state_id (smh_id height) in
     bindC (asks (h_consensus_client_id H csid)) (\<lambda>cid.
     bindC (ok_or cid (ConsensusStateIdNotRecognized csid)) (\<lambda>consensus_client_id.
     bindC (consensus_client H consensus_client_id) (\<lambda>client.
     bindC (reads (h_is_consensus_client_frozen H csid)) (\<lambda>_.
     bindC (verify_delay_passed H height) (\<lambda>passed.
     bindC (if passed then ret ()
            else bindC (asks (h_timestamp H)) (\<lambda>current_time.
                 bindC (reads (h_state_machine_update_time H height)) (\<lambda>update_time.
                   fail (ChallengePeriodNotElapsed (smh_id height) current_time update_time)))) (\<lambda>_.
       reads (\<lambda>s. cc_state_machine client s (state_id (smh_id height))))))))))"

text \<open>
  The closure \<^verbatim>\<open>check_state_machine_client\<close> of the three handlers: no configured
  consensus client has a state machine client for the chain.
\<close>

primrec check_state_machine_client ::
  "'s ConsensusClient list \<Rightarrow> StateMachine \<Rightarrow> 's \<Rightarrow> (Error, bool) outcome" where
  "check_state_machine_client [] sm s = Ok True"
| "check_state_machine_client (c # cs) sm s =
     (case cc_state_machine c s sm of
        Ok _ \<Rightarrow> Ok False
      | Err _ \<Rightarrow> check_state_machine_client cs sm s
      | Panic \<Rightarrow> Panic)"

text \<open>The condition under which a proof of \<open>proof_chain\<close> may speak for \<open>chain\<close>.\<close>

definition proof_speaks_for ::
  "'s IsmpHost \<Rightarrow> StateMachine \<Rightarrow> StateMachine \<Rightarrow> ('s, Error, bool) comp" where
  "proof_speaks_for H proof_chain chain =
     (if chain = proof_chain then ret True
      else bindC (asks (is_allowed_proxy H proof_chain)) (\<lambda>proxy.
        if \<not> proxy then ret False
        else reads (\<lambda>s. check_state_machine_client (h_consensus_clients H s) chain s)))"

definition ensure_speaks_for ::
  "'s IsmpHost \<Rightarrow> StateMachine \<Rightarrow> StateMachine \<Rightarrow> Error \<Rightarrow> ('s, Error, unit) comp" where
  "ensure_speaks_for H proof_chain chain e = bindC (proof_speaks_for H proof_chain chain) (\<lambda>b. ensure b e)"

lemma verify_delay_passed_Ok:
  "verify_delay_passed H h s = (Ok b, s') \<longleftrightarrow> s' = s \<and>
     (\<exists>t p. h_state_machine_update_time H h s = Ok t \<and> h_challenge_period H (smh_id h) s = Some p \<and>
            b = (as_secs p = 0 \<or> p < h_timestamp H s - t))"
  by (auto simp: verify_delay_passed_def comp_ok)

lemma check_state_machine_client_True:
  "check_state_machine_client cs sm s = Ok True \<Longrightarrow> c \<in> set cs \<Longrightarrow> \<exists>e. cc_state_machine c s sm = Err e"
  by (induction cs) (auto split: outcome.splits)

text \<open>What a proof height must satisfy before any message is verified against it.\<close>

definition usable_height :: "'s IsmpHost \<Rightarrow> StateMachineHeight \<Rightarrow> 's StateMachineClient \<Rightarrow> 's \<Rightarrow> bool" where
  "usable_height H h client s \<longleftrightarrow>
     (\<exists>cid cc t p.
        h_consensus_client_id H (consensus_state_id (smh_id h)) s = Some cid \<and>
        find_client cid (h_consensus_clients H s) = Some cc \<and>
        h_is_consensus_client_frozen H (consensus_state_id (smh_id h)) s = Ok () \<and>
        h_state_machine_update_time H h s = Ok t \<and>
        h_challenge_period H (smh_id h) s = Some p \<and>
        (as_secs p = 0 \<or> p < h_timestamp H s - t) \<and>
        cc_state_machine cc s (state_id (smh_id h)) = Ok client)"

lemma validate_state_machine_Ok:
  "validate_state_machine H h s = (Ok client, s') \<longleftrightarrow> s' = s \<and> usable_height H h client s"
  by (auto simp: validate_state_machine_def usable_height_def Let_def comp_ok consensus_client_Ok
      verify_delay_passed_Ok split: if_splits)

definition speaks_for :: "'s IsmpHost \<Rightarrow> StateMachine \<Rightarrow> StateMachine \<Rightarrow> 's \<Rightarrow> bool" where
  "speaks_for H proof_chain chain s \<longleftrightarrow>
     chain = proof_chain \<or>
     (h_allowed_proxy H s = Some proof_chain \<and>
      check_state_machine_client (h_consensus_clients H s) chain s = Ok True)"

lemma proof_speaks_for_True:
  "proof_speaks_for H pc c s = (Ok True, s') \<longleftrightarrow> s' = s \<and> speaks_for H pc c s"
  by (auto simp: proof_speaks_for_def speaks_for_def is_allowed_proxy_def comp_ok split: option.splits)

lemma ensure_speaks_for_Ok:
  "ensure_speaks_for H pc c e s = (Ok u, s') \<longleftrightarrow> s' = s \<and> speaks_for H pc c s"
proof -
  have "ensure_speaks_for H pc c e s = (Ok u, s') \<longleftrightarrow> proof_speaks_for H pc c s = (Ok True, s')"
    by (auto simp: ensure_speaks_for_def comp_ok)
  then show ?thesis by (simp add: proof_speaks_for_True)
qed

lemma readonly_guards [readonly_intros]:
  "readonly (verify_delay_passed H h)" "readonly (validate_state_machine H h)"
  "readonly (proof_speaks_for H pc c)" "readonly (ensure_speaks_for H pc c e)"
  unfolding verify_delay_passed_def validate_state_machine_def proof_speaks_for_def
    ensure_speaks_for_def Let_def
  by (intro readonly_intros)+

section \<open>The contract of a host\<close>

text \<open>
  Three interfaces the handlers rely on. \<open>key\<close> is the storage key of a state commitment: a
  host may keep commitments under a hash of the height, so that a write is only promised to leave
  alone the heights with another key. Receipts and commitments of messages are kept under their
  hash.
\<close>

locale commitment_store =
  fixes H :: "'s IsmpHost" and key :: "StateMachineHeight \<Rightarrow> 'k"
  assumes store_consensus_state_frame:
      "h_store_consensus_state H i st s = (Ok u, s') \<Longrightarrow>
         h_state_machine_commitment H h s' = h_state_machine_commitment H h s \<and>
         h_state_machine_update_time H h s' = h_state_machine_update_time H h s \<and>
         h_latest_commitment_height H m s' = h_latest_commitment_height H m s \<and>
         h_timestamp H s' = h_timestamp H s"
    and store_consensus_update_time_frame:
      "h_store_consensus_update_time H i t s = (Ok u, s') \<Longrightarrow>
         h_state_machine_commitment H h s' = h_state_machine_commitment H h s \<and>
         h_state_machine_update_time H h s' = h_state_machine_update_time H h s \<and>
         h_latest_commitment_height H m s' = h_latest_commitment_height H m s \<and>
         h_timestamp H s' = h_timestamp H s \<and>
         h_is_consensus_client_frozen H j s' = h_is_consensus_client_frozen H j s"
    and store_commitment_read:
      "h_store_state_machine_commitment H h c s = (Ok u, s') \<Longrightarrow>
         h_state_machine_commitment H h s' = Ok c"
    and store_commitment_other:
      "h_store_state_machine_commitment H h c s = (Ok u, s') \<Longrightarrow> key h' \<noteq> key h \<Longrightarrow>
         h_state_machine_commitment H h' s' = h_state_machine_commitment H h' s"
    and store_commitment_frame:
      "h_store_state_machine_commitment H h c s = (Ok u, s') \<Longrightarrow>
         h_state_machine_update_time H h' s' = h_state_machine_update_time H h' s \<and>
         h_latest_commitment_height H m s' = h_latest_commitment_height H m s \<and>
         h_timestamp H s' = h_timestamp H s"
    and store_update_time_read:
      "h_store_state_machine_update_time H h t s = (Ok u, s') \<Longrightarrow>
         h_state_machine_update_time H h' s' =
           (if h' = h then Ok (from_secs (as_secs t)) else h_state_machine_update_time H h' s)"
    and store_update_time_frame:
      "h_store_state_machine_update_time H h t s = (Ok u, s') \<Longrightarrow>
         h_state_machine_commitment H h' s' = h_state_machine_commitment H h' s \<and>
         h_latest_commitment_height H m s' = h_latest_commitment_height H m s \<and>
         h_timestamp H s' = h_timestamp H s"
    and store_latest_read:
      "h_store_latest_commitment_height H h s = (Ok u, s') \<Longrightarrow>
         h_latest_commitment_height H m s' =
           (if m = smh_id h then Ok (smh_height h) else h_latest_commitment_height H m s)"
    and store_latest_frame:
      "h_store_latest_commitment_height H h s = (Ok u, s') \<Longrightarrow>
         h_state_machine_commitment H h' s' = h_state_machine_commitment H h' s \<and>
         h_state_machine_update_time H h' s' = h_state_machine_update_time H h' s \<and>
         h_timestamp H s' = h_timestamp H s"
    and freeze_read:
      "h_freeze_consensus_client H i s = (Ok u, s') \<Longrightarrow>
         h_is_consensus_client_frozen H i s' = Err (FrozenConsensusClient i)"

locale receipt_store =
  fixes H :: "'s IsmpHost"
  assumes store_request_receipt_read:
      "h_store_request_receipt H r signer s = (Ok u, s') \<Longrightarrow> h_request_receipt H r s' = Ok (Some ())"
    and delete_request_receipt_read:
      "h_delete_request_receipt H r s = (Ok signer, s') \<Longrightarrow> h_request_receipt H r s' = Ok None"
    and request_receipt_deletable:
      "h_request_receipt H r s = Ok (Some ()) \<Longrightarrow> \<exists>signer s'. h_delete_request_receipt H r s = (Ok signer, s')"
    and store_request_receipt_other:
      "hash_request (h_keccak256 H) r' \<noteq> hash_request (h_keccak256 H) r \<Longrightarrow>
         h_request_receipt H r' (snd (h_store_request_receipt H r signer s)) = h_request_receipt H r' s"
    and delete_request_receipt_other:
      "hash_request (h_keccak256 H) r' \<noteq> hash_request (h_keccak256 H) r \<Longrightarrow>
         h_request_receipt H r' (snd (h_delete_request_receipt H r s)) = h_request_receipt H r' s"
    and store_response_receipt_read:
      "h_store_response_receipt H res signer s = (Ok u, s') \<Longrightarrow> h_response_receipt H res s' = Ok (Some ())"
    and store_response_receipt_other:
      "hash_request (h_keccak256 H) (Response_request res') \<noteq> hash_request (h_keccak256 H) (Response_request res) \<Longrightarrow>
         h_response_receipt H res' (snd (h_store_response_receipt H res signer s)) = h_response_receipt H res' s"
    and delete_response_receipt_other:
      "hash_request (h_keccak256 H) (Response_request res') \<noteq> hash_request (h_keccak256 H) (Response_request res) \<Longrightarrow>
         h_response_receipt H res' (snd (h_delete_response_receipt H res s)) = h_response_receipt H res' s"
    and response_receipt_by_request:
      "Response_request res' = Response_request res \<Longrightarrow> h_response_receipt H res' s = h_response_receipt H res s"
    and delete_response_receipt_read:
      "h_delete_response_receipt H res s = (Ok signer, s') \<Longrightarrow> h_response_receipt H res s' = Ok None"

locale outbox_store =
  fixes H :: "'s IsmpHost"
  assumes delete_request_commitment_read:
      "h_delete_request_commitment H r s = (Ok m, s') \<Longrightarrow> hash_request (h_keccak256 H) r = Some c \<Longrightarrow>
         \<exists>e. h_request_commitment H c s' = Err e"
    and store_request_commitment_read:
      "h_store_request_commitment H r m s = (Ok u, s') \<Longrightarrow> hash_request (h_keccak256 H) r = Some c \<Longrightarrow>
         h_request_commitment H c s' = Ok ()"
    and delete_response_commitment_read:
      "h_delete_response_commitment H p s = (Ok m, s') \<Longrightarrow> hash_post_response (h_keccak256 H) p = Some c \<Longrightarrow>
         \<exists>e. h_response_commitment H c s' = Err e"
    and store_response_commitment_read:
      "h_store_response_commitment H p m s = (Ok u, s') \<Longrightarrow> hash_post_response (h_keccak256 H) p = Some c \<Longrightarrow>
         h_response_commitment H c s' = Ok ()"
    and receipt_writes_keep_outbox:
      "h_request_commitment H c (snd (h_store_request_receipt H r signer s)) = h_request_commitment H c s"
      "h_request_commitment H c (snd (h_delete_request_receipt H r s)) = h_request_commitment H c s"
      "h_response_commitment H c (snd (h_store_response_receipt H res signer s)) = h_response_commitment H c s"
      "h_response_commitment H c (snd (h_delete_response_receipt H res s)) = h_response_commitment H c s"

locale ismp_host = commitment_store H key + receipt_store H + outbox_store H
  for H :: "'s IsmpHost" and key :: "StateMachineHeight \<Rightarrow> 'k"

end
