(* ===== verification/Ismp_Consensus.thy ===== *)
theory Ismp_Consensus
  imports Ismp_Host
begin

text \<open>
  The consensus handlers (\<^verbatim>\<open>modules/ismp/core/src/handlers/consensus.rs\<close>): updating a
  consensus client, creating one and freezing one, with what an update may and may not do to the
  commitments the host already trusts. \<^verbatim>\<open>sort_unstable_by\<close> by height is
  \<open>sort_key\<close>: the two agree up to the order of entries with the same height.
\<close>

section \<open>Operations\<close>

definition at_height :: "StateMachineId \<Rightarrow> u64 \<Rightarrow> StateMachineHeight" where
  "at_height i h = \<lparr>smh_id = i, smh_height = h\<rparr>"

text \<open>The loop over the commitments of one state machine; it returns
  \<^verbatim>\<open>last_commitment_height\<close>.\<close>

primrec update_heights ::
  "'s IsmpHost \<Rightarrow> StateMachineId \<Rightarrow> u64 \<Rightarrow> StateCommitmentHeight list \<Rightarrow> StateMachineHeight option \<Rightarrow>
   ('s, Error, StateMachineHeight option) comp" where
  "update_heights H i previous [] latest = ret latest"
| "update_heights H i previous (ch # chs) latest =
     (let state_height = at_height i (sch_height ch) in
      if sch_height ch < previous then update_heights H i previous chs latest
      else bindC (attempt (reads (h_state_machine_commitment H state_height))) (\<lambda>known.
        case known of
          Inr _ \<Rightarrow> update_heights H i previous chs latest
        | Inl _ \<Rightarrow>
            bindC (h_store_state_machine_commitment H state_height (sch_commitment ch)) (\<lambda>_.
            bindC (asks (h_timestamp H)) (\<lambda>now.
            bindC (h_store_state_machine_update_time H state_height now) (\<lambda>_.
              update_heights H i previous chs (Some state_height))))))"

definition update_state_machine ::
  "'s IsmpHost \<Rightarrow> ConsensusStateId \<Rightarrow> StateMachine \<times> StateCommitmentHeight list \<Rightarrow>
   ('s, Error, Event list) comp" where
  "update_state_machine H csid entry =
     (let i = \<lparr>state_id = fst entry, consensus_state_id = csid\<rparr>;
          commitment_heights = sort_key sch_height (snd entry) in
      bindC (reads (h_latest_commitment_height H i)) (\<lambda>previous_latest_height.
      bindC (update_heights H i previous_latest_height commitment_heights None) (\<lambda>latest.
        case latest of
          None \<Rightarrow> ret []
        | Some latest_height \<Rightarrow>
            bindC (h_store_latest_commitment_height H (at_height i (smh_height latest_height))) (\<lambda>_.
              ret [EvStateMachineUpdated i (smh_height latest_height)]))))"

definition update_client :: "'s IsmpHost \<Rightarrow> ConsensusMessage \<Rightarrow> ('s, anyhow, MessageResult) comp" where
  "update_client H msg = map_err AnyIsmp
     (let csid = cm_consensus_state_id msg in
      bindC (asks (h_consensus_client_id H csid)) (\<lambda>cid.
      bindC (ok_or cid (ConsensusStateIdNotRecognized csid)) (\<lambda>client_id.
      bindC (consensus_client H client_id) (\<lambda>client.
      bindC (reads (h_consensus_state H csid)) (\<lambda>trusted_state.
      bindC (reads (h_is_consensus_client_frozen H csid)) (\<lambda>_.
      bindC (is_expired H csid) (\<lambda>_.
      bindC (reads (\<lambda>s. verify_consensus client s csid trusted_state (cm_consensus_proof msg))) (\<lambda>verified.
      bindC (h_store_consensus_state H csid (fst verified)) (\<lambda>_.
      bindC (asks (h_timestamp H)) (\<lambda>timestamp.
      bindC (h_store_consensus_update_time H csid timestamp) (\<lambda>_.
      bindC (collect (update_state_machine H csid) (snd verified)) (\<lambda>state_updates.
        ret (MrConsensusMessage (concat state_updates))))))))))))))"

definition create_challenge_period ::
  "'s IsmpHost \<Rightarrow> ConsensusStateId \<Rightarrow> StateMachine \<times> u64 \<Rightarrow> ('s, Error, unit) comp" where
  "create_challenge_period H csid entry =
     h_store_challenge_period H \<lparr>state_id = fst entry, consensus_state_id = csid\<rparr> (snd entry)"

definition create_commitment ::
  "'s IsmpHost \<Rightarrow> StateMachineId \<times> StateCommitmentHeight \<Rightarrow> ('s, Error, unit) comp" where
  "create_commitment H entry =
     (let height = at_height (fst entry) (sch_height (snd entry)) in
      bindC (h_store_state_machine_commitment H height (sch_commitment (snd entry))) (\<lambda>_.
      bindC (asks (h_timestamp H)) (\<lambda>now.
      bindC (h_store_state_machine_update_time H height now) (\<lambda>_.
        h_store_latest_commitment_height H height))))"

definition create_client ::
  "'s IsmpHost \<Rightarrow> CreateConsensusState \<Rightarrow> ('s, anyhow, ConsensusClientCreatedResult) comp" where
  "create_client H message = map_err AnyIsmp
     (let csid = ccs_consensus_state_id message; cid = ccs_consensus_client_id message in
      bindC (consensus_client H cid) (\<lambda>_.
      bindC (h_store_consensus_state H csid (ccs_consensus_state message)) (\<lambda>_.
      bindC (h_store_unbonding_period H csid (ccs_unbonding_period message)) (\<lambda>_.
      bindC (h_store_consensus_state_id H csid cid) (\<lambda>_.
      bindC (for_each (create_challenge_period H csid) (ccs_challenge_periods message)) (\<lambda>_.
      bindC (for_each (create_commitment H) (ccs_state_machine_commitments message)) (\<lambda>_.
      bindC (asks (h_timestamp H)) (\<lambda>now.
      bindC (h_store_consensus_update_time H csid now) (\<lambda>_.
        ret \<lparr>cccr_consensus_client_id = cid, cccr_consensus_state_id = csid\<rparr>)))))))))"

definition freeze_client :: "'s IsmpHost \<Rightarrow> FraudProofMessage \<Rightarrow> ('s, anyhow, MessageResult) comp" where
  "freeze_client H msg = map_err AnyIsmp
     (let csid = fp_consensus_state_id msg in
      bindC (asks (h_consensus_client_id H csid)) (\<lambda>cid.
      bindC (ok_or cid (Custom (ascii ''Unknown Consensus State Id''))) (\<lambda>client_id.
      bindC (reads (h_is_consensus_client_frozen H csid)) (\<lambda>_.
      bindC (consensus_client H client_id) (\<lambda>client.
      bindC (reads (h_consensus_state H csid)) (\<lambda>trusted_state.
      bindC (reads (\<lambda>s. verify_fraud_proof client s trusted_state (fp_proof_1 msg) (fp_proof_2 msg))) (\<lambda>_.
      bindC (h_freeze_consensus_client H csid) (\<lambda>_.
      bindC (asks (h_timestamp H)) (\<lambda>now.
      bindC (h_store_consensus_update_time H csid now) (\<lambda>_.
        ret (MrFrozenClient csid)))))))))))"

lemma update_heights_Cons:
  "update_heights H i p (ch # chs) l s =
     (if sch_height ch < p then update_heights H i p chs l s
      else case h_state_machine_commitment H (at_height i (sch_height ch)) s of
        Ok _ \<Rightarrow> update_heights H i p chs l s
      | Panic \<Rightarrow> (Panic, s)
      | Err _ \<Rightarrow>
          bindC (h_store_state_machine_commitment H (at_height i (sch_height ch)) (sch_commitment ch)) (\<lambda>_.
          bindC (asks (h_timestamp H)) (\<lambda>now.
          bindC (h_store_state_machine_update_time H (at_height i (sch_height ch)) now) (\<lambda>_.
            update_heights H i p chs (Some (at_height i (sch_height ch)))))) s)"
  by (simp add: Let_def bindC_def attempt_def reads_def split: outcome.split)

section \<open>What an update does to the trusted commitments\<close>

text \<open>
  \<open>grows k now H s s'\<close>: from \<open>s\<close> to \<open>s'\<close> no trusted commitment whose storage key is its own
  changed, no latest height went down, the clock stood still, and what is new carries the update
  time \<open>now\<close>.
\<close>

definition lone_key :: "(StateMachineHeight \<Rightarrow> 'k) \<Rightarrow> StateMachineHeight \<Rightarrow> bool" where
  "lone_key k h \<longleftrightarrow> (\<forall>h'. k h' = k h \<longrightarrow> h' = h)"

definition grows :: "(StateMachineHeight \<Rightarrow> 'k) \<Rightarrow> 's IsmpHost \<Rightarrow> 's \<Rightarrow> 's \<Rightarrow> bool" where
  "grows k H s s' \<longleftrightarrow>
     h_timestamp H s' = h_timestamp H s \<and>
     (\<forall>h c. lone_key k h \<longrightarrow> h_state_machine_commitment H h s = Ok c \<longrightarrow>
        h_state_machine_commitment H h s' = Ok c \<and>
        h_state_machine_update_time H h s' = h_state_machine_update_time H h s) \<and>
     (\<forall>h c. lone_key k h \<longrightarrow> h_state_machine_commitment H h s' = Ok c \<longrightarrow>
        h_state_machine_commitment H h s = Ok c \<or>
        h_state_machine_update_time H h s' = Ok (from_secs (as_secs (h_timestamp H s)))) \<and>
     (\<forall>m a. h_latest_commitment_height H m s = Ok a \<longrightarrow>
        (\<exists>b. h_latest_commitment_height H m s' = Ok b \<and> a \<le> b))"

lemma grows_refl: "grows k H s s"
  by (simp add: grows_def)

lemma grows_latest:
  "grows k H s s' \<Longrightarrow> h_latest_commitment_height H m s = Ok a \<Longrightarrow>
     \<exists>b. h_latest_commitment_height H m s' = Ok b \<and> a \<le> b"
  unfolding grows_def by blast

lemma grows_trans:
  assumes 1: "grows k H s s'" and 2: "grows k H s' s''"
  shows "grows k H s s''"
proof -
  have ts: "h_timestamp H s'' = h_timestamp H s" "h_timestamp H s' = h_timestamp H s"
    using 1 2 by (simp_all add: grows_def)
  have old: "h_state_machine_commitment H h s'' = Ok c \<and>
      h_state_machine_update_time H h s'' = h_state_machine_update_time H h s"
    if "lone_key k h" "h_state_machine_commitment H h s = Ok c" for h c
    using that 1 2 unfolding grows_def by metis
  have new: "h_state_machine_commitment H h s = Ok c \<or>
      h_state_machine_update_time H h s'' = Ok (from_secs (as_secs (h_timestamp H s)))"
    if "lone_key k h" "h_state_machine_commitment H h s'' = Ok c" for h c
  proof (cases "h_state_machine_commitment H h s' = Ok c")
    case True
    with 1 that(1) have "h_state_machine_commitment H h s = Ok c \<or>
        h_state_machine_update_time H h s' = Ok (from_secs (as_secs (h_timestamp H s)))"
      by (simp add: grows_def)
    moreover have "h_state_machine_update_time H h s'' = h_state_machine_update_time H h s'"
      using 2 that(1) True by (simp add: grows_def)
    ultimately show ?thesis by simp
  next
    case False
    with 2 that ts(2) show ?thesis unfolding grows_def by metis
  qed
  have lat: "\<exists>b. h_latest_commitment_height H m s'' = Ok b \<and> a \<le> b"
    if "h_latest_commitment_height H m s = Ok a" for m a
  proof -
    from grows_latest [OF 1 that] obtain b where
      b: "h_latest_commitment_height H m s' = Ok b" "a \<le> b" by blast
    from grows_latest [OF 2 b(1)] obtain c where
      "h_latest_commitment_height H m s'' = Ok c" "b \<le> c" by blast
    with b show ?thesis using order_trans by blast
  qed
  show ?thesis unfolding grows_def using ts(1) old new lat by blast
qed

context commitment_store
begin

lemma store_height_grows:
  assumes st: "h_store_state_machine_commitment H h c s = (Ok u, s1)"
    and ut: "h_store_state_machine_update_time H h (h_timestamp H s1) s1 = (Ok v, s2)"
    and fresh: "\<And>d. h_state_machine_commitment H h s \<noteq> Ok d"
  shows "grows key H s s2" "h_latest_commitment_height H m s2 = h_latest_commitment_height H m s"
    "h_state_machine_commitment H h s2 = Ok c"
proof -
  note fr = store_commitment_frame [OF st] store_update_time_frame [OF ut]
  have com: "h_state_machine_commitment H h' s2 = h_state_machine_commitment H h' s"
    if "lone_key key h'" "h' \<noteq> h" for h'
    using that fr store_commitment_other [OF st] by (metis lone_key_def)
  show "h_latest_commitment_height H m s2 = h_latest_commitment_height H m s"
    using fr by simp
  show "h_state_machine_commitment H h s2 = Ok c"
    using fr store_commitment_read [OF st] by simp
  show "grows key H s s2"
    unfolding grows_def using fr com fresh store_update_time_read [OF ut] by (metis order_refl)
qed

lemma update_heights_grows:
  assumes "update_heights H i p chs l s = (Ok l', s')"
  shows "grows key H s s' \<and> (\<forall>m. h_latest_commitment_height H m s' = h_latest_commitment_height H m s) \<and>
    (l' = l \<or> (\<exists>ch \<in> set chs. l' = Some (at_height i (sch_height ch)) \<and> p \<le> sch_height ch))"
  using assms
proof (induction chs arbitrary: l s)
  case Nil
  then show ?case by (simp add: comp_ok grows_refl)
next
  case (Cons ch chs)
  let ?h = "at_height i (sch_height ch)"
  show ?case
  proof (cases "sch_height ch < p \<or> (\<exists>d. h_state_machine_commitment H ?h s = Ok d)")
    case True
    then have "update_heights H i p chs l s = (Ok l', s')"
      using Cons.prems unfolding update_heights_Cons by (auto split: if_splits)
    from Cons.IH [OF this] show ?thesis by auto
  next
    case False
    then have fresh: "\<And>d. h_state_machine_commitment H ?h s \<noteq> Ok d" and p: "p \<le> sch_height ch"
      by (auto simp: not_less)
    from Cons.prems False obtain s1 s2 u v where
      st: "h_store_state_machine_commitment H ?h (sch_commitment ch) s = (Ok u, s1)" and
      ut: "h_store_state_machine_update_time H ?h (h_timestamp H s1) s1 = (Ok v, s2)" and
      rest: "update_heights H i p chs (Some ?h) s2 = (Ok l', s')"
      unfolding update_heights_Cons by (auto simp: comp_ok split: outcome.splits)
    note g = store_height_grows [OF st ut fresh]
    from Cons.IH [OF rest] g p show ?thesis
      by (auto intro: grows_trans)
  qed
qed

lemma update_state_machine_grows:
  assumes "update_state_machine H csid e s = (Ok evs, s')"
  shows "grows key H s s'"
proof -
  let ?i = "\<lparr>state_id = fst e, consensus_state_id = csid\<rparr>"
  from assms obtain p l s1 where
    p: "h_latest_commitment_height H ?i s = Ok p" and
    up: "update_heights H ?i p (sort_key sch_height (snd e)) None s = (Ok l, s1)" and
    fin: "(case l of None \<Rightarrow> ret [] | Some h \<Rightarrow>
            bindC (h_store_latest_commitment_height H (at_height ?i (smh_height h))) (\<lambda>_.
              ret [EvStateMachineUpdated ?i (smh_height h)])) s1 = (Ok evs, s')"
    by (auto simp: update_state_machine_def Let_def comp_ok)
  note g = update_heights_grows [OF up]
  show ?thesis
  proof (cases l)
    case None
    with fin g show ?thesis by (simp add: comp_ok)
  next
    case (Some h)
    with fin obtain u where
      st: "h_store_latest_commitment_height H (at_height ?i (smh_height h)) s1 = (Ok u, s')"
      by (auto simp: comp_ok)
    have ph: "p \<le> smh_height h" using g Some by (auto simp: at_height_def)
    have "grows key H s1 s'"
      unfolding grows_def using store_latest_frame [OF st] store_latest_read [OF st] g p ph
      by (auto simp: at_height_def)
    with g show ?thesis by (blast intro: grows_trans)
  qed
qed

lemma update_state_machines_grow:
  "collect (update_state_machine H csid) es s = (Ok evs, s') \<Longrightarrow> grows key H s s'"
  by (induction es arbitrary: s evs)
     (auto simp: comp_ok grows_refl intro: grows_trans update_state_machine_grows)

lemma update_client_grows:
  assumes "update_client H msg s = (Ok r, s')"
  shows "grows key H s s'"
proof -
  from assms obtain v s1 s2 u w evs where
    cs: "h_store_consensus_state H (cm_consensus_state_id msg) (fst v) s = (Ok u, s1)" and
    ut: "h_store_consensus_update_time H (cm_consensus_state_id msg) (h_timestamp H s1) s1 = (Ok w, s2)" and
    up: "collect (update_state_machine H (cm_consensus_state_id msg)) (snd v) s2 = (Ok evs, s')"
    by (auto simp: update_client_def Let_def comp_ok consensus_client_Ok is_expired_Ok)
  have "grows key H s s1" "grows key H s1 s2"
    unfolding grows_def using store_consensus_state_frame [OF cs] store_consensus_update_time_frame [OF ut]
    by auto
  with update_state_machines_grow [OF up] show ?thesis by (blast intro: grows_trans)
qed

lemma freeze_client_frozen:
  assumes "freeze_client H msg s = (Ok r, s')"
  shows "h_is_consensus_client_frozen H (fp_consensus_state_id msg) s' =
           Err (FrozenConsensusClient (fp_consensus_state_id msg))"
proof -
  let ?i = "fp_consensus_state_id msg"
  from assms obtain s0 s1 u v where
    fz: "h_freeze_consensus_client H ?i s0 = (Ok u, s1)" and
    ut: "h_store_consensus_update_time H ?i (h_timestamp H s1) s1 = (Ok v, s')"
    by (auto simp: freeze_client_def Let_def comp_ok)
  from freeze_read [OF fz] store_consensus_update_time_frame [OF ut] show ?thesis by simp
qed

text \<open>The heights are visited in ascending order, so the last one stored is the highest.\<close>

lemma update_heights_keeps_latest:
  assumes "update_heights H i p chs l s = (Ok l', s')" and "sorted (map sch_height chs)"
    and "l = Some l0" and "\<forall>ch \<in> set chs. smh_height l0 \<le> sch_height ch"
  shows "\<exists>lh. l' = Some lh \<and> smh_height l0 \<le> smh_height lh"
  using update_heights_grows [OF assms(1)] assms(3,4) by (auto simp: at_height_def)

lemma update_heights_new:
  assumes "update_heights H i p chs l s = (Ok l', s')" and "sorted (map sch_height chs)"
    and "lone_key key h" and "h_state_machine_commitment H h s' = Ok c"
    and "h_state_machine_commitment H h s \<noteq> Ok c"
  shows "smh_id h = i \<and> (\<exists>lh. l' = Some lh \<and> smh_height h \<le> smh_height lh)"
  using assms(1,2,5)
proof (induction chs arbitrary: l s)
  case Nil
  with assms(4) show ?case by (simp add: comp_ok)
next
  case (Cons ch chs)
  let ?h = "at_height i (sch_height ch)"
  have sorted: "sorted (map sch_height chs)" and le: "\<forall>x \<in> set chs. sch_height ch \<le> sch_height x"
    using Cons.prems(2) by auto
  show ?case
  proof (cases "sch_height ch < p \<or> (\<exists>d. h_state_machine_commitment H ?h s = Ok d)")
    case True
    then have "update_heights H i p chs l s = (Ok l', s')"
      using Cons.prems(1) unfolding update_heights_Cons by (auto split: if_splits)
    from Cons.IH [OF this sorted Cons.prems(3)] show ?thesis .
  next
    case False
    then have fresh: "\<And>d. h_state_machine_commitment H ?h s \<noteq> Ok d" by auto
    from Cons.prems(1) False obtain s1 s2 u v where
      st: "h_store_state_machine_commitment H ?h (sch_commitment ch) s = (Ok u, s1)" and
      ut: "h_store_state_machine_update_time H ?h (h_timestamp H s1) s1 = (Ok v, s2)" and
      rest: "update_heights H i p chs (Some ?h) s2 = (Ok l', s')"
      unfolding update_heights_Cons by (auto simp: comp_ok split: outcome.splits)
    show ?thesis
    proof (cases "h = ?h")
      case True
      then show ?thesis
        using update_heights_keeps_latest [OF rest sorted refl] le by (auto simp: at_height_def)
    next
      case False
      have "h_state_machine_commitment H h s2 = h_state_machine_commitment H h s"
        using assms(3) False store_commitment_other [OF st] store_update_time_frame [OF ut]
        by (metis lone_key_def)
      with Cons.IH [OF rest sorted] Cons.prems(3) show ?thesis by simp
    qed
  qed
qed

lemma update_state_machine_new:
  assumes "update_state_machine H csid e s = (Ok evs, s')" and "lone_key key h"
    and "h_state_machine_commitment H h s' = Ok c" and "h_state_machine_commitment H h s \<noteq> Ok c"
  shows "\<exists>a. h_latest_commitment_height H (smh_id h) s' = Ok a \<and> smh_height h \<le> a"
proof -
  let ?i = "\<lparr>state_id = fst e, consensus_state_id = csid\<rparr>"
  from assms(1) obtain p l s1 where
    up: "update_heights H ?i p (sort_key sch_height (snd e)) None s = (Ok l, s1)" and
    fin: "(case l of None \<Rightarrow> ret [] | Some h \<Rightarrow>
            bindC (h_store_latest_commitment_height H (at_height ?i (smh_height h))) (\<lambda>_.
              ret [EvStateMachineUpdated ?i (smh_height h)])) s1 = (Ok evs, s')"
    by (auto simp: update_state_machine_def Let_def comp_ok)
  have same: "h_state_machine_commitment H h s' = h_state_machine_commitment H h s1"
    using fin store_latest_frame by (fastforce simp: comp_ok split: option.splits)
  with assms(3) have s1: "h_state_machine_commitment H h s1 = Ok c" by simp
  from update_heights_new [OF up sorted_sort_key assms(2) s1 assms(4)] obtain lh where
    i: "smh_id h = ?i" and l: "l = Some lh" and le: "smh_height h \<le> smh_height lh" by blast
  with fin obtain u where
    "h_store_latest_commitment_height H (at_height ?i (smh_height lh)) s1 = (Ok u, s')"
    by (auto simp: comp_ok)
  from store_latest_read [OF this] i le show ?thesis by (simp add: at_height_def)
qed

lemma update_state_machines_new:
  assumes "collect (update_state_machine H csid) es s = (Ok evs, s')" and "lone_key key h"
    and "h_state_machine_commitment H h s' = Ok c" and "h_state_machine_commitment H h s \<noteq> Ok c"
  shows "\<exists>a. h_latest_commitment_height H (smh_id h) s' = Ok a \<and> smh_height h \<le> a"
  using assms(1,4)
proof (induction es arbitrary: s evs)
  case Nil
  with assms(3) show ?case by (simp add: comp_ok)
next
  case (Cons e es)
  from Cons.prems(1) obtain ev1 s1 evs' where
    1: "update_state_machine H csid e s = (Ok ev1, s1)" and
    2: "collect (update_state_machine H csid) es s1 = (Ok evs', s')"
    by (auto simp: comp_ok)
  show ?case
  proof (cases "h_state_machine_commitment H h s1 = Ok c")
    case True
    from update_state_machine_new [OF 1 assms(2) True Cons.prems(2)] obtain a where
      a: "h_latest_commitment_height H (smh_id h) s1 = Ok a" "smh_height h \<le> a" by blast
    from grows_latest [OF update_state_machines_grow [OF 2] a(1)] obtain b where
      "h_latest_commitment_height H (smh_id h) s' = Ok b" "a \<le> b" by blast
    with a(2) show ?thesis using order_trans by blast
  next
    case False
    from Cons.IH [OF 2 False] show ?thesis .
  qed
qed

lemma update_client_new:
  assumes "update_client H msg s = (Ok r, s')" and "lone_key key h"
    and "h_state_machine_commitment H h s' = Ok c" and "h_state_machine_commitment H h s \<noteq> Ok c"
  shows "\<exists>a. h_latest_commitment_height H (smh_id h) s' = Ok a \<and> smh_height h \<le> a"
proof -
  from assms(1) obtain v s1 s2 u w evs where
    cs: "h_store_consensus_state H (cm_consensus_state_id msg) (fst v) s = (Ok u, s1)" and
    ut: "h_store_consensus_update_time H (cm_consensus_state_id msg) (h_timestamp H s1) s1 = (Ok w, s2)" and
    up: "collect (update_state_machine H (cm_consensus_state_id msg)) (snd v) s2 = (Ok evs, s')"
    by (auto simp: update_client_def Let_def comp_ok consensus_client_Ok is_expired_Ok)
  have "h_state_machine_commitment H h s2 = h_state_machine_commitment H h s"
    using store_consensus_state_frame [OF cs] store_consensus_update_time_frame [OF ut] by simp
  with assms(4) update_state_machines_new [OF up assms(2,3)] show ?thesis by simp
qed

end

section \<open>Guards of the consensus handlers\<close>

lemma update_client_guards:
  assumes "update_client H msg s = (Ok r, s')"
  shows "h_is_consensus_client_frozen H (cm_consensus_state_id msg) s = Ok ()"
    and "\<exists>p t. h_unbonding_period H (cm_consensus_state_id msg) s = Some p \<and>
           h_consensus_update_time H (cm_consensus_state_id msg) s = Ok t \<and> h_timestamp H s - t < p"
    and "\<exists>cid client st v. h_consensus_client_id H (cm_consensus_state_id msg) s = Some cid \<and>
           find_client cid (h_consensus_clients H s) = Some client \<and>
           h_consensus_state H (cm_consensus_state_id msg) s = Ok st \<and>
           verify_consensus client s (cm_consensus_state_id msg) st (cm_consensus_proof msg) = Ok v"
  using assms by (auto simp: update_client_def Let_def comp_ok consensus_client_Ok is_expired_Ok)

lemma consensus_client_run:
  "consensus_client H i s = (case find_client i (h_consensus_clients H s) of
     None \<Rightarrow> (Err (Custom (ascii ''Consensus client for id '' @ debug_id4 i @ ascii '' not found'')), s)
   | Some c \<Rightarrow> (Ok c, s))"
  by (simp add: consensus_client_def bindC_def comp_defs split: option.split)

lemma is_expired_run:
  "h_unbonding_period H i s = Some p \<Longrightarrow> h_consensus_update_time H i s = Ok t \<Longrightarrow>
     is_expired H i s =
       (if p \<le> h_timestamp H s - t then Err (UnbondingPeriodElapsed i) else Ok (), s)"
  by (simp add: is_expired_def bindC_def comp_defs)

lemma frozen_blocks_update:
  assumes "h_is_consensus_client_frozen H (cm_consensus_state_id msg) s \<noteq> Ok ()"
  shows "snd (update_client H msg s) = s" and "fst (update_client H msg s) \<noteq> Ok r"
proof -
  show "snd (update_client H msg s) = s"
    using assms
    by (auto simp: update_client_def Let_def snd_map_err snd_bindC simple_run ok_or_def consensus_client_run
        split: option.split outcome.split)
  show "fst (update_client H msg s) \<noteq> Ok r"
    using assms update_client_guards(1) by (metis prod.collapse)
qed

lemma frozen_blocks_freeze:
  assumes "h_is_consensus_client_frozen H (fp_consensus_state_id msg) s \<noteq> Ok ()"
  shows "snd (freeze_client H msg s) = s" and "fst (freeze_client H msg s) \<noteq> Ok r"
proof -
  show "snd (freeze_client H msg s) = s"
    using assms
    by (auto simp: freeze_client_def Let_def snd_map_err snd_bindC simple_run ok_or_def
        split: option.split outcome.split)
  have "freeze_client H msg s \<noteq> (Ok r, s')" for s'
    using assms by (auto simp: freeze_client_def Let_def comp_ok)
  then show "fst (freeze_client H msg s) \<noteq> Ok r" by (metis prod.collapse)
qed

lemma expired_blocks_update:
  assumes "h_unbonding_period H (cm_consensus_state_id msg) s = Some p"
    and "h_consensus_update_time H (cm_consensus_state_id msg) s = Ok t"
    and "p \<le> h_timestamp H s - t"
  shows "snd (update_client H msg s) = s" and "fst (update_client H msg s) \<noteq> Ok r"
proof -
  show "snd (update_client H msg s) = s"
    using assms
    by (auto simp: update_client_def Let_def snd_map_err snd_bindC simple_run ok_or_def
        consensus_client_run is_expired_run split: option.split outcome.split)
  show "fst (update_client H msg s) \<noteq> Ok r"
    using assms update_client_guards(2) [of H msg s r] by (cases "update_client H msg s") auto
qed

end
