(* ===== verification/Ismp_Request.thy ===== *)
theory Ismp_Request
  imports Ismp_Host
begin

text \<open>
  The request handler (\<^verbatim>\<open>modules/ismp/core/src/handlers/request.rs\<close>): the checks on every
  request of a message, the membership proof, and the delivery of each request to its module under
  a receipt that is stored before the module runs and removed when the module fails.
\<close>

section \<open>Operations\<close>

definition check_request :: "'s IsmpHost \<Rightarrow> StateMachine \<Rightarrow> PostRequest \<Rightarrow> ('s, Error, unit) comp" where
  "check_request H proof_chain request =
     (let req = ReqPost request in
      bindC (reads (h_request_receipt H req)) (\<lambda>receipt.
      bindC (ensure (receipt = None) (DuplicateRequest (Meta_of_request req))) (\<lambda>_.
      bindC (asks (h_timestamp H)) (\<lambda>now.
      bindC (ensure (\<not> Request_timed_out req now) (RequestTimeoutError (Meta_of_request req))) (\<lambda>_.
      bindC (asks (\<lambda>s. Request_dest_chain req \<noteq> h_host_state_machine H s \<and> \<not> is_router H s)) (\<lambda>misdirected.
      bindC (ensure (\<not> misdirected) (InvalidRequestDestination (Meta_of_request req))) (\<lambda>_.
        ensure_speaks_for H proof_chain (Request_source_chain req)
          (RequestProxyProhibited (Meta_of_request req)))))))))"

text \<open>The closure \<^verbatim>\<open>lambda\<close> applied to one request.\<close>

definition deliver_request :: "'s IsmpHost \<Rightarrow> bytes \<Rightarrow> PostRequest \<Rightarrow> ('s, anyhow, Event) comp" where
  "deliver_request H signer request =
     (let wrapped_req = ReqPost request in
      bindC (reads (h_ismp_router H (pr_to request))) (\<lambda>cb.
      bindC (map_err AnyIsmp (h_store_request_receipt H wrapped_req signer)) (\<lambda>_.
      bindC (attempt (bindC (on_accept cb request) (\<lambda>_.
                      bindC (expect (hash_request (h_keccak256 H) wrapped_req)) (\<lambda>commitment.
                        ret (EvPostRequestHandled \<lparr>rrh_commitment = commitment, rrh_relayer = signer\<rparr>))))) (\<lambda>res.
      bindC (if isl res then bindC (map_err AnyIsmp (h_delete_request_receipt H wrapped_req)) (\<lambda>_. ret ())
             else ret ()) (\<lambda>_.
        propagate res)))))"

definition deliver_requests ::
  "'s IsmpHost \<Rightarrow> bytes \<Rightarrow> PostRequest list \<Rightarrow> ('s, anyhow, DispatchResult list) comp" where
  "deliver_requests H signer = collect (\<lambda>request. attempt (deliver_request H signer request))"

definition verify_requests :: "'s IsmpHost \<Rightarrow> RequestMessage \<Rightarrow> ('s, Error, unit) comp" where
  "verify_requests H msg =
     bindC (validate_state_machine H (proof_height (rqm_proof msg))) (\<lambda>state_machine.
     bindC (for_each (check_request H (state_id (smh_id (proof_height (rqm_proof msg))))) (rqm_requests msg)) (\<lambda>_.
     bindC (reads (h_state_machine_commitment H (proof_height (rqm_proof msg)))) (\<lambda>state.
       reads (\<lambda>s. verify_membership state_machine s
                    (RRRequest (map ReqPost (rqm_requests msg))) state (rqm_proof msg)))))"

definition handle_request :: "'s IsmpHost \<Rightarrow> RequestMessage \<Rightarrow> ('s, anyhow, MessageResult) comp" where
  "handle_request H msg =
     bindC (map_err AnyIsmp (verify_requests H msg)) (\<lambda>_.
     bindC (deliver_requests H (rqm_signer msg) (rqm_requests msg)) (\<lambda>result.
       ret (MrRequest result)))"

section \<open>The checks\<close>

definition acceptable_request :: "'s IsmpHost \<Rightarrow> StateMachine \<Rightarrow> PostRequest \<Rightarrow> 's \<Rightarrow> bool" where
  "acceptable_request H proof_chain request s \<longleftrightarrow>
     h_request_receipt H (ReqPost request) s = Ok None \<and>
     \<not> PostRequest_timed_out request (h_timestamp H s) \<and>
     (pr_dest request = h_host_state_machine H s \<or> is_router H s) \<and>
     speaks_for H proof_chain (pr_source request) s"

lemma post_timed_out [simp]: "Request_timed_out (ReqPost p) t = PostRequest_timed_out p t"
  by (simp add: Request_timed_out_def Request_timeout_def PostRequest_timed_out_def PostRequest_timeout_def)

lemma check_request_Ok:
  "check_request H pc request s = (Ok u, s') \<longleftrightarrow> s' = s \<and> acceptable_request H pc request s"
  by (auto simp: check_request_def acceptable_request_def Let_def comp_ok ensure_speaks_for_Ok)

lemma readonly_check_request [readonly_intros]: "readonly (check_request H pc request)"
  unfolding check_request_def Let_def by (intro readonly_intros)

definition request_checks :: "'s IsmpHost \<Rightarrow> RequestMessage \<Rightarrow> 's \<Rightarrow> bool" where
  "request_checks H msg s \<longleftrightarrow>
     (\<exists>client state.
        usable_height H (proof_height (rqm_proof msg)) client s \<and>
        (\<forall>p \<in> set (rqm_requests msg).
           acceptable_request H (state_id (smh_id (proof_height (rqm_proof msg)))) p s) \<and>
        h_state_machine_commitment H (proof_height (rqm_proof msg)) s = Ok state \<and>
        verify_membership client s (RRRequest (map ReqPost (rqm_requests msg))) state (rqm_proof msg) = Ok ())"

lemma verify_requests_Ok:
  "verify_requests H msg s = (Ok u, s') \<longleftrightarrow> s' = s \<and> request_checks H msg s"
  unfolding verify_requests_def request_checks_def
  by (auto simp: comp_ok validate_state_machine_Ok check_request_Ok
      for_each_readonly_Ok [where f = "check_request H pc" for H pc, OF readonly_check_request])

lemma readonly_verify_requests: "readonly (map_err AnyIsmp (verify_requests H msg))"
  unfolding verify_requests_def by (intro readonly_intros)

text \<open>A message runs exactly when its checks hold, and then only the deliveries write.\<close>

lemma handle_request_Ok:
  "handle_request H msg s = (Ok r, s') \<longleftrightarrow>
     request_checks H msg s \<and>
     (\<exists>res. r = MrRequest res \<and>
        deliver_requests H (rqm_signer msg) (rqm_requests msg) s = (Ok res, s'))"
  unfolding handle_request_def readonly_bindC_unit_Ok [OF readonly_verify_requests]
  by (auto simp: comp_ok verify_requests_Ok)

lemma handle_request_blocked:
  assumes "\<not> request_checks H msg s"
  shows "snd (handle_request H msg s) = s" and "fst (handle_request H msg s) \<noteq> Ok r"
proof -
  have "map_err AnyIsmp (verify_requests H msg) s \<noteq> (Ok (), s)"
    using assms by (simp add: map_err_Ok verify_requests_Ok)
  from readonly_guard_blocked [OF readonly_verify_requests this]
  show "snd (handle_request H msg s) = s" "fst (handle_request H msg s) \<noteq> Ok r"
    unfolding handle_request_def .
qed

section \<open>Delivery\<close>

text \<open>The two ways a delivery ends after the module was found and the receipt stored.\<close>

definition runs_under_receipt ::
  "'s IsmpHost \<Rightarrow> bytes \<Rightarrow> PostRequest \<Rightarrow> 's \<Rightarrow> 's IsmpModule \<Rightarrow> 's \<Rightarrow> bool" where
  "runs_under_receipt H signer p s cb t \<longleftrightarrow>
     h_ismp_router H (pr_to p) s = Ok cb \<and>
     h_store_request_receipt H (ReqPost p) signer s = (Ok (), t)"

lemma deliver_request_Ok:
  "deliver_request H signer p s = (Ok ev, s') \<longleftrightarrow>
     (\<exists>cb t c. runs_under_receipt H signer p s cb t \<and> on_accept cb p t = (Ok (), s') \<and>
        hash_request (h_keccak256 H) (ReqPost p) = Some c \<and>
        ev = EvPostRequestHandled \<lparr>rrh_commitment = c, rrh_relayer = signer\<rparr>)"
proof
  assume "deliver_request H signer p s = (Ok ev, s')"
  then show "\<exists>cb t c. runs_under_receipt H signer p s cb t \<and> on_accept cb p t = (Ok (), s') \<and>
        hash_request (h_keccak256 H) (ReqPost p) = Some c \<and>
        ev = EvPostRequestHandled \<lparr>rrh_commitment = c, rrh_relayer = signer\<rparr>"
    unfolding deliver_request_def Let_def runs_under_receipt_def
    by (auto simp: comp_ok split: sum.splits)
next
  assume "\<exists>cb t c. runs_under_receipt H signer p s cb t \<and> on_accept cb p t = (Ok (), s') \<and>
        hash_request (h_keccak256 H) (ReqPost p) = Some c \<and>
        ev = EvPostRequestHandled \<lparr>rrh_commitment = c, rrh_relayer = signer\<rparr>"
  then show "deliver_request H signer p s = (Ok ev, s')"
    unfolding deliver_request_def runs_under_receipt_def
    by (auto simp: Let_def bindC_def comp_defs)
qed

lemma deliver_request_failed:
  assumes "runs_under_receipt H signer p s cb t" and "on_accept cb p t = (Err e, t')"
    and "h_delete_request_receipt H (ReqPost p) t' = (Ok w, s')"
  shows "deliver_request H signer p s = (Err e, s')"
  using assms unfolding deliver_request_def runs_under_receipt_def
  by (simp add: Let_def bindC_def comp_defs)

definition has_receipt :: "'s IsmpHost \<Rightarrow> Request \<Rightarrow> 's \<Rightarrow> bool" where
  "has_receipt H r s \<longleftrightarrow> h_request_receipt H r s = Ok (Some ())"

definition leaves_receipt :: "'s IsmpHost \<Rightarrow> Request \<Rightarrow> bool" where
  "leaves_receipt H r \<longleftrightarrow>
     (\<forall>i s m p. h_ismp_router H i s = Ok m \<longrightarrow> keeps (has_receipt H r) (on_accept m p))"

context receipt_store
begin

lemma delivered_under_receipt:
  assumes "deliver_request H signer p s = (Ok ev, s')"
  shows "\<exists>cb t. on_accept cb p t = (Ok (), s') \<and> h_ismp_router H (pr_to p) s = Ok cb \<and>
           h_request_receipt H (ReqPost p) t = Ok (Some ())"
  using assms store_request_receipt_read unfolding deliver_request_Ok runs_under_receipt_def by blast

lemma failed_delivery_removes_receipt:
  assumes run: "runs_under_receipt H signer p s cb t" and fl: "on_accept cb p t = (Err e, t')"
    and keep: "h_request_receipt H (ReqPost p) t' = Ok (Some ())"
  shows "\<exists>s'. deliver_request H signer p s = (Err e, s') \<and> h_request_receipt H (ReqPost p) s' = Ok None"
proof -
  from request_receipt_deletable [OF keep] obtain w s' where
    d: "h_delete_request_receipt H (ReqPost p) t' = (Ok w, s')" by blast
  from deliver_request_failed [OF run fl d] delete_request_receipt_read [OF d] show ?thesis by blast
qed

text \<open>
  \<open>leaves_receipt r\<close>: no module the router knows removes the receipt of \<open>r\<close> while it accepts a
  request.
\<close>

lemma deliver_keeps_other_receipt:
  assumes keep: "leaves_receipt H r"
    and other: "hash_request (h_keccak256 H) r \<noteq> hash_request (h_keccak256 H) (ReqPost p)"
  shows "keeps (has_receipt H r) (deliver_request H signer p)"
  unfolding deliver_request_def Let_def
proof (rule keeps_bindC_reads)
  fix s cb
  assume "h_ismp_router H (pr_to p) s = Ok cb"
  then have cb: "keeps (has_receipt H r) (on_accept cb p)"
    using keep unfolding leaves_receipt_def by blast
  have st: "keeps (has_receipt H r) (h_store_request_receipt H (ReqPost p) signer)"
    using store_request_receipt_other [OF other] by (simp add: keeps_def has_receipt_def)
  have dl: "keeps (has_receipt H r) (h_delete_request_receipt H (ReqPost p))"
    using delete_request_receipt_other [OF other] by (simp add: keeps_def has_receipt_def)
  show "keeps (has_receipt H r)
         (bindC (map_err AnyIsmp (h_store_request_receipt H (ReqPost p) signer)) (\<lambda>_.
          bindC (attempt (bindC (on_accept cb p) (\<lambda>_.
                      bindC (expect (hash_request (h_keccak256 H) (ReqPost p))) (\<lambda>commitment.
                        ret (EvPostRequestHandled \<lparr>rrh_commitment = commitment, rrh_relayer = signer\<rparr>))))) (\<lambda>res.
          bindC (if isl res then bindC (map_err AnyIsmp (h_delete_request_receipt H (ReqPost p))) (\<lambda>_. ret ())
             else ret ()) (\<lambda>_. propagate res))))"
    by (intro keeps_intros cb st keeps_if dl)
qed

lemma deliver_request_leaves_receipt:
  assumes "deliver_request H signer p s = (Ok ev, s')" and "leaves_receipt H (ReqPost p)"
  shows "has_receipt H (ReqPost p) s'"
proof -
  from delivered_under_receipt [OF assms(1)] obtain cb t where
    run: "on_accept cb p t = (Ok (), s')" and cb: "h_ismp_router H (pr_to p) s = Ok cb" and
    rec: "has_receipt H (ReqPost p) t" by (auto simp: has_receipt_def)
  from assms(2) cb have "keeps (has_receipt H (ReqPost p)) (on_accept cb p)"
    unfolding leaves_receipt_def by blast
  from keepsD [OF this run rec] show ?thesis .
qed

text \<open>After a batch of requests with distinct commitments every accepted one has a receipt.\<close>

lemma batch_leaves_receipts:
  assumes "deliver_requests H signer ps s = (Ok res, s')"
    and "distinct (map (\<lambda>p. hash_request (h_keccak256 H) (ReqPost p)) ps)"
    and "\<forall>p \<in> set ps. leaves_receipt H (ReqPost p)"
    and "i < length ps" and "res ! i = Inr ev"
  shows "has_receipt H (ReqPost (ps ! i)) s'"
proof (rule collect_establishes [OF _ _ assms(1) [unfolded deliver_requests_def],
      where good = "\<lambda>y. \<exists>ev. y = Inr ev"])
  show "has_receipt H (ReqPost p) t'"
    if "p \<in> set ps" "attempt (deliver_request H signer p) t = (Ok y, t')" "\<exists>ev. y = Inr ev" for p t y t'
    using that assms(3) by (auto simp: attempt_Ok intro: deliver_request_leaves_receipt)
  show "keeps (has_receipt H (ReqPost p)) (attempt (deliver_request H signer q))"
    if "p \<in> set ps"
      "hash_request (h_keccak256 H) (ReqPost p) \<noteq> hash_request (h_keccak256 H) (ReqPost q)" for p q
    using that assms(3) by (intro keeps_attempt deliver_keeps_other_receipt) auto
qed (use assms in simp_all)

end

end
