(* ===== verification/Ismp_Response.thy ===== *)
theory Ismp_Response
  imports Ismp_Host
begin

text \<open>
  The response handler (\<^verbatim>\<open>modules/ismp/core/src/handlers/response.rs\<close>). A message
  carries either responses, which are proved to be committed to by the other chain, or the host's
  own get requests, whose values are read out of a state proof of the other chain.
\<close>

section \<open>Responses\<close>

definition check_response :: "'s IsmpHost \<Rightarrow> StateMachine \<Rightarrow> Response \<Rightarrow> ('s, Error, unit) comp" where
  "check_response H proof_chain response =
     bindC (expect (hash_request (h_keccak256 H) (Response_request response))) (\<lambda>commitment.
     bindC (is_ok (h_request_commitment H commitment)) (\<lambda>solicited.
     bindC (ensure solicited (UnsolicitedResponse (Meta_of_response response))) (\<lambda>_.
     bindC (reads (h_response_receipt H response)) (\<lambda>receipt.
     bindC (ensure (receipt = None) (DuplicateResponse (Meta_of_response response))) (\<lambda>_.
     bindC (asks (h_timestamp H)) (\<lambda>now.
     bindC (ensure (\<not> Response_timed_out response now) (ResponseTimeoutError (Meta_of_response response))) (\<lambda>_.
       ensure_speaks_for H proof_chain (Response_source_chain response)
         (ResponseProxyProhibited (Meta_of_response response)))))))))"

definition deliver_response ::
  "'s IsmpHost \<Rightarrow> bytes \<Rightarrow> Response \<Rightarrow> ('s, anyhow, DispatchResult) comp" where
  "deliver_response H signer response =
     bindC (reads (h_ismp_router H (Response_destination_module response))) (\<lambda>cb.
     bindC (map_err AnyIsmp (h_store_response_receipt H response signer)) (\<lambda>_.
     bindC (attempt (bindC (on_response cb response) (\<lambda>_.
                     bindC (expect (hash_response (h_keccak256 H) response)) (\<lambda>commitment.
                       ret (EvPostResponseHandled \<lparr>rrh_commitment = commitment, rrh_relayer = signer\<rparr>))))) (\<lambda>res.
     bindC (if isl res then bindC (map_err AnyIsmp (h_delete_response_receipt H response)) (\<lambda>_. ret ())
            else ret ()) (\<lambda>_.
       ret res))))"

section \<open>Answers to the host's own get requests\<close>

definition check_get_request :: "'s IsmpHost \<Rightarrow> StateMachine \<Rightarrow> Request \<Rightarrow> ('s, Error, GetRequest) comp" where
  "check_get_request H proof_chain req =
     (case req of
        ReqPost _ \<Rightarrow> fail (InvalidResponseType (Meta_of_request req))
      | ReqGet get \<Rightarrow>
          bindC (asks (h_timestamp H)) (\<lambda>now.
          bindC (ensure (\<not> Request_timed_out req now) (RequestTimeoutError (Meta_of_request req))) (\<lambda>_.
          bindC (ensure (Request_dest_chain req = proof_chain)
                   (RequestProofMetadataNotValid (Meta_of_request req))) (\<lambda>_.
          bindC (expect (hash_request (h_keccak256 H) (ReqGet get))) (\<lambda>commitment.
          bindC (is_ok (h_request_commitment H commitment)) (\<lambda>known.
          bindC (ensure known (UnknownRequest (Meta_of_request req))) (\<lambda>_.
          (let res = ResGet \<lparr>grs_get = get, grs_values = []\<rparr> in
           bindC (reads (h_response_receipt H res)) (\<lambda>receipt.
           bindC (ensure (receipt = None) (DuplicateResponse (Meta_of_response res))) (\<lambda>_.
             ret get))))))))))"

definition deliver_get_response ::
  "'s IsmpHost \<Rightarrow> 's StateMachineClient \<Rightarrow> StateCommitment \<Rightarrow> Proof \<Rightarrow> bytes \<Rightarrow> GetRequest \<Rightarrow>
   ('s, anyhow, DispatchResult) comp" where
  "deliver_get_response H state_machine state prf signer request =
     bindC (map_err AnyIsmp (reads (\<lambda>s. verify_state_proof state_machine s (gr_keys request) state prf))) (\<lambda>entries.
     (let vals = map (\<lambda>(k, v). \<lparr>sv_key = k, sv_value = v\<rparr>) entries;
          response = ResGet \<lparr>grs_get = request, grs_values = []\<rparr> in
      bindC (reads (h_ismp_router H (gr_from request))) (\<lambda>cb.
      bindC (map_err AnyIsmp (h_store_response_receipt H response signer)) (\<lambda>_.
      bindC (attempt (bindC (on_response cb (ResGet \<lparr>grs_get = request, grs_values = vals\<rparr>)) (\<lambda>_.
                      bindC (expect (hash_request (h_keccak256 H) (ReqGet request))) (\<lambda>commitment.
                        ret (EvGetRequestHandled \<lparr>rrh_commitment = commitment, rrh_relayer = signer\<rparr>))))) (\<lambda>res.
      bindC (if isl res then bindC (map_err AnyIsmp (h_delete_response_receipt H response)) (\<lambda>_. ret ())
             else ret ()) (\<lambda>_.
        ret res))))))"

section \<open>The handler\<close>

definition handle_response :: "'s IsmpHost \<Rightarrow> ResponseMessage \<Rightarrow> ('s, anyhow, MessageResult) comp" where
  "handle_response H msg =
     (let prf = rsm_proof msg; proof_chain = state_id (smh_id (proof_height prf)) in
      bindC (map_err AnyIsmp (validate_state_machine H (proof_height prf))) (\<lambda>state_machine.
      bindC (map_err AnyIsmp (reads (h_state_machine_commitment H (proof_height prf)))) (\<lambda>state.
      bindC (case rsm_datagram msg of
          RRResponse responses \<Rightarrow>
            bindC (map_err AnyIsmp (for_each (check_response H proof_chain) responses)) (\<lambda>_.
            bindC (map_err AnyIsmp (reads (\<lambda>s.
                     verify_membership state_machine s (RRResponse responses) state prf))) (\<lambda>_.
              collect (deliver_response H (rsm_signer msg)) responses))
        | RRRequest requests \<Rightarrow>
            bindC (map_err AnyIsmp (collect (check_get_request H proof_chain) requests)) (\<lambda>get_requests.
            bindC (map_err AnyIsmp (ensure
                     (\<forall>get \<in> set get_requests. gr_height get = smh_height (proof_height prf))
                     InsufficientProofHeight)) (\<lambda>_.
              collect (deliver_get_response H state_machine state prf (rsm_signer msg)) get_requests))) (\<lambda>result.
        ret (MrResponse result)))))"

section \<open>The checks\<close>

definition acceptable_response :: "'s IsmpHost \<Rightarrow> StateMachine \<Rightarrow> Response \<Rightarrow> 's \<Rightarrow> bool" where
  "acceptable_response H proof_chain response s \<longleftrightarrow>
     (\<exists>c. hash_request (h_keccak256 H) (Response_request response) = Some c \<and>
          h_request_commitment H c s = Ok ()) \<and>
     h_response_receipt H response s = Ok None \<and>
     \<not> Response_timed_out response (h_timestamp H s) \<and>
     speaks_for H proof_chain (Response_source_chain response) s"

lemma check_response_Ok:
  "check_response H pc response s = (Ok u, s') \<longleftrightarrow> s' = s \<and> acceptable_response H pc response s"
  by (auto simp: check_response_def acceptable_response_def comp_ok ensure_speaks_for_Ok)

lemma readonly_check_response [readonly_intros]: "readonly (check_response H pc response)"
  unfolding check_response_def by (intro readonly_intros)

definition answerable_get :: "'s IsmpHost \<Rightarrow> StateMachineHeight \<Rightarrow> GetRequest \<Rightarrow> 's \<Rightarrow> bool" where
  "answerable_get H h get s \<longleftrightarrow>
     GetRequest_timeout get > h_timestamp H s \<and>
     gr_dest get = state_id (smh_id h) \<and> gr_height get = smh_height h \<and>
     (\<exists>c. hash_request (h_keccak256 H) (ReqGet get) = Some c \<and> h_request_commitment H c s = Ok ()) \<and>
     h_response_receipt H (ResGet \<lparr>grs_get = get, grs_values = []\<rparr>) s = Ok None"

lemma check_get_request_Ok:
  "check_get_request H pc req s = (Ok get, s') \<longleftrightarrow> s' = s \<and> req = ReqGet get \<and>
     GetRequest_timeout get > h_timestamp H s \<and> gr_dest get = pc \<and>
     (\<exists>c. hash_request (h_keccak256 H) (ReqGet get) = Some c \<and> h_request_commitment H c s = Ok ()) \<and>
     h_response_receipt H (ResGet \<lparr>grs_get = get, grs_values = []\<rparr>) s = Ok None"
  by (auto simp: check_get_request_def comp_ok Let_def Request_timed_out_def Request_timeout_def
      GetRequest_timeout_def not_le split: Request.splits)

lemma readonly_check_get_request [readonly_intros]: "readonly (check_get_request H pc req)"
proof (cases req)
  case (ReqPost p)
  then show ?thesis by (simp add: check_get_request_def readonly_basic)
next
  case (ReqGet g)
  show ?thesis unfolding ReqGet check_get_request_def Request.case Let_def by (intro readonly_intros)
qed

lemma collect_get_requests_Ok:
  "collect (check_get_request H pc) reqs s = (Ok gets, s') \<Longrightarrow>
     s' = s \<and> reqs = map ReqGet gets \<and>
     (\<forall>get \<in> set gets. check_get_request H pc (ReqGet get) s = (Ok get, s))"
proof (induction reqs arbitrary: gets)
  case Nil
  then show ?case by (simp add: comp_ok)
next
  case (Cons r rs)
  from Cons.prems obtain g gs t where
    g: "check_get_request H pc r s = (Ok g, t)" and rest: "collect (check_get_request H pc) rs t = (Ok gs, s')"
    and gets: "gets = g # gs"
    by (auto simp: comp_ok)
  from g have t: "t = s" and r: "r = ReqGet g" unfolding check_get_request_Ok by auto
  from Cons.IH [OF rest [unfolded t]] g gets t r show ?case by auto
qed

text \<open>
  What has to hold for a message to be accepted; the effects of an accepted message are those of
  its deliveries.
\<close>

lemma handle_response_accepts:
  assumes "handle_response H msg s = (Ok r, s')"
  obtains client state res where
    "usable_height H (proof_height (rsm_proof msg)) client s"
    "h_state_machine_commitment H (proof_height (rsm_proof msg)) s = Ok state"
    "r = MrResponse res"
    "case rsm_datagram msg of
       RRResponse responses \<Rightarrow>
         (\<forall>response \<in> set responses.
            acceptable_response H (state_id (smh_id (proof_height (rsm_proof msg)))) response s) \<and>
         verify_membership client s (RRResponse responses) state (rsm_proof msg) = Ok () \<and>
         collect (deliver_response H (rsm_signer msg)) responses s = (Ok res, s')
     | RRRequest requests \<Rightarrow>
         (\<exists>gets. requests = map ReqGet gets \<and>
            (\<forall>get \<in> set gets. answerable_get H (proof_height (rsm_proof msg)) get s) \<and>
            collect (deliver_get_response H client state (rsm_proof msg) (rsm_signer msg)) gets s = (Ok res, s'))"
proof (cases "rsm_datagram msg")
  case (RRResponse responses)
  with assms that show ?thesis
    unfolding handle_response_def Let_def
    by (auto simp: comp_ok validate_state_machine_Ok check_response_Ok
      for_each_readonly_Ok [where f = "check_response H pc" for H pc, OF readonly_check_response])
next
  case (RRRequest requests)
  with assms obtain client state gets res t where
    u: "usable_height H (proof_height (rsm_proof msg)) client s" and
    c: "h_state_machine_commitment H (proof_height (rsm_proof msg)) s = Ok state" and
    r: "r = MrResponse res" and
    gets: "collect (check_get_request H (state_id (smh_id (proof_height (rsm_proof msg))))) requests s = (Ok gets, t)" and
    h: "\<forall>get \<in> set gets. gr_height get = smh_height (proof_height (rsm_proof msg))" and
    d: "collect (deliver_get_response H client state (rsm_proof msg) (rsm_signer msg)) gets t = (Ok res, s')"
    unfolding handle_response_def Let_def
    by (auto simp: comp_ok validate_state_machine_Ok)
  from collect_get_requests_Ok [OF gets] have t: "t = s" and "requests = map ReqGet gets"
    and "\<forall>get \<in> set gets. answerable_get H (proof_height (rsm_proof msg)) get s"
    using h by (auto simp: check_get_request_Ok answerable_get_def)
  with that [OF u c r] d [unfolded t] RRRequest show ?thesis by auto
qed

lemma handle_response_rejects:
  assumes "rsm_datagram msg = RRResponse responses" and "response \<in> set responses"
    and bad: "\<not> acceptable_response H (state_id (smh_id (proof_height (rsm_proof msg)))) response s"
  shows "snd (handle_response H msg s) = s" and "fst (handle_response H msg s) \<noteq> Ok r"
proof -
  let ?checks = "map_err AnyIsmp (for_each (check_response H
      (state_id (smh_id (proof_height (rsm_proof msg))))) responses)"
  have ro: "readonly ?checks" by (intro readonly_intros)
  have fe: "?checks s \<noteq> (Ok (), s)"
    using assms(2) bad
    by (auto simp: comp_ok check_response_Ok
      for_each_readonly_Ok [where f = "check_response H pc" for H pc, OF readonly_check_response])
  show "snd (handle_response H msg s) = s"
    unfolding handle_response_def Let_def assms(1) RequestResponse.case
    apply (rule readonly_then_unchanged, intro readonly_intros)
    apply (rule readonly_then_unchanged, intro readonly_intros)
    apply (rule blocked_unchanged)
     apply (rule readonly_guard_blocked(1) [OF ro fe])
    apply (rule readonly_guard_blocked(2) [OF ro fe])
    done
  show "fst (handle_response H msg s) \<noteq> Ok r"
  proof
    assume "fst (handle_response H msg s) = Ok r"
    then obtain s' where "handle_response H msg s = (Ok r, s')" by (metis prod.collapse)
    then show False
      by (rule handle_response_accepts) (use assms(2) bad in \<open>auto simp: assms(1)\<close>)
  qed
qed

section \<open>Delivery\<close>

lemma deliver_response_Ok:
  assumes "deliver_response H signer response s = (Ok res, s')"
  obtains cb t where
    "h_ismp_router H (Response_destination_module response) s = Ok cb"
    "h_store_response_receipt H response signer s = (Ok (), t)"
    "case res of
       Inr ev \<Rightarrow> on_response cb response t = (Ok (), s')
     | Inl e \<Rightarrow> (\<exists>t' w. on_response cb response t = (Err e, t') \<and>
                   h_delete_response_receipt H response t' = (Ok w, s'))"
  using assms unfolding deliver_response_def
  by (cases res) (auto simp: comp_ok comp_err split: if_splits)

definition has_response_receipt :: "'s IsmpHost \<Rightarrow> Response \<Rightarrow> 's \<Rightarrow> bool" where
  "has_response_receipt H r s \<longleftrightarrow> h_response_receipt H r s = Ok (Some ())"

text \<open>No module the router knows removes the receipt while it handles a response.\<close>

definition leaves_response_receipt :: "'s IsmpHost \<Rightarrow> Response \<Rightarrow> bool" where
  "leaves_response_receipt H r \<longleftrightarrow>
     (\<forall>i s m q. h_ismp_router H i s = Ok m \<longrightarrow> keeps (has_response_receipt H r) (on_response m q))"

context receipt_store
begin

text \<open>
  A module sees a response under its receipt, and the receipt is gone after a module that failed.
\<close>

lemma response_delivery:
  assumes "deliver_response H signer response s = (Ok res, s')"
  shows "case res of
       Inr ev \<Rightarrow> (\<exists>cb t. h_ismp_router H (Response_destination_module response) s = Ok cb \<and>
                     h_response_receipt H response t = Ok (Some ()) \<and> on_response cb response t = (Ok (), s'))
     | Inl e \<Rightarrow> h_response_receipt H response s' = Ok None"
  using assms
proof (rule deliver_response_Ok)
  fix cb t
  assume cb: "h_ismp_router H (Response_destination_module response) s = Ok cb"
    and st: "h_store_response_receipt H response signer s = (Ok (), t)"
    and fin: "case res of
       Inr ev \<Rightarrow> on_response cb response t = (Ok (), s')
     | Inl e \<Rightarrow> (\<exists>t' w. on_response cb response t = (Err e, t') \<and>
                   h_delete_response_receipt H response t' = (Ok w, s'))"
  show ?thesis
    using cb store_response_receipt_read [OF st] fin delete_response_receipt_read
    by (auto split: sum.splits)
qed

lemma deliver_response_keeps_other:
  assumes keep: "leaves_response_receipt H r"
    and other: "hash_request (h_keccak256 H) (Response_request r) \<noteq> hash_request (h_keccak256 H) (Response_request q)"
  shows "keeps (has_response_receipt H r) (deliver_response H signer q)"
  unfolding deliver_response_def
proof (rule keeps_bindC_reads)
  fix s cb
  assume "h_ismp_router H (Response_destination_module q) s = Ok cb"
  then have cb: "keeps (has_response_receipt H r) (on_response cb q)"
    using keep unfolding leaves_response_receipt_def by blast
  have st: "keeps (has_response_receipt H r) (h_store_response_receipt H q signer)"
    using store_response_receipt_other [OF other] by (simp add: keeps_def has_response_receipt_def)
  have dl: "keeps (has_response_receipt H r) (h_delete_response_receipt H q)"
    using delete_response_receipt_other [OF other] by (simp add: keeps_def has_response_receipt_def)
  show "keeps (has_response_receipt H r)
         (bindC (map_err AnyIsmp (h_store_response_receipt H q signer)) (\<lambda>_.
          bindC (attempt (bindC (on_response cb q) (\<lambda>_.
                     bindC (expect (hash_response (h_keccak256 H) q)) (\<lambda>commitment.
                       ret (EvPostResponseHandled \<lparr>rrh_commitment = commitment, rrh_relayer = signer\<rparr>))))) (\<lambda>res.
          bindC (if isl res then bindC (map_err AnyIsmp (h_delete_response_receipt H q)) (\<lambda>_. ret ())
            else ret ()) (\<lambda>_. ret res))))"
    by (intro keeps_intros cb st keeps_if dl)
qed

lemma deliver_response_leaves_receipt:
  assumes "deliver_response H signer r s = (Ok (Inr ev), s')" and "leaves_response_receipt H r"
  shows "has_response_receipt H r s'"
proof -
  from response_delivery [OF assms(1)] obtain cb t where
    cb: "h_ismp_router H (Response_destination_module r) s = Ok cb" and
    rec: "has_response_receipt H r t" and run: "on_response cb r t = (Ok (), s')"
    by (auto simp: has_response_receipt_def)
  from assms(2) cb have "keeps (has_response_receipt H r) (on_response cb r)"
    unfolding leaves_response_receipt_def by blast
  from keepsD [OF this run rec] show ?thesis .
qed

lemma batch_leaves_response_receipts:
  assumes "collect (deliver_response H signer) rs s = (Ok res, s')"
    and "distinct (map (\<lambda>r. hash_request (h_keccak256 H) (Response_request r)) rs)"
    and "\<forall>r \<in> set rs. leaves_response_receipt H r"
    and "i < length rs" and "res ! i = Inr ev"
  shows "has_response_receipt H (rs ! i) s'"
proof (rule collect_establishes [OF _ _ assms(1), where good = "\<lambda>y. \<exists>ev. y = Inr ev"])
  show "has_response_receipt H r t'"
    if "r \<in> set rs" "deliver_response H signer r t = (Ok y, t')" "\<exists>ev. y = Inr ev" for r t y t'
    using that assms(3) by (auto intro: deliver_response_leaves_receipt)
  show "keeps (has_response_receipt H r) (deliver_response H signer q)"
    if "r \<in> set rs"
      "hash_request (h_keccak256 H) (Response_request r) \<noteq> hash_request (h_keccak256 H) (Response_request q)" for r q
    using that assms(3) by (intro deliver_response_keeps_other) auto
qed (use assms in simp_all)

end

end
