(* ===== verification/Ismp_Timeout.thy ===== *)
theory Ismp_Timeout
  imports Ismp_Host
begin

text \<open>
  The timeout handler (\<^verbatim>\<open>modules/ismp/core/src/handlers/timeout.rs\<close>): post requests and
  post responses time out against a proof that the other chain has no receipt at a time past the
  timeout, get requests against the host's own clock. The commitment is deleted before the module
  runs and restored when the module fails.
\<close>

section \<open>Post requests\<close>

definition check_post_timeout ::
  "'s IsmpHost \<Rightarrow> StateMachine \<Rightarrow> StateCommitment \<Rightarrow> Request \<Rightarrow> ('s, Error, unit) comp" where
  "check_post_timeout H proof_chain state request =
     bindC (ensure_speaks_for H proof_chain (Request_dest_chain request)
              (RequestProxyProhibited (Meta_of_request request))) (\<lambda>_.
     bindC (expect (hash_request (h_keccak256 H) request)) (\<lambda>commitment.
     bindC (is_ok (h_request_commitment H commitment)) (\<lambda>known.
     bindC (ensure known (UnknownRequest (Meta_of_request request))) (\<lambda>_.
       ensure (Request_timed_out request (StateCommitment_timestamp state))
         (RequestTimeoutNotElapsed (Meta_of_request request) (Request_timeout request)
            (StateCommitment_timestamp state))))))"

text \<open>The receipt of a routed request goes with its commitment, and comes back with it.\<close>

definition take_request_receipt :: "'s IsmpHost \<Rightarrow> Request \<Rightarrow> ('s, anyhow, bytes option) comp" where
  "take_request_receipt H request =
     bindC (asks (h_host_state_machine H)) (\<lambda>host.
       if host \<noteq> Request_source_chain request
       then bindC (attempt (h_delete_request_receipt H request)) (\<lambda>r.
              ret (case r of Inl _ \<Rightarrow> None | Inr signer \<Rightarrow> Some signer))
       else ret None)"

definition restore_request :: "'s IsmpHost \<Rightarrow> Request \<Rightarrow> bytes \<Rightarrow> bytes option \<Rightarrow> ('s, anyhow, unit) comp" where
  "restore_request H request meta signer =
     bindC (map_err AnyIsmp (h_store_request_commitment H request meta)) (\<lambda>_.
     bindC (asks (h_host_state_machine H)) (\<lambda>host.
       case signer of
         Some relayer \<Rightarrow>
           if host \<noteq> Request_source_chain request
           then map_err AnyIsmp (h_store_request_receipt H request relayer) else ret ()
       | None \<Rightarrow> ret ()))"

definition timeout_post_request :: "'s IsmpHost \<Rightarrow> Request \<Rightarrow> ('s, anyhow, DispatchResult) comp" where
  "timeout_post_request H request =
     bindC (reads (h_ismp_router H (Request_source_module request))) (\<lambda>cb.
     bindC (map_err AnyIsmp (h_delete_request_commitment H request)) (\<lambda>meta.
     bindC (take_request_receipt H request) (\<lambda>signer.
     bindC (attempt (bindC (on_timeout cb (TimeoutRequest request)) (\<lambda>_.
                     bindC (expect (hash_request (h_keccak256 H) request)) (\<lambda>commitment.
                       ret (EvPostRequestTimeoutHandled
                         \<lparr>th_commitment = commitment, th_source = Request_source_chain request,
                          th_dest = Request_dest_chain request\<rparr>))))) (\<lambda>res.
     bindC (if isl res then restore_request H request meta signer else ret ()) (\<lambda>_.
       ret res)))))"

definition timeout_posts :: "'s IsmpHost \<Rightarrow> Request list \<Rightarrow> Proof \<Rightarrow> ('s, anyhow, DispatchResult list) comp" where
  "timeout_posts H requests prf =
     (let height = proof_height prf in
      bindC (map_err AnyIsmp
        (bindC (validate_state_machine H height) (\<lambda>state_machine.
         bindC (reads (h_state_machine_commitment H height)) (\<lambda>state.
         bindC (for_each (check_post_timeout H (state_id (smh_id height)) state) requests) (\<lambda>_.
         bindC (reads (\<lambda>s. receipts_state_trie_key state_machine s (RRRequest requests))) (\<lambda>keys.
         bindC (reads (\<lambda>s. verify_state_proof state_machine s keys state prf)) (\<lambda>entries.
           ensure (\<not> (\<exists>e \<in> set entries. snd e \<noteq> None))
             (Custom (ascii ''Some Requests in the batch have been delivered''))))))))) (\<lambda>_.
        collect (timeout_post_request H) requests))"

section \<open>Post responses\<close>

definition check_response_timeout ::
  "'s IsmpHost \<Rightarrow> StateMachine \<Rightarrow> StateCommitment \<Rightarrow> PostResponse \<Rightarrow> ('s, Error, unit) comp" where
  "check_response_timeout H proof_chain state response =
     bindC (ensure_speaks_for H proof_chain (PostResponse_dest_chain response)
              (ResponseProxyProhibited (Meta_of_response (ResPost response)))) (\<lambda>_.
     bindC (expect (hash_post_response (h_keccak256 H) response)) (\<lambda>commitment.
     bindC (is_ok (h_response_commitment H commitment)) (\<lambda>known.
     bindC (ensure known (UnknownResponse (Meta_of_response (ResPost response)))) (\<lambda>_.
       ensure (\<not> StateCommitment_timestamp state < PostResponse_timeout response)
         (RequestTimeoutNotElapsed (Meta_of_post_response response) (PostResponse_timeout response)
            (StateCommitment_timestamp state))))))"

text \<open>The receipt of a routed response goes with its commitment, and comes back with it.\<close>

definition take_response_receipt :: "'s IsmpHost \<Rightarrow> PostResponse \<Rightarrow> ('s, anyhow, bytes option) comp" where
  "take_response_receipt H response =
     bindC (asks (h_host_state_machine H)) (\<lambda>host.
       if host \<noteq> PostResponse_source_chain response
       then bindC (attempt (h_delete_response_receipt H (ResPost response))) (\<lambda>r.
              ret (case r of Inl _ \<Rightarrow> None | Inr signer \<Rightarrow> Some signer))
       else ret None)"

definition restore_response :: "'s IsmpHost \<Rightarrow> PostResponse \<Rightarrow> bytes \<Rightarrow> bytes option \<Rightarrow> ('s, anyhow, unit) comp" where
  "restore_response H response meta signer =
     bindC (map_err AnyIsmp (h_store_response_commitment H response meta)) (\<lambda>_.
     bindC (asks (h_host_state_machine H)) (\<lambda>host.
       case signer of
         Some relayer \<Rightarrow>
           if host \<noteq> PostResponse_source_chain response
           then map_err AnyIsmp (h_store_response_receipt H (ResPost response) relayer) else ret ()
       | None \<Rightarrow> ret ()))"

definition timeout_post_response :: "'s IsmpHost \<Rightarrow> PostResponse \<Rightarrow> ('s, anyhow, DispatchResult) comp" where
  "timeout_post_response H response =
     bindC (reads (h_ismp_router H (PostResponse_source_module response))) (\<lambda>cb.
     bindC (map_err AnyIsmp (h_delete_response_commitment H response)) (\<lambda>meta.
     bindC (take_response_receipt H response) (\<lambda>signer.
     bindC (attempt (bindC (on_timeout cb (TimeoutResponse response)) (\<lambda>_.
                     bindC (expect (hash_post_response (h_keccak256 H) response)) (\<lambda>commitment.
                       ret (EvPostResponseTimeoutHandled
                         \<lparr>th_commitment = commitment, th_source = PostResponse_source_chain response,
                          th_dest = PostResponse_dest_chain response\<rparr>))))) (\<lambda>res.
     bindC (if isl res then restore_response H response meta signer else ret ()) (\<lambda>_.
       ret res)))))"

definition timeout_responses ::
  "'s IsmpHost \<Rightarrow> PostResponse list \<Rightarrow> Proof \<Rightarrow> ('s, anyhow, DispatchResult list) comp" where
  "timeout_responses H responses prf =
     (let height = proof_height prf in
      bindC (map_err AnyIsmp
        (bindC (validate_state_machine H height) (\<lambda>state_machine.
         bindC (reads (h_state_machine_commitment H height)) (\<lambda>state.
         bindC (for_each (check_response_timeout H (state_id (smh_id height)) state) responses) (\<lambda>_.
         bindC (reads (\<lambda>s. receipts_state_trie_key state_machine s (RRResponse (map ResPost responses)))) (\<lambda>keys.
         bindC (reads (\<lambda>s. verify_state_proof state_machine s keys state prf)) (\<lambda>entries.
           ensure (\<not> (\<exists>e \<in> set entries. snd e \<noteq> None))
             (Custom (ascii ''Some responses in the batch have been delivered''))))))))) (\<lambda>_.
        collect (timeout_post_response H) responses))"

section \<open>Get requests\<close>

definition check_get_timeout :: "'s IsmpHost \<Rightarrow> Request \<Rightarrow> ('s, Error, unit) comp" where
  "check_get_timeout H request =
     bindC (expect (hash_request (h_keccak256 H) request)) (\<lambda>commitment.
     bindC (is_ok (h_request_commitment H commitment)) (\<lambda>known.
     bindC (ensure known (UnknownRequest (Meta_of_request request))) (\<lambda>_.
     bindC (asks (h_timestamp H)) (\<lambda>now.
       ensure (Request_timed_out request now)
         (RequestTimeoutNotElapsed (Meta_of_request request) (Request_timeout request) now)))))"

definition timeout_get_request :: "'s IsmpHost \<Rightarrow> Request \<Rightarrow> ('s, anyhow, DispatchResult) comp" where
  "timeout_get_request H request =
     bindC (reads (h_ismp_router H (Request_source_module request))) (\<lambda>cb.
     bindC (map_err AnyIsmp (h_delete_request_commitment H request)) (\<lambda>meta.
     bindC (attempt (bindC (on_timeout cb (TimeoutRequest request)) (\<lambda>_.
                     bindC (expect (hash_request (h_keccak256 H) request)) (\<lambda>commitment.
                       ret (EvGetRequestTimeoutHandled
                         \<lparr>th_commitment = commitment, th_source = Request_source_chain request,
                          th_dest = Request_dest_chain request\<rparr>))))) (\<lambda>res.
     bindC (if isl res then map_err AnyIsmp (h_store_request_commitment H request meta) else ret ()) (\<lambda>_.
       ret res))))"

definition timeout_gets :: "'s IsmpHost \<Rightarrow> Request list \<Rightarrow> ('s, anyhow, DispatchResult list) comp" where
  "timeout_gets H requests =
     bindC (map_err AnyIsmp (for_each (check_get_timeout H) requests)) (\<lambda>_.
       collect (timeout_get_request H) requests)"

section \<open>The handler\<close>

definition handle_timeout :: "'s IsmpHost \<Rightarrow> TimeoutMessage \<Rightarrow> ('s, anyhow, MessageResult) comp" where
  "handle_timeout H msg =
     bindC (case msg of
         TmPost requests timeout_proof \<Rightarrow> timeout_posts H requests timeout_proof
       | TmPostResponse responses timeout_proof \<Rightarrow> timeout_responses H responses timeout_proof
       | TmGet requests \<Rightarrow> timeout_gets H requests) (\<lambda>results.
       ret (MrTimeout results))"

section \<open>The checks\<close>

definition known_request :: "'s IsmpHost \<Rightarrow> Request \<Rightarrow> 's \<Rightarrow> bool" where
  "known_request H r s \<longleftrightarrow>
     (\<exists>c. hash_request (h_keccak256 H) r = Some c \<and> h_request_commitment H c s = Ok ())"

definition known_response :: "'s IsmpHost \<Rightarrow> PostResponse \<Rightarrow> 's \<Rightarrow> bool" where
  "known_response H r s \<longleftrightarrow>
     (\<exists>c. hash_post_response (h_keccak256 H) r = Some c \<and> h_response_commitment H c s = Ok ())"

lemma check_post_timeout_Ok:
  "check_post_timeout H pc st r s = (Ok u, s') \<longleftrightarrow> s' = s \<and>
     speaks_for H pc (Request_dest_chain r) s \<and> known_request H r s \<and>
     Request_timed_out r (StateCommitment_timestamp st)"
  by (auto simp: check_post_timeout_def known_request_def comp_ok ensure_speaks_for_Ok)

lemma check_response_timeout_Ok:
  "check_response_timeout H pc st r s = (Ok u, s') \<longleftrightarrow> s' = s \<and>
     speaks_for H pc (PostResponse_dest_chain r) s \<and> known_response H r s \<and>
     PostResponse_timed_out r (StateCommitment_timestamp st)"
  by (auto simp: check_response_timeout_def known_response_def PostResponse_timed_out_def comp_ok
      ensure_speaks_for_Ok)

lemma check_get_timeout_Ok:
  "check_get_timeout H r s = (Ok u, s') \<longleftrightarrow> s' = s \<and> known_request H r s \<and>
     Request_timed_out r (h_timestamp H s)"
  by (auto simp: check_get_timeout_def known_request_def comp_ok)

lemma readonly_timeout_checks [readonly_intros]:
  "readonly (check_post_timeout H pc st r)" "readonly (check_response_timeout H pc st p)"
  "readonly (check_get_timeout H r)"
  unfolding check_post_timeout_def check_response_timeout_def check_get_timeout_def
  by (intro readonly_intros)+

lemmas timeout_checks_Ok =
  for_each_readonly_Ok [where f = "check_post_timeout H pc st" for H pc st, OF readonly_timeout_checks(1)]
  for_each_readonly_Ok [where f = "check_response_timeout H pc st" for H pc st, OF readonly_timeout_checks(2)]
  for_each_readonly_Ok [where f = "check_get_timeout H" for H, OF readonly_timeout_checks(3)]
  check_post_timeout_Ok check_response_timeout_Ok check_get_timeout_Ok

text \<open>A proof that the other chain, at a time past the timeout, has no receipt.\<close>

definition undelivered ::
  "'s StateMachineClient \<Rightarrow> 's \<Rightarrow> RequestResponse \<Rightarrow> StateCommitment \<Rightarrow> Proof \<Rightarrow> bool" where
  "undelivered client s items state prf \<longleftrightarrow>
     (\<exists>keys entries. receipts_state_trie_key client s items = Ok keys \<and>
        verify_state_proof client s keys state prf = Ok entries \<and> (\<forall>(k, v) \<in> set entries. v = None))"

lemma timeout_posts_accepts:
  assumes "timeout_posts H requests prf s = (Ok res, s')"
  shows "\<exists>client state.
    usable_height H (proof_height prf) client s \<and>
    h_state_machine_commitment H (proof_height prf) s = Ok state \<and>
    (\<forall>r \<in> set requests.
       speaks_for H (state_id (smh_id (proof_height prf))) (Request_dest_chain r) s \<and>
       known_request H r s \<and> Request_timed_out r (StateCommitment_timestamp state)) \<and>
    undelivered client s (RRRequest requests) state prf \<and>
    collect (timeout_post_request H) requests s = (Ok res, s')"
  using assms unfolding timeout_posts_def Let_def
  by (auto simp: comp_ok validate_state_machine_Ok timeout_checks_Ok undelivered_def split_beta)

lemma timeout_responses_accepts:
  assumes "timeout_responses H responses prf s = (Ok res, s')"
  shows "\<exists>client state.
    usable_height H (proof_height prf) client s \<and>
    h_state_machine_commitment H (proof_height prf) s = Ok state \<and>
    (\<forall>r \<in> set responses.
       speaks_for H (state_id (smh_id (proof_height prf))) (PostResponse_dest_chain r) s \<and>
       known_response H r s \<and> PostResponse_timed_out r (StateCommitment_timestamp state)) \<and>
    undelivered client s (RRResponse (map ResPost responses)) state prf \<and>
    collect (timeout_post_response H) responses s = (Ok res, s')"
  using assms unfolding timeout_responses_def Let_def
  by (auto simp: comp_ok validate_state_machine_Ok timeout_checks_Ok undelivered_def split_beta)

lemma timeout_gets_accepts:
  assumes "timeout_gets H requests s = (Ok res, s')"
  shows "(\<forall>r \<in> set requests. known_request H r s \<and> Request_timed_out r (h_timestamp H s)) \<and>
    collect (timeout_get_request H) requests s = (Ok res, s')"
  using assms unfolding timeout_gets_def
  by (auto simp: comp_ok timeout_checks_Ok)

section \<open>Delivery\<close>

lemma take_receipt_snd:
  "snd (take_request_receipt H r s) \<in> {s, snd (h_delete_request_receipt H r s)}"
  "snd (take_response_receipt H p s) \<in> {s, snd (h_delete_response_receipt H (ResPost p) s)}"
  unfolding take_request_receipt_def take_response_receipt_def
  by (simp_all add: snd_bindC snd_attempt simple_run split: outcome.split)

lemma take_receipt_Ok:
  "take_request_receipt H r s = (Ok q, s') \<Longrightarrow> s' = s \<or> s' = snd (h_delete_request_receipt H r s)"
  "take_response_receipt H p s = (Ok q, s') \<Longrightarrow> s' = s \<or> s' = snd (h_delete_response_receipt H (ResPost p) s)"
  using take_receipt_snd(1) [of H r s] take_receipt_snd(2) [of H p s] by auto

lemma restore_Ok:
  "restore_request H r m q s = (Ok u, s') \<Longrightarrow>
     \<exists>v. h_store_request_commitment H r m s = (Ok (), v) \<and>
         (s' = v \<or> (\<exists>relayer. s' = snd (h_store_request_receipt H r relayer v)))"
  "restore_response H p m q s = (Ok u, s') \<Longrightarrow>
     \<exists>v. h_store_response_commitment H p m s = (Ok (), v) \<and>
         (s' = v \<or> (\<exists>relayer. s' = snd (h_store_response_receipt H (ResPost p) relayer v)))"
  unfolding restore_request_def restore_response_def
  by (auto simp: comp_ok split: if_splits option.splits) (metis snd_conv)+

context outbox_store
begin

text \<open>
  The module runs with the commitment gone; a module that fails leaves it restored.
\<close>

lemma get_timeout_delivery:
  assumes "timeout_get_request H r s = (Ok res, s')" and "hash_request (h_keccak256 H) r = Some c"
  shows "case res of
       Inr ev \<Rightarrow> (\<exists>cb t e. h_ismp_router H (Request_source_module r) s = Ok cb \<and>
                     h_request_commitment H c t = Err e \<and> on_timeout cb (TimeoutRequest r) t = (Ok (), s'))
     | Inl e \<Rightarrow> h_request_commitment H c s' = Ok ()"
proof (cases res)
  case (Inl e)
  with assms obtain m t u where "h_store_request_commitment H r m t = (Ok u, s')"
    unfolding timeout_get_request_def by (auto simp: comp_ok split: if_splits)
  from store_request_commitment_read [OF this assms(2)] Inl show ?thesis by simp
next
  case (Inr ev)
  with assms(1) obtain cb m t where
    cb: "h_ismp_router H (Request_source_module r) s = Ok cb" and
    d: "h_delete_request_commitment H r s = (Ok m, t)" and
    o: "on_timeout cb (TimeoutRequest r) t = (Ok (), s')"
    unfolding timeout_get_request_def by (auto simp: comp_ok split: if_splits)
  from delete_request_commitment_read [OF d assms(2)] cb o Inr show ?thesis by auto
qed

lemma post_timeout_delivery:
  assumes "timeout_post_request H r s = (Ok res, s')" and "hash_request (h_keccak256 H) r = Some c"
  shows "case res of
       Inr ev \<Rightarrow> (\<exists>cb t e. h_ismp_router H (Request_source_module r) s = Ok cb \<and>
                     h_request_commitment H c t = Err e \<and> on_timeout cb (TimeoutRequest r) t = (Ok (), s'))
     | Inl e \<Rightarrow> h_request_commitment H c s' = Ok ()"
proof (cases res)
  case (Inl e)
  with assms obtain m q t where "restore_request H r m q t = (Ok (), s')"
    unfolding timeout_post_request_def by (auto simp: comp_ok split: if_splits)
  from restore_Ok(1) [OF this] obtain v where
    st: "h_store_request_commitment H r m t = (Ok (), v)" and
    rest: "s' = v \<or> (\<exists>relayer. s' = snd (h_store_request_receipt H r relayer v))" by blast
  have "h_request_commitment H c s' = h_request_commitment H c v"
    using rest receipt_writes_keep_outbox(1) by auto
  with store_request_commitment_read [OF st assms(2)] Inl show ?thesis by simp
next
  case (Inr ev)
  with assms(1) obtain cb m t q v where
    cb: "h_ismp_router H (Request_source_module r) s = Ok cb" and
    d: "h_delete_request_commitment H r s = (Ok m, t)" and
    v: "take_request_receipt H r t = (Ok q, v)" and
    o: "on_timeout cb (TimeoutRequest r) v = (Ok (), s')"
    unfolding timeout_post_request_def by (auto simp: comp_ok split: if_splits)
  have "h_request_commitment H c v = h_request_commitment H c t"
    using take_receipt_Ok(1) [OF v] receipt_writes_keep_outbox(2) by auto
  with delete_request_commitment_read [OF d assms(2)] obtain e where "h_request_commitment H c v = Err e" by auto
  with cb o Inr show ?thesis by auto
qed

lemma response_timeout_delivery:
  assumes "timeout_post_response H r s = (Ok res, s')" and "hash_post_response (h_keccak256 H) r = Some c"
  shows "case res of
       Inr ev \<Rightarrow> (\<exists>cb t e. h_ismp_router H (PostResponse_source_module r) s = Ok cb \<and>
                     h_response_commitment H c t = Err e \<and> on_timeout cb (TimeoutResponse r) t = (Ok (), s'))
     | Inl e \<Rightarrow> h_response_commitment H c s' = Ok ()"
proof (cases res)
  case (Inl e)
  with assms obtain m q t where "restore_response H r m q t = (Ok (), s')"
    unfolding timeout_post_response_def by (auto simp: comp_ok split: if_splits)
  from restore_Ok(2) [OF this] obtain v where
    st: "h_store_response_commitment H r m t = (Ok (), v)" and
    rest: "s' = v \<or> (\<exists>relayer. s' = snd (h_store_response_receipt H (ResPost r) relayer v))" by blast
  have "h_response_commitment H c s' = h_response_commitment H c v"
    using rest receipt_writes_keep_outbox(3) by auto
  with store_response_commitment_read [OF st assms(2)] Inl show ?thesis by simp
next
  case (Inr ev)
  with assms(1) obtain cb m t q v where
    cb: "h_ismp_router H (PostResponse_source_module r) s = Ok cb" and
    d: "h_delete_response_commitment H r s = (Ok m, t)" and
    v: "take_response_receipt H r t = (Ok q, v)" and
    o: "on_timeout cb (TimeoutResponse r) v = (Ok (), s')"
    unfolding timeout_post_response_def by (auto simp: comp_ok split: if_splits)
  have "h_response_commitment H c v = h_response_commitment H c t"
    using take_receipt_Ok(2) [OF v] receipt_writes_keep_outbox(4) by auto
  with delete_response_commitment_read [OF d assms(2)] obtain e where "h_response_commitment H c v = Err e" by auto
  with cb o Inr show ?thesis by auto
qed

end

end
