(* ===== verification/Ismp_Handlers.thy ===== *)
theory Ismp_Handlers
  imports Ismp_Consensus Ismp_Request Ismp_Response Ismp_Timeout
begin

text \<open>
  The entry point of the protocol core (\<^verbatim>\<open>modules/ismp/core/src/handlers.rs\<close>), which
  dispatches a message to its handler, and the effect of freezing a consensus client on every
  message that relies on it.
\<close>

definition handle_incoming_message :: "'s IsmpHost \<Rightarrow> Message \<Rightarrow> ('s, anyhow, MessageResult) comp" where
  "handle_incoming_message H message =
     (case message of
        MsgConsensus consensus_message \<Rightarrow> update_client H consensus_message
      | MsgFraudProof fraud_proof \<Rightarrow> freeze_client H fraud_proof
      | MsgRequest req \<Rightarrow> handle_request H req
      | MsgResponse resp \<Rightarrow> handle_response H resp
      | MsgTimeout timeout \<Rightarrow> handle_timeout H timeout)"

text \<open>The consensus state a message is verified against; a get timeout relies on none.\<close>

fun relies_on :: "Message \<Rightarrow> ConsensusStateId option" where
  "relies_on (MsgConsensus m) = Some (cm_consensus_state_id m)"
| "relies_on (MsgFraudProof m) = Some (fp_consensus_state_id m)"
| "relies_on (MsgRequest m) = Some (consensus_state_id (smh_id (proof_height (rqm_proof m))))"
| "relies_on (MsgResponse m) = Some (consensus_state_id (smh_id (proof_height (rsm_proof m))))"
| "relies_on (MsgTimeout (TmPost _ p)) = Some (consensus_state_id (smh_id (proof_height p)))"
| "relies_on (MsgTimeout (TmPostResponse _ p)) = Some (consensus_state_id (smh_id (proof_height p)))"
| "relies_on (MsgTimeout (TmGet _)) = None"

definition blocked :: "('s, 'e, 'a) comp \<Rightarrow> 's \<Rightarrow> bool" where
  "blocked m s \<longleftrightarrow> snd (m s) = s \<and> (\<forall>r. fst (m s) \<noteq> Ok r)"

lemma blocked_bindC: "blocked m s \<Longrightarrow> blocked (bindC m f) s"
  unfolding blocked_def bindC_def by (cases "m s"; cases "fst (m s)") auto

lemma blocked_map_err: "blocked m s \<Longrightarrow> blocked (map_err g m) s"
  by (auto simp: blocked_def map_err_def split: prod.splits outcome.splits)

lemma validate_blocked:
  assumes "\<And>client. \<not> usable_height H h client s"
  shows "blocked (validate_state_machine H h) s"
proof -
  obtain q t where run: "validate_state_machine H h s = (q, t)" by (rule prod.exhaust)
  from readonlyD [OF readonly_guards(2) run] have t: "t = s" .
  have "q \<noteq> Ok client" for client
    using run t assms validate_state_machine_Ok [of H h s client s] by auto
  with run t show ?thesis by (simp add: blocked_def)
qed

lemmas blocked_intros = blocked_bindC blocked_map_err validate_blocked

text \<open>Messages verified against a height that is not usable have no effect.\<close>

lemma unusable_blocks_request:
  assumes "\<And>client. \<not> usable_height H (proof_height (rqm_proof msg)) client s"
  shows "blocked (handle_request H msg) s"
  unfolding handle_request_def verify_requests_def by (intro blocked_intros assms)

lemma unusable_blocks_response:
  assumes "\<And>client. \<not> usable_height H (proof_height (rsm_proof msg)) client s"
  shows "blocked (handle_response H msg) s"
  unfolding handle_response_def Let_def by (intro blocked_intros assms)

lemma unusable_blocks_timeout:
  assumes "\<And>client. \<not> usable_height H (proof_height p) client s"
  shows "blocked (handle_timeout H (TmPost rs p)) s" "blocked (handle_timeout H (TmPostResponse qs p)) s"
  unfolding handle_timeout_def TimeoutMessage.case timeout_posts_def timeout_responses_def Let_def
  by (intro blocked_intros assms)+

lemma frozen_unusable:
  "h_is_consensus_client_frozen H (consensus_state_id (smh_id h)) s \<noteq> Ok () \<Longrightarrow>
     \<not> usable_height H h client s"
  by (simp add: usable_height_def)

lemma frozen_blocks_message:
  assumes "relies_on msg = Some i" and "h_is_consensus_client_frozen H i s \<noteq> Ok ()"
  shows "blocked (handle_incoming_message H msg) s"
proof (cases msg)
  case (MsgConsensus m)
  with assms frozen_blocks_update [of H m s] show ?thesis
    by (simp add: handle_incoming_message_def blocked_def)
next
  case (MsgFraudProof m)
  with assms frozen_blocks_freeze [of H m s] show ?thesis
    by (simp add: handle_incoming_message_def blocked_def)
next
  case (MsgRequest m)
  with assms unusable_blocks_request frozen_unusable show ?thesis
    by (fastforce simp: handle_incoming_message_def)
next
  case (MsgResponse m)
  with assms unusable_blocks_response frozen_unusable show ?thesis
    by (fastforce simp: handle_incoming_message_def)
next
  case (MsgTimeout m)
  show ?thesis
  proof (cases m)
    case (TmPost rs p)
    with MsgTimeout assms have "\<And>client. \<not> usable_height H (proof_height p) client s"
      by (intro frozen_unusable) simp
    from unusable_blocks_timeout(1) [OF this] TmPost MsgTimeout show ?thesis
      by (simp add: handle_incoming_message_def)
  next
    case (TmPostResponse rs p)
    with MsgTimeout assms have "\<And>client. \<not> usable_height H (proof_height p) client s"
      by (intro frozen_unusable) simp
    from unusable_blocks_timeout(2) [OF this] TmPostResponse MsgTimeout show ?thesis
      by (simp add: handle_incoming_message_def)
  next
    case (TmGet rs)
    with MsgTimeout assms show ?thesis by simp
  qed
qed

text \<open>A commitment that an update has just stored waits out the challenge period.\<close>

lemma fresh_commitment_unusable:
  assumes now: "h_timestamp H s < 2 ^ 64 * nanos_per_sec"
    and up: "h_state_machine_update_time H h s = Ok (from_secs (as_secs (h_timestamp H s)))"
    and cp: "h_challenge_period H (smh_id h) s = Some p" and pos: "as_secs p \<noteq> 0"
  shows "\<not> usable_height H h client s"
proof -
  let ?n = "h_timestamp H s"
  have "?n div nanos_per_sec < 2 ^ 64"
    using now by (simp add: less_mult_imp_div_less)
  then have "from_secs (as_secs ?n) = ?n div nanos_per_sec * nanos_per_sec"
    by (simp add: from_secs_def as_secs_def unat_of_nat)
  then have "?n - from_secs (as_secs ?n) = ?n mod nanos_per_sec"
    by (simp add: minus_div_mult_eq_mod)
  then have "?n - from_secs (as_secs ?n) < nanos_per_sec" by simp
  moreover have "nanos_per_sec \<le> p"
  proof (rule ccontr)
    assume "\<not> nanos_per_sec \<le> p"
    then have "as_secs p = 0" by (simp add: as_secs_def)
    with pos show False by contradiction
  qed
  ultimately have "\<not> p < ?n - from_secs (as_secs ?n)" by simp
  then show ?thesis using up cp pos unfolding usable_height_def by force
qed

text \<open>A message verified against a height whose commitment is missing has no effect.\<close>

fun proved_against :: "Message \<Rightarrow> StateMachineHeight option" where
  "proved_against (MsgRequest m) = Some (proof_height (rqm_proof m))"
| "proved_against (MsgResponse m) = Some (proof_height (rsm_proof m))"
| "proved_against (MsgTimeout (TmPost _ p)) = Some (proof_height p)"
| "proved_against (MsgTimeout (TmPostResponse _ p)) = Some (proof_height p)"
| "proved_against _ = None"

lemma blocked_after_readonly:
  assumes "readonly m" and "\<And>a. blocked (f a) s"
  shows "blocked (bindC m f) s"
proof -
  obtain q t where run: "m s = (q, t)" by (rule prod.exhaust)
  from readonlyD [OF assms(1) run] have "t = s" .
  with run assms(2) show ?thesis by (cases q) (simp_all add: blocked_def bindC_def)
qed

lemma blocked_reads: "(\<And>a. r s \<noteq> Ok a) \<Longrightarrow> blocked (reads r) s"
  by (simp add: blocked_def reads_def)

lemma missing_commitment_blocks:
  assumes "proved_against msg = Some h" and "\<And>c. h_state_machine_commitment H h s \<noteq> Ok c"
  shows "blocked (handle_incoming_message H msg) s"
proof -
  have missing: "blocked (bindC (reads (h_state_machine_commitment H h)) f) s"
    "blocked (bindC (map_err AnyIsmp (reads (h_state_machine_commitment H h))) g) s" for f g
    by (intro blocked_bindC blocked_map_err blocked_reads assms(2))+
  have req: "blocked (handle_request H m) s" if "msg = MsgRequest m" for m
    using that assms(1) unfolding handle_request_def verify_requests_def
    by simp (rule blocked_bindC, rule blocked_map_err,
        (rule missing | rule blocked_after_readonly | intro readonly_intros)+)
  have resp: "blocked (handle_response H m) s" if "msg = MsgResponse m" for m
    using that assms(1) unfolding handle_response_def Let_def
    by simp (rule missing | rule blocked_after_readonly | intro readonly_intros)+
  have "blocked (timeout_posts H rs p) s" if "proof_height p = h" for rs p
    using that unfolding timeout_posts_def Let_def
    by simp (rule blocked_bindC, rule blocked_map_err,
        (rule missing | rule blocked_after_readonly | intro readonly_intros)+)
  moreover have "blocked (timeout_responses H rs p) s" if "proof_height p = h" for rs p
    using that unfolding timeout_responses_def Let_def
    by simp (rule blocked_bindC, rule blocked_map_err,
        (rule missing | rule blocked_after_readonly | intro readonly_intros)+)
  ultimately have "blocked (handle_timeout H m) s" if "msg = MsgTimeout m" for m
    using that assms(1) unfolding handle_timeout_def by (cases m) (auto intro: blocked_bindC)
  with req resp show ?thesis
    using assms(1) by (cases msg) (auto simp: handle_incoming_message_def)
qed

end
