(* ===== verification/Pallet_Child_Trie.thy ===== *)
theory Pallet_Child_Trie
  imports Ismp_Handlers
begin

text \<open>
  The storage of the ISMP pallet (\<^verbatim>\<open>modules/ismp/pallets/pallet/src\<close>: \<^verbatim>\<open>lib.rs\<close>,
  \<^verbatim>\<open>child_trie.rs\<close>, \<^verbatim>\<open>utils.rs\<close>, \<^verbatim>\<open>mmr.rs\<close>) and its configuration. A
  storage map is a map; the child trie is one map from raw keys to values, so that the maps kept in
  it share a key space, as they do on chain. What lies outside the pallet (balances, the merkle
  mountain range, the offchain database) is the field \<open>env\<close>, on which the configured currency and
  tree act. A runtime with more pallets extends the record.

  The \<^verbatim>\<open>Config\<close> trait is the record \<open>Config\<close>: the hash, the SCALE codec, the currency,
  the tree, the clients and the router are parameters of the pallet.
\<close>

type_synonym account = h256
type_synonym balance = u128

section \<open>Data\<close>

record LeafIndexAndPos =
  leaf_index :: u64
  leaf_pos :: u64

record LeafMetadata =
  lm_index :: u64
  lm_position :: u64

record RequestMetadata =
  rm_mmr :: LeafIndexAndPos
  rm_fee :: "(account, balance) FeeMetadata"
  rm_claimed :: bool

record ResponseReceipt =
  rr_response :: h256
  rr_relayer :: bytes

datatype Leaf = LeafRequest Request | LeafResponse Response

fun Leaf_preimage :: "Leaf \<Rightarrow> bytes option" where
  "Leaf_preimage (LeafRequest req) = Request_encode req"
| "Leaf_preimage (LeafResponse res) = Response_encode res"

datatype MessageCommitment = McRequest h256 | McResponse h256

record FundMessageParams =
  fm_commitment :: MessageCommitment
  fm_amount :: balance

record UpdateConsensusState =
  ucs_consensus_state_id :: ConsensusStateId
  ucs_unbonding_period :: "u64 option"
  ucs_challenge_periods :: "(StateMachine, u64) btree_map"

datatype ModuleId = MiPallet bytes | MiContract bytes | MiEvm bytes

fun ModuleId_to_bytes :: "ModuleId \<Rightarrow> bytes" where
  "ModuleId_to_bytes (MiPallet b) = b"
| "ModuleId_to_bytes (MiContract b) = b"
| "ModuleId_to_bytes (MiEvm b) = b"

definition ModuleId_from_bytes :: "bytes \<Rightarrow> bytes + ModuleId" where
  "ModuleId_from_bytes bs =
     (if length bs = 8 then Inr (MiPallet bs)
      else if length bs = 32 then Inr (MiContract bs)
      else if length bs = 20 then Inr (MiEvm bs)
      else Inl (ascii ''Unknown Module ID format''))"

fun ModuleId_wf :: "ModuleId \<Rightarrow> bool" where
  "ModuleId_wf (MiPallet b) = (length b = 8)"
| "ModuleId_wf (MiContract b) = (length b = 32)"
| "ModuleId_wf (MiEvm b) = (length b = 20)"

lemma ModuleId_roundtrip: "ModuleId_wf i \<Longrightarrow> ModuleId_from_bytes (ModuleId_to_bytes i) = Inr i"
  by (cases i) (simp_all add: ModuleId_from_bytes_def)

lemma ModuleId_from_bytes_back:
  "ModuleId_from_bytes bs = Inr i \<Longrightarrow> ModuleId_wf i \<and> ModuleId_to_bytes i = bs"
  by (auto simp: ModuleId_from_bytes_def split: if_splits)

section \<open>Events of the pallet\<close>

datatype PalletEvent =
    PeStateMachineUpdated StateMachineId u64
  | PeStateCommitmentVetoed StateMachineHeight bytes
  | PeConsensusClientCreated ConsensusClientId
  | PeConsensusClientFrozen ConsensusClientId
  | PeResponse StateMachine StateMachine u64 h256 h256
  | PeRequest StateMachine StateMachine u64 h256
  | PeErrors "bytes list"
  | PePostRequestHandled RequestResponseHandled
  | PePostResponseHandled RequestResponseHandled
  | PeGetRequestHandled RequestResponseHandled
  | PePostRequestTimeoutHandled TimeoutHandled
  | PePostResponseTimeoutHandled TimeoutHandled
  | PeGetRequestTimeoutHandled TimeoutHandled

section \<open>Storage\<close>

datatype child_value =
    CvCommitment StateCommitment
  | CvMeta RequestMetadata
  | CvReceipt bytes
  | CvResponseReceipt ResponseReceipt
  | CvPayment balance

record 'x ismp_state =
  child_trie :: "bytes \<rightharpoonup> child_value"
  state_commitments :: "StateMachineHeight \<rightharpoonup> StateCommitment"
  consensus_states :: "ConsensusStateId \<rightharpoonup> bytes"
  consensus_state_client :: "ConsensusStateId \<rightharpoonup> ConsensusClientId"
  unbonding_periods :: "ConsensusStateId \<rightharpoonup> u64"
  challenge_periods :: "StateMachineId \<rightharpoonup> u64"
  frozen_clients :: "ConsensusStateId \<Rightarrow> bool"
  latest_heights :: "StateMachineId \<rightharpoonup> u64"
  consensus_update_times :: "ConsensusStateId \<rightharpoonup> u64"
  state_machine_update_times :: "StateMachineHeight \<rightharpoonup> u64"
  responded :: "h256 \<rightharpoonup> bool"
  nonce :: u64
  child_trie_root :: h256
  events :: "PalletEvent list"
  now :: duration
  env :: 'x

type_synonym ('x, 'm) st = "('x, 'm) ismp_state_scheme"

datatype Origin = OriginRoot | OriginSigned account | OriginNone

record ('x, 'm) Config =
  cf_keccak256 :: "bytes \<Rightarrow> h256"
  cf_host_state_machine :: StateMachine
  cf_coprocessor :: "StateMachine option"
  cf_encode_height :: "StateMachineHeight \<Rightarrow> bytes"
  cf_encode_meta :: "RequestMetadata \<Rightarrow> bytes"
  cf_decode_meta :: "bytes \<Rightarrow> RequestMetadata option"
  cf_transfer :: "account \<Rightarrow> account \<Rightarrow> balance \<Rightarrow> ('x, bytes, unit) comp"
  cf_fee_account :: account
  cf_mmr_push :: "Leaf \<Rightarrow> 'x \<Rightarrow> LeafMetadata \<times> 'x"
  cf_mmr_finalize :: "'x \<Rightarrow> (unit + h256) \<times> 'x"
  cf_child_root :: "(bytes \<rightharpoonup> child_value) \<Rightarrow> h256"
  cf_deposit_digest :: "h256 \<Rightarrow> h256 \<Rightarrow> 'x \<Rightarrow> 'x"
  cf_consensus_clients :: "('x, 'm) st ConsensusClient list"
  cf_router :: "('x, 'm) st IsmpRouter"
  cf_error_to_string :: "anyhow \<Rightarrow> bytes"
  cf_admin_origin :: "Origin \<Rightarrow> bool"
  cf_encode_hashes :: "h256 list list \<Rightarrow> bytes"
  cf_mmr_get_leaf :: "u64 \<Rightarrow> 'x \<Rightarrow> unit + Leaf option"
  cf_mmr_generate_proof :: "u64 list \<Rightarrow> 'x \<Rightarrow> bytes + (Leaf list \<times> u64 \<times> h256 list)"
  cf_offchain_get :: "h256 \<Rightarrow> 'x \<Rightarrow> bytes option"
  cf_decode_leaf :: "bytes \<Rightarrow> Leaf option"

text \<open>An action on what lies outside the pallet.\<close>

definition on_env :: "('x, 'e, 'a) comp \<Rightarrow> (('x, 'm) st, 'e, 'a) comp" where
  "on_env m = (\<lambda>s. case m (env s) of (r, x) \<Rightarrow> (r, s\<lparr>env := x\<rparr>))"

section \<open>The child trie\<close>

definition STATE_COMMITMENTS_KEY :: bytes where
  "STATE_COMMITMENTS_KEY = ascii ''state''"

definition request_commitment_storage_key :: "h256 \<Rightarrow> bytes" where
  "request_commitment_storage_key key = ascii ''RequestCommitments'' @ be_bytes 32 key"

definition response_commitment_storage_key :: "h256 \<Rightarrow> bytes" where
  "response_commitment_storage_key key = ascii ''ResponseCommitments'' @ be_bytes 32 key"

definition request_receipt_storage_key :: "h256 \<Rightarrow> bytes" where
  "request_receipt_storage_key key = ascii ''RequestReceipts'' @ be_bytes 32 key"

definition response_receipt_storage_key :: "h256 \<Rightarrow> bytes" where
  "response_receipt_storage_key key = ascii ''ResponseReceipts'' @ be_bytes 32 key"

definition state_commitment_storage_key :: "('x, 'm) Config \<Rightarrow> StateMachineHeight \<Rightarrow> bytes" where
  "state_commitment_storage_key cfg height =
     STATE_COMMITMENTS_KEY @ be_bytes 32 (cf_keccak256 cfg (cf_encode_height cfg height))"

lemma be_bytes_32_inj [simp]: "be_bytes 32 (x :: h256) = be_bytes 32 y \<longleftrightarrow> x = y"
  using be_bytes_inj [where v = x and w = y and n = 32] by auto

lemma storage_key_inj [simp]:
  "request_commitment_storage_key x = request_commitment_storage_key y \<longleftrightarrow> x = y"
  "response_commitment_storage_key x = response_commitment_storage_key y \<longleftrightarrow> x = y"
  "request_receipt_storage_key x = request_receipt_storage_key y \<longleftrightarrow> x = y"
  "response_receipt_storage_key x = response_receipt_storage_key y \<longleftrightarrow> x = y"
  by (simp_all add: request_commitment_storage_key_def response_commitment_storage_key_def
      request_receipt_storage_key_def response_receipt_storage_key_def)

lemma storage_key_length:
  "length (request_commitment_storage_key x) = 50"
  "length (response_commitment_storage_key x) = 51"
  "length (request_receipt_storage_key x) = 47"
  "length (response_receipt_storage_key x) = 48"
  "length (state_commitment_storage_key cfg h) = 37"
  by (simp_all add: request_commitment_storage_key_def response_commitment_storage_key_def
      request_receipt_storage_key_def response_receipt_storage_key_def
      state_commitment_storage_key_def STATE_COMMITMENTS_KEY_def)

lemma different_length: "length xs \<noteq> length ys \<Longrightarrow> xs \<noteq> ys"
  by auto

lemma storage_key_disjoint [simp]:
  "request_commitment_storage_key x \<noteq> response_commitment_storage_key y"
  "request_commitment_storage_key x \<noteq> request_receipt_storage_key y"
  "request_commitment_storage_key x \<noteq> response_receipt_storage_key y"
  "request_commitment_storage_key x \<noteq> state_commitment_storage_key cfg h"
  "response_commitment_storage_key x \<noteq> request_commitment_storage_key y"
  "response_commitment_storage_key x \<noteq> request_receipt_storage_key y"
  "response_commitment_storage_key x \<noteq> response_receipt_storage_key y"
  "response_commitment_storage_key x \<noteq> state_commitment_storage_key cfg h"
  "request_receipt_storage_key x \<noteq> request_commitment_storage_key y"
  "request_receipt_storage_key x \<noteq> response_commitment_storage_key y"
  "request_receipt_storage_key x \<noteq> response_receipt_storage_key y"
  "request_receipt_storage_key x \<noteq> state_commitment_storage_key cfg h"
  "response_receipt_storage_key x \<noteq> request_commitment_storage_key y"
  "response_receipt_storage_key x \<noteq> response_commitment_storage_key y"
  "response_receipt_storage_key x \<noteq> request_receipt_storage_key y"
  "response_receipt_storage_key x \<noteq> state_commitment_storage_key cfg h"
  "state_commitment_storage_key cfg h \<noteq> request_commitment_storage_key y"
  "state_commitment_storage_key cfg h \<noteq> response_commitment_storage_key y"
  "state_commitment_storage_key cfg h \<noteq> request_receipt_storage_key y"
  "state_commitment_storage_key cfg h \<noteq> response_receipt_storage_key y"
  by (rule different_length, simp add: storage_key_length)+

definition child_put :: "bytes \<Rightarrow> child_value \<Rightarrow> ('x, 'm) st \<Rightarrow> ('x, 'm) st" where
  "child_put k v s = s\<lparr>child_trie := (child_trie s)(k \<mapsto> v)\<rparr>"

definition child_kill :: "bytes \<Rightarrow> ('x, 'm) st \<Rightarrow> ('x, 'm) st" where
  "child_kill k s = s\<lparr>child_trie := (child_trie s)(k := None)\<rparr>"

text \<open>\<^verbatim>\<open>StateCommitments\<close>: the child trie first, then the map it replaced.\<close>

definition StateCommitments_get ::
  "('x, 'm) Config \<Rightarrow> StateMachineHeight \<Rightarrow> ('x, 'm) st \<Rightarrow> StateCommitment option" where
  "StateCommitments_get cfg key s =
     (case child_trie s (state_commitment_storage_key cfg key) of
        Some (CvCommitment c) \<Rightarrow> Some c
      | _ \<Rightarrow> state_commitments s key)"

definition StateCommitments_insert ::
  "('x, 'm) Config \<Rightarrow> StateMachineHeight \<Rightarrow> StateCommitment \<Rightarrow> ('x, 'm) st \<Rightarrow> ('x, 'm) st" where
  "StateCommitments_insert cfg key c s =
     child_put (state_commitment_storage_key cfg key) (CvCommitment c)
       (s\<lparr>state_commitments := (state_commitments s)(key \<mapsto> c)\<rparr>)"

definition StateCommitments_remove ::
  "('x, 'm) Config \<Rightarrow> StateMachineHeight \<Rightarrow> ('x, 'm) st \<Rightarrow> ('x, 'm) st" where
  "StateCommitments_remove cfg key s =
     child_kill (state_commitment_storage_key cfg key)
       (s\<lparr>state_commitments := (state_commitments s)(key := None)\<rparr>)"

definition RequestCommitments_get :: "h256 \<Rightarrow> ('x, 'm) st \<Rightarrow> RequestMetadata option" where
  "RequestCommitments_get key s =
     (case child_trie s (request_commitment_storage_key key) of Some (CvMeta m) \<Rightarrow> Some m | _ \<Rightarrow> None)"

definition RequestCommitments_insert :: "h256 \<Rightarrow> RequestMetadata \<Rightarrow> ('x, 'm) st \<Rightarrow> ('x, 'm) st" where
  "RequestCommitments_insert key meta = child_put (request_commitment_storage_key key) (CvMeta meta)"

definition RequestCommitments_remove :: "h256 \<Rightarrow> ('x, 'm) st \<Rightarrow> ('x, 'm) st" where
  "RequestCommitments_remove key = child_kill (request_commitment_storage_key key)"

definition RequestCommitments_contains_key :: "h256 \<Rightarrow> ('x, 'm) st \<Rightarrow> bool" where
  "RequestCommitments_contains_key key s \<longleftrightarrow> child_trie s (request_commitment_storage_key key) \<noteq> None"

definition ResponseCommitments_get :: "h256 \<Rightarrow> ('x, 'm) st \<Rightarrow> RequestMetadata option" where
  "ResponseCommitments_get key s =
     (case child_trie s (response_commitment_storage_key key) of Some (CvMeta m) \<Rightarrow> Some m | _ \<Rightarrow> None)"

definition ResponseCommitments_insert :: "h256 \<Rightarrow> RequestMetadata \<Rightarrow> ('x, 'm) st \<Rightarrow> ('x, 'm) st" where
  "ResponseCommitments_insert key meta = child_put (response_commitment_storage_key key) (CvMeta meta)"

definition ResponseCommitments_remove :: "h256 \<Rightarrow> ('x, 'm) st \<Rightarrow> ('x, 'm) st" where
  "ResponseCommitments_remove key = child_kill (response_commitment_storage_key key)"

definition RequestReceipts_get :: "h256 \<Rightarrow> ('x, 'm) st \<Rightarrow> bytes option" where
  "RequestReceipts_get key s =
     (case child_trie s (request_receipt_storage_key key) of Some (CvReceipt r) \<Rightarrow> Some r | _ \<Rightarrow> None)"

definition RequestReceipts_insert :: "h256 \<Rightarrow> bytes \<Rightarrow> ('x, 'm) st \<Rightarrow> ('x, 'm) st" where
  "RequestReceipts_insert key relayer = child_put (request_receipt_storage_key key) (CvReceipt relayer)"

definition RequestReceipts_remove :: "h256 \<Rightarrow> ('x, 'm) st \<Rightarrow> ('x, 'm) st" where
  "RequestReceipts_remove key = child_kill (request_receipt_storage_key key)"

definition RequestReceipts_contains_key :: "h256 \<Rightarrow> ('x, 'm) st \<Rightarrow> bool" where
  "RequestReceipts_contains_key key s \<longleftrightarrow> child_trie s (request_receipt_storage_key key) \<noteq> None"

definition ResponseReceipts_get :: "h256 \<Rightarrow> ('x, 'm) st \<Rightarrow> ResponseReceipt option" where
  "ResponseReceipts_get key s =
     (case child_trie s (response_receipt_storage_key key) of Some (CvResponseReceipt r) \<Rightarrow> Some r | _ \<Rightarrow> None)"

definition ResponseReceipts_insert :: "h256 \<Rightarrow> ResponseReceipt \<Rightarrow> ('x, 'm) st \<Rightarrow> ('x, 'm) st" where
  "ResponseReceipts_insert key receipt = child_put (response_receipt_storage_key key) (CvResponseReceipt receipt)"

definition ResponseReceipts_remove :: "h256 \<Rightarrow> ('x, 'm) st \<Rightarrow> ('x, 'm) st" where
  "ResponseReceipts_remove key = child_kill (response_receipt_storage_key key)"

lemmas child_trie_defs =
  child_put_def child_kill_def StateCommitments_get_def StateCommitments_insert_def
  StateCommitments_remove_def RequestCommitments_get_def RequestCommitments_insert_def
  RequestCommitments_remove_def RequestCommitments_contains_key_def ResponseCommitments_get_def
  ResponseCommitments_insert_def ResponseCommitments_remove_def RequestReceipts_get_def
  RequestReceipts_insert_def RequestReceipts_remove_def RequestReceipts_contains_key_def
  ResponseReceipts_get_def ResponseReceipts_insert_def ResponseReceipts_remove_def

end
