(* ===== verification/Pallet_Host.thy ===== *)
theory Pallet_Host
  imports Pallet_Child_Trie
begin

text \<open>
  The implementation of the host trait by the ISMP pallet
  (\<^verbatim>\<open>modules/ismp/pallets/pallet/src/host.rs\<close>), one definition per method, with the
  wrapper the pallet puts around the modules of the runtime (\<^verbatim>\<open>dispatcher.rs\<close>). The
  interpretation at the end discharges the contract of a host for the pallet, so that the lemmas
  of the handlers hold of the deployed storage.
\<close>

section \<open>Reading\<close>

definition pallet_latest_commitment_height :: "StateMachineId \<Rightarrow> ('x, 'm) st \<Rightarrow> (Error, u64) outcome" where
  "pallet_latest_commitment_height i s =
     Ok (case latest_heights s i of Some h \<Rightarrow> h | None \<Rightarrow> 0)"

definition pallet_state_machine_commitment ::
  "('x, 'm) Config \<Rightarrow> StateMachineHeight \<Rightarrow> ('x, 'm) st \<Rightarrow> (Error, StateCommitment) outcome" where
  "pallet_state_machine_commitment cfg height s =
     (case StateCommitments_get cfg height s of
        Some c \<Rightarrow> Ok c
      | None \<Rightarrow> Err (StateCommitmentNotFound height))"

definition pallet_consensus_update_time :: "ConsensusStateId \<Rightarrow> ('x, 'm) st \<Rightarrow> (Error, duration) outcome" where
  "pallet_consensus_update_time i s =
     (case consensus_update_times s i of
        Some t \<Rightarrow> Ok (from_secs t)
      | None \<Rightarrow> Err (Custom (ascii ''Update time not found for '' @ debug_id4 i)))"

definition pallet_state_machine_update_time ::
  "StateMachineHeight \<Rightarrow> ('x, 'm) st \<Rightarrow> (Error, duration) outcome" where
  "pallet_state_machine_update_time height s =
     (case state_machine_update_times s height of
        Some t \<Rightarrow> Ok (from_secs t)
      | None \<Rightarrow> Err (Custom (ascii ''Update time not found for '' @ debug_StateMachineHeight height)))"

definition pallet_consensus_client_id :: "ConsensusStateId \<Rightarrow> ('x, 'm) st \<Rightarrow> ConsensusClientId option" where
  "pallet_consensus_client_id i s = consensus_state_client s i"

definition pallet_consensus_state :: "ConsensusStateId \<Rightarrow> ('x, 'm) st \<Rightarrow> (Error, bytes) outcome" where
  "pallet_consensus_state i s =
     (case consensus_states s i of Some b \<Rightarrow> Ok b | None \<Rightarrow> Err (ConsensusStateNotFound i))"

definition pallet_is_consensus_client_frozen :: "ConsensusStateId \<Rightarrow> ('x, 'm) st \<Rightarrow> (Error, unit) outcome" where
  "pallet_is_consensus_client_frozen i s =
     (if frozen_clients s i then Err (FrozenConsensusClient i) else Ok ())"

definition pallet_request_commitment :: "h256 \<Rightarrow> ('x, 'm) st \<Rightarrow> (Error, unit) outcome" where
  "pallet_request_commitment commitment s =
     (case RequestCommitments_get commitment s of
        Some _ \<Rightarrow> Ok ()
      | None \<Rightarrow> Err (Custom (ascii ''Request commitment not found'')))"

definition pallet_response_commitment :: "h256 \<Rightarrow> ('x, 'm) st \<Rightarrow> (Error, unit) outcome" where
  "pallet_response_commitment commitment s =
     (case ResponseCommitments_get commitment s of
        Some _ \<Rightarrow> Ok ()
      | None \<Rightarrow> Err (Custom (ascii ''Response commitment not found'')))"

definition pallet_next_nonce :: "('x, 'm) st \<Rightarrow> u64 \<times> ('x, 'm) st" where
  "pallet_next_nonce s = (nonce s, s\<lparr>nonce := nonce s + 1\<rparr>)"

definition pallet_request_receipt ::
  "('x, 'm) Config \<Rightarrow> Request \<Rightarrow> ('x, 'm) st \<Rightarrow> (Error, unit option) outcome" where
  "pallet_request_receipt cfg req s =
     (case hash_request (cf_keccak256 cfg) req of
        None \<Rightarrow> Panic
      | Some commitment \<Rightarrow> Ok (map_option (\<lambda>_. ()) (RequestReceipts_get commitment s)))"

definition pallet_response_receipt ::
  "('x, 'm) Config \<Rightarrow> Response \<Rightarrow> ('x, 'm) st \<Rightarrow> (Error, unit option) outcome" where
  "pallet_response_receipt cfg res s =
     (case hash_request (cf_keccak256 cfg) (Response_request res) of
        None \<Rightarrow> Panic
      | Some commitment \<Rightarrow> Ok (map_option (\<lambda>_. ()) (ResponseReceipts_get commitment s)))"

definition pallet_challenge_period :: "StateMachineId \<Rightarrow> ('x, 'm) st \<Rightarrow> duration option" where
  "pallet_challenge_period i s = map_option from_secs (challenge_periods s i)"

definition pallet_unbonding_period :: "ConsensusStateId \<Rightarrow> ('x, 'm) st \<Rightarrow> duration option" where
  "pallet_unbonding_period i s = map_option from_secs (unbonding_periods s i)"

section \<open>Writing\<close>

definition pallet_store_consensus_state_id ::
  "ConsensusStateId \<Rightarrow> ConsensusClientId \<Rightarrow> (('x, 'm) st, Error, unit) comp" where
  "pallet_store_consensus_state_id i c =
     modify (\<lambda>s. s\<lparr>consensus_state_client := (consensus_state_client s)(i \<mapsto> c)\<rparr>)"

definition pallet_store_consensus_state :: "ConsensusStateId \<Rightarrow> bytes \<Rightarrow> (('x, 'm) st, Error, unit) comp" where
  "pallet_store_consensus_state i b =
     modify (\<lambda>s. s\<lparr>consensus_states := (consensus_states s)(i \<mapsto> b)\<rparr>)"

definition pallet_store_unbonding_period :: "ConsensusStateId \<Rightarrow> u64 \<Rightarrow> (('x, 'm) st, Error, unit) comp" where
  "pallet_store_unbonding_period i p =
     modify (\<lambda>s. s\<lparr>unbonding_periods := (unbonding_periods s)(i \<mapsto> p)\<rparr>)"

definition pallet_store_consensus_update_time ::
  "ConsensusStateId \<Rightarrow> duration \<Rightarrow> (('x, 'm) st, Error, unit) comp" where
  "pallet_store_consensus_update_time i t =
     modify (\<lambda>s. s\<lparr>consensus_update_times := (consensus_update_times s)(i \<mapsto> as_secs t)\<rparr>)"

definition pallet_store_state_machine_update_time ::
  "StateMachineHeight \<Rightarrow> duration \<Rightarrow> (('x, 'm) st, Error, unit) comp" where
  "pallet_store_state_machine_update_time h t =
     modify (\<lambda>s. s\<lparr>state_machine_update_times := (state_machine_update_times s)(h \<mapsto> as_secs t)\<rparr>)"

definition pallet_store_state_machine_commitment ::
  "('x, 'm) Config \<Rightarrow> StateMachineHeight \<Rightarrow> StateCommitment \<Rightarrow> (('x, 'm) st, Error, unit) comp" where
  "pallet_store_state_machine_commitment cfg h c = modify (StateCommitments_insert cfg h c)"

definition pallet_delete_state_commitment ::
  "('x, 'm) Config \<Rightarrow> StateMachineHeight \<Rightarrow> (('x, 'm) st, Error, unit) comp" where
  "pallet_delete_state_commitment cfg height =
     modify (\<lambda>s. let s = StateCommitments_remove cfg height s in
       case latest_heights s (smh_id height) of
         Some latest \<Rightarrow>
           if latest = smh_height height
           then s\<lparr>latest_heights := (latest_heights s)(smh_id height \<mapsto> 1)\<rparr> else s
       | None \<Rightarrow> s)"

definition pallet_freeze_consensus_client :: "ConsensusStateId \<Rightarrow> (('x, 'm) st, Error, unit) comp" where
  "pallet_freeze_consensus_client i = modify (\<lambda>s. s\<lparr>frozen_clients := (frozen_clients s)(i := True)\<rparr>)"

definition pallet_store_latest_commitment_height :: "StateMachineHeight \<Rightarrow> (('x, 'm) st, Error, unit) comp" where
  "pallet_store_latest_commitment_height h =
     modify (\<lambda>s. s\<lparr>latest_heights := (latest_heights s)(smh_id h \<mapsto> smh_height h)\<rparr>)"

definition pallet_delete_request_commitment ::
  "('x, 'm) Config \<Rightarrow> Request \<Rightarrow> (('x, 'm) st, Error, bytes) comp" where
  "pallet_delete_request_commitment cfg req =
     bindC (expect (hash_request (cf_keccak256 cfg) req)) (\<lambda>hash.
     bindC (asks (RequestCommitments_get hash)) (\<lambda>found.
     bindC (ok_or found (Custom (ascii ''Request Commitment not found''))) (\<lambda>meta.
     bindC (modify (RequestCommitments_remove hash)) (\<lambda>_.
       ret (cf_encode_meta cfg meta)))))"

definition pallet_delete_response_commitment ::
  "('x, 'm) Config \<Rightarrow> PostResponse \<Rightarrow> (('x, 'm) st, Error, bytes) comp" where
  "pallet_delete_response_commitment cfg res =
     bindC (expect (hash_request (cf_keccak256 cfg) (PostResponse_request res))) (\<lambda>req_commitment.
     bindC (expect (hash_post_response (cf_keccak256 cfg) res)) (\<lambda>hash.
     bindC (asks (ResponseCommitments_get hash)) (\<lambda>found.
     bindC (ok_or found (Custom (ascii ''Response Commitment not found''))) (\<lambda>meta.
     bindC (modify (ResponseCommitments_remove hash)) (\<lambda>_.
     bindC (modify (\<lambda>s. s\<lparr>responded := (responded s)(req_commitment := None)\<rparr>)) (\<lambda>_.
       ret (cf_encode_meta cfg meta)))))))"

definition pallet_delete_request_receipt ::
  "('x, 'm) Config \<Rightarrow> Request \<Rightarrow> (('x, 'm) st, Error, bytes) comp" where
  "pallet_delete_request_receipt cfg req =
     bindC (expect (hash_request (cf_keccak256 cfg) req)) (\<lambda>req_commitment.
     bindC (asks (RequestReceipts_get req_commitment)) (\<lambda>found.
     bindC (ok_or found (Custom (ascii ''Request receipt not found''))) (\<lambda>relayer.
     bindC (modify (RequestReceipts_remove req_commitment)) (\<lambda>_.
       ret relayer))))"

definition pallet_delete_response_receipt ::
  "('x, 'm) Config \<Rightarrow> Response \<Rightarrow> (('x, 'm) st, Error, bytes) comp" where
  "pallet_delete_response_receipt cfg res =
     bindC (expect (hash_request (cf_keccak256 cfg) (Response_request res))) (\<lambda>hash.
     bindC (asks (ResponseReceipts_get hash)) (\<lambda>found.
     bindC (ok_or found (Custom (ascii ''Response receipt not found''))) (\<lambda>meta.
     bindC (modify (ResponseReceipts_remove hash)) (\<lambda>_.
       ret (rr_relayer meta)))))"

definition pallet_store_request_receipt ::
  "('x, 'm) Config \<Rightarrow> Request \<Rightarrow> bytes \<Rightarrow> (('x, 'm) st, Error, unit) comp" where
  "pallet_store_request_receipt cfg req signer =
     bindC (expect (hash_request (cf_keccak256 cfg) req)) (\<lambda>hash.
       modify (RequestReceipts_insert hash signer))"

definition pallet_store_response_receipt ::
  "('x, 'm) Config \<Rightarrow> Response \<Rightarrow> bytes \<Rightarrow> (('x, 'm) st, Error, unit) comp" where
  "pallet_store_response_receipt cfg res signer =
     bindC (expect (hash_request (cf_keccak256 cfg) (Response_request res))) (\<lambda>hash.
     bindC (expect (hash_response (cf_keccak256 cfg) res)) (\<lambda>response.
       modify (ResponseReceipts_insert hash \<lparr>rr_response = response, rr_relayer = signer\<rparr>)))"

definition pallet_store_challenge_period :: "StateMachineId \<Rightarrow> u64 \<Rightarrow> (('x, 'm) st, Error, unit) comp" where
  "pallet_store_challenge_period i p =
     modify (\<lambda>s. s\<lparr>challenge_periods := (challenge_periods s)(i \<mapsto> p)\<rparr>)"

definition pallet_store_request_commitment ::
  "('x, 'm) Config \<Rightarrow> Request \<Rightarrow> bytes \<Rightarrow> (('x, 'm) st, Error, unit) comp" where
  "pallet_store_request_commitment cfg req meta =
     bindC (expect (hash_request (cf_keccak256 cfg) req)) (\<lambda>hash.
     bindC (ok_or (cf_decode_meta cfg meta) (Custom (ascii ''Failed to decode leaf metadata''))) (\<lambda>leaf_meta.
       modify (RequestCommitments_insert hash leaf_meta)))"

definition pallet_store_response_commitment ::
  "('x, 'm) Config \<Rightarrow> PostResponse \<Rightarrow> bytes \<Rightarrow> (('x, 'm) st, Error, unit) comp" where
  "pallet_store_response_commitment cfg res meta =
     bindC (expect (hash_post_response (cf_keccak256 cfg) res)) (\<lambda>hash.
     bindC (expect (hash_request (cf_keccak256 cfg) (PostResponse_request res))) (\<lambda>req_commitment.
     bindC (ok_or (cf_decode_meta cfg meta) (Custom (ascii ''Failed to decode leaf metadata''))) (\<lambda>leaf_meta.
     bindC (modify (ResponseCommitments_insert hash leaf_meta)) (\<lambda>_.
       modify (\<lambda>s. s\<lparr>responded := (responded s)(req_commitment \<mapsto> True)\<rparr>)))))"

section \<open>The refunding router\<close>

definition fee_of_timeout ::
  "('x, 'm) Config \<Rightarrow> Timeout \<Rightarrow> (('x, 'm) st, anyhow, (account, balance) FeeMetadata option) comp" where
  "fee_of_timeout cfg timeout =
     (case timeout of
        TimeoutRequest request \<Rightarrow>
          bindC (expect (hash_request (cf_keccak256 cfg) request)) (\<lambda>commitment.
            asks (\<lambda>s. map_option rm_fee (RequestCommitments_get commitment s)))
      | TimeoutResponse response \<Rightarrow>
          bindC (expect (hash_post_response (cf_keccak256 cfg) response)) (\<lambda>commitment.
            asks (\<lambda>s. map_option rm_fee (ResponseCommitments_get commitment s))))"

definition withdraw_error :: "bytes \<Rightarrow> anyhow" where
  "withdraw_error err = AnyIsmp (Custom (ascii ''Error withdrawing request fees: '' @ err))"

definition refunding_on_timeout ::
  "('x, 'm) Config \<Rightarrow> ('x, 'm) st IsmpModule \<Rightarrow> Timeout \<Rightarrow> (('x, 'm) st, anyhow, unit) comp" where
  "refunding_on_timeout cfg inner timeout =
     bindC (attempt (on_timeout inner timeout)) (\<lambda>result.
     bindC (if isl result then ret ()
            else bindC (fee_of_timeout cfg timeout) (\<lambda>fee_metadata.
              case fee_metadata of
                None \<Rightarrow> ret ()
              | Some fee \<Rightarrow>
                  if 0 < fee_fee fee
                  then map_err withdraw_error
                         (on_env (cf_transfer cfg (cf_fee_account cfg) (fee_payer fee) (fee_fee fee)))
                  else ret ())) (\<lambda>_.
       propagate result))"

definition RefundingModule ::
  "('x, 'm) Config \<Rightarrow> ('x, 'm) st IsmpModule \<Rightarrow> ('x, 'm) st IsmpModule" where
  "RefundingModule cfg inner =
     \<lparr>on_accept = on_accept inner, on_response = on_response inner,
      on_timeout = refunding_on_timeout cfg inner\<rparr>"

definition RefundingRouter :: "('x, 'm) Config \<Rightarrow> ('x, 'm) st IsmpRouter" where
  "RefundingRouter cfg i s =
     (case cf_router cfg i s of
        Ok module \<Rightarrow> Ok (RefundingModule cfg module)
      | Err e \<Rightarrow> Err e
      | Panic \<Rightarrow> Panic)"

section \<open>The host\<close>

definition pallet_host :: "('x, 'm) Config \<Rightarrow> ('x, 'm) st IsmpHost" where
  "pallet_host cfg =
     \<lparr>h_keccak256 = cf_keccak256 cfg,
      h_host_state_machine = (\<lambda>s. cf_host_state_machine cfg),
      h_latest_commitment_height = pallet_latest_commitment_height,
      h_state_machine_commitment = pallet_state_machine_commitment cfg,
      h_consensus_update_time = pallet_consensus_update_time,
      h_state_machine_update_time = pallet_state_machine_update_time,
      h_consensus_client_id = pallet_consensus_client_id,
      h_consensus_state = pallet_consensus_state,
      h_timestamp = now,
      h_is_consensus_client_frozen = pallet_is_consensus_client_frozen,
      h_request_commitment = pallet_request_commitment,
      h_response_commitment = pallet_response_commitment,
      h_next_nonce = pallet_next_nonce,
      h_request_receipt = pallet_request_receipt cfg,
      h_response_receipt = pallet_response_receipt cfg,
      h_store_consensus_state_id = pallet_store_consensus_state_id,
      h_store_consensus_state = pallet_store_consensus_state,
      h_store_unbonding_period = pallet_store_unbonding_period,
      h_store_consensus_update_time = pallet_store_consensus_update_time,
      h_store_state_machine_update_time = pallet_store_state_machine_update_time,
      h_store_state_machine_commitment = pallet_store_state_machine_commitment cfg,
      h_delete_state_commitment = pallet_delete_state_commitment cfg,
      h_freeze_consensus_client = pallet_freeze_consensus_client,
      h_store_latest_commitment_height = pallet_store_latest_commitment_height,
      h_delete_request_commitment = pallet_delete_request_commitment cfg,
      h_delete_response_commitment = pallet_delete_response_commitment cfg,
      h_delete_request_receipt = pallet_delete_request_receipt cfg,
      h_delete_response_receipt = pallet_delete_response_receipt cfg,
      h_store_request_receipt = pallet_store_request_receipt cfg,
      h_store_response_receipt = pallet_store_response_receipt cfg,
      h_store_request_commitment = pallet_store_request_commitment cfg,
      h_store_response_commitment = pallet_store_response_commitment cfg,
      h_consensus_clients = (\<lambda>s. cf_consensus_clients cfg),
      h_challenge_period = pallet_challenge_period,
      h_store_challenge_period = pallet_store_challenge_period,
      h_allowed_proxy = (\<lambda>s. cf_coprocessor cfg),
      h_unbonding_period = pallet_unbonding_period,
      h_ismp_router = RefundingRouter cfg\<rparr>"

lemma pallet_host_simps [simp]:
  "h_keccak256 (pallet_host cfg) = cf_keccak256 cfg"
  "h_host_state_machine (pallet_host cfg) = (\<lambda>s. cf_host_state_machine cfg)"
  "h_latest_commitment_height (pallet_host cfg) = pallet_latest_commitment_height"
  "h_state_machine_commitment (pallet_host cfg) = pallet_state_machine_commitment cfg"
  "h_consensus_update_time (pallet_host cfg) = pallet_consensus_update_time"
  "h_state_machine_update_time (pallet_host cfg) = pallet_state_machine_update_time"
  "h_consensus_client_id (pallet_host cfg) = pallet_consensus_client_id"
  "h_consensus_state (pallet_host cfg) = pallet_consensus_state"
  "h_timestamp (pallet_host cfg) = now"
  "h_is_consensus_client_frozen (pallet_host cfg) = pallet_is_consensus_client_frozen"
  "h_request_commitment (pallet_host cfg) = pallet_request_commitment"
  "h_response_commitment (pallet_host cfg) = pallet_response_commitment"
  "h_next_nonce (pallet_host cfg) = pallet_next_nonce"
  "h_request_receipt (pallet_host cfg) = pallet_request_receipt cfg"
  "h_response_receipt (pallet_host cfg) = pallet_response_receipt cfg"
  "h_store_consensus_state_id (pallet_host cfg) = pallet_store_consensus_state_id"
  "h_store_consensus_state (pallet_host cfg) = pallet_store_consensus_state"
  "h_store_unbonding_period (pallet_host cfg) = pallet_store_unbonding_period"
  "h_store_consensus_update_time (pallet_host cfg) = pallet_store_consensus_update_time"
  "h_store_state_machine_update_time (pallet_host cfg) = pallet_store_state_machine_update_time"
  "h_store_state_machine_commitment (pallet_host cfg) = pallet_store_state_machine_commitment cfg"
  "h_delete_state_commitment (pallet_host cfg) = pallet_delete_state_commitment cfg"
  "h_freeze_consensus_client (pallet_host cfg) = pallet_freeze_consensus_client"
  "h_store_latest_commitment_height (pallet_host cfg) = pallet_store_latest_commitment_height"
  "h_delete_request_commitment (pallet_host cfg) = pallet_delete_request_commitment cfg"
  "h_delete_response_commitment (pallet_host cfg) = pallet_delete_response_commitment cfg"
  "h_delete_request_receipt (pallet_host cfg) = pallet_delete_request_receipt cfg"
  "h_delete_response_receipt (pallet_host cfg) = pallet_delete_response_receipt cfg"
  "h_store_request_receipt (pallet_host cfg) = pallet_store_request_receipt cfg"
  "h_store_response_receipt (pallet_host cfg) = pallet_store_response_receipt cfg"
  "h_store_request_commitment (pallet_host cfg) = pallet_store_request_commitment cfg"
  "h_store_response_commitment (pallet_host cfg) = pallet_store_response_commitment cfg"
  "h_consensus_clients (pallet_host cfg) = (\<lambda>s. cf_consensus_clients cfg)"
  "h_challenge_period (pallet_host cfg) = pallet_challenge_period"
  "h_store_challenge_period (pallet_host cfg) = pallet_store_challenge_period"
  "h_allowed_proxy (pallet_host cfg) = (\<lambda>s. cf_coprocessor cfg)"
  "h_unbonding_period (pallet_host cfg) = pallet_unbonding_period"
  "h_ismp_router (pallet_host cfg) = RefundingRouter cfg"
  by (simp_all add: pallet_host_def)

lemmas pallet_read_defs =
  pallet_latest_commitment_height_def pallet_state_machine_commitment_def pallet_consensus_update_time_def
  pallet_state_machine_update_time_def pallet_consensus_client_id_def pallet_consensus_state_def
  pallet_is_consensus_client_frozen_def pallet_request_commitment_def pallet_response_commitment_def
  pallet_request_receipt_def pallet_response_receipt_def pallet_challenge_period_def pallet_unbonding_period_def

lemmas pallet_write_defs =
  pallet_store_consensus_state_id_def pallet_store_consensus_state_def pallet_store_unbonding_period_def
  pallet_store_consensus_update_time_def pallet_store_state_machine_update_time_def
  pallet_store_state_machine_commitment_def pallet_delete_state_commitment_def
  pallet_freeze_consensus_client_def pallet_store_latest_commitment_height_def
  pallet_delete_request_commitment_def pallet_delete_response_commitment_def
  pallet_delete_request_receipt_def pallet_delete_response_receipt_def pallet_store_request_receipt_def
  pallet_store_response_receipt_def pallet_store_challenge_period_def pallet_store_request_commitment_def
  pallet_store_response_commitment_def

section \<open>The pallet is a host\<close>

lemma pallet_commitment_store: "commitment_store (pallet_host cfg) (state_commitment_storage_key cfg)"
  by unfold_locales
     (auto simp: pallet_read_defs pallet_write_defs comp_ok child_trie_defs
        split: option.split child_value.split)

lemma pallet_receipt_store: "receipt_store (pallet_host cfg)"
proof
  fix r s
  assume "h_request_receipt (pallet_host cfg) r s = Ok (Some ())"
  then show "\<exists>signer s'. h_delete_request_receipt (pallet_host cfg) r s = (Ok signer, s')"
    by (auto simp: pallet_read_defs pallet_write_defs comp_ok split: option.splits)
qed (auto simp: pallet_read_defs pallet_write_defs comp_ok child_trie_defs snd_bindC comp_defs
      split: option.splits outcome.splits)

lemma pallet_outbox_store: "outbox_store (pallet_host cfg)"
  by unfold_locales
     (auto simp: pallet_read_defs pallet_write_defs comp_ok child_trie_defs snd_bindC comp_defs
        split: option.splits outcome.splits)

interpretation ph: ismp_host "pallet_host cfg" "state_commitment_storage_key cfg" for cfg
  by (intro ismp_host.intro pallet_commitment_store pallet_receipt_store pallet_outbox_store)

end
