(* ===== verification/Pallet_Ismp.thy ===== *)
theory Pallet_Ismp
  imports Pallet_Host "HOL-Library.List_Lexorder"
begin

text \<open>
  The calls of the ISMP pallet (\<^verbatim>\<open>modules/ismp/pallets/pallet/src\<close>: \<^verbatim>\<open>lib.rs\<close>,
  \<^verbatim>\<open>impls.rs\<close>, \<^verbatim>\<open>dispatcher.rs\<close>, \<^verbatim>\<open>events.rs\<close>,
  \<^verbatim>\<open>errors.rs\<close>): dispatching requests and responses with their fees, handling batches of
  messages, the administrative calls, funding a message, the check of an unsigned transaction and
  the hook at the end of a block. Weights and logging are left out.
\<close>

section \<open>Events\<close>

definition deposit_event :: "PalletEvent \<Rightarrow> (('x, 'm) st, 'e, unit) comp" where
  "deposit_event e = modify (\<lambda>s. s\<lparr>events := events s @ [e]\<rparr>)"

text \<open>\<^verbatim>\<open>From<ismp::events::Event>\<close>; \<open>None\<close> is \<^verbatim>\<open>unimplemented!\<close>.\<close>

fun PalletEvent_from :: "Event \<Rightarrow> PalletEvent option" where
  "PalletEvent_from (EvPostRequestHandled h) = Some (PePostRequestHandled h)"
| "PalletEvent_from (EvPostResponseHandled h) = Some (PePostResponseHandled h)"
| "PalletEvent_from (EvPostRequestTimeoutHandled h) = Some (PePostRequestTimeoutHandled h)"
| "PalletEvent_from (EvPostResponseTimeoutHandled h) = Some (PePostResponseTimeoutHandled h)"
| "PalletEvent_from (EvGetRequestHandled h) = Some (PeGetRequestHandled h)"
| "PalletEvent_from (EvGetRequestTimeoutHandled h) = Some (PeGetRequestTimeoutHandled h)"
| "PalletEvent_from (EvStateMachineUpdated i h) = Some (PeStateMachineUpdated i h)"
| "PalletEvent_from (EvStateCommitmentVetoed h f) = Some (PeStateCommitmentVetoed h (take 32 f))"
| "PalletEvent_from (EvPostRequest _) = None"
| "PalletEvent_from (EvPostResponse _) = None"
| "PalletEvent_from (EvGetRequest _) = None"
| "PalletEvent_from (EvGetResponse _) = None"

definition HandlingError_from :: "('x, 'm) Config \<Rightarrow> anyhow \<Rightarrow> bytes" where
  "HandlingError_from cfg e = take 1000 (cf_error_to_string cfg e)"

section \<open>Dispatching messages\<close>

definition leaf_index_and_pos :: "LeafMetadata \<Rightarrow> LeafIndexAndPos" where
  "leaf_index_and_pos l = \<lparr>leaf_index = lm_index l, leaf_pos = lm_position l\<rparr>"

definition mmr_push :: "('x, 'm) Config \<Rightarrow> Leaf \<Rightarrow> (('x, 'm) st, 'e, LeafMetadata) comp" where
  "mmr_push cfg leaf = on_env (\<lambda>x. case cf_mmr_push cfg leaf x of (l, x') \<Rightarrow> (Ok l, x'))"

definition pallet_dispatch_request ::
  "('x, 'm) Config \<Rightarrow> Request \<Rightarrow> (account, balance) FeeMetadata \<Rightarrow> (('x, 'm) st, Error, h256) comp" where
  "pallet_dispatch_request cfg request meta =
     bindC (expect (hash_request (cf_keccak256 cfg) request)) (\<lambda>commitment.
     bindC (asks (RequestCommitments_contains_key commitment)) (\<lambda>known.
     bindC (ensure (\<not> known) (Custom (ascii ''Duplicate request''))) (\<lambda>_.
     bindC (mmr_push cfg (LeafRequest request)) (\<lambda>leaf.
     bindC (deposit_event (PeRequest (Request_dest_chain request) (Request_source_chain request)
              (Request_nonce request) commitment)) (\<lambda>_.
     bindC (modify (RequestCommitments_insert commitment
              \<lparr>rm_mmr = leaf_index_and_pos leaf, rm_fee = meta, rm_claimed = False\<rparr>)) (\<lambda>_.
       ret commitment))))))"

definition pallet_dispatch_response ::
  "('x, 'm) Config \<Rightarrow> Response \<Rightarrow> (account, balance) FeeMetadata \<Rightarrow> (('x, 'm) st, Error, h256) comp" where
  "pallet_dispatch_response cfg response meta =
     bindC (expect (hash_request (cf_keccak256 cfg) (Response_request response))) (\<lambda>req_commitment.
     bindC (asks (\<lambda>s. responded s req_commitment \<noteq> None)) (\<lambda>answered.
     bindC (ensure (\<not> answered) (Custom (ascii ''Request has been responded to''))) (\<lambda>_.
     bindC (expect (hash_response (cf_keccak256 cfg) response)) (\<lambda>commitment.
     bindC (mmr_push cfg (LeafResponse response)) (\<lambda>leaf.
     bindC (deposit_event (PeResponse (Response_dest_chain response) (Response_source_chain response)
              (Response_nonce response) commitment req_commitment)) (\<lambda>_.
     bindC (modify (ResponseCommitments_insert commitment
              \<lparr>rm_mmr = leaf_index_and_pos leaf, rm_fee = meta, rm_claimed = False\<rparr>)) (\<lambda>_.
     bindC (modify (\<lambda>s. s\<lparr>responded := (responded s)(req_commitment \<mapsto> True)\<rparr>)) (\<lambda>_.
       ret commitment))))))))"

definition collect_fee :: "('x, 'm) Config \<Rightarrow> (account, balance) FeeMetadata \<Rightarrow> (('x, 'm) st, anyhow, unit) comp" where
  "collect_fee cfg fee =
     (if fee_fee fee \<noteq> 0
      then map_err withdraw_error (on_env (cf_transfer cfg (fee_payer fee) (cf_fee_account cfg) (fee_fee fee)))
      else ret ())"

text \<open>Saturating and wrapping addition on \<^verbatim>\<open>u64\<close>.\<close>

definition saturating_add64 :: "u64 \<Rightarrow> u64 \<Rightarrow> u64" where
  "saturating_add64 a b = (if a + b < a then - 1 else a + b)"

definition next_nonce :: "(('x, 'm) st, 'e, u64) comp" where
  "next_nonce = (\<lambda>s. case pallet_next_nonce s of (n, s') \<Rightarrow> (Ok n, s'))"

definition prepare_request :: "('x, 'm) Config \<Rightarrow> DispatchRequest \<Rightarrow> (('x, 'm) st, anyhow, Request) comp" where
  "prepare_request cfg request =
     (case request of
        DispGet g \<Rightarrow>
          bindC next_nonce (\<lambda>n.
          bindC (asks now) (\<lambda>t.
            ret (ReqGet
              \<lparr>gr_source = cf_host_state_machine cfg, gr_dest = dg_dest g, gr_nonce = n,
               gr_from = dg_from g, gr_keys = dg_keys g, gr_height = dg_height g, gr_context = dg_context g,
               gr_timeout_timestamp = (if dg_timeout g = 0 then 0 else as_secs t + dg_timeout g)\<rparr>)))
      | DispPost p \<Rightarrow>
          bindC next_nonce (\<lambda>n.
          bindC (asks now) (\<lambda>t.
            ret (ReqPost
              \<lparr>pr_source = cf_host_state_machine cfg, pr_dest = dp_dest p, pr_nonce = n,
               pr_from = dp_from p, pr_to = dp_to p,
               pr_timeout_timestamp = (if dp_timeout p = 0 then 0 else saturating_add64 (as_secs t) (dp_timeout p)),
               pr_body = dp_body p\<rparr>))))"

definition dispatch_request ::
  "('x, 'm) Config \<Rightarrow> DispatchRequest \<Rightarrow> (account, balance) FeeMetadata \<Rightarrow> (('x, 'm) st, anyhow, h256) comp" where
  "dispatch_request cfg request fee =
     bindC (collect_fee cfg fee) (\<lambda>_.
     bindC (prepare_request cfg request) (\<lambda>req.
       map_err AnyIsmp (pallet_dispatch_request cfg req fee)))"

definition dispatch_response ::
  "('x, 'm) Config \<Rightarrow> PostResponse \<Rightarrow> (account, balance) FeeMetadata \<Rightarrow> (('x, 'm) st, anyhow, h256) comp" where
  "dispatch_response cfg response fee =
     bindC (collect_fee cfg fee) (\<lambda>_.
     bindC (expect (hash_request (cf_keccak256 cfg) (PostResponse_request response))) (\<lambda>req_commitment.
     bindC (asks (RequestReceipts_contains_key req_commitment)) (\<lambda>received.
     bindC (ensure received (AnyIsmp (UnknownRequest (Meta_of_request (PostResponse_request response))))) (\<lambda>_.
       map_err AnyIsmp (pallet_dispatch_response cfg (ResPost response) fee)))))"

section \<open>Handling messages\<close>

datatype CallError =
    BadOrigin
  | CurrencyError bytes
  | InvalidMessage
  | MessageNotFound
  | ConsensusClientCreationFailed
  | UnbondingPeriodUpdateFailed
  | ChallengePeriodUpdateFailed

fun result_events :: "MessageResult \<Rightarrow> DispatchResult list" where
  "result_events (MrRequest results) = results"
| "result_events (MrResponse results) = results"
| "result_events (MrTimeout results) = results"
| "result_events (MrConsensusMessage evs) = map Inr evs"
| "result_events (MrFrozenClient _) = []"

definition handle_incoming_messages ::
  "('x, 'm) Config \<Rightarrow> Message list \<Rightarrow> (('x, 'm) st, anyhow, Event list) comp" where
  "handle_incoming_messages cfg messages =
     bindC (collect (handle_incoming_message (pallet_host cfg)) messages) (\<lambda>results.
       collect propagate (concat (map result_events results)))"

definition deposit_events :: "Event list \<Rightarrow> (('x, 'm) st, CallError, unit) comp" where
  "deposit_events = for_each (\<lambda>ev. bindC (expect (PalletEvent_from ev)) deposit_event)"

definition handle_messages :: "('x, 'm) Config \<Rightarrow> Message list \<Rightarrow> (('x, 'm) st, CallError, unit) comp" where
  "handle_messages cfg messages =
     bindC (attempt (handle_incoming_messages cfg messages)) (\<lambda>handled.
       case handled of
         Inl err \<Rightarrow>
           bindC (deposit_event (PeErrors [HandlingError_from cfg err])) (\<lambda>_. fail InvalidMessage)
       | Inr evs \<Rightarrow> deposit_events evs)"

definition handle_unsigned ::
  "('x, 'm) Config \<Rightarrow> Origin \<Rightarrow> Message list \<Rightarrow> (('x, 'm) st, CallError, unit) comp" where
  "handle_unsigned cfg origin messages =
     transactional (bindC (ensure (origin = OriginNone) BadOrigin) (\<lambda>_. handle_messages cfg messages))"

definition ensure_signed :: "Origin \<Rightarrow> 'e \<Rightarrow> ('s, 'e, account) comp" where
  "ensure_signed origin e = (case origin of OriginSigned a \<Rightarrow> ret a | _ \<Rightarrow> fail e)"

definition handle_signed ::
  "('x, 'm) Config \<Rightarrow> Origin \<Rightarrow> Message list \<Rightarrow> (('x, 'm) st, CallError, unit) comp" where
  "handle_signed cfg origin messages =
     transactional (bindC (ensure_signed origin BadOrigin) (\<lambda>_. handle_messages cfg messages))"

section \<open>Administrative calls and funding\<close>

text \<open>Every call runs in a storage layer that an error rolls back.\<close>

definition create_consensus_client ::
  "('x, 'm) Config \<Rightarrow> Origin \<Rightarrow> CreateConsensusState \<Rightarrow> (('x, 'm) st, CallError, unit) comp" where
  "create_consensus_client cfg origin message = transactional
     (bindC (ensure (cf_admin_origin cfg origin) BadOrigin) (\<lambda>_.
      bindC (map_err (\<lambda>_. ConsensusClientCreationFailed) (create_client (pallet_host cfg) message)) (\<lambda>result.
        deposit_event (PeConsensusClientCreated (cccr_consensus_client_id result)))))"

definition update_consensus_state ::
  "('x, 'm) Config \<Rightarrow> Origin \<Rightarrow> UpdateConsensusState \<Rightarrow> (('x, 'm) st, CallError, unit) comp" where
  "update_consensus_state cfg origin message = transactional
     (let H = pallet_host cfg; csid = ucs_consensus_state_id message in
      bindC (ensure (cf_admin_origin cfg origin) BadOrigin) (\<lambda>_.
      bindC (case ucs_unbonding_period message of
               Some unbonding_period \<Rightarrow>
                 map_err (\<lambda>_. UnbondingPeriodUpdateFailed) (h_store_unbonding_period H csid unbonding_period)
             | None \<Rightarrow> ret ()) (\<lambda>_.
        for_each (\<lambda>(sm, period).
          map_err (\<lambda>_. UnbondingPeriodUpdateFailed)
            (h_store_challenge_period H \<lparr>state_id = sm, consensus_state_id = csid\<rparr> period))
          (ucs_challenge_periods message))))"

definition add_fee :: "balance \<Rightarrow> RequestMetadata \<Rightarrow> RequestMetadata" where
  "add_fee amount meta = meta\<lparr>rm_fee := (rm_fee meta)\<lparr>fee_fee := fee_fee (rm_fee meta) + amount\<rparr>\<rparr>"

definition fund_message ::
  "('x, 'm) Config \<Rightarrow> Origin \<Rightarrow> FundMessageParams \<Rightarrow> (('x, 'm) st, CallError, unit) comp" where
  "fund_message cfg origin message = transactional
     (bindC (ensure_signed origin BadOrigin) (\<lambda>account.
      bindC (asks (\<lambda>s. case fm_commitment message of
               McRequest commitment \<Rightarrow> RequestCommitments_get commitment s
             | McResponse commitment \<Rightarrow> ResponseCommitments_get commitment s)) (\<lambda>found.
      bindC (ok_or found MessageNotFound) (\<lambda>metadata.
      bindC (map_err CurrencyError
               (on_env (cf_transfer cfg account (cf_fee_account cfg) (fm_amount message)))) (\<lambda>_.
        modify (case fm_commitment message of
            McRequest commitment \<Rightarrow> RequestCommitments_insert commitment (add_fee (fm_amount message) metadata)
          | McResponse commitment \<Rightarrow> ResponseCommitments_insert commitment (add_fee (fm_amount message) metadata)))))))"

section \<open>Unsigned transactions\<close>

datatype TransactionValidityError = InvalidCall | BadProof

record ValidTransaction =
  vt_priority :: u64
  vt_requires :: "bytes list"
  vt_provides :: "bytes list"
  vt_longevity :: u64
  vt_propagate :: bool

fun message_hashes :: "('x, 'm) Config \<Rightarrow> Message \<Rightarrow> h256 list option" where
  "message_hashes cfg (MsgConsensus m) = Some [cf_keccak256 cfg (cm_consensus_proof m)]"
| "message_hashes cfg (MsgFraudProof m) =
     Some [cf_keccak256 cfg (fp_proof_1 m), cf_keccak256 cfg (fp_proof_2 m)]"
| "message_hashes cfg (MsgRequest m) =
     those (map (\<lambda>p. hash_request (cf_keccak256 cfg) (ReqPost p)) (rqm_requests m))"
| "message_hashes cfg (MsgResponse m) = those (map (hash_request (cf_keccak256 cfg)) (ResponseMessage_requests m))"
| "message_hashes cfg (MsgTimeout m) = those (map (hash_request (cf_keccak256 cfg)) (TimeoutMessage_requests m))"

fun validation_results :: "MessageResult \<Rightarrow> (anyhow + unit) list" where
  "validation_results (MrConsensusMessage _) = [Inr ()]"
| "validation_results (MrFrozenClient _) = [Inr ()]"
| "validation_results r = map (map_sum id (\<lambda>_. ())) (result_events r)"

definition validate_unsigned ::
  "('x, 'm) Config \<Rightarrow> Message list \<Rightarrow> (('x, 'm) st, TransactionValidityError, ValidTransaction) comp" where
  "validate_unsigned cfg messages =
     bindC (map_err (\<lambda>_. BadProof) (collect (handle_incoming_message (pallet_host cfg)) messages)) (\<lambda>results.
     bindC (map_err (\<lambda>_. BadProof) (collect propagate (concat (map validation_results results)))) (\<lambda>_.
     bindC (expect (those (map (message_hashes cfg) messages))) (\<lambda>requests.
     (let msg_hash = be_bytes 32 (cf_keccak256 cfg (cf_encode_hashes cfg (sort requests))) in
      ret \<lparr>vt_priority = 100, vt_requires = [], vt_provides = [msg_hash], vt_longevity = 25,
           vt_propagate = True\<rparr>))))"

section \<open>The end of a block\<close>

definition on_finalize :: "('x, 'm) Config \<Rightarrow> ('x, 'm) st \<Rightarrow> ('x, 'm) st" where
  "on_finalize cfg s =
     (let root = cf_child_root cfg (child_trie s); s = s\<lparr>child_trie_root := root\<rparr> in
      case cf_mmr_finalize cfg (env s) of
        (Inl _, x) \<Rightarrow> s\<lparr>env := x\<rparr>
      | (Inr mmr_root, x) \<Rightarrow> s\<lparr>env := cf_deposit_digest cfg root mmr_root x\<rparr>)"

section \<open>Looking up dispatched messages\<close>

datatype ProofKeys = PkRequests "h256 list" | PkResponses "h256 list"

record MmrProof =
  mp_leaf_indices_and_pos :: "LeafIndexAndPos list"
  mp_leaf_count :: u64
  mp_items :: "h256 list"

definition leaf_not_found :: bytes where
  "leaf_not_found = ascii ''LeafNotFound''"

definition generate_proof ::
  "('x, 'm) Config \<Rightarrow> ProofKeys \<Rightarrow> (('x, 'm) st, bytes, Leaf list \<times> MmrProof) comp" where
  "generate_proof cfg keys =
     bindC (case keys of
         PkRequests commitments \<Rightarrow> collect (\<lambda>c.
           bindC (asks (RequestCommitments_get c)) (\<lambda>m. bindC (ok_or m leaf_not_found) (\<lambda>meta. ret (rm_mmr meta)))) commitments
       | PkResponses commitments \<Rightarrow> collect (\<lambda>c.
           bindC (asks (ResponseCommitments_get c)) (\<lambda>m. bindC (ok_or m leaf_not_found) (\<lambda>meta. ret (rm_mmr meta)))) commitments)
       (\<lambda>positions.
     bindC (asks (\<lambda>s. cf_mmr_generate_proof cfg (map leaf_index positions) (env s))) (\<lambda>generated.
     bindC (propagate generated) (\<lambda>(leaves, leaf_count, items).
       ret (leaves, \<lparr>mp_leaf_indices_and_pos = positions, mp_leaf_count = leaf_count, mp_items = items\<rparr>))))"

definition lookup_request :: "('x, 'm) Config \<Rightarrow> h256 \<Rightarrow> ('x, 'm) st \<Rightarrow> Request option" where
  "lookup_request cfg commitment s =
     (case RequestCommitments_get commitment s of
        None \<Rightarrow> None
      | Some meta \<Rightarrow>
          (case cf_mmr_get_leaf cfg (leaf_pos (rm_mmr meta)) (env s) of
             Inr (Some (LeafRequest req)) \<Rightarrow> Some req
           | _ \<Rightarrow>
               (case cf_offchain_get cfg commitment (env s) of
                  None \<Rightarrow> None
                | Some elem \<Rightarrow>
                    (case cf_decode_leaf cfg elem of Some (LeafRequest req) \<Rightarrow> Some req | _ \<Rightarrow> None))))"

definition lookup_response :: "('x, 'm) Config \<Rightarrow> h256 \<Rightarrow> ('x, 'm) st \<Rightarrow> Response option" where
  "lookup_response cfg commitment s =
     (case ResponseCommitments_get commitment s of
        None \<Rightarrow> None
      | Some meta \<Rightarrow>
          (case cf_mmr_get_leaf cfg (leaf_pos (rm_mmr meta)) (env s) of
             Inr (Some (LeafResponse res)) \<Rightarrow> Some res
           | _ \<Rightarrow>
               (case cf_offchain_get cfg commitment (env s) of
                  None \<Rightarrow> None
                | Some elem \<Rightarrow>
                    (case cf_decode_leaf cfg elem of Some (LeafResponse res) \<Rightarrow> Some res | _ \<Rightarrow> None))))"

fun Event_try_from :: "('x, 'm) Config \<Rightarrow> ('x, 'm) st \<Rightarrow> PalletEvent \<Rightarrow> Event option" where
  "Event_try_from cfg s (PeStateMachineUpdated i h) = Some (EvStateMachineUpdated i h)"
| "Event_try_from cfg s (PeResponse _ _ _ commitment _) =
     (case lookup_response cfg commitment s of
        None \<Rightarrow> None
      | Some (ResPost r) \<Rightarrow> Some (EvPostResponse r)
      | Some (ResGet r) \<Rightarrow> Some (EvGetResponse r))"
| "Event_try_from cfg s (PeRequest _ _ _ commitment) =
     (case lookup_request cfg commitment s of
        None \<Rightarrow> None
      | Some (ReqPost r) \<Rightarrow> Some (EvPostRequest r)
      | Some (ReqGet r) \<Rightarrow> Some (EvGetRequest r))"
| "Event_try_from cfg s (PeGetRequestTimeoutHandled h) = Some (EvGetRequestTimeoutHandled h)"
| "Event_try_from cfg s (PeGetRequestHandled h) = Some (EvGetRequestHandled h)"
| "Event_try_from cfg s (PePostRequestHandled h) = Some (EvPostRequestHandled h)"
| "Event_try_from cfg s (PePostResponseHandled h) = Some (EvPostResponseHandled h)"
| "Event_try_from cfg s (PePostRequestTimeoutHandled h) = Some (EvPostRequestTimeoutHandled h)"
| "Event_try_from cfg s (PePostResponseTimeoutHandled h) = Some (EvPostResponseTimeoutHandled h)"
| "Event_try_from cfg s (PeStateCommitmentVetoed h f) = Some (EvStateCommitmentVetoed h f)"
| "Event_try_from cfg s (PeConsensusClientCreated _) = None"
| "Event_try_from cfg s (PeConsensusClientFrozen _) = None"
| "Event_try_from cfg s (PeErrors _) = None"

definition block_events :: "('x, 'm) Config \<Rightarrow> ('x, 'm) st \<Rightarrow> Event list" where
  "block_events cfg s = List.map_filter (Event_try_from cfg s) (events s)"

definition lookup_requests :: "('x, 'm) Config \<Rightarrow> h256 list \<Rightarrow> ('x, 'm) st \<Rightarrow> Request list" where
  "lookup_requests cfg commitments s = List.map_filter (\<lambda>c. lookup_request cfg c s) commitments"

definition lookup_responses :: "('x, 'm) Config \<Rightarrow> h256 list \<Rightarrow> ('x, 'm) st \<Rightarrow> Response list" where
  "lookup_responses cfg commitments s = List.map_filter (\<lambda>c. lookup_response cfg c s) commitments"

section \<open>Inverting a dispatch\<close>

lemma on_env_Ok:
  "on_env m s = (Ok a, s') \<longleftrightarrow> (\<exists>x. m (env s) = (Ok a, x) \<and> s' = s\<lparr>env := x\<rparr>)"
  by (auto simp: on_env_def split: prod.splits)

lemma collect_fee_Ok:
  "collect_fee cfg fee s = (Ok u, s') \<Longrightarrow> \<exists>x. s' = s\<lparr>env := x\<rparr> \<and>
     (fee_fee fee = 0 \<and> x = env s \<or> cf_transfer cfg (fee_payer fee) (cf_fee_account cfg) (fee_fee fee) (env s) = (Ok (), x))"
proof (cases "fee_fee fee = 0")
  case True
  moreover assume "collect_fee cfg fee s = (Ok u, s')"
  ultimately have "s' = s" by (simp add: collect_fee_def comp_ok)
  with True show ?thesis by (intro exI [of _ "env s"]) simp
next
  case False
  moreover assume "collect_fee cfg fee s = (Ok u, s')"
  ultimately show ?thesis by (auto simp: collect_fee_def comp_ok on_env_Ok)
qed

lemma prepare_request_Ok:
  assumes "prepare_request cfg req s = (Ok r, s')"
  shows "s' = s\<lparr>nonce := nonce s + 1\<rparr>" "Request_source_chain r = cf_host_state_machine cfg"
    "Request_nonce r = nonce s"
  using assms
  by (auto simp: prepare_request_def comp_app next_nonce_def pallet_next_nonce_def split: DispatchRequest.splits)

lemma mmr_push_run: "mmr_push cfg l s = (case cf_mmr_push cfg l (env s) of (k, x) \<Rightarrow> (Ok k, s\<lparr>env := x\<rparr>))"
  by (simp add: mmr_push_def on_env_def split: prod.split)

lemma pallet_dispatch_request_Ok:
  assumes "pallet_dispatch_request cfg r fee s = (Ok c, s')"
  shows "hash_request (cf_keccak256 cfg) r = Some c" "\<not> RequestCommitments_contains_key c s"
    "\<exists>l x. cf_mmr_push cfg (LeafRequest r) (env s) = (l, x) \<and>
       s' = RequestCommitments_insert c
              \<lparr>rm_mmr = leaf_index_and_pos l, rm_fee = fee, rm_claimed = False\<rparr>
              (s\<lparr>env := x, events := events s @ [PeRequest (Request_dest_chain r) (Request_source_chain r) (Request_nonce r) c]\<rparr>)"
  using assms
  by (auto simp: pallet_dispatch_request_def comp_ok deposit_event_def mmr_push_run split: prod.splits)

lemma dispatch_request_Ok:
  assumes "dispatch_request cfg req fee s = (Ok c, s')"
  shows "\<exists>r m. hash_request (cf_keccak256 cfg) r = Some c \<and>
    Request_source_chain r = cf_host_state_machine cfg \<and> Request_nonce r = nonce s \<and> nonce s' = nonce s + 1 \<and>
    (fee_fee fee = 0 \<or>
     (\<exists>x. cf_transfer cfg (fee_payer fee) (cf_fee_account cfg) (fee_fee fee) (env s) = (Ok (), x))) \<and>
    RequestCommitments_get c s = None \<and>
    RequestCommitments_get c s' = Some m \<and> rm_fee m = fee \<and> \<not> rm_claimed m \<and>
    events s' = events s @ [PeRequest (Request_dest_chain r) (Request_source_chain r) (Request_nonce r) c] \<and>
    (\<forall>c'. c' \<noteq> c \<longrightarrow> RequestCommitments_get c' s' = RequestCommitments_get c' s) \<and>
    (\<forall>c'. RequestReceipts_get c' s' = RequestReceipts_get c' s)"
proof -
  from assms obtain s1 s2 r where
    f: "collect_fee cfg fee s = (Ok (), s1)" and p: "prepare_request cfg req s1 = (Ok r, s2)" and
    d: "pallet_dispatch_request cfg r fee s2 = (Ok c, s')"
    unfolding dispatch_request_def by (auto simp: comp_ok)
  from collect_fee_Ok [OF f] obtain x where
    s1: "s1 = s\<lparr>env := x\<rparr>" and
    fee: "fee_fee fee = 0 \<or>
      (\<exists>x. cf_transfer cfg (fee_payer fee) (cf_fee_account cfg) (fee_fee fee) (env s) = (Ok (), x))" by blast
  note pr = prepare_request_Ok [OF p]
  note dr = pallet_dispatch_request_Ok [OF d]
  from dr(3) pr(1) s1 obtain l y where
    s': "s' = RequestCommitments_insert c
              \<lparr>rm_mmr = leaf_index_and_pos l, rm_fee = fee, rm_claimed = False\<rparr>
              (s\<lparr>nonce := nonce s + 1, env := y,
                 events := events s @ [PeRequest (Request_dest_chain r) (Request_source_chain r) (Request_nonce r) c]\<rparr>)"
    by auto
  have "RequestCommitments_get c s = None"
    using dr(2) pr(1) s1 by (auto simp: RequestCommitments_get_def RequestCommitments_contains_key_def split: option.splits)
  then show ?thesis using dr(1) pr(2,3) s1 fee s' by (auto simp: child_trie_defs)
qed

lemma pallet_dispatch_response_Ok:
  assumes "pallet_dispatch_response cfg r fee s = (Ok c, s')"
  shows "\<exists>rc. hash_request (cf_keccak256 cfg) (Response_request r) = Some rc \<and> responded s rc = None \<and>
    hash_response (cf_keccak256 cfg) r = Some c \<and> responded s' rc = Some True \<and>
    (\<exists>m. ResponseCommitments_get c s' = Some m \<and> rm_fee m = fee \<and> \<not> rm_claimed m)"
  using assms
  by (auto simp: pallet_dispatch_response_def comp_ok deposit_event_def mmr_push_run child_trie_defs split: prod.splits)

end
