(* ===== verification/Sample_Runtime.thy ===== *)
theory Sample_Runtime
  imports Pallet_Ismp
begin

text \<open>
  A small runtime on which the properties are instantiated: an executable stand-in for every
  parameter of the pallet (the hash, the codec, the currency, the tree, one consensus client and
  three modules) and a chain state with one trusted commitment of the chain \<^verbatim>\<open>EVM-1\<close>. None of
  these stands for code of the repository.
\<close>

type_synonym sample_env = "(account \<Rightarrow> balance) \<times> u64"
type_synonym sample_st = "(sample_env, unit) st"

definition sample_hash :: "bytes \<Rightarrow> h256" where
  "sample_hash bs = of_nat (length bs)"

definition sample_csid :: ConsensusStateId where
  "sample_csid = (69, 84, 72, 48)"

definition sample_id :: StateMachineId where
  "sample_id = \<lparr>state_id = Evm 1, consensus_state_id = sample_csid\<rparr>"

definition sample_height :: "u64 \<Rightarrow> StateMachineHeight" where
  "sample_height h = \<lparr>smh_id = sample_id, smh_height = h\<rparr>"

definition sample_encode_height :: "StateMachineHeight \<Rightarrow> bytes" where
  "sample_encode_height h = (if smh_id h = sample_id then replicate (Suc (unat (smh_height h))) 0 else [])"

definition sample_meta :: "balance \<Rightarrow> RequestMetadata" where
  "sample_meta fee =
     \<lparr>rm_mmr = \<lparr>leaf_index = 0, leaf_pos = 0\<rparr>, rm_fee = \<lparr>fee_payer = 77, fee_fee = fee\<rparr>, rm_claimed = False\<rparr>"

text \<open>A codec for the metadata that occurs in the samples.\<close>

definition sample_encode_meta :: "RequestMetadata \<Rightarrow> bytes" where
  "sample_encode_meta m = (if m = sample_meta 30 then [1] else [0])"

definition sample_decode_meta :: "bytes \<Rightarrow> RequestMetadata option" where
  "sample_decode_meta bs = (if bs = [1] then Some (sample_meta 30) else None)"

definition sample_transfer :: "account \<Rightarrow> account \<Rightarrow> balance \<Rightarrow> (sample_env, bytes, unit) comp" where
  "sample_transfer a b n = (\<lambda>(bal, c).
     if bal a < n then (Err [1], (bal, c))
     else let bal' = bal(a := bal a - n) in (Ok (), (bal'(b := bal' b + n), c)))"

definition sample_push :: "Leaf \<Rightarrow> sample_env \<Rightarrow> LeafMetadata \<times> sample_env" where
  "sample_push l = (\<lambda>(bal, c). (\<lparr>lm_index = c, lm_position = 2 * c\<rparr>, (bal, c + 1)))"

definition sample_sm_client :: "(sample_env, 'm) st StateMachineClient" where
  "sample_sm_client =
     \<lparr>verify_membership = (\<lambda>s items c p.
        if proof_proof p = [] then Err (MembershipProofVerificationFailed []) else Ok ()),
      receipts_state_trie_key = (\<lambda>s items. Ok [[7]]),
      verify_state_proof = (\<lambda>s ks c p. Ok (map (\<lambda>k. (k, None)) ks))\<rparr>"

definition sample_commitment :: "u64 \<Rightarrow> StateCommitment" where
  "sample_commitment t = \<lparr>sc_timestamp = t, sc_overlay_root = None, sc_state_root = 5\<rparr>"

definition sample_finalized :: "u64 \<Rightarrow> StateCommitmentHeight" where
  "sample_finalized h = \<lparr>sch_commitment = sample_commitment (9990 + h), sch_height = h\<rparr>"

text \<open>A proof that is not empty finalizes the heights 8, 7, 5 and 3.\<close>

definition sample_client :: "(sample_env, 'm) st ConsensusClient" where
  "sample_client =
     \<lparr>verify_consensus = (\<lambda>s i st prf.
        if prf = [] then Err (Custom [])
        else Ok (prf, [(Evm 1, [sample_finalized 8, sample_finalized 7, sample_finalized 5, sample_finalized 3])])),
      verify_fraud_proof = (\<lambda>s st p q. if p = q then Err (Custom []) else Ok ()),
      cc_consensus_client_id = (0, 0, 0, 1),
      cc_state_machine = (\<lambda>s sm. if sm = Evm 1 then Ok sample_sm_client else Err (Custom []))\<rparr>"

definition good_module :: "(sample_env, 'm) st IsmpModule" where
  "good_module = \<lparr>on_accept = (\<lambda>_. ret ()), on_response = (\<lambda>_. ret ()), on_timeout = (\<lambda>_. ret ())\<rparr>"

definition bad_module :: "(sample_env, 'm) st IsmpModule" where
  "bad_module =
     \<lparr>on_accept = (\<lambda>_. fail (AnyMsg [66])), on_response = (\<lambda>_. fail (AnyMsg [66])),
      on_timeout = (\<lambda>_. fail (AnyMsg [66]))\<rparr>"

definition sample_router :: "(sample_env, 'm) st IsmpRouter" where
  "sample_router i s = (if i = [1] then Ok good_module else if i = [2] then Ok bad_module else Err (AnyMsg i))"

definition runtime_cfg :: "(sample_env, 'm) Config" where
  "runtime_cfg =
     \<lparr>cf_keccak256 = sample_hash,
      cf_host_state_machine = Polkadot 1000,
      cf_coprocessor = None,
      cf_encode_height = sample_encode_height,
      cf_encode_meta = sample_encode_meta,
      cf_decode_meta = sample_decode_meta,
      cf_transfer = sample_transfer,
      cf_fee_account = 1,
      cf_mmr_push = sample_push,
      cf_mmr_finalize = (\<lambda>x. (Inr 0, x)),
      cf_child_root = (\<lambda>t. 0),
      cf_deposit_digest = (\<lambda>a b x. x),
      cf_consensus_clients = [sample_client],
      cf_router = sample_router,
      cf_error_to_string = (\<lambda>e. case e of AnyMsg b \<Rightarrow> b | _ \<Rightarrow> [69]),
      cf_admin_origin = (\<lambda>o'. o' = OriginRoot),
      cf_encode_hashes = (\<lambda>hs. concat (map (\<lambda>h. be_bytes 32 h) (concat hs))),
      cf_mmr_get_leaf = (\<lambda>p x. Inr None),
      cf_mmr_generate_proof = (\<lambda>is x. Inl []),
      cf_offchain_get = (\<lambda>c x. None),
      cf_decode_leaf = (\<lambda>b. None)\<rparr>"

abbreviation sample_cfg :: "(sample_env, unit) Config" where
  "sample_cfg \<equiv> runtime_cfg"

definition empty_state :: sample_st where
  "empty_state =
     \<lparr>child_trie = (\<lambda>_. None), state_commitments = (\<lambda>_. None), consensus_states = (\<lambda>_. None),
      consensus_state_client = (\<lambda>_. None), unbonding_periods = (\<lambda>_. None), challenge_periods = (\<lambda>_. None),
      frozen_clients = (\<lambda>_. False), latest_heights = (\<lambda>_. None), consensus_update_times = (\<lambda>_. None),
      state_machine_update_times = (\<lambda>_. None), responded = (\<lambda>_. None), nonce = 0, child_trie_root = 0,
      events = [], now = from_secs 10000, env = (\<lambda>a. 1000, 0)\<rparr>"

text \<open>Height 5 of \<^verbatim>\<open>EVM-1\<close> is trusted since time 9000.\<close>

definition sample_state :: sample_st where
  "sample_state =
     StateCommitments_insert sample_cfg (sample_height 5) (sample_commitment 8000)
       (empty_state\<lparr>consensus_states := [sample_csid \<mapsto> [9]],
          consensus_state_client := [sample_csid \<mapsto> (0, 0, 0, 1)],
          unbonding_periods := [sample_csid \<mapsto> 5000], challenge_periods := [sample_id \<mapsto> 60],
          latest_heights := [sample_id \<mapsto> 5], consensus_update_times := [sample_csid \<mapsto> 9000],
          state_machine_update_times := [sample_height 5 \<mapsto> 9000]\<rparr>)"

definition sample_update :: ConsensusMessage where
  "sample_update = \<lparr>cm_consensus_proof = [1], cm_consensus_state_id = sample_csid, cm_signer = []\<rparr>"

definition sample_proof :: Proof where
  "sample_proof = \<lparr>proof_height = sample_height 5, proof_proof = [1]\<rparr>"

definition sample_post :: "bytes \<Rightarrow> bytes \<Rightarrow> PostRequest" where
  "sample_post dest_module body =
     \<lparr>pr_source = Evm 1, pr_dest = Polkadot 1000, pr_nonce = 4, pr_from = [3], pr_to = dest_module,
      pr_timeout_timestamp = 20000, pr_body = body\<rparr>"

definition sample_request :: "PostRequest list \<Rightarrow> RequestMessage" where
  "sample_request ps = \<lparr>rqm_requests = ps, rqm_proof = sample_proof, rqm_signer = [11]\<rparr>"

section \<open>Evaluating the sample\<close>

lemma sample_cfg_simps [simp]:
  "cf_keccak256 runtime_cfg = sample_hash"
  "cf_host_state_machine runtime_cfg = Polkadot 1000"
  "cf_coprocessor runtime_cfg = None"
  "cf_encode_height runtime_cfg = sample_encode_height"
  "cf_encode_meta runtime_cfg = sample_encode_meta"
  "cf_decode_meta runtime_cfg = sample_decode_meta"
  "cf_transfer runtime_cfg = sample_transfer"
  "cf_fee_account runtime_cfg = 1"
  "cf_mmr_push runtime_cfg = sample_push"
  "cf_consensus_clients runtime_cfg = [sample_client]"
  "cf_router runtime_cfg = sample_router"
  "cf_admin_origin runtime_cfg = (\<lambda>o'. o' = OriginRoot)"
  by (simp_all add: runtime_cfg_def)

lemma sample_fields [simp]:
  "smh_id (sample_height h) = sample_id" "smh_height (sample_height h) = h"
  "state_id sample_id = Evm 1" "consensus_state_id sample_id = sample_csid"
  "pr_source (sample_post m b) = Evm 1" "pr_dest (sample_post m b) = Polkadot 1000"
  "pr_to (sample_post m b) = m" "pr_from (sample_post m b) = [3]"
  "pr_timeout_timestamp (sample_post m b) = 20000"
  by (simp_all add: sample_height_def sample_id_def sample_post_def)

lemma sample_fmt [simp]:
  "StateMachine_fmt (Evm 1) = Some (ascii ''EVM-1'')"
  "StateMachine_fmt (Polkadot 1000) = Some (ascii ''POLKADOT-1000'')"
  by (simp_all add: decimal_def digit_byte_def ascii_def decimal_digits.simps)

lemma unat_small_hash: "unat (of_nat (Suc (unat (h :: u64))) :: h256) = Suc (unat h)"
proof -
  have "unat h < 2 ^ 64" using unsigned_less [of h] by simp
  then have "Suc (unat h) < 2 ^ LENGTH(256)" by simp
  then show ?thesis by (simp only: unat_of_nat mod_less)
qed

lemma sample_state_key:
  "state_commitment_storage_key sample_cfg h' = state_commitment_storage_key sample_cfg (sample_height h) \<longleftrightarrow>
     h' = sample_height h"
proof
  assume "state_commitment_storage_key sample_cfg h' = state_commitment_storage_key sample_cfg (sample_height h)"
  then have "sample_hash (sample_encode_height h') = sample_hash (sample_encode_height (sample_height h))"
    by (simp add: state_commitment_storage_key_def)
  then have eq: "unat (sample_hash (sample_encode_height h')) = Suc (unat h)"
    using unat_small_hash [of h] by (simp add: sample_hash_def sample_encode_height_def sample_height_def)
  show "h' = sample_height h"
  proof (cases "smh_id h' = sample_id")
    case True
    with eq have "Suc (unat (smh_height h')) = Suc (unat h)"
      using unat_small_hash [of "smh_height h'"] by (simp add: sample_hash_def sample_encode_height_def)
    then have "smh_height h' = h" by (simp add: unsigned_word_eqI)
    with True show ?thesis by (cases h') (simp add: sample_height_def)
  next
    case False
    with eq show ?thesis by (simp add: sample_hash_def sample_encode_height_def)
  qed
qed simp

lemma sample_state_key_eq [simp]:
  "state_commitment_storage_key sample_cfg (sample_height h') = state_commitment_storage_key sample_cfg (sample_height h) \<longleftrightarrow>
     h' = h"
  unfolding sample_state_key by (simp add: sample_height_def)

lemma sample_height_eq [simp]: "sample_height h' = sample_height h \<longleftrightarrow> h' = h"
  by (simp add: sample_height_def)

lemma sample_lone_key: "lone_key (state_commitment_storage_key sample_cfg) (sample_height h)"
  by (simp add: lone_key_def sample_state_key)

lemma sample_state_simps [simp]:
  "now sample_state = from_secs 10000"
  "consensus_states sample_state = [sample_csid \<mapsto> [9]]"
  "consensus_state_client sample_state = [sample_csid \<mapsto> (0, 0, 0, 1)]"
  "unbonding_periods sample_state = [sample_csid \<mapsto> 5000]"
  "challenge_periods sample_state = [sample_id \<mapsto> 60]"
  "frozen_clients sample_state = (\<lambda>_. False)"
  "latest_heights sample_state = [sample_id \<mapsto> 5]"
  "consensus_update_times sample_state = [sample_csid \<mapsto> 9000]"
  "state_machine_update_times sample_state = [sample_height 5 \<mapsto> 9000]"
  "state_commitments sample_state = [sample_height 5 \<mapsto> sample_commitment 8000]"
  "child_trie sample_state =
     [state_commitment_storage_key sample_cfg (sample_height 5) \<mapsto> CvCommitment (sample_commitment 8000)]"
  by (simp_all add: sample_state_def empty_state_def StateCommitments_insert_def child_put_def)

text \<open>Rules that evaluate the handlers on the sample.\<close>

lemmas sample_eval =
  succeeds_def Let_def comp_app consensus_client_run is_expired_run pallet_read_defs pallet_write_defs
  find_client_def sample_client_def sample_sm_client_def from_secs_def nanos_per_sec_def
  update_client_def update_state_machine_def update_heights_Cons sample_finalized_def
  StateCommitments_get_def StateCommitments_insert_def child_put_def at_height_def
  sample_id_def [symmetric] sample_height_def [symmetric] sample_update_def

end
