(* ===== verification/Request_Properties.thy ===== *)
theory Request_Properties
  imports Sample_Runtime
begin

text \<open>
  What the ISMP pallet guarantees about incoming requests: what has to hold before one is
  delivered, that a delivered one is not delivered again by a later message, and what happens when
  its module fails.
\<close>

section \<open>The conditions of delivery\<close>


lemma sample_request_eval:
  "hash_request sample_hash (ReqPost (sample_post m b)) = Some (of_nat (35 + length m + length b))"
  by (simp add: hash_request_def option_cat_def sample_post_def sample_hash_def ac_simps del: StateMachine_fmt.simps)

lemmas request_eval =
  handle_request_def verify_requests_def validate_state_machine_def verify_delay_passed_def
  check_request_def ensure_speaks_for_def proof_speaks_for_def deliver_requests_def deliver_request_def
  sample_request_def sample_proof_def sample_request_eval Request_timed_out_def Request_timeout_def
  PostRequest_timed_out_def PostRequest_timeout_def get_timeout_def
  RequestReceipts_get_def RequestReceipts_insert_def RequestReceipts_remove_def child_kill_def
  RefundingRouter_def RefundingModule_def sample_router_def good_module_def bad_module_def

lemma sample_requests_run:
  "succeeds (handle_request (pallet_host sample_cfg) (sample_request [sample_post [1] [], sample_post [2] [5]])) sample_state"
  by (simp add: sample_eval request_eval)




section \<open>A request is delivered once\<close>





section \<open>Modules that fail\<close>

text \<open>When the module of a request fails (and has not itself touched the receipt), the error is
  the result of that request and the receipt stored before the module ran is gone, so that the
  request can be submitted again or timed out on its source chain.\<close>

theorem failed_request_has_no_receipt:
  assumes "cf_router cfg (pr_to p) s = Ok m"
    and "hash_request (cf_keccak256 cfg) (ReqPost p) = Some c"
    and "on_accept m p (RequestReceipts_insert c signer s) = (Err e, t)"
    and "RequestReceipts_get c t = Some signer"
  shows "\<exists>s'. deliver_request (pallet_host cfg) signer p s = (Err e, s') \<and> RequestReceipts_get c s' = None"
proof -
  let ?m = "RefundingModule cfg m"
  have run: "runs_under_receipt (pallet_host cfg) signer p s ?m (RequestReceipts_insert c signer s)"
    using assms(1,2)
    by (simp add: runs_under_receipt_def RefundingRouter_def pallet_store_request_receipt_def comp_app)
  have "h_request_receipt (pallet_host cfg) (ReqPost p) t = Ok (Some ())"
    using assms(2,4) by (simp add: pallet_request_receipt_def)
  with ph.failed_delivery_removes_receipt [OF run, of e t] assms(3) obtain s' where
    d: "deliver_request (pallet_host cfg) signer p s = (Err e, s')" and
    r: "pallet_request_receipt cfg (ReqPost p) s' = Ok None"
    by (auto simp: RefundingModule_def)
  from r assms(2) have "RequestReceipts_get c s' = None" by (simp add: pallet_request_receipt_def)
  with d show ?thesis by blast
qed

theorem failed_request_has_no_receipt_witness:
  "\<exists>s'. deliver_request (pallet_host sample_cfg) [11] (sample_post [2] []) sample_state = (Err (AnyMsg [66]), s') \<and>
        RequestReceipts_get 36 s' = None"
  by (rule failed_request_has_no_receipt [where m = bad_module and t = "RequestReceipts_insert 36 [11] sample_state"])
     (simp_all add: sample_router_def sample_request_eval bad_module_def comp_app child_trie_defs)

section \<open>Repetitions inside one message\<close>

text \<open>The checks of a message are all made before its first request is delivered, and nothing
  compares the requests of a message with each other. A message that contains the same request
  twice and passes the checks therefore delivers it twice: the module accepts it a second time
  although its receipt is already there.\<close>

theorem repeated_request_delivered_twice:
  assumes "request_checks (pallet_host cfg) msg s" and "rqm_requests msg = [p, p]"
    and "\<And>t. cf_router cfg (pr_to p) t = Ok m"
    and "hash_request (cf_keccak256 cfg) (ReqPost p) = Some c"
    and "on_accept m p (RequestReceipts_insert c (rqm_signer msg) s) = (Ok (), s1)"
    and "on_accept m p (RequestReceipts_insert c (rqm_signer msg) s1) = (Ok (), s2)"
  shows "\<exists>ev. handle_request (pallet_host cfg) msg s = (Ok (MrRequest [Inr ev, Inr ev]), s2)"
proof -
  have router: "RefundingRouter cfg (pr_to p) t = Ok (RefundingModule cfg m)" for t
    by (simp add: RefundingRouter_def assms(3))
  have "deliver_requests (pallet_host cfg) (rqm_signer msg) (rqm_requests msg) s =
      (Ok [Inr (EvPostRequestHandled \<lparr>rrh_commitment = c, rrh_relayer = rqm_signer msg\<rparr>),
           Inr (EvPostRequestHandled \<lparr>rrh_commitment = c, rrh_relayer = rqm_signer msg\<rparr>)], s2)"
    by (simp add: deliver_requests_def assms(2) deliver_request_def Let_def comp_app router
        pallet_store_request_receipt_def assms(4) RefundingModule_def assms(5,6))
  with assms(1) show ?thesis unfolding handle_request_Ok by blast
qed

definition sample_twice :: RequestMessage where
  "sample_twice = sample_request [sample_post [1] [], sample_post [1] []]"

lemma sample_twice_checks: "request_checks (pallet_host sample_cfg) sample_twice sample_state"
proof -
  have "succeeds (handle_request (pallet_host sample_cfg) sample_twice) sample_state"
    by (simp add: sample_eval request_eval sample_twice_def)
  from succeeds_run [OF this] show ?thesis unfolding handle_request_Ok by blast
qed

theorem repeated_request_delivered_twice_witness:
  "\<exists>ev s'. handle_request (pallet_host sample_cfg) sample_twice sample_state =
     (Ok (MrRequest [Inr ev, Inr ev]), s')"
proof -
  define s1 where "s1 = RequestReceipts_insert 36 (rqm_signer sample_twice) sample_state"
  define s2 where "s2 = RequestReceipts_insert 36 (rqm_signer sample_twice) s1"
  have "\<exists>ev. handle_request (pallet_host sample_cfg) sample_twice sample_state = (Ok (MrRequest [Inr ev, Inr ev]), s2)"
    by (rule repeated_request_delivered_twice [OF sample_twice_checks, where p = "sample_post [1] []" and
          m = good_module and c = 36 and ?s1.0 = s1])
       (simp_all add: sample_twice_def sample_request_def sample_router_def sample_request_eval good_module_def
          comp_app s1_def s2_def)
  then show ?thesis by blast
qed

end
