(* ===== verification/Response_Properties.thy ===== *)
theory Response_Properties
  imports Sample_Runtime
begin

text \<open>
  What the ISMP pallet guarantees about incoming responses and about the values that answer its own
  get requests.
\<close>

section \<open>The conditions of delivery\<close>

text \<open>When the pallet accepts a message of responses, every response answers a request this
  chain has committed to, no response to that request was accepted before, it has not timed out, it
  comes from the proof's chain (or through the configured proxy when no client of this chain knows
  the source), and the membership proof verifies against a stored commitment.\<close>

theorem accepted_response_conditions:
  assumes "handle_response (pallet_host cfg) msg s = (Ok r, s')"
    and "rsm_datagram msg = RRResponse responses" and "response \<in> set responses"
    and "h = proof_height (rsm_proof msg)"
  shows "(\<exists>c m. hash_request (cf_keccak256 cfg) (Response_request response) = Some c \<and>
       RequestCommitments_get c s = Some m \<and> ResponseReceipts_get c s = None) \<and>
    \<not> Response_timed_out response (now s) \<and>
    (Response_source_chain response = state_id (smh_id h) \<or>
     cf_coprocessor cfg = Some (state_id (smh_id h)) \<and>
     (\<forall>cc \<in> set (cf_consensus_clients cfg). \<exists>e. cc_state_machine cc s (Response_source_chain response) = Err e)) \<and>
    (\<exists>client state. usable_height (pallet_host cfg) h client s \<and> StateCommitments_get cfg h s = Some state \<and>
       verify_membership client s (RRResponse responses) state (rsm_proof msg) = Ok ())"
proof -
  from assms(1) obtain client state where
    u: "usable_height (pallet_host cfg) h client s" and
    st: "pallet_state_machine_commitment cfg h s = Ok state" and
    acc: "acceptable_response (pallet_host cfg) (state_id (smh_id h)) response s" and
    mem: "verify_membership client s (RRResponse responses) state (rsm_proof msg) = Ok ()"
    by (rule handle_response_accepts) (use assms(2-4) in auto)
  have "StateCommitments_get cfg h s = Some state"
    using st by (auto simp: pallet_state_machine_commitment_def split: option.splits)
  with u mem acc check_state_machine_client_True show ?thesis
    by (fastforce simp: acceptable_response_def pallet_request_commitment_def pallet_response_receipt_def
        speaks_for_def split: option.splits)
qed

text \<open>A request of this chain that is still open.\<close>

definition out_post :: PostRequest where
  "out_post =
     \<lparr>pr_source = Polkadot 1000, pr_dest = Evm 1, pr_nonce = 0, pr_from = [1], pr_to = [3],
      pr_timeout_timestamp = 20000, pr_body = []\<rparr>"

definition out_response :: "bytes \<Rightarrow> PostResponse" where
  "out_response b = \<lparr>prs_post = out_post, prs_response = b, prs_timeout_timestamp = 20000\<rparr>"

definition open_state :: sample_st where
  "open_state = RequestCommitments_insert 36 (sample_meta 30) sample_state"

definition response_message :: "Response list \<Rightarrow> ResponseMessage" where
  "response_message rs = \<lparr>rsm_datagram = RRResponse rs, rsm_proof = sample_proof, rsm_signer = [11]\<rparr>"

lemma out_fields [simp]:
  "prs_post (out_response b) = out_post" "prs_timeout_timestamp (out_response b) = 20000"
  "pr_dest out_post = Evm 1" "pr_source out_post = Polkadot 1000" "pr_from out_post = [1]" "pr_to out_post = [3]"
  "pr_timeout_timestamp out_post = 20000"
  by (simp_all add: out_response_def out_post_def)

lemma out_hash: "hash_request sample_hash (ReqPost out_post) = Some 36"
  by (simp add: hash_request_def option_cat_def out_post_def sample_hash_def del: StateMachine_fmt.simps)

lemma out_response_hash: "hash_post_response sample_hash (out_response b) = Some (of_nat (44 + length b))"
  by (simp add: hash_post_response_def PostResponse_encode_def option_cat_def out_response_def out_post_def
      sample_hash_def ac_simps del: StateMachine_fmt.simps)

lemma open_state_simps [simp]:
  "child_trie open_state = (child_trie sample_state)(request_commitment_storage_key 36 \<mapsto> CvMeta (sample_meta 30))"
  "now open_state = now sample_state" "state_commitments open_state = state_commitments sample_state"
  "consensus_state_client open_state = consensus_state_client sample_state"
  "frozen_clients open_state = frozen_clients sample_state"
  "challenge_periods open_state = challenge_periods sample_state"
  "state_machine_update_times open_state = state_machine_update_times sample_state"
  by (simp_all add: open_state_def RequestCommitments_insert_def child_put_def)

lemmas response_eval =
  handle_response_def validate_state_machine_def verify_delay_passed_def check_response_def
  ensure_speaks_for_def proof_speaks_for_def deliver_response_def response_message_def sample_proof_def
  out_hash out_response_hash Response_timed_out.simps PostResponse_timeout_def get_timeout_def
  RequestCommitments_get_def ResponseReceipts_get_def ResponseReceipts_insert_def
  RefundingRouter_def RefundingModule_def sample_router_def good_module_def bad_module_def

lemma sample_response_run:
  "\<exists>ev s'. handle_response (pallet_host sample_cfg) (response_message [ResPost (out_response [])]) open_state =
     (Ok (MrResponse [Inr ev]), s')"
  by (simp add: sample_eval response_eval)

theorem accepted_response_conditions_witness:
  "\<not> Response_timed_out (ResPost (out_response [])) (now open_state)"
proof -
  from sample_response_run obtain ev s' where
    run: "handle_response (pallet_host sample_cfg) (response_message [ResPost (out_response [])]) open_state =
      (Ok (MrResponse [Inr ev]), s')" by blast
  have "rsm_datagram (response_message [ResPost (out_response [])]) = RRResponse [ResPost (out_response [])]"
    by (simp add: response_message_def)
  from accepted_response_conditions [OF run this _ refl] show ?thesis by simp
qed

section \<open>A request is answered once\<close>

text \<open>When a response of an accepted message was delivered, every later message with a response
  to the same request, be it the same response or another one, is rejected and leaves no trace. The
  hypotheses are that the message answers each request once and that no module of the runtime
  removes receipts of responses.\<close>

theorem answered_request_not_answered_again:
  assumes "handle_response (pallet_host cfg) msg s = (Ok (MrResponse res), s')"
    and "rsm_datagram msg = RRResponse responses"
    and "distinct (map (\<lambda>r. hash_request (cf_keccak256 cfg) (Response_request r)) responses)"
    and "\<forall>r \<in> set responses. leaves_response_receipt (pallet_host cfg) r"
    and "i < length responses" and "res ! i = Inr ev"
    and "rsm_datagram later = RRResponse others" and "q \<in> set others"
    and "Response_request q = Response_request (responses ! i)"
  shows "blocked (handle_response (pallet_host cfg) later) s'"
proof -
  let ?H = "pallet_host cfg"
  from assms(1) have "collect (deliver_response ?H (rsm_signer msg)) responses s = (Ok res, s')"
    by (rule handle_response_accepts) (use assms(2) in auto)
  then have "has_response_receipt ?H (responses ! i) s'"
    by (rule ph.batch_leaves_response_receipts) (use assms in simp_all)
  then have "h_response_receipt ?H q s' = Ok (Some ())"
    using ph.response_receipt_by_request [OF assms(9), of cfg s'] by (simp add: has_response_receipt_def)
  then have "\<not> acceptable_response ?H pc q s'" for pc
    by (simp add: acceptable_response_def)
  from handle_response_rejects [OF assms(7,8) this] show ?thesis by (simp add: blocked_def)
qed

lemma sample_leaves_response_receipt: "leaves_response_receipt (pallet_host sample_cfg) r"
  by (auto simp: leaves_response_receipt_def RefundingRouter_def RefundingModule_def sample_router_def
      good_module_def bad_module_def keeps_basic split: if_splits)

theorem answered_request_not_answered_again_witness:
  "blocked (handle_response (pallet_host sample_cfg) (response_message [ResPost (out_response [9, 9])]))
     (snd (handle_response (pallet_host sample_cfg) (response_message [ResPost (out_response [])]) open_state))"
proof -
  from sample_response_run obtain ev s' where
    run: "handle_response (pallet_host sample_cfg) (response_message [ResPost (out_response [])]) open_state =
      (Ok (MrResponse [Inr ev]), s')" by blast
  have "blocked (handle_response (pallet_host sample_cfg) (response_message [ResPost (out_response [9, 9])])) s'"
    by (rule answered_request_not_answered_again [OF run, where i = 0 and ev = ev and
          responses = "[ResPost (out_response [])]" and others = "[ResPost (out_response [9, 9])]" and
          q = "ResPost (out_response [9, 9])"])
       (simp_all add: response_message_def sample_leaves_response_receipt)
  with run show ?thesis by simp
qed

section \<open>Values for get requests\<close>

text \<open>When the pallet accepts get requests together with a proof of their values, every one of
  them is a get request of this chain that is still open, addressed to the proof's chain at exactly
  the proof's height and not timed out; and a module that was given an answer was given exactly the
  entries the state proof verified for the keys of its request.\<close>

theorem get_values_are_proved:
  assumes "handle_response (pallet_host cfg) msg s = (Ok (MrResponse res), s')"
    and "rsm_datagram msg = RRRequest requests" and "h = proof_height (rsm_proof msg)"
  shows "\<exists>gets client state. requests = map ReqGet gets \<and>
    StateCommitments_get cfg h s = Some state \<and> usable_height (pallet_host cfg) h client s \<and>
    (\<forall>g \<in> set gets. gr_dest g = state_id (smh_id h) \<and> gr_height g = smh_height h \<and> now s < GetRequest_timeout g \<and>
       (\<exists>c m. hash_request (cf_keccak256 cfg) (ReqGet g) = Some c \<and> RequestCommitments_get c s = Some m \<and>
          ResponseReceipts_get c s = None)) \<and>
    (\<forall>i < length gets. \<forall>ev. res ! i = Inr ev \<longrightarrow>
       (\<exists>t t1 t2 m entries. verify_state_proof client t (gr_keys (gets ! i)) state (rsm_proof msg) = Ok entries \<and>
          cf_router cfg (gr_from (gets ! i)) t = Ok m \<and>
          on_response m (ResGet \<lparr>grs_get = gets ! i,
             grs_values = map (\<lambda>(k, v). \<lparr>sv_key = k, sv_value = v\<rparr>) entries\<rparr>) t1 = (Ok (), t2)))"
proof -
  let ?H = "pallet_host cfg"
  from assms(1) obtain client state gets where
    u: "usable_height ?H h client s" and
    st: "pallet_state_machine_commitment cfg h s = Ok state" and
    reqs: "requests = map ReqGet gets" and
    ans: "\<forall>g \<in> set gets. answerable_get ?H h g s" and
    run: "collect (deliver_get_response ?H client state (rsm_proof msg) (rsm_signer msg)) gets s = (Ok res, s')"
    by (rule handle_response_accepts) (use assms(2,3) in auto)
  have st': "StateCommitments_get cfg h s = Some state"
    using st by (auto simp: pallet_state_machine_commitment_def split: option.splits)
  have 1: "gr_dest g = state_id (smh_id h) \<and> gr_height g = smh_height h \<and> now s < GetRequest_timeout g \<and>
       (\<exists>c m. hash_request (cf_keccak256 cfg) (ReqGet g) = Some c \<and> RequestCommitments_get c s = Some m \<and>
          ResponseReceipts_get c s = None)" if "g \<in> set gets" for g
    using ans [rule_format, OF that]
    by (auto simp: answerable_get_def pallet_request_commitment_def pallet_response_receipt_def split: option.splits)
  have 2: "\<exists>t t1 t2 m entries. verify_state_proof client t (gr_keys (gets ! i)) state (rsm_proof msg) = Ok entries \<and>
          cf_router cfg (gr_from (gets ! i)) t = Ok m \<and>
          on_response m (ResGet \<lparr>grs_get = gets ! i,
             grs_values = map (\<lambda>(k, v). \<lparr>sv_key = k, sv_value = v\<rparr>) entries\<rparr>) t1 = (Ok (), t2)"
    if i: "i < length gets" and ok: "res ! i = Inr ev" for i ev
  proof -
    from collect_Ok_nth [OF run i] ok obtain t t' where
      "deliver_get_response ?H client state (rsm_proof msg) (rsm_signer msg) (gets ! i) t = (Ok (Inr ev), t')" by auto
    then obtain entries m t1 t2 where
      "verify_state_proof client t (gr_keys (gets ! i)) state (rsm_proof msg) = Ok entries"
      "RefundingRouter cfg (gr_from (gets ! i)) t = Ok m"
      "on_response m (ResGet \<lparr>grs_get = gets ! i,
             grs_values = map (\<lambda>(k, v). \<lparr>sv_key = k, sv_value = v\<rparr>) entries\<rparr>) t1 = (Ok (), t2)"
      unfolding deliver_get_response_def Let_def by (auto simp: comp_ok)
    moreover from this(2) obtain m' where "cf_router cfg (gr_from (gets ! i)) t = Ok m'" "m = RefundingModule cfg m'"
      by (auto simp: RefundingRouter_def split: outcome.splits)
    moreover from this(2) have "on_response m = on_response m'" by (simp add: RefundingModule_def)
    ultimately show ?thesis by metis
  qed
  from reqs st' u 1 2 show ?thesis by blast
qed

definition out_get :: GetRequest where
  "out_get =
     \<lparr>gr_source = Polkadot 1000, gr_dest = Evm 1, gr_nonce = 0, gr_from = [1], gr_keys = [[1]], gr_height = 5,
      gr_context = [], gr_timeout_timestamp = 20000\<rparr>"

definition get_state :: sample_st where
  "get_state = RequestCommitments_insert 44 (sample_meta 30) sample_state"

definition get_message :: ResponseMessage where
  "get_message = \<lparr>rsm_datagram = RRRequest [ReqGet out_get], rsm_proof = sample_proof, rsm_signer = [11]\<rparr>"

lemma out_get_hash: "hash_request sample_hash (ReqGet out_get) = Some 44"
  by (simp add: hash_request_def option_cat_def out_get_def sample_hash_def del: StateMachine_fmt.simps)

lemma out_get_response_hash:
  "hash_get_response sample_hash \<lparr>grs_get = out_get, grs_values = []\<rparr> = Some 44"
  by (simp add: hash_get_response_def GetResponse_encode_def option_cat_def out_get_def sample_hash_def
      del: StateMachine_fmt.simps)

lemma get_state_simps [simp]:
  "child_trie get_state = (child_trie sample_state)(request_commitment_storage_key 44 \<mapsto> CvMeta (sample_meta 30))"
  "now get_state = now sample_state" "state_commitments get_state = state_commitments sample_state"
  "consensus_state_client get_state = consensus_state_client sample_state"
  "frozen_clients get_state = frozen_clients sample_state"
  "challenge_periods get_state = challenge_periods sample_state"
  "state_machine_update_times get_state = state_machine_update_times sample_state"
  by (simp_all add: get_state_def RequestCommitments_insert_def child_put_def)

lemma out_get_fields [simp]:
  "gr_dest out_get = Evm 1" "gr_height out_get = 5" "gr_from out_get = [1]" "gr_timeout_timestamp out_get = 20000"
  by (simp_all add: out_get_def)

lemma sample_get_run:
  "\<exists>ev s'. handle_response (pallet_host sample_cfg) get_message get_state = (Ok (MrResponse [Inr ev]), s')"
  by (simp add: sample_eval response_eval get_message_def check_get_request_def deliver_get_response_def
      out_get_hash out_get_response_hash Request_timed_out_def Request_timeout_def)

theorem get_values_are_proved_witness:
  "\<exists>m. RequestCommitments_get 44 get_state = Some m"
proof -
  from sample_get_run obtain ev s' where
    run: "handle_response (pallet_host sample_cfg) get_message get_state = (Ok (MrResponse [Inr ev]), s')" by blast
  have "rsm_datagram get_message = RRRequest [ReqGet out_get]" by (simp add: get_message_def)
  from get_values_are_proved [OF run this refl] show ?thesis by (auto simp: out_get_hash)
qed

end
