(* ===== verification/Timeout_Properties.thy ===== *)
theory Timeout_Properties
  imports Sample_Runtime
begin

text \<open>
  What the ISMP pallet guarantees about timeouts of its own requests, and what becomes of the fee
  of a request that times out.
\<close>

section \<open>The conditions of a timeout\<close>

text \<open>When the pallet accepts timeouts of post requests, each of them is committed to on this
  chain and still open, and a state proof of its destination (or of the configured proxy), at a
  commitment whose own timestamp is past the request's timeout, verifies that none of the keys of
  the receipts has a value.\<close>

theorem accepted_post_timeout_conditions:
  assumes "handle_timeout (pallet_host cfg) (TmPost requests prf) s = (Ok r, s')"
    and "h = proof_height prf"
  shows "\<exists>client state keys entries.
    usable_height (pallet_host cfg) h client s \<and> StateCommitments_get cfg h s = Some state \<and>
    receipts_state_trie_key client s (RRRequest requests) = Ok keys \<and>
    verify_state_proof client s keys state prf = Ok entries \<and> (\<forall>(k, v) \<in> set entries. v = None) \<and>
    (\<forall>q \<in> set requests.
       Request_timeout q \<le> from_secs (sc_timestamp state) \<and>
       (\<exists>c m. hash_request (cf_keccak256 cfg) q = Some c \<and> RequestCommitments_get c s = Some m) \<and>
       (Request_dest_chain q = state_id (smh_id h) \<or>
        cf_coprocessor cfg = Some (state_id (smh_id h)) \<and>
        (\<forall>cc \<in> set (cf_consensus_clients cfg). \<exists>e. cc_state_machine cc s (Request_dest_chain q) = Err e)))"
proof -
  let ?H = "pallet_host cfg"
  from assms(1) obtain res where "timeout_posts ?H requests prf s = (Ok res, s')"
    unfolding handle_timeout_def by (auto simp: comp_ok)
  from timeout_posts_accepts [OF this] assms(2) obtain client state where
    u: "usable_height ?H h client s" and
    st: "pallet_state_machine_commitment cfg h s = Ok state" and
    q: "\<forall>r \<in> set requests. speaks_for ?H (state_id (smh_id h)) (Request_dest_chain r) s \<and>
       known_request ?H r s \<and> Request_timed_out r (StateCommitment_timestamp state)" and
    un: "undelivered client s (RRRequest requests) state prf"
    by auto
  have st': "StateCommitments_get cfg h s = Some state"
    using st by (auto simp: pallet_state_machine_commitment_def split: option.splits)
  have "Request_timeout q \<le> from_secs (sc_timestamp state) \<and>
       (\<exists>c m. hash_request (cf_keccak256 cfg) q = Some c \<and> RequestCommitments_get c s = Some m) \<and>
       (Request_dest_chain q = state_id (smh_id h) \<or>
        cf_coprocessor cfg = Some (state_id (smh_id h)) \<and>
        (\<forall>cc \<in> set (cf_consensus_clients cfg). \<exists>e. cc_state_machine cc s (Request_dest_chain q) = Err e))"
    if "q \<in> set requests" for q
    using q [rule_format, OF that] check_state_machine_client_True
    by (fastforce simp: known_request_def pallet_request_commitment_def speaks_for_def Request_timed_out_def
        StateCommitment_timestamp_def split: option.splits)
  with u st' un show ?thesis unfolding undelivered_def by blast
qed

definition late_post :: "bytes \<Rightarrow> PostRequest" where
  "late_post m =
     \<lparr>pr_source = Polkadot 1000, pr_dest = Evm 1, pr_nonce = 0, pr_from = m, pr_to = [3],
      pr_timeout_timestamp = 7000, pr_body = []\<rparr>"

definition late_state :: sample_st where
  "late_state = RequestCommitments_insert 36 (sample_meta 30) sample_state"

lemma late_hash: "length m = 1 \<Longrightarrow> hash_request sample_hash (ReqPost (late_post m)) = Some 36"
  by (simp add: hash_request_def option_cat_def late_post_def sample_hash_def del: StateMachine_fmt.simps)

lemma late_fields [simp]:
  "pr_dest (late_post m) = Evm 1" "pr_source (late_post m) = Polkadot 1000" "pr_from (late_post m) = m"
  "pr_timeout_timestamp (late_post m) = 7000"
  by (simp_all add: late_post_def)

lemma late_state_simps [simp]:
  "child_trie late_state = (child_trie sample_state)(request_commitment_storage_key 36 \<mapsto> CvMeta (sample_meta 30))"
  "now late_state = now sample_state" "state_commitments late_state = state_commitments sample_state"
  "consensus_state_client late_state = consensus_state_client sample_state"
  "frozen_clients late_state = frozen_clients sample_state"
  "challenge_periods late_state = challenge_periods sample_state"
  "state_machine_update_times late_state = state_machine_update_times sample_state"
  "env late_state = env sample_state"
  by (simp_all add: late_state_def RequestCommitments_insert_def child_put_def)

lemmas timeout_eval =
  handle_timeout_def timeout_posts_def timeout_post_request_def take_request_receipt_def restore_request_def
  validate_state_machine_def verify_delay_passed_def check_post_timeout_def ensure_speaks_for_def
  proof_speaks_for_def sample_proof_def Request_timed_out_def Request_timeout_def get_timeout_def
  StateCommitment_timestamp_def sample_commitment_def late_hash
  RequestCommitments_get_def RequestCommitments_remove_def RequestCommitments_insert_def child_kill_def
  RefundingRouter_def RefundingModule_def refunding_on_timeout_def fee_of_timeout_def sample_router_def
  good_module_def bad_module_def

lemma sample_timeout_run:
  "\<exists>ev s'. handle_timeout (pallet_host sample_cfg) (TmPost [ReqPost (late_post [1])] sample_proof) late_state =
     (Ok (MrTimeout [Inr ev]), s')"
  by (simp add: sample_eval timeout_eval)

theorem accepted_post_timeout_conditions_witness:
  "\<exists>m. RequestCommitments_get 36 late_state = Some m"
proof -
  from sample_timeout_run obtain ev s' where
    run: "handle_timeout (pallet_host sample_cfg) (TmPost [ReqPost (late_post [1])] sample_proof) late_state =
      (Ok (MrTimeout [Inr ev]), s')" by blast
  from accepted_post_timeout_conditions [OF run refl] show ?thesis by (auto simp: late_hash)
qed

text \<open>A get request is timed out only if this chain committed to it and its timeout has passed
  on this chain's own clock; in particular a get request with timeout zero is never timed out while
  the clock is below the largest representable second.\<close>

theorem accepted_get_timeout_conditions:
  assumes "handle_timeout (pallet_host cfg) (TmGet requests) s = (Ok r, s')" and "ReqGet g \<in> set requests"
  shows "(\<exists>c m. hash_request (cf_keccak256 cfg) (ReqGet g) = Some c \<and> RequestCommitments_get c s = Some m) \<and>
    from_secs (gr_timeout_timestamp g) \<le> now s \<and>
    (gr_timeout_timestamp g = 0 \<longrightarrow> from_secs (- 1) \<le> now s)"
proof -
  from assms(1) obtain res where "timeout_gets (pallet_host cfg) requests s = (Ok res, s')"
    unfolding handle_timeout_def by (auto simp: comp_ok)
  from timeout_gets_accepts [OF this] assms(2)
  have k: "known_request (pallet_host cfg) (ReqGet g) s" and t: "Request_timed_out (ReqGet g) (now s)" by auto
  from t have "(if gr_timeout_timestamp g = 0 then from_secs (- 1) else from_secs (gr_timeout_timestamp g)) \<le> now s"
    by (simp add: Request_timed_out_def Request_timeout_def get_timeout_def)
  moreover have "from_secs 0 = 0" by (simp add: from_secs_def)
  ultimately show ?thesis
    using k by (auto simp: known_request_def pallet_request_commitment_def split: option.splits if_splits)
qed

definition late_get :: GetRequest where
  "late_get =
     \<lparr>gr_source = Polkadot 1000, gr_dest = Evm 1, gr_nonce = 0, gr_from = [1], gr_keys = [], gr_height = 5,
      gr_context = [], gr_timeout_timestamp = 7000\<rparr>"

lemma late_get_hash: "hash_request sample_hash (ReqGet late_get) = Some 43"
  by (simp add: hash_request_def option_cat_def late_get_def sample_hash_def del: StateMachine_fmt.simps)

definition late_get_state :: sample_st where
  "late_get_state = RequestCommitments_insert 43 (sample_meta 30) sample_state"

lemma sample_get_timeout_run:
  "\<exists>ev s'. handle_timeout (pallet_host sample_cfg) (TmGet [ReqGet late_get]) late_get_state = (Ok (MrTimeout [Inr ev]), s')"
  by (simp add: sample_eval timeout_eval timeout_gets_def check_get_timeout_def timeout_get_request_def
      late_get_hash late_get_state_def) (simp add: late_get_def)

theorem accepted_get_timeout_conditions_witness:
  "from_secs (gr_timeout_timestamp late_get) \<le> now late_get_state"
proof -
  from sample_get_timeout_run obtain ev s' where
    run: "handle_timeout (pallet_host sample_cfg) (TmGet [ReqGet late_get]) late_get_state =
      (Ok (MrTimeout [Inr ev]), s')" by blast
  from accepted_get_timeout_conditions [OF run] show ?thesis by simp
qed

section \<open>Modules that fail\<close>

text \<open>When the module of a timed out post request fails, the commitment is back as it was, fee
  and position included, so that the timeout can be retried. The hypothesis is that the codec of
  the metadata decodes what it encoded.\<close>

theorem failed_timeout_restores_commitment:
  assumes "timeout_post_request (pallet_host cfg) r s = (Ok (Inl e), s')"
    and "hash_request (cf_keccak256 cfg) r = Some c" and "RequestCommitments_get c s = Some m"
    and "cf_decode_meta cfg (cf_encode_meta cfg m) = Some m"
  shows "RequestCommitments_get c s' = Some m"
proof -
  let ?H = "pallet_host cfg"
  from assms(1) obtain meta t v q where
    d: "pallet_delete_request_commitment cfg r s = (Ok meta, t)" and
    rest: "restore_request ?H r meta q v = (Ok (), s')"
    unfolding timeout_post_request_def by (auto simp: comp_ok split: if_splits)
  from d assms(2,3) have m: "meta = cf_encode_meta cfg m"
    by (auto simp: pallet_delete_request_commitment_def comp_ok)
  from restore_Ok(1) [OF rest] obtain w where
    st: "pallet_store_request_commitment cfg r meta v = (Ok (), w)" and
    fin: "s' = w \<or> (\<exists>relayer. s' = snd (pallet_store_request_receipt cfg r relayer w))" by auto
  have w: "RequestCommitments_get c w = Some m"
    using st assms(2,4) m by (auto simp: pallet_store_request_commitment_def comp_ok child_trie_defs)
  have "RequestCommitments_get c (snd (pallet_store_request_receipt cfg r relayer w)) = Some m" for relayer
    using w assms(2) by (simp add: pallet_store_request_receipt_def comp_app child_trie_defs)
  with fin w show ?thesis by auto
qed

lemma sample_failed_timeout_run:
  "\<exists>s'. timeout_post_request (pallet_host sample_cfg) (ReqPost (late_post [2])) late_state =
     (Ok (Inl (AnyMsg [66])), s')"
  by (simp add: sample_eval timeout_eval sample_encode_meta_def sample_decode_meta_def)

theorem failed_timeout_restores_commitment_witness:
  "RequestCommitments_get 36
     (snd (timeout_post_request (pallet_host sample_cfg) (ReqPost (late_post [2])) late_state)) = Some (sample_meta 30)"
proof -
  from sample_failed_timeout_run obtain s' where
    run: "timeout_post_request (pallet_host sample_cfg) (ReqPost (late_post [2])) late_state =
      (Ok (Inl (AnyMsg [66])), s')" by blast
  have "RequestCommitments_get 36 s' = Some (sample_meta 30)"
    by (rule failed_timeout_restores_commitment [OF run])
       (simp_all add: late_hash sample_encode_meta_def sample_decode_meta_def RequestCommitments_get_def)
  with run show ?thesis by simp
qed

section \<open>The fee of a request that times out\<close>

text \<open>Without the commitment of the request the refunding wrapper does what its inner module does.\<close>

definition forgets :: "h256 \<Rightarrow> ('x, 'm) st \<Rightarrow> bool" where
  "forgets c s \<longleftrightarrow> RequestCommitments_get c s = None"

lemma refunding_without_commitment:
  assumes "hash_request (cf_keccak256 cfg) r = Some c" and "forgets c s"
    and "keeps (forgets c) (on_timeout m (TimeoutRequest r))"
  shows "refunding_on_timeout cfg m (TimeoutRequest r) s = on_timeout m (TimeoutRequest r) s"
proof -
  obtain q t where run: "on_timeout m (TimeoutRequest r) s = (q, t)" by (rule prod.exhaust)
  from keepsD [OF assms(3) run assms(2)] have "RequestCommitments_get c t = None" by (simp add: forgets_def)
  with run assms(1) show ?thesis
    by (cases q) (simp_all add: refunding_on_timeout_def fee_of_timeout_def comp_app)
qed

text \<open>The refund of the fee never happens. The handler deletes the commitment of a request
  before it calls the module, and the refunding wrapper looks for the fee in that commitment after
  the module has run. So with the refunding router the timeout of a post request or a get request
  ends in the same result and the same state as without it, whatever fee was paid; the hypothesis
  is that no module of the runtime commits to the request anew while it handles the timeout.\<close>

theorem timeout_fee_never_refunded:
  assumes "hash_request (cf_keccak256 cfg) r = Some c"
    and "\<And>i t m. cf_router cfg i t = Ok m \<Longrightarrow> keeps (forgets c) (on_timeout m (TimeoutRequest r))"
  shows "timeout_post_request (pallet_host cfg) r s =
           timeout_post_request ((pallet_host cfg)\<lparr>h_ismp_router := cf_router cfg\<rparr>) r s \<and>
         timeout_get_request (pallet_host cfg) r s =
           timeout_get_request ((pallet_host cfg)\<lparr>h_ismp_router := cf_router cfg\<rparr>) r s"
proof (cases "cf_router cfg (Request_source_module r) s")
  case (Ok m)
  let ?H = "pallet_host cfg" and ?P = "(pallet_host cfg)\<lparr>h_ismp_router := cf_router cfg\<rparr>"
  have same: "take_request_receipt ?P = take_request_receipt ?H" "restore_request ?P = restore_request ?H"
    by (simp_all add: fun_eq_iff take_request_receipt_def restore_request_def comp_app
        split: option.split outcome.split prod.split)
  have fields: "h_ismp_router ?P = cf_router cfg" "h_keccak256 ?P = cf_keccak256 cfg"
    "h_delete_request_commitment ?P = pallet_delete_request_commitment cfg"
    "h_store_request_commitment ?P = pallet_store_request_commitment cfg"
    by simp_all
  have noop: "refunding_on_timeout cfg m (TimeoutRequest r) t = on_timeout m (TimeoutRequest r) t" if "forgets c t" for t
    using refunding_without_commitment [OF assms(1) that] assms(2) [OF Ok] by blast
  obtain d t where del: "pallet_delete_request_commitment cfg r s = (d, t)" by (rule prod.exhaust)
  have t: "forgets c t" if "d = Ok meta" for meta
    using del that assms(1)
    by (auto simp: pallet_delete_request_commitment_def comp_ok forgets_def child_trie_defs)
  obtain q v where take: "take_request_receipt ?H r t = (q, v)" by (rule prod.exhaust)
  have v: "forgets c v" if "d = Ok meta" for meta
    using t [OF that] take_receipt_snd(1) [of ?H r t] take assms(1)
    by (auto simp: forgets_def pallet_delete_request_receipt_def comp_app child_trie_defs split: option.splits)
  show ?thesis
    unfolding timeout_post_request_def timeout_get_request_def same fields pallet_host_simps
    using Ok del take t v noop
    by (cases d; cases q) (simp_all add: RefundingRouter_def RefundingModule_def comp_app)
qed (simp_all add: timeout_post_request_def timeout_get_request_def RefundingRouter_def comp_app)

theorem timeout_fee_never_refunded_witness:
  "fst (env (snd (timeout_post_request (pallet_host sample_cfg) (ReqPost (late_post [1])) late_state))) 77 = 1000"
proof -
  have "timeout_post_request (pallet_host sample_cfg) (ReqPost (late_post [1])) late_state =
      timeout_post_request ((pallet_host sample_cfg)\<lparr>h_ismp_router := cf_router sample_cfg\<rparr>)
        (ReqPost (late_post [1])) late_state"
    by (rule timeout_fee_never_refunded [where c = 36, THEN conjunct1])
       (auto simp: late_hash sample_router_def good_module_def bad_module_def keeps_basic split: if_splits)
  also have "fst (env (snd \<dots>)) 77 = 1000"
    by (simp add: sample_eval timeout_eval sample_state_def empty_state_def)
  finally show ?thesis .
qed

end
