(* ===== verification/Dispatch_Properties.thy ===== *)
theory Dispatch_Properties
  imports Sample_Runtime
begin

text \<open>
  What the ISMP pallet guarantees about outgoing messages: the commitment, nonce, fee and timeout of
  a dispatched request, at most one response to a request and the funding of a message.
\<close>

section \<open>Dispatching a request\<close>

text \<open>A successful dispatch collects the fee into the relayer account, takes the next nonce of
  the chain, commits to a request with this chain as its source under a commitment that was free,
  with the fee as paid and not yet claimed, announces it in an event, and leaves every other
  request commitment and every receipt alone.\<close>

theorem dispatched_request_is_committed:
  assumes "dispatch_request cfg req fee s = (Ok c, s')"
  shows "\<exists>r m. hash_request (cf_keccak256 cfg) r = Some c \<and>
    Request_source_chain r = cf_host_state_machine cfg \<and> Request_nonce r = nonce s \<and> nonce s' = nonce s + 1 \<and>
    (fee_fee fee = 0 \<or>
     (\<exists>x. cf_transfer cfg (fee_payer fee) (cf_fee_account cfg) (fee_fee fee) (env s) = (Ok (), x))) \<and>
    RequestCommitments_get c s = None \<and>
    RequestCommitments_get c s' = Some m \<and> rm_fee m = fee \<and> \<not> rm_claimed m \<and>
    events s' = events s @ [PeRequest (Request_dest_chain r) (Request_source_chain r) (Request_nonce r) c] \<and>
    (\<forall>c'. c' \<noteq> c \<longrightarrow> RequestCommitments_get c' s' = RequestCommitments_get c' s) \<and>
    (\<forall>c'. RequestReceipts_get c' s' = RequestReceipts_get c' s)"
  by (rule dispatch_request_Ok [OF assms])

definition sample_dispatch :: DispatchRequest where
  "sample_dispatch = DispPost
     \<lparr>dp_dest = Evm 1, dp_from = [1], dp_to = [3], dp_timeout = 100, dp_body = []\<rparr>"

definition sample_fee :: "(account, balance) FeeMetadata" where
  "sample_fee = \<lparr>fee_payer = 77, fee_fee = 30\<rparr>"

lemmas dispatch_eval =
  sample_dispatch_def sample_fee_def dispatch_request_def collect_fee_def prepare_request_def next_nonce_def
  pallet_next_nonce_def pallet_dispatch_request_def deposit_event_def mmr_push_def on_env_def sample_transfer_def
  sample_push_def RequestCommitments_contains_key_def RequestCommitments_insert_def hash_request_def option_cat_def
  sample_hash_def empty_state_def

lemma sample_dispatch_run: "succeeds (dispatch_request sample_cfg sample_dispatch sample_fee) empty_state"
  by (simp add: sample_eval dispatch_eval del: StateMachine_fmt.simps)

theorem dispatched_request_is_committed_witness:
  "nonce (snd (dispatch_request sample_cfg sample_dispatch sample_fee empty_state)) = 1"
proof -
  from succeeds_run [OF sample_dispatch_run] obtain c where
    "dispatch_request sample_cfg sample_dispatch sample_fee empty_state =
      (Ok c, snd (dispatch_request sample_cfg sample_dispatch sample_fee empty_state))" by blast
  from dispatched_request_is_committed [OF this] show ?thesis by (auto simp: empty_state_def)
qed

section \<open>Timeouts of dispatched requests\<close>

lemma now_below_next_second:
  assumes "t < 2 ^ 64 * nanos_per_sec" and "as_secs t < w"
  shows "t < from_secs w"
proof -
  have "t div nanos_per_sec < 2 ^ 64" using assms(1) by (simp add: less_mult_imp_div_less)
  then have "unat (as_secs t) = t div nanos_per_sec" by (simp add: as_secs_def unat_of_nat)
  with assms(2) have "t div nanos_per_sec < unat w" by (simp add: word_less_nat_alt)
  then have "t div nanos_per_sec + 1 \<le> unat w" by simp
  then have "(t div nanos_per_sec + 1) * nanos_per_sec \<le> from_secs w"
    unfolding from_secs_def by (rule mult_le_mono1)
  moreover have "t < (t div nanos_per_sec + 1) * nanos_per_sec"
    using dividend_less_div_times [of nanos_per_sec t] by (simp add: add.commute)
  ultimately show ?thesis by simp
qed

text \<open>C34: a post request is never timed out in the block that dispatches it, however large its
  timeout: the timeout saturates. (The clock is below the last representable second.)\<close>

theorem dispatched_post_not_timed_out:
  assumes "prepare_request cfg (DispPost p) s = (Ok r, s')"
    and "now s < 2 ^ 64 * nanos_per_sec" and "as_secs (now s) \<noteq> - 1"
  shows "\<not> Request_timed_out r (now s)"
proof -
  let ?t = "as_secs (now s)"
  have lt: "?t < - 1" using assms(3) by (metis max_word_max order_le_imp_less_or_eq)
  from assms(1) have r: "Request_timeout r =
      get_timeout (if dp_timeout p = 0 then 0 else saturating_add64 ?t (dp_timeout p))"
    by (auto simp: prepare_request_def comp_app next_nonce_def pallet_next_nonce_def Request_timeout_def)
  have "now s < Request_timeout r"
  proof (cases "dp_timeout p = 0")
    case True
    then show ?thesis using r now_below_next_second [OF assms(2) lt] by (simp add: get_timeout_def)
  next
    case False
    have "?t < saturating_add64 ?t (dp_timeout p)"
      using lt False by (auto simp: saturating_add64_def not_less order_le_less)
    moreover from this have "saturating_add64 ?t (dp_timeout p) \<noteq> 0" by auto
    ultimately show ?thesis using r False now_below_next_second [OF assms(2)] by (simp add: get_timeout_def)
  qed
  then show ?thesis by (simp add: Request_timed_out_def)
qed

theorem dispatched_post_not_timed_out_witness:
  "\<exists>r s'. prepare_request sample_cfg sample_dispatch sample_state = (Ok r, s') \<and> \<not> Request_timed_out r (now sample_state)"
proof -
  have "\<exists>r s'. prepare_request sample_cfg sample_dispatch sample_state = (Ok r, s')"
    by (simp add: dispatch_eval sample_eval)
  then obtain r s' where run: "prepare_request sample_cfg sample_dispatch sample_state = (Ok r, s')" by blast
  have "\<not> Request_timed_out r (now sample_state)"
    by (rule dispatched_post_not_timed_out [OF run [unfolded sample_dispatch_def]])
       (simp_all add: from_secs_def as_secs_def nanos_per_sec_def)
  with run show ?thesis by blast
qed

text \<open>The timeout of a get request is added with wrap-around instead. When the sum of the clock
  and the timeout exceeds the range of seconds, the request that is dispatched carries a timeout in
  the past and is timed out from the start.\<close>

theorem dispatched_get_timeout_wraps:
  assumes "prepare_request cfg (DispGet g) s = (Ok r, s')" and "dg_timeout g \<noteq> 0"
    and "as_secs (now s) + dg_timeout g < as_secs (now s)" and "as_secs (now s) + dg_timeout g \<noteq> 0"
    and "now s < 2 ^ 64 * nanos_per_sec"
  shows "Request_timed_out r (now s)"
proof -
  let ?t = "as_secs (now s)"
  from assms(1,2,4) have r: "Request_timeout r = from_secs (?t + dg_timeout g)"
    by (auto simp: prepare_request_def comp_app next_nonce_def pallet_next_nonce_def Request_timeout_def get_timeout_def)
  have "now s div nanos_per_sec < 2 ^ 64" using assms(5) by (simp add: less_mult_imp_div_less)
  then have "from_secs ?t = now s div nanos_per_sec * nanos_per_sec"
    by (simp add: from_secs_def as_secs_def unat_of_nat)
  also have "\<dots> \<le> now s" by (rule div_times_less_eq_dividend)
  finally have "from_secs ?t \<le> now s" .
  moreover have "from_secs (?t + dg_timeout g) \<le> from_secs ?t" using assms(3) by simp
  ultimately have "from_secs (?t + dg_timeout g) \<le> now s" by (rule order_trans [rotated])
  then show ?thesis using r by (simp add: Request_timed_out_def)
qed

definition huge_get :: DispatchGet where
  "huge_get =
     \<lparr>dg_dest = Evm 1, dg_from = [1], dg_keys = [], dg_height = 5, dg_context = [], dg_timeout = - 1\<rparr>"

theorem dispatched_get_timeout_wraps_witness:
  "\<exists>r s'. prepare_request sample_cfg (DispGet huge_get) sample_state = (Ok r, s') \<and> Request_timed_out r (now sample_state)"
proof -
  have "\<exists>r s'. prepare_request sample_cfg (DispGet huge_get) sample_state = (Ok r, s')"
    by (simp add: dispatch_eval sample_eval)
  then obtain r s' where run: "prepare_request sample_cfg (DispGet huge_get) sample_state = (Ok r, s')" by blast
  have "Request_timed_out r (now sample_state)"
    by (rule dispatched_get_timeout_wraps [OF run])
       (simp_all add: huge_get_def from_secs_def as_secs_def nanos_per_sec_def)
  with run show ?thesis by blast
qed

section \<open>Dispatching a response\<close>

text \<open>A response can be dispatched only to a request this chain has received and not yet
  answered; after it was dispatched no other response to the same request can be, whatever fee is
  offered for it.\<close>

theorem one_response_per_request:
  assumes "dispatch_response cfg r fee s = (Ok c, s')"
    and "PostResponse_request q = PostResponse_request r"
  shows "(\<exists>rc. hash_request (cf_keccak256 cfg) (PostResponse_request r) = Some rc \<and>
            RequestReceipts_contains_key rc s \<and> responded s rc = None) \<and>
         \<not> succeeds (dispatch_response cfg q fee') s'"
proof -
  from assms(1) obtain s1 rc where
    f: "collect_fee cfg fee s = (Ok (), s1)" and
    rc: "hash_request (cf_keccak256 cfg) (PostResponse_request r) = Some rc" and
    k: "RequestReceipts_contains_key rc s1" and
    d: "pallet_dispatch_response cfg (ResPost r) fee s1 = (Ok c, s')"
    unfolding dispatch_response_def by (auto simp: comp_ok)
  from collect_fee_Ok [OF f] obtain x where s1: "s1 = s\<lparr>env := x\<rparr>" by blast
  from pallet_dispatch_response_Ok [OF d] rc
  have none: "responded s1 rc = None" and some: "responded s' rc = Some True"
    by (auto simp: PostResponse_request_def)
  have "\<not> succeeds (dispatch_response cfg q fee') s'"
  proof
    assume "succeeds (dispatch_response cfg q fee') s'"
    from succeeds_run [OF this] obtain c' s'' where "dispatch_response cfg q fee' s' = (Ok c', s'')" by blast
    then obtain s2 where f': "collect_fee cfg fee' s' = (Ok (), s2)" and
      d': "pallet_dispatch_response cfg (ResPost q) fee' s2 = (Ok c', s'')"
      unfolding dispatch_response_def by (auto simp: comp_ok)
    from collect_fee_Ok [OF f'] some have "responded s2 rc = Some True" by auto
    with pallet_dispatch_response_Ok [OF d'] rc assms(2) show False by (auto simp: PostResponse_request_def)
  qed
  with rc k s1 none show ?thesis by (auto simp: RequestReceipts_contains_key_def)
qed

definition in_response :: "bytes \<Rightarrow> PostResponse" where
  "in_response b = \<lparr>prs_post = sample_post [1] [], prs_response = b, prs_timeout_timestamp = 0\<rparr>"

definition received_state :: sample_st where
  "received_state = RequestReceipts_insert 36 [11] empty_state"

theorem one_response_per_request_witness:
  "\<not> succeeds (dispatch_response sample_cfg (in_response [5]) sample_fee)
       (snd (dispatch_response sample_cfg (in_response []) sample_fee received_state))"
proof -
  have "succeeds (dispatch_response sample_cfg (in_response []) sample_fee) received_state"
    by (simp add: dispatch_response_def pallet_dispatch_response_def dispatch_eval received_state_def in_response_def
        RequestReceipts_contains_key_def RequestReceipts_insert_def PostResponse_request_def hash_post_response_def
        PostResponse_encode_def sample_post_def ResponseCommitments_insert_def sample_eval del: StateMachine_fmt.simps)
  from succeeds_run [OF this] obtain c where
    run: "dispatch_response sample_cfg (in_response []) sample_fee received_state =
      (Ok c, snd (dispatch_response sample_cfg (in_response []) sample_fee received_state))" by blast
  from one_response_per_request [OF run] show ?thesis by (simp add: PostResponse_request_def in_response_def)
qed

section \<open>Funding a message\<close>

text \<open>Funding a request moves exactly the amount from the caller to the relayer account and
  raises the fee recorded for the request by it (with the wrap-around of the balance type), leaving
  payer, position and claim of the commitment and every other commitment alone; a message that is
  not committed to cannot be funded.\<close>

theorem fund_request_effect:
  assumes "fund_message cfg origin \<lparr>fm_commitment = McRequest c, fm_amount = n\<rparr> s = (Ok (), s')"
  shows "\<exists>a m x. origin = OriginSigned a \<and> RequestCommitments_get c s = Some m \<and>
    cf_transfer cfg a (cf_fee_account cfg) n (env s) = (Ok (), x) \<and> env s' = x \<and>
    RequestCommitments_get c s' = Some (m\<lparr>rm_fee := (rm_fee m)\<lparr>fee_fee := fee_fee (rm_fee m) + n\<rparr>\<rparr>) \<and>
    (\<forall>c'. c' \<noteq> c \<longrightarrow> RequestCommitments_get c' s' = RequestCommitments_get c' s)"
proof -
  from assms obtain a m x where
    "origin = OriginSigned a" "RequestCommitments_get c s = Some m"
    "cf_transfer cfg a (cf_fee_account cfg) n (env s) = (Ok (), x)"
    "s' = RequestCommitments_insert c (add_fee n m) (s\<lparr>env := x\<rparr>)"
    by (auto simp: fund_message_def ensure_signed_def comp_ok on_env_Ok split: Origin.splits)
  then show ?thesis by (auto simp: child_trie_defs add_fee_def)
qed

definition funded_state :: sample_st where
  "funded_state = RequestCommitments_insert 36 (sample_meta 30) empty_state"

theorem fund_request_effect_witness:
  "\<exists>s' m. fund_message sample_cfg (OriginSigned 77) \<lparr>fm_commitment = McRequest 36, fm_amount = 12\<rparr> funded_state = (Ok (), s') \<and>
     RequestCommitments_get 36 s' = Some m \<and> fee_fee (rm_fee m) = 42"
proof -
  have "\<exists>s'. fund_message sample_cfg (OriginSigned 77) \<lparr>fm_commitment = McRequest 36, fm_amount = 12\<rparr> funded_state = (Ok (), s')"
    by (simp add: fund_message_def ensure_signed_def funded_state_def on_env_def sample_transfer_def empty_state_def
        child_trie_defs comp_app)
  then obtain s' where
    run: "fund_message sample_cfg (OriginSigned 77) \<lparr>fm_commitment = McRequest 36, fm_amount = 12\<rparr> funded_state = (Ok (), s')" by blast
  from fund_request_effect [OF run] have
    "\<exists>m. RequestCommitments_get 36 funded_state = Some m \<and>
      RequestCommitments_get 36 s' = Some (m\<lparr>rm_fee := (rm_fee m)\<lparr>fee_fee := fee_fee (rm_fee m) + 12\<rparr>\<rparr>)" by blast
  with run show ?thesis by (auto simp: funded_state_def child_trie_defs sample_meta_def)
qed

end
