(* ===== verification/Pallet_Hyperbridge.thy ===== *)
theory Pallet_Hyperbridge
  imports Pallet_Ismp
begin

text \<open>
  The dispatcher interface of the protocol (\<^verbatim>\<open>modules/ismp/core/src/dispatcher.rs\<close>) with
  its contract as a locale, the dispatcher of the ISMP pallet as one implementation, and
  pallet-hyperbridge (\<^verbatim>\<open>modules/ismp/pallets/hyperbridge/src\<close>: \<^verbatim>\<open>lib.rs\<close>,
  \<^verbatim>\<open>child_trie.rs\<close>), which wraps a dispatcher, charges the protocol fee per byte and
  obeys the messages of the coprocessor. The storage of the pallet extends the storage of the ISMP
  pallet; the SCALE decoder of its messages is a parameter.
\<close>

section \<open>The dispatcher interface\<close>

record 's IsmpDispatcher =
  d_dispatch_request :: "DispatchRequest \<Rightarrow> (account, balance) FeeMetadata \<Rightarrow> ('s, anyhow, h256) comp"
  d_dispatch_response :: "PostResponse \<Rightarrow> (account, balance) FeeMetadata \<Rightarrow> ('s, anyhow, h256) comp"

definition pallet_dispatcher :: "('x, 'm) Config \<Rightarrow> ('x, 'm) st IsmpDispatcher" where
  "pallet_dispatcher cfg =
     \<lparr>d_dispatch_request = dispatch_request cfg, d_dispatch_response = dispatch_response cfg\<rparr>"

text \<open>
  What the clients of a dispatcher rely on: a dispatched request takes a commitment that was free,
  records the fee it was given as unclaimed, touches no other commitment or receipt, and leaves the
  storage of the other pallets alone.
\<close>

locale ismp_dispatcher =
  fixes D :: "('x, 'm) st IsmpDispatcher"
  assumes request_committed:
      "d_dispatch_request D req fee s = (Ok c, s') \<Longrightarrow>
         RequestCommitments_get c s = None \<and>
         (\<exists>m. RequestCommitments_get c s' = Some m \<and> rm_fee m = fee \<and> \<not> rm_claimed m)"
    and request_others:
      "d_dispatch_request D req fee s = (Ok c, s') \<Longrightarrow> c' \<noteq> c \<Longrightarrow>
         RequestCommitments_get c' s' = RequestCommitments_get c' s"
    and request_frame:
      "keeps (\<lambda>s. RequestReceipts_get c' s = receipt \<and> ismp_state.more s = others) (d_dispatch_request D req fee)"

section \<open>Parameters and messages of the pallet\<close>

record SubstrateHostParams =
  shp_default_per_byte_fee :: balance
  shp_per_byte_fees :: "(StateMachine, balance) btree_map"
  shp_asset_registration_fee :: balance

datatype VersionedHostParams = V1 SubstrateHostParams

definition VersionedHostParams_default :: VersionedHostParams where
  "VersionedHostParams_default =
     V1 \<lparr>shp_default_per_byte_fee = 0, shp_per_byte_fees = [], shp_asset_registration_fee = 0\<rparr>"

record HbWithdrawalRequest =
  hwr_amount :: balance
  hwr_account :: account

datatype HbMessage =
    UpdateHostParams VersionedHostParams
  | WithdrawProtocolFees HbWithdrawalRequest
  | WithdrawRelayerFees HbWithdrawalRequest

datatype HbEvent =
    HbHostParamsUpdated VersionedHostParams VersionedHostParams
  | HbRelayerFeeWithdrawn balance account
  | HbProtocolRevenueWithdrawn balance account

record 'x hyperbridge_state = "'x ismp_state" +
  hb_host_params :: VersionedHostParams
  hb_events :: "HbEvent list"

type_synonym ('x, 'm) hb_st = "('x, 'm) hyperbridge_state_scheme"

text \<open>\<^verbatim>\<open>PALLET_HYPERBRIDGE_ID\<close>, and the configuration of the pallet: the wrapped
  dispatcher, the account of \<^verbatim>\<open>PALLET_HYPERBRIDGE\<close> and the decoder of its messages with the
  debug output of a decoding error.\<close>

definition PALLET_HYPERBRIDGE_ID :: bytes where
  "PALLET_HYPERBRIDGE_ID = ascii ''HYPR-FEE''"

record ('x, 'm) HbConfig =
  hc_dispatcher :: "('x, 'm) hb_st IsmpDispatcher"
  hc_account :: account
  hc_decode_message :: "bytes \<Rightarrow> bytes + HbMessage"

section \<open>Payments in the child trie\<close>

definition request_payment_storage_key :: "h256 \<Rightarrow> bytes" where
  "request_payment_storage_key key = ascii ''RequestPayment'' @ be_bytes 32 key"

definition response_payment_storage_key :: "h256 \<Rightarrow> bytes" where
  "response_payment_storage_key key = ascii ''ResponsePayment'' @ be_bytes 32 key"

definition RequestPayments_get :: "h256 \<Rightarrow> ('x, 'm) st \<Rightarrow> balance option" where
  "RequestPayments_get key s =
     (case child_trie s (request_payment_storage_key key) of Some (CvPayment b) \<Rightarrow> Some b | _ \<Rightarrow> None)"

definition RequestPayments_insert :: "h256 \<Rightarrow> balance \<Rightarrow> ('x, 'm) st \<Rightarrow> ('x, 'm) st" where
  "RequestPayments_insert key meta = child_put (request_payment_storage_key key) (CvPayment meta)"

definition RequestPayments_remove :: "h256 \<Rightarrow> ('x, 'm) st \<Rightarrow> ('x, 'm) st" where
  "RequestPayments_remove key = child_kill (request_payment_storage_key key)"

definition RequestPayments_contains_key :: "h256 \<Rightarrow> ('x, 'm) st \<Rightarrow> bool" where
  "RequestPayments_contains_key key s \<longleftrightarrow> child_trie s (request_payment_storage_key key) \<noteq> None"

definition ResponsePayments_get :: "h256 \<Rightarrow> ('x, 'm) st \<Rightarrow> balance option" where
  "ResponsePayments_get key s =
     (case child_trie s (response_payment_storage_key key) of Some (CvPayment b) \<Rightarrow> Some b | _ \<Rightarrow> None)"

definition ResponsePayments_insert :: "h256 \<Rightarrow> balance \<Rightarrow> ('x, 'm) st \<Rightarrow> ('x, 'm) st" where
  "ResponsePayments_insert key meta = child_put (response_payment_storage_key key) (CvPayment meta)"

definition ResponsePayments_remove :: "h256 \<Rightarrow> ('x, 'm) st \<Rightarrow> ('x, 'm) st" where
  "ResponsePayments_remove key = child_kill (response_payment_storage_key key)"

definition ResponsePayments_contains_key :: "h256 \<Rightarrow> ('x, 'm) st \<Rightarrow> bool" where
  "ResponsePayments_contains_key key s \<longleftrightarrow> child_trie s (response_payment_storage_key key) \<noteq> None"

section \<open>The dispatcher of the pallet\<close>

definition hb_deposit_event :: "HbEvent \<Rightarrow> (('x, 'm) hb_st, 'e, unit) comp" where
  "hb_deposit_event e = modify (\<lambda>s. s\<lparr>hb_events := hb_events s @ [e]\<rparr>)"

definition per_byte_fee :: "VersionedHostParams \<Rightarrow> StateMachine \<Rightarrow> balance" where
  "per_byte_fee params dest =
     (case params of V1 p \<Rightarrow>
        (case map_of (shp_per_byte_fees p) dest of Some b \<Rightarrow> b | None \<Rightarrow> shp_default_per_byte_fee p))"

text \<open>The fee is for at least 32 bytes; the product wraps as \<^verbatim>\<open>u128\<close> does.\<close>

definition protocol_fee :: "VersionedHostParams \<Rightarrow> StateMachine \<Rightarrow> bytes \<Rightarrow> balance" where
  "protocol_fee params dest body =
     (if length body < 32 then per_byte_fee params dest * 32
      else per_byte_fee params dest * of_nat (length body))"

definition collect_protocol_fee ::
  "('x, 'm hyperbridge_state_ext) Config \<Rightarrow> ('x, 'm) HbConfig \<Rightarrow> account \<Rightarrow> balance \<Rightarrow>
     (('x, 'm) hb_st, anyhow, unit) comp" where
  "collect_protocol_fee cfg hc payer fees =
     (if fees \<noteq> 0
      then map_err withdraw_error (on_env (cf_transfer cfg payer (hc_account hc) fees))
      else ret ())"

definition hb_dispatch_request ::
  "('x, 'm hyperbridge_state_ext) Config \<Rightarrow> ('x, 'm) HbConfig \<Rightarrow> DispatchRequest \<Rightarrow>
     (account, balance) FeeMetadata \<Rightarrow> (('x, 'm) hb_st, anyhow, h256) comp" where
  "hb_dispatch_request cfg hc request fee =
     bindC (case request of
              DispPost post \<Rightarrow>
                bindC (asks hb_host_params) (\<lambda>params.
                (let fees = protocol_fee params (dp_dest post) (dp_body post) in
                 bindC (collect_protocol_fee cfg hc (fee_payer fee) fees) (\<lambda>_. ret fees)))
            | DispGet _ \<Rightarrow> ret 0) (\<lambda>fees.
     bindC (d_dispatch_request (hc_dispatcher hc) request fee) (\<lambda>commitment.
     bindC (modify (RequestPayments_insert commitment fees)) (\<lambda>_.
       ret commitment)))"

definition hb_dispatch_response ::
  "('x, 'm hyperbridge_state_ext) Config \<Rightarrow> ('x, 'm) HbConfig \<Rightarrow> PostResponse \<Rightarrow>
     (account, balance) FeeMetadata \<Rightarrow> (('x, 'm) hb_st, anyhow, h256) comp" where
  "hb_dispatch_response cfg hc response fee =
     bindC (asks hb_host_params) (\<lambda>params.
     (let fees = protocol_fee params (PostResponse_dest_chain response) (prs_response response) in
      bindC (collect_protocol_fee cfg hc (fee_payer fee) fees) (\<lambda>_.
      bindC (d_dispatch_response (hc_dispatcher hc) response fee) (\<lambda>commitment.
      bindC (modify (ResponsePayments_insert commitment fees)) (\<lambda>_.
        ret commitment)))))"

definition hyperbridge_dispatcher ::
  "('x, 'm hyperbridge_state_ext) Config \<Rightarrow> ('x, 'm) HbConfig \<Rightarrow> ('x, 'm) hb_st IsmpDispatcher" where
  "hyperbridge_dispatcher cfg hc =
     \<lparr>d_dispatch_request = hb_dispatch_request cfg hc, d_dispatch_response = hb_dispatch_response cfg hc\<rparr>"

section \<open>The module of the pallet\<close>

definition hb_withdraw ::
  "('x, 'm hyperbridge_state_ext) Config \<Rightarrow> account \<Rightarrow> HbWithdrawalRequest \<Rightarrow> (('x, 'm) hb_st, anyhow, unit) comp" where
  "hb_withdraw cfg from_account r =
     map_err (\<lambda>err. AnyIsmp (Custom (ascii ''Error withdrawing protocol fees: '' @ err)))
       (on_env (cf_transfer cfg from_account (hwr_account r) (hwr_amount r)))"

text \<open>The error for another source prints the chain; \<open>None\<close> of the printer is its panic.\<close>

definition hb_on_accept ::
  "('x, 'm hyperbridge_state_ext) Config \<Rightarrow> ('x, 'm) HbConfig \<Rightarrow> PostRequest \<Rightarrow> (('x, 'm) hb_st, anyhow, unit) comp" where
  "hb_on_accept cfg hc request =
     bindC (if Some (pr_source request) \<noteq> cf_coprocessor cfg
            then bindC (expect (StateMachine_fmt (pr_source request))) (\<lambda>name.
                   fail (AnyIsmp (Custom (ascii ''Invalid request source: '' @ name))))
            else ret ()) (\<lambda>_.
     bindC (map_err (\<lambda>err. AnyIsmp (Custom (ascii ''Failed to decode per-byte fee: '' @ err)))
              (propagate (hc_decode_message hc (pr_body request)))) (\<lambda>message.
       case message of
         UpdateHostParams new \<Rightarrow>
           bindC (asks hb_host_params) (\<lambda>old.
           bindC (modify (\<lambda>s. s\<lparr>hb_host_params := new\<rparr>)) (\<lambda>_.
             hb_deposit_event (HbHostParamsUpdated old new)))
       | WithdrawProtocolFees r \<Rightarrow>
           bindC (hb_withdraw cfg (hc_account hc) r) (\<lambda>_.
             hb_deposit_event (HbProtocolRevenueWithdrawn (hwr_amount r) (hwr_account r)))
       | WithdrawRelayerFees r \<Rightarrow>
           bindC (hb_withdraw cfg (cf_fee_account cfg) r) (\<lambda>_.
             hb_deposit_event (HbRelayerFeeWithdrawn (hwr_amount r) (hwr_account r)))))"

definition hyperbridge_module ::
  "('x, 'm hyperbridge_state_ext) Config \<Rightarrow> ('x, 'm) HbConfig \<Rightarrow> ('x, 'm) hb_st IsmpModule" where
  "hyperbridge_module cfg hc =
     \<lparr>on_accept = hb_on_accept cfg hc,
      on_response = (\<lambda>_. fail (AnyIsmp CannotHandleMessage)),
      on_timeout = (\<lambda>_. fail (AnyIsmp CannotHandleMessage))\<rparr>"

section \<open>The keys of the payments\<close>

lemma payment_key_inj [simp]:
  "request_payment_storage_key x = request_payment_storage_key y \<longleftrightarrow> x = y"
  "response_payment_storage_key x = response_payment_storage_key y \<longleftrightarrow> x = y"
  by (simp_all add: request_payment_storage_key_def response_payment_storage_key_def)

lemma payment_key_length:
  "length (request_payment_storage_key x) = 46"
  "length (response_payment_storage_key x) = 47"
  by (simp_all add: request_payment_storage_key_def response_payment_storage_key_def)

text \<open>The keys of response payments are as long as those of request receipts: only the fourth byte
  of the prefixes tells them apart.\<close>

lemma response_payment_not_receipt:
  "response_payment_storage_key x \<noteq> request_receipt_storage_key y"
proof
  assume "response_payment_storage_key x = request_receipt_storage_key y"
  then have "response_payment_storage_key x ! 3 = request_receipt_storage_key y ! 3" by simp
  then show False
    by (simp add: response_payment_storage_key_def request_receipt_storage_key_def ascii_def nth_append)
qed

lemma payment_key_disjoint [simp]:
  "request_payment_storage_key x \<noteq> response_payment_storage_key y"
  "response_payment_storage_key x \<noteq> request_payment_storage_key y"
  "request_payment_storage_key x \<noteq> request_commitment_storage_key y"
  "request_payment_storage_key x \<noteq> response_commitment_storage_key y"
  "request_payment_storage_key x \<noteq> request_receipt_storage_key y"
  "request_payment_storage_key x \<noteq> response_receipt_storage_key y"
  "response_payment_storage_key x \<noteq> request_commitment_storage_key y"
  "response_payment_storage_key x \<noteq> response_commitment_storage_key y"
  "response_payment_storage_key x \<noteq> response_receipt_storage_key y"
  "request_commitment_storage_key y \<noteq> request_payment_storage_key x"
  "response_commitment_storage_key y \<noteq> request_payment_storage_key x"
  "request_receipt_storage_key y \<noteq> request_payment_storage_key x"
  "response_receipt_storage_key y \<noteq> request_payment_storage_key x"
  "request_commitment_storage_key y \<noteq> response_payment_storage_key x"
  "response_commitment_storage_key y \<noteq> response_payment_storage_key x"
  "response_receipt_storage_key y \<noteq> response_payment_storage_key x"
  by (rule different_length, simp add: payment_key_length storage_key_length)+

declare response_payment_not_receipt [simp] response_payment_not_receipt [symmetric, simp]

lemmas payment_defs =
  RequestPayments_get_def RequestPayments_insert_def RequestPayments_remove_def
  RequestPayments_contains_key_def ResponsePayments_get_def ResponsePayments_insert_def
  ResponsePayments_remove_def ResponsePayments_contains_key_def

lemma payment_frame [simp]:
  "RequestReceipts_get c (RequestPayments_insert k b s) = RequestReceipts_get c s"
  "RequestCommitments_get c (RequestPayments_insert k b s) = RequestCommitments_get c s"
  "RequestReceipts_get c (s\<lparr>env := x\<rparr>) = RequestReceipts_get c s"
  "RequestCommitments_get c (s\<lparr>env := x\<rparr>) = RequestCommitments_get c s"
  "ismp_state.more (RequestPayments_insert k b s) = ismp_state.more s"
  by (simp_all add: payment_defs child_trie_defs)

section \<open>The dispatchers keep the contract\<close>

text \<open>An effect outside the pallets keeps every predicate that does not look there.\<close>

lemma keeps_on_env: "(\<And>s x. P s \<Longrightarrow> P (s\<lparr>env := x\<rparr>)) \<Longrightarrow> keeps P (on_env m)"
  by (simp add: keeps_def on_env_def split: prod.split)

lemma keeps_modify: "(\<And>s. P s \<Longrightarrow> P (f s)) \<Longrightarrow> keeps P (modify f)"
  by (simp add: keeps_def modify_def)

lemma keeps_next_nonce: "(\<And>s. P s \<Longrightarrow> P (s\<lparr>nonce := nonce s + 1\<rparr>)) \<Longrightarrow> keeps P next_nonce"
  by (simp add: keeps_def next_nonce_def pallet_next_nonce_def)

lemma keeps_collect_fee: "(\<And>s x. P s \<Longrightarrow> P (s\<lparr>env := x\<rparr>)) \<Longrightarrow> keeps P (collect_fee cfg fee)"
  by (simp add: collect_fee_def keeps_basic keeps_map_err keeps_on_env)

lemma keeps_collect_protocol_fee:
  "(\<And>s x. P s \<Longrightarrow> P (s\<lparr>env := x\<rparr>)) \<Longrightarrow> keeps P (collect_protocol_fee cfg hc payer fees)"
  by (simp add: collect_protocol_fee_def keeps_basic keeps_map_err keeps_on_env)

lemma dispatch_request_frame:
  "keeps (\<lambda>s. RequestReceipts_get c' s = receipt \<and> ismp_state.more s = others) (dispatch_request cfg req fee)"
  unfolding dispatch_request_def prepare_request_def pallet_dispatch_request_def mmr_push_def deposit_event_def
  by (cases req)
     (auto intro!: keeps_intros keeps_collect_fee keeps_on_env keeps_modify keeps_next_nonce simp: child_trie_defs)

lemma pallet_dispatcher_contract: "ismp_dispatcher (pallet_dispatcher cfg)"
proof (unfold_locales, goal_cases)
  case (1 req fee s c s')
  then have "dispatch_request cfg req fee s = (Ok c, s')" by (simp add: pallet_dispatcher_def)
  from dispatch_request_Ok [OF this] show ?case by auto
next
  case (2 req fee s c s' c')
  then have "dispatch_request cfg req fee s = (Ok c, s')" by (simp add: pallet_dispatcher_def)
  from dispatch_request_Ok [OF this] 2(2) show ?case by auto
next
  case (3 c' receipt others req fee)
  show ?case by (simp add: pallet_dispatcher_def dispatch_request_frame)
qed

interpretation pd: ismp_dispatcher "pallet_dispatcher cfg" for cfg
  by (rule pallet_dispatcher_contract)

definition request_fees :: "VersionedHostParams \<Rightarrow> DispatchRequest \<Rightarrow> balance" where
  "request_fees params req =
     (case req of DispPost p \<Rightarrow> protocol_fee params (dp_dest p) (dp_body p) | DispGet _ \<Rightarrow> 0)"

lemma collect_protocol_fee_Ok:
  assumes "collect_protocol_fee cfg hc payer fees s = (Ok u, s')"
  shows "\<exists>x. s' = s\<lparr>env := x\<rparr> \<and>
    (fees = 0 \<and> x = env s \<or> cf_transfer cfg payer (hc_account hc) fees (env s) = (Ok (), x))"
proof (cases "fees = 0")
  case True
  with assms have "s' = s" by (simp add: collect_protocol_fee_def comp_ok)
  with True show ?thesis by (intro exI [of _ "env s"]) simp
next
  case False
  with assms show ?thesis by (auto simp: collect_protocol_fee_def comp_ok on_env_Ok)
qed

lemma hb_dispatch_request_Ok:
  assumes "hb_dispatch_request cfg hc req fee s = (Ok c, s')"
  shows "\<exists>x s1. (request_fees (hb_host_params s) req = 0 \<and> x = env s \<or>
      cf_transfer cfg (fee_payer fee) (hc_account hc) (request_fees (hb_host_params s) req) (env s) = (Ok (), x)) \<and>
    d_dispatch_request (hc_dispatcher hc) req fee (s\<lparr>env := x\<rparr>) = (Ok c, s1) \<and>
    s' = RequestPayments_insert c (request_fees (hb_host_params s) req) s1"
proof (cases req)
  case (DispPost p)
  with assms obtain s0 s1 where
    f: "collect_protocol_fee cfg hc (fee_payer fee) (request_fees (hb_host_params s) req) s = (Ok (), s0)" and
    "d_dispatch_request (hc_dispatcher hc) req fee s0 = (Ok c, s1)"
    "s' = RequestPayments_insert c (request_fees (hb_host_params s) req) s1"
    by (auto simp: hb_dispatch_request_def comp_ok Let_def request_fees_def)
  with collect_protocol_fee_Ok [OF f] show ?thesis by blast
next
  case (DispGet g)
  with assms show ?thesis
    by (intro exI [of _ "env s"]) (auto simp: hb_dispatch_request_def comp_ok request_fees_def)
qed

text \<open>Whatever dispatcher the pallet wraps, if that one keeps the contract the pallet does.\<close>

locale hyperbridge_over = inner: ismp_dispatcher "hc_dispatcher hc"
  for hc :: "('x, 'm) HbConfig" +
  fixes cfg :: "('x, 'm hyperbridge_state_ext) Config"
begin

lemma hyperbridge_request:
  assumes "hb_dispatch_request cfg hc req fee s = (Ok c, s')"
  shows "RequestCommitments_get c s = None"
    and "\<exists>m. RequestCommitments_get c s' = Some m \<and> rm_fee m = fee \<and> \<not> rm_claimed m"
    and "c' \<noteq> c \<Longrightarrow> RequestCommitments_get c' s' = RequestCommitments_get c' s"
proof -
  from hb_dispatch_request_Ok [OF assms] obtain x s1 where
    d: "d_dispatch_request (hc_dispatcher hc) req fee (s\<lparr>env := x\<rparr>) = (Ok c, s1)" and
    s': "s' = RequestPayments_insert c (request_fees (hb_host_params s) req) s1" by blast
  from inner.request_committed [OF d] s'
  show "RequestCommitments_get c s = None"
    "\<exists>m. RequestCommitments_get c s' = Some m \<and> rm_fee m = fee \<and> \<not> rm_claimed m"
    by auto
  show "c' \<noteq> c \<Longrightarrow> RequestCommitments_get c' s' = RequestCommitments_get c' s"
    using inner.request_others [OF d] s' by simp
qed

lemma hyperbridge_frame:
  "keeps (\<lambda>s. RequestReceipts_get c' s = receipt \<and> ismp_state.more s = others) (hb_dispatch_request cfg hc req fee)"
  unfolding hb_dispatch_request_def
  by (cases req)
     (auto intro!: keeps_intros keeps_collect_protocol_fee keeps_modify inner.request_frame
        simp: Let_def)

end

sublocale hyperbridge_over \<subseteq> outer: ismp_dispatcher "hyperbridge_dispatcher cfg hc"
  by unfold_locales (use hyperbridge_request hyperbridge_frame in \<open>simp_all add: hyperbridge_dispatcher_def\<close>)

definition over_pallet :: "('x, 'm hyperbridge_state_ext) Config \<Rightarrow> ('x, 'm) HbConfig \<Rightarrow> ('x, 'm) HbConfig" where
  "over_pallet cfg hc = hc\<lparr>hc_dispatcher := pallet_dispatcher cfg\<rparr>"

lemma over_pallet_simps [simp]:
  "hc_dispatcher (over_pallet cfg hc) = pallet_dispatcher cfg"
  "hc_account (over_pallet cfg hc) = hc_account hc"
  by (simp_all add: over_pallet_def)

interpretation hb: hyperbridge_over "over_pallet cfg hc" cfg for cfg hc
  unfolding hyperbridge_over_def by (simp add: pallet_dispatcher_contract)

end
