(* ===== verification/Pallet_Fishermen.thy ===== *)
theory Pallet_Fishermen
  imports Pallet_Ismp
begin

text \<open>
  pallet-fishermen (\<^verbatim>\<open>modules/ismp/pallets/fishermen/src/lib.rs\<close>): the set of accounts
  that may veto a state commitment and the three calls of the pallet. The host of the pallet is the
  ISMP pallet; an account is its 32 bytes.
\<close>

datatype FishermenError = FeBadOrigin | AlreadyAdded | NotInSet | UnauthorizedAction | VetoFailed

datatype FishermenEvent =
    FeAdded account
  | FeRemoved account
  | FeStateCommitmentVetoed StateMachineHeight StateCommitment

record 'x fishermen_state = "'x ismp_state" +
  fishermen :: "account \<Rightarrow> bool"
  fishermen_events :: "FishermenEvent list"

type_synonym ('x, 'm) fm_st = "('x, 'm) fishermen_state_scheme"
type_synonym ('x, 'm) fm_config = "('x, 'm fishermen_state_ext) Config"

definition fishermen_deposit_event :: "FishermenEvent \<Rightarrow> (('x, 'm) fm_st, 'e, unit) comp" where
  "fishermen_deposit_event e = modify (\<lambda>s. s\<lparr>fishermen_events := fishermen_events s @ [e]\<rparr>)"

definition fishermen_add ::
  "('x, 'm) fm_config \<Rightarrow> Origin \<Rightarrow> account \<Rightarrow> (('x, 'm) fm_st, FishermenError, unit) comp" where
  "fishermen_add cfg origin account = transactional
     (bindC (ensure (cf_admin_origin cfg origin) FeBadOrigin) (\<lambda>_.
      bindC (asks (\<lambda>s. fishermen s account)) (\<lambda>known.
      bindC (ensure (\<not> known) AlreadyAdded) (\<lambda>_.
      bindC (modify (\<lambda>s. s\<lparr>fishermen := (fishermen s)(account := True)\<rparr>)) (\<lambda>_.
        fishermen_deposit_event (FeAdded account))))))"

definition fishermen_remove ::
  "('x, 'm) fm_config \<Rightarrow> Origin \<Rightarrow> account \<Rightarrow> (('x, 'm) fm_st, FishermenError, unit) comp" where
  "fishermen_remove cfg origin account = transactional
     (bindC (ensure (cf_admin_origin cfg origin) FeBadOrigin) (\<lambda>_.
      bindC (asks (\<lambda>s. fishermen s account)) (\<lambda>known.
      bindC (ensure known NotInSet) (\<lambda>_.
      bindC (modify (\<lambda>s. s\<lparr>fishermen := (fishermen s)(account := False)\<rparr>)) (\<lambda>_.
        fishermen_deposit_event (FeRemoved account))))))"

definition veto_state_commitment ::
  "('x, 'm) fm_config \<Rightarrow> Origin \<Rightarrow> StateMachineHeight \<Rightarrow> (('x, 'm) fm_st, FishermenError, unit) comp" where
  "veto_state_commitment cfg origin height = transactional
     (bindC (ensure_signed origin FeBadOrigin) (\<lambda>account.
      bindC (asks (\<lambda>s. fishermen s account)) (\<lambda>listed.
      bindC (ensure listed UnauthorizedAction) (\<lambda>_.
      bindC (map_err (\<lambda>_. VetoFailed) (reads (h_state_machine_commitment (pallet_host cfg) height))) (\<lambda>commitment.
      bindC (map_err (\<lambda>_. VetoFailed) (h_delete_state_commitment (pallet_host cfg) height)) (\<lambda>_.
      bindC (fishermen_deposit_event (FeStateCommitmentVetoed height commitment)) (\<lambda>_.
      bindC (expect (PalletEvent_from (EvStateCommitmentVetoed height (be_bytes 32 account)))) (\<lambda>ev.
        deposit_event ev))))))))"

section \<open>The set of fishermen as an abstract set\<close>

text \<open>The administrative history: a successful call adds or removes exactly one account.\<close>

datatype fishermen_call = CallAdd account | CallRemove account

fun run_admin :: "('x, 'm) fm_config \<Rightarrow> Origin \<Rightarrow> fishermen_call \<Rightarrow> (('x, 'm) fm_st, FishermenError, unit) comp" where
  "run_admin cfg origin (CallAdd a) = fishermen_add cfg origin a"
| "run_admin cfg origin (CallRemove a) = fishermen_remove cfg origin a"

fun admin_spec :: "fishermen_call \<Rightarrow> account set \<Rightarrow> account set option" where
  "admin_spec (CallAdd a) F = (if a \<in> F then None else Some (insert a F))"
| "admin_spec (CallRemove a) F = (if a \<in> F then Some (F - {a}) else None)"

definition fishermen_set :: "('x, 'm) fm_st \<Rightarrow> account set" where
  "fishermen_set s = Collect (fishermen s)"

lemma run_admin_refines:
  assumes "cf_admin_origin cfg origin"
  shows "(case admin_spec call (fishermen_set s) of
      None \<Rightarrow> \<exists>e. run_admin cfg origin call s = (Err e, s)
    | Some F \<Rightarrow> \<exists>s'. run_admin cfg origin call s = (Ok (), s') \<and> fishermen_set s' = F \<and>
        ismp_state.truncate s' = ismp_state.truncate s)"
  using assms
  by (cases call)
     (auto simp: fishermen_add_def fishermen_remove_def fishermen_set_def fishermen_deposit_event_def comp_app
        ismp_state.defs split: if_splits)

section \<open>A veto\<close>

lemma delete_state_commitment_Ok:
  assumes "pallet_delete_state_commitment cfg height s = (r, t)"
  shows "StateCommitments_get cfg height t = None" "fishermen t = fishermen s"
  using assms
  by (auto simp: pallet_delete_state_commitment_def modify_def child_trie_defs Let_def split: option.split)

lemma commitment_frame [simp]:
  "StateCommitments_get cfg height (s\<lparr>fishermen_events := ev\<rparr>) = StateCommitments_get cfg height s"
  "StateCommitments_get cfg height (s\<lparr>events := pe\<rparr>) = StateCommitments_get cfg height s"
  by (simp_all add: StateCommitments_get_def split: option.split child_value.split)

lemma veto_Ok:
  assumes "veto_state_commitment cfg origin height s = (Ok u, s')"
  shows "\<exists>a c. origin = OriginSigned a \<and> fishermen s a \<and> StateCommitments_get cfg height s = Some c"
    and "StateCommitments_get cfg height s' = None"
    and "fishermen s' = fishermen s"
  using assms
  by (auto simp: veto_state_commitment_def ensure_signed_def comp_ok pallet_state_machine_commitment_def
      fishermen_deposit_event_def deposit_event_def delete_state_commitment_Ok
      split: Origin.splits option.splits)

end
