(* ===== verification/Hyperbridge_Properties.thy ===== *)
theory Hyperbridge_Properties
  imports Sample_Runtime Pallet_Hyperbridge Pallet_Fishermen
begin

text \<open>
  What pallet-hyperbridge and pallet-fishermen guarantee: the protocol fee and its record, whom the
  pallet obeys, the effect of a veto, and the maps of all pallets that share the child trie.
\<close>

section \<open>The child trie\<close>

text \<open>The storage keys of the seven maps kept in the child trie.\<close>

datatype trie_key =
    TkRequest h256 | TkResponse h256 | TkRequestReceipt h256 | TkResponseReceipt h256 | TkState h256
  | TkRequestPayment h256 | TkResponsePayment h256

fun trie_key_bytes :: "trie_key \<Rightarrow> bytes" where
  "trie_key_bytes (TkRequest c) = request_commitment_storage_key c"
| "trie_key_bytes (TkResponse c) = response_commitment_storage_key c"
| "trie_key_bytes (TkRequestReceipt c) = request_receipt_storage_key c"
| "trie_key_bytes (TkResponseReceipt c) = response_receipt_storage_key c"
| "trie_key_bytes (TkState k) = STATE_COMMITMENTS_KEY @ be_bytes 32 k"
| "trie_key_bytes (TkRequestPayment c) = request_payment_storage_key c"
| "trie_key_bytes (TkResponsePayment c) = response_payment_storage_key c"

lemma state_key_disjoint:
  "STATE_COMMITMENTS_KEY @ be_bytes 32 (k :: h256) \<noteq> request_commitment_storage_key c"
  "STATE_COMMITMENTS_KEY @ be_bytes 32 (k :: h256) \<noteq> response_commitment_storage_key c"
  "STATE_COMMITMENTS_KEY @ be_bytes 32 (k :: h256) \<noteq> request_receipt_storage_key c"
  "STATE_COMMITMENTS_KEY @ be_bytes 32 (k :: h256) \<noteq> response_receipt_storage_key c"
  "STATE_COMMITMENTS_KEY @ be_bytes 32 (k :: h256) \<noteq> request_payment_storage_key c"
  "STATE_COMMITMENTS_KEY @ be_bytes 32 (k :: h256) \<noteq> response_payment_storage_key c"
  by (rule different_length, simp add: storage_key_length payment_key_length STATE_COMMITMENTS_KEY_def)+

text \<open>The seven maps that the pallets keep in one child trie (request and response commitments,
  request and response receipts, state commitments, request and response payments) never share a
  raw storage key, within one map or across two.\<close>

theorem child_trie_keys_injective: "inj trie_key_bytes"
proof (rule injI)
  fix x y
  assume "trie_key_bytes x = trie_key_bytes y"
  then show "x = y"
    by (cases x; cases y) (simp_all add: state_key_disjoint state_key_disjoint [symmetric])
qed

section \<open>The protocol fee\<close>

lemma hb_params_more: "ismp_state.more s' = ismp_state.more s \<Longrightarrow> hb_host_params s' = hb_host_params s"
  by (cases s; cases s') simp

text \<open>Dispatching a post request through pallet-hyperbridge over the ISMP pallet moves the
  protocol fee for at least 32 bytes (as a product of machine integers) from the payer to the
  pallet, commits to the request with the relayer fee, records exactly the collected amount as the
  payment for that commitment, and leaves the parameters of the pallet alone.\<close>

theorem hyperbridge_request_is_paid:
  assumes "hb_dispatch_request cfg (over_pallet cfg hc) (DispPost post) fee s = (Ok c, s')"
  shows "\<exists>n x m. unat n = max 32 (length (dp_body post)) * unat (per_byte_fee (hb_host_params s) (dp_dest post)) mod 2 ^ 128 \<and>
    (n = 0 \<and> x = env s \<or> cf_transfer cfg (fee_payer fee) (hc_account hc) n (env s) = (Ok (), x)) \<and>
    RequestPayments_get c s' = Some n \<and>
    RequestCommitments_get c s = None \<and> RequestCommitments_get c s' = Some m \<and> rm_fee m = fee \<and>
    hb_host_params s' = hb_host_params s"
proof -
  let ?n = "protocol_fee (hb_host_params s) (dp_dest post) (dp_body post)"
  from hb_dispatch_request_Ok [OF assms] obtain x s1 where
    x: "?n = 0 \<and> x = env s \<or> cf_transfer cfg (fee_payer fee) (hc_account hc) ?n (env s) = (Ok (), x)" and
    s': "s' = RequestPayments_insert c ?n s1"
    by (auto simp: request_fees_def)
  have n: "unat ?n = max 32 (length (dp_body post)) * unat (per_byte_fee (hb_host_params s) (dp_dest post)) mod 2 ^ 128"
    by (auto simp: protocol_fee_def max_def unat_word_ariths unat_of_nat mult.commute mod_mult_right_eq)
  have "ismp_state.more s' = ismp_state.more s"
    using keepsD [OF hb.hyperbridge_frame assms, of c "RequestReceipts_get c s" "ismp_state.more s"] by simp
  then have "hb_host_params s' = hb_host_params s" by (rule hb_params_more)
  moreover have "RequestPayments_get c s' = Some ?n"
    using s' by (simp add: payment_defs child_put_def)
  ultimately show ?thesis using n x hb.hyperbridge_request(1,2) [OF assms] by blast
qed

definition fee_params :: VersionedHostParams where
  "fee_params = V1 \<lparr>shp_default_per_byte_fee = 2, shp_per_byte_fees = [(Evm 1, 3)], shp_asset_registration_fee = 0\<rparr>"

definition fee_state :: "(sample_env, unit) hb_st" where
  "fee_state = ismp_state.extend empty_state (hyperbridge_state.fields fee_params [])"

definition fee_hc :: "(sample_env, unit) HbConfig" where
  "fee_hc = over_pallet runtime_cfg
     \<lparr>hc_dispatcher = pallet_dispatcher runtime_cfg, hc_account = 2,
      hc_decode_message = (\<lambda>b. if b = [1] then Inr (WithdrawProtocolFees \<lparr>hwr_amount = 5, hwr_account = 9\<rparr>) else Inl [])\<rparr>"

definition fee_post :: DispatchPost where
  "fee_post = \<lparr>dp_dest = Evm 1, dp_from = [1], dp_to = [3], dp_timeout = 100, dp_body = [0]\<rparr>"

lemma fee_run:
  "succeeds (hb_dispatch_request runtime_cfg fee_hc (DispPost fee_post) \<lparr>fee_payer = 77, fee_fee = 30\<rparr>) fee_state"
  by (simp add: sample_eval hb_dispatch_request_def fee_state_def fee_hc_def fee_post_def fee_params_def protocol_fee_def
      per_byte_fee_def collect_protocol_fee_def pallet_dispatcher_def dispatch_request_def collect_fee_def
      prepare_request_def next_nonce_def pallet_next_nonce_def pallet_dispatch_request_def deposit_event_def mmr_push_def
      on_env_def sample_transfer_def sample_push_def RequestCommitments_contains_key_def RequestCommitments_insert_def
      hash_request_def option_cat_def sample_hash_def empty_state_def ismp_state.defs hyperbridge_state.defs
      del: StateMachine_fmt.simps)

theorem hyperbridge_request_is_paid_witness:
  "\<exists>c s' n. hb_dispatch_request runtime_cfg fee_hc (DispPost fee_post) \<lparr>fee_payer = 77, fee_fee = 30\<rparr> fee_state = (Ok c, s') \<and>
     RequestPayments_get c s' = Some n \<and> unat n = 96"
proof -
  from succeeds_run [OF fee_run] obtain c s' where
    run: "hb_dispatch_request runtime_cfg fee_hc (DispPost fee_post) \<lparr>fee_payer = 77, fee_fee = 30\<rparr> fee_state = (Ok c, s')" by blast
  have fee: "unat (per_byte_fee (hb_host_params fee_state) (dp_dest fee_post)) = 3"
    by (simp add: fee_state_def fee_params_def fee_post_def per_byte_fee_def ismp_state.defs hyperbridge_state.defs)
  from hyperbridge_request_is_paid [OF run [unfolded fee_hc_def]] fee run show ?thesis
    by (auto simp: fee_post_def)
qed

section \<open>Commands from hyperbridge\<close>

text \<open>Pallet-hyperbridge obeys only its coprocessor: a request that changes anything, the fee
  parameters or any balance, came from the configured coprocessor; without a coprocessor no request
  changes anything.\<close>

theorem only_coprocessor_commands:
  assumes "hb_on_accept cfg hc request s = (r, s')" and "s' \<noteq> s"
  shows "cf_coprocessor cfg = Some (pr_source request) \<and> (\<exists>msg. hc_decode_message hc (pr_body request) = Inr msg)"
proof (rule ccontr)
  assume bad: "\<not> ?thesis"
  have "blocked (hb_on_accept cfg hc request) s"
  proof (cases "Some (pr_source request) = cf_coprocessor cfg")
    case True
    with bad obtain e where "hc_decode_message hc (pr_body request) = Inl e" by (metis sum.exhaust)
    with True show ?thesis by (simp add: hb_on_accept_def blocked_def comp_app)
  next
    case False
    then show ?thesis by (simp add: hb_on_accept_def blocked_def comp_app split: option.split)
  qed
  with assms show False by (simp add: blocked_def)
qed

definition coprocessor_cfg :: "(sample_env, unit hyperbridge_state_ext) Config" where
  "coprocessor_cfg = runtime_cfg\<lparr>cf_coprocessor := Some (Evm 1)\<rparr>"

theorem only_coprocessor_commands_witness:
  "cf_coprocessor coprocessor_cfg = Some (pr_source (sample_post [] [1])) \<and>
   env (snd (hb_on_accept coprocessor_cfg fee_hc (sample_post [] [1]) fee_state)) \<noteq> env fee_state"
proof -
  have run: "\<exists>s'. hb_on_accept coprocessor_cfg fee_hc (sample_post [] [1]) fee_state = (Ok (), s') \<and>
      fst (env s') 9 = 1005 \<and> fst (env fee_state) 9 = 1000"
    by (simp add: hb_on_accept_def coprocessor_cfg_def fee_hc_def over_pallet_def comp_app sample_post_def hb_withdraw_def
        on_env_def sample_transfer_def hb_deposit_event_def fee_state_def empty_state_def ismp_state.defs
        hyperbridge_state.defs)
  then obtain s' where s': "hb_on_accept coprocessor_cfg fee_hc (sample_post [] [1]) fee_state = (Ok (), s')"
    "env s' \<noteq> env fee_state" by fastforce
  then have "s' \<noteq> fee_state" by auto
  from only_coprocessor_commands [OF s'(1) this] s' show ?thesis by simp
qed

section \<open>Vetoes\<close>

text \<open>C6: only a listed fisherman can veto a state commitment, and only one that is there. From then
  on every message proved against that height is rejected without effect.\<close>

theorem vetoed_commitment_is_unusable:
  assumes "veto_state_commitment cfg origin height s = (Ok (), s')"
  shows "(\<exists>a c. origin = OriginSigned a \<and> fishermen s a \<and> StateCommitments_get cfg height s = Some c) \<and>
    (\<forall>msg. proved_against msg = Some height \<longrightarrow> blocked (handle_incoming_message (pallet_host cfg) msg) s')"
proof (intro conjI allI impI)
  show "\<exists>a c. origin = OriginSigned a \<and> fishermen s a \<and> StateCommitments_get cfg height s = Some c"
    by (rule veto_Ok(1) [OF assms])
  fix msg
  assume "proved_against msg = Some height"
  then show "blocked (handle_incoming_message (pallet_host cfg) msg) s'"
    by (rule missing_commitment_blocks) (simp add: pallet_state_machine_commitment_def veto_Ok(2) [OF assms])
qed

definition watched_state :: "(sample_env, unit) fm_st" where
  "watched_state = ismp_state.extend sample_state (fishermen_state.fields (\<lambda>a. a = 5) [])"

definition watch_cfg :: "(sample_env, unit fishermen_state_ext) Config" where
  "watch_cfg = runtime_cfg"

lemma watch_key: "state_commitment_storage_key watch_cfg h = state_commitment_storage_key sample_cfg h"
  by (simp add: state_commitment_storage_key_def watch_cfg_def)

lemma watched_simps [simp]:
  "child_trie watched_state = child_trie sample_state" "fishermen watched_state = (\<lambda>a. a = 5)"
  "state_commitments watched_state = state_commitments sample_state"
  "latest_heights watched_state = latest_heights sample_state"
  by (simp_all add: watched_state_def ismp_state.defs fishermen_state.defs)

theorem vetoed_commitment_is_unusable_witness:
  "\<exists>s'. veto_state_commitment watch_cfg (OriginSigned 5) (sample_height 5) watched_state = (Ok (), s') \<and>
     blocked (handle_incoming_message (pallet_host watch_cfg) (MsgRequest (sample_request [sample_post [1] []]))) s'"
proof -
  have "\<exists>s'. veto_state_commitment watch_cfg (OriginSigned 5) (sample_height 5) watched_state = (Ok (), s')"
    by (simp add: veto_state_commitment_def ensure_signed_def comp_app pallet_state_machine_commitment_def
        StateCommitments_get_def watch_key pallet_delete_state_commitment_def fishermen_deposit_event_def deposit_event_def)
  then obtain s' where
    run: "veto_state_commitment watch_cfg (OriginSigned 5) (sample_height 5) watched_state = (Ok (), s')" by blast
  from vetoed_commitment_is_unusable [OF run] run show ?thesis
    by (auto simp: sample_request_def sample_proof_def)
qed

text \<open>The whitelist of fishermen refines a set. Whatever sequence of calls the administrator
  makes, the listed accounts are those of a set to which accounts are added and from which they are
  removed, where a call fails exactly when it would not change the set, and the rest of the storage
  stays as it was.\<close>

theorem fishermen_refine_a_set:
  assumes "cf_admin_origin cfg origin"
  shows "let s' = foldl (\<lambda>s call. snd (run_admin cfg origin call s)) s calls in
    fishermen_set s' = foldl (\<lambda>F call. case admin_spec call F of Some F' \<Rightarrow> F' | None \<Rightarrow> F) (fishermen_set s) calls \<and>
    ismp_state.truncate s' = ismp_state.truncate s"
proof (induction calls arbitrary: s)
  case Nil
  show ?case by simp
next
  case (Cons call calls)
  have "fishermen_set (snd (run_admin cfg origin call s)) =
      (case admin_spec call (fishermen_set s) of Some F' \<Rightarrow> F' | None \<Rightarrow> fishermen_set s) \<and>
    ismp_state.truncate (snd (run_admin cfg origin call s)) = ismp_state.truncate s"
    using run_admin_refines [OF assms, of call s] by (auto split: option.splits)
  with Cons.IH [of "snd (run_admin cfg origin call s)"] show ?case by (simp add: Let_def)
qed

theorem fishermen_refine_a_set_witness:
  "fishermen_set (foldl (\<lambda>s call. snd (run_admin runtime_cfg OriginRoot call s)) watched_state
     [CallAdd 6, CallRemove 5, CallRemove 7]) = {6}"
proof -
  have "fishermen_set watched_state = {5}" by (simp add: fishermen_set_def)
  with fishermen_refine_a_set [of runtime_cfg OriginRoot watched_state "[CallAdd 6, CallRemove 5, CallRemove 7]"]
  show ?thesis by (auto simp: Let_def)
qed

end
