(* ===== verification/Rust_BTree.thy ===== *)
theory Rust_BTree
  imports Rust_Bytes "HOL-Library.List_Lexorder"
begin

text \<open>
  \<^verbatim>\<open>alloc::collections::BTreeMap\<close> as an association list with strictly increasing keys:
  insertion, the entry API with a default, removal and collecting from an iterator. Byte strings
  compare lexicographically, as \<^verbatim>\<open>Vec<u8>\<close> does.
\<close>

fun btree_insert :: "'k::linorder \<Rightarrow> 'v \<Rightarrow> ('k, 'v) btree_map \<Rightarrow> ('k, 'v) btree_map" where
  "btree_insert k v [] = [(k, v)]"
| "btree_insert k v ((k', v') # m) =
     (if k < k' then (k, v) # (k', v') # m
      else if k = k' then (k, v) # m
      else (k', v') # btree_insert k v m)"

text \<open>\<^verbatim>\<open>*m.entry(k).or_insert(d)\<close> with the value then replaced by \<open>f\<close> of it.\<close>

definition btree_entry :: "'k::linorder \<Rightarrow> 'v \<Rightarrow> ('v \<Rightarrow> 'v) \<Rightarrow> ('k, 'v) btree_map \<Rightarrow> ('k, 'v) btree_map" where
  "btree_entry k d f m = btree_insert k (f (case map_of m k of Some v \<Rightarrow> v | None \<Rightarrow> d)) m"

definition btree_remove :: "'k \<Rightarrow> ('k, 'v) btree_map \<Rightarrow> ('k, 'v) btree_map" where
  "btree_remove k m = filter (\<lambda>e. fst e \<noteq> k) m"

definition btree_collect :: "('k::linorder \<times> 'v) list \<Rightarrow> ('k, 'v) btree_map" where
  "btree_collect xs = foldl (\<lambda>m (k, v). btree_insert k v m) [] xs"

definition btree_wf :: "('k::linorder, 'v) btree_map \<Rightarrow> bool" where
  "btree_wf m \<longleftrightarrow> sorted_wrt (<) (map fst m)"

lemma map_of_btree_insert_self [simp]: "map_of (btree_insert k v m) k = Some v"
  by (induction k v m rule: btree_insert.induct) auto

lemma btree_insert_keys [simp]: "fst ` set (btree_insert k v m) = insert k (fst ` set m)"
  by (induction k v m rule: btree_insert.induct) auto

lemma btree_insert_set: "set (btree_insert k v m) \<subseteq> insert (k, v) (set m)"
  by (induction k v m rule: btree_insert.induct) auto

lemma map_of_btree_insert_other [simp]: "k' \<noteq> k \<Longrightarrow> map_of (btree_insert k v m) k' = map_of m k'"
  by (induction k v m rule: btree_insert.induct) auto

lemma map_of_btree_insert: "map_of (btree_insert k v m) = (map_of m)(k \<mapsto> v)"
  by (rule ext) simp

lemma btree_wf_insert: "btree_wf m \<Longrightarrow> btree_wf (btree_insert k v m)"
proof (induction k v m rule: btree_insert.induct)
  case (1 k v)
  show ?case by (simp add: btree_wf_def)
next
  case (2 k v k' v' m)
  then have m: "sorted_wrt (<) (map fst m)" and lt: "\<forall>x \<in> fst ` set m. k' < x"
    by (auto simp: btree_wf_def)
  show ?case
  proof (cases "k < k' \<or> k = k'")
    case True
    with m lt show ?thesis by (auto simp: btree_wf_def dest: less_trans)
  next
    case False
    with 2 m have "btree_wf (btree_insert k v m)" by (auto simp: btree_wf_def)
    moreover have "\<forall>x \<in> fst ` set (btree_insert k v m). k' < x"
      using False lt by auto
    ultimately show ?thesis using False by (auto simp: btree_wf_def)
  qed
qed

lemma map_of_btree_entry:
  "map_of (btree_entry k d f m) =
     (map_of m)(k \<mapsto> f (case map_of m k of Some v \<Rightarrow> v | None \<Rightarrow> d))"
  by (simp add: btree_entry_def map_of_btree_insert)

lemma btree_wf_entry: "btree_wf m \<Longrightarrow> btree_wf (btree_entry k d f m)"
  by (simp add: btree_entry_def btree_wf_insert)

lemma btree_collect_snoc: "btree_collect (xs @ [(k, v)]) = btree_insert k v (btree_collect xs)"
  by (simp add: btree_collect_def)

lemma btree_collect_keys: "fst ` set (btree_collect xs) = fst ` set xs"
proof (induction xs rule: rev_induct)
  case Nil
  show ?case by (simp add: btree_collect_def)
next
  case (snoc x xs)
  then show ?case by (cases x) (simp add: btree_collect_snoc)
qed

lemma btree_collect_set: "set (btree_collect xs) \<subseteq> set xs"
proof (induction xs rule: rev_induct)
  case Nil
  show ?case by (simp add: btree_collect_def)
next
  case (snoc x xs)
  then show ?case using btree_insert_set by (cases x) (fastforce simp: btree_collect_snoc)
qed

lemma map_of_btree_collect: "map_of (btree_collect xs) = map_of (rev xs)"
proof (induction xs rule: rev_induct)
  case Nil
  show ?case by (simp add: btree_collect_def)
next
  case (snoc x xs)
  then show ?case by (cases x) (simp add: btree_collect_snoc map_of_btree_insert)
qed

lemma btree_wf_collect: "btree_wf (btree_collect xs)"
proof (induction xs rule: rev_induct)
  case Nil
  show ?case by (simp add: btree_collect_def btree_wf_def)
next
  case (snoc x xs)
  then show ?case by (cases x) (simp add: btree_collect_snoc btree_wf_insert)
qed

section \<open>Big endian integers read back\<close>

text \<open>\<^verbatim>\<open>from_big_endian\<close> and \<^verbatim>\<open>from_be_bytes\<close>.\<close>

definition from_be_bytes :: "bytes \<Rightarrow> 'a::len word" where
  "from_be_bytes bs = foldl (\<lambda>acc b. acc * 256 + ucast b) 0 bs"

lemma be_bytes_Suc: "be_bytes (Suc n) w = ucast (drop_bit (8 * n) w) # be_bytes n w"
  by (simp add: be_bytes_def)

lemma uint_from_be_bytes:
  fixes w :: "'a::len word"
  shows "foldl (\<lambda>acc b. acc * 256 + ucast b) (drop_bit (8 * n) w) (be_bytes n w) = w"
proof (induction n)
  case 0
  show ?case by (simp add: be_bytes_def)
next
  case (Suc n)
  have byte: "(ucast (ucast (drop_bit (8 * n) w) :: byte) :: 'a word) = take_bit 8 (drop_bit (8 * n) w)"
    by (rule bit_word_eqI) (auto simp: bit_ucast_iff bit_take_bit_iff)
  have "drop_bit (8 * Suc n) w * 256 + take_bit 8 (drop_bit (8 * n) w) =
      push_bit 8 (drop_bit 8 (drop_bit (8 * n) w)) + take_bit 8 (drop_bit (8 * n) w)"
    by (simp add: push_bit_eq_mult add.commute)
  also have "\<dots> = drop_bit (8 * n) w" by (rule bits_ident)
  finally have "drop_bit (8 * Suc n) w * 256 + ucast (ucast (drop_bit (8 * n) w) :: byte) = drop_bit (8 * n) w"
    unfolding byte .
  with Suc show ?case by (simp add: be_bytes_Suc)
qed

lemma from_be_bytes_back:
  fixes w :: "'a::len word"
  assumes "LENGTH('a) \<le> 8 * n"
  shows "from_be_bytes (be_bytes n w) = w"
proof -
  have "drop_bit (8 * n) w = 0"
    using assms by (intro bit_word_eqI) (auto simp: bit_drop_bit_eq dest: bit_imp_le_length)
  with uint_from_be_bytes [of n w] show ?thesis by (simp add: from_be_bytes_def)
qed

text \<open>\<^verbatim>\<open>Debug\<close> of a byte vector.\<close>

fun debug_bytes_tail :: "bytes \<Rightarrow> bytes" where
  "debug_bytes_tail [] = ascii '']''"
| "debug_bytes_tail (b # bs) = ascii '', '' @ decimal (unat b) @ debug_bytes_tail bs"

fun debug_bytes :: "bytes \<Rightarrow> bytes" where
  "debug_bytes [] = ascii ''[]''"
| "debug_bytes (b # bs) = ascii ''['' @ decimal (unat b) @ debug_bytes_tail bs"

end
