(* ===== verification/Pallet_Host_Executive.thy ===== *)
theory Pallet_Host_Executive
  imports Pallet_Hyperbridge Rust_BTree
begin

text \<open>
  pallet-ismp-host-executive (\<^verbatim>\<open>modules/ismp/pallets/host-executive/src\<close>: \<^verbatim>\<open>lib.rs\<close>,
  \<^verbatim>\<open>params.rs\<close>): the parameters of the hosts on the connected chains, their partial
  updates, and the calls that send an update to the chain it concerns. The Solidity ABI encoder and
  the SCALE encoder of the message to pallet-hyperbridge are parameters.
\<close>

section \<open>Host parameters\<close>

record PerByteFee =
  pbf_state_id :: h256
  pbf_per_byte_fee :: u256

record EvmHostParam =
  ehp_default_timeout :: u128
  ehp_default_per_byte_fee :: u256
  ehp_state_commitment_fee :: u256
  ehp_fee_token :: h160
  ehp_admin :: h160
  ehp_handler :: h160
  ehp_host_manager :: h160
  ehp_uniswap_v2 :: h160
  ehp_un_staking_period :: u128
  ehp_challenge_period :: u128
  ehp_consensus_client :: h160
  ehp_state_machines :: "u32 list"
  ehp_per_byte_fees :: "PerByteFee list"
  ehp_hyperbridge :: bytes

record EvmHostParamUpdate =
  ehu_default_timeout :: "u128 option"
  ehu_default_per_byte_fee :: "u256 option"
  ehu_fee_token :: "h160 option"
  ehu_state_commitment_fee :: "u256 option"
  ehu_admin :: "h160 option"
  ehu_handler :: "h160 option"
  ehu_host_manager :: "h160 option"
  ehu_uniswap_v2 :: "h160 option"
  ehu_un_staking_period :: "u128 option"
  ehu_challenge_period :: "u128 option"
  ehu_consensus_client :: "h160 option"
  ehu_state_machines :: "u32 list option"
  ehu_per_byte_fees :: "PerByteFee list option"
  ehu_hyperbridge :: "bytes option"

datatype HostParam = SubstrateHostParam VersionedHostParams | EvmHostParam EvmHostParam

datatype HostParamUpdate = SubstrateHostParamUpdate VersionedHostParams | EvmHostParamUpdate EvmHostParamUpdate

text \<open>\<^verbatim>\<open>if let Some(v) = update.f { self.f = v; }\<close> for each field in turn.\<close>

definition set_if_some :: "(('f \<Rightarrow> 'f) \<Rightarrow> 'r \<Rightarrow> 'r) \<Rightarrow> 'f option \<Rightarrow> 'r \<Rightarrow> 'r" where
  "set_if_some upd v r = (case v of Some x \<Rightarrow> upd (\<lambda>_. x) r | None \<Rightarrow> r)"

definition EvmHostParam_update :: "EvmHostParam \<Rightarrow> EvmHostParamUpdate \<Rightarrow> EvmHostParam" where
  "EvmHostParam_update self update =
     (let self = set_if_some ehp_default_timeout_update (ehu_default_timeout update) self;
          self = set_if_some ehp_default_per_byte_fee_update (ehu_default_per_byte_fee update) self;
          self = set_if_some ehp_state_commitment_fee_update (ehu_state_commitment_fee update) self;
          self = set_if_some ehp_uniswap_v2_update (ehu_uniswap_v2 update) self;
          self = set_if_some ehp_fee_token_update (ehu_fee_token update) self;
          self = set_if_some ehp_admin_update (ehu_admin update) self;
          self = set_if_some ehp_handler_update (ehu_handler update) self;
          self = set_if_some ehp_host_manager_update (ehu_host_manager update) self;
          self = set_if_some ehp_un_staking_period_update (ehu_un_staking_period update) self;
          self = set_if_some ehp_challenge_period_update (ehu_challenge_period update) self;
          self = set_if_some ehp_consensus_client_update (ehu_consensus_client update) self;
          self = set_if_some ehp_state_machines_update (ehu_state_machines update) self;
          self = set_if_some ehp_per_byte_fees_update (ehu_per_byte_fees update) self
      in set_if_some ehp_hyperbridge_update (ehu_hyperbridge update) self)"

section \<open>The parameters as the EVM host reads them\<close>

record PerByteFeeAbi =
  pa_stateIdHash :: h256
  pa_perByteFee :: u256

record EvmHostParamsAbi =
  ab_defaultTimeout :: u256
  ab_defaultPerByteFee :: u256
  ab_stateCommitmentFee :: u256
  ab_feeToken :: h160
  ab_admin :: h160
  ab_handler :: h160
  ab_hostManager :: h160
  ab_uniswapV2 :: h160
  ab_unStakingPeriod :: u256
  ab_challengePeriod :: u256
  ab_consensusClient :: h160
  ab_stateMachines :: "u256 list"
  ab_perByteFees :: "PerByteFeeAbi list"
  ab_hyperbridge :: bytes

text \<open>Little endian bytes, and back: how the code moves a \<^verbatim>\<open>U256\<close> between two libraries.\<close>

definition to_little_endian :: "u256 \<Rightarrow> bytes" where
  "to_little_endian w = rev (be_bytes 32 w)"

definition from_le_bytes :: "bytes \<Rightarrow> u256" where
  "from_le_bytes bs = from_be_bytes (rev bs)"

lemma from_le_bytes_back [simp]: "from_le_bytes (to_little_endian w) = w"
  by (simp add: from_le_bytes_def to_little_endian_def from_be_bytes_back)

definition PerByteFeeAbi_from :: "PerByteFee \<Rightarrow> PerByteFeeAbi" where
  "PerByteFeeAbi_from p =
     \<lparr>pa_stateIdHash = pbf_state_id p, pa_perByteFee = from_le_bytes (to_little_endian (pbf_per_byte_fee p))\<rparr>"

definition EvmHostParamsAbi_from :: "EvmHostParam \<Rightarrow> EvmHostParamsAbi" where
  "EvmHostParamsAbi_from v =
     \<lparr>ab_defaultTimeout = ucast (ehp_default_timeout v),
      ab_defaultPerByteFee = from_le_bytes (to_little_endian (ehp_default_per_byte_fee v)),
      ab_stateCommitmentFee = from_le_bytes (to_little_endian (ehp_state_commitment_fee v)),
      ab_feeToken = ehp_fee_token v,
      ab_admin = ehp_admin v,
      ab_handler = ehp_handler v,
      ab_hostManager = ehp_host_manager v,
      ab_uniswapV2 = ehp_uniswap_v2 v,
      ab_unStakingPeriod = ucast (ehp_un_staking_period v),
      ab_challengePeriod = ucast (ehp_challenge_period v),
      ab_consensusClient = ehp_consensus_client v,
      ab_stateMachines = map ucast (ehp_state_machines v),
      ab_perByteFees = map PerByteFeeAbi_from (ehp_per_byte_fees v),
      ab_hyperbridge = ehp_hyperbridge v\<rparr>"

definition EvmHostParamsAbi_encode :: "(EvmHostParamsAbi \<Rightarrow> bytes) \<Rightarrow> EvmHostParamsAbi \<Rightarrow> bytes" where
  "EvmHostParamsAbi_encode abi_encode p = [1] @ abi_encode p"

section \<open>The pallet\<close>

datatype HostExecError = HxBadOrigin | HxDispatchFailed | UnknownStateMachine | MismatchedHostParams

datatype HostExecEvent =
    HxHostParamsUpdated StateMachine HostParam HostParam
  | HxHostParamsSet StateMachine HostParam
  | HxHostAddressSet StateMachine h160
  | HxHostAddressUpdated StateMachine h160 h160

record 'x host_exec_state = "'x ismp_state" +
  hx_host_params :: "StateMachine \<rightharpoonup> HostParam"
  hx_evm_hosts :: "StateMachine \<rightharpoonup> h160"
  hx_events :: "HostExecEvent list"

type_synonym ('x, 'm) hx_st = "('x, 'm) host_exec_state_scheme"

record ('x, 'm) HostExecConfig =
  hx_dispatcher :: "('x, 'm) hx_st IsmpDispatcher"
  hx_abi_encode :: "EvmHostParamsAbi \<Rightarrow> bytes"
  hx_encode_message :: "HbMessage \<Rightarrow> bytes"

text \<open>\<^verbatim>\<open>PALLET_ID.to_bytes()\<close>.\<close>

definition HOST_EXECUTIVE_ID :: bytes where
  "HOST_EXECUTIVE_ID = ModuleId_to_bytes (MiPallet (ascii ''hostexec''))"

definition hx_deposit_event :: "HostExecEvent \<Rightarrow> (('x, 'm) hx_st, 'e, unit) comp" where
  "hx_deposit_event e = modify (\<lambda>s. s\<lparr>hx_events := hx_events s @ [e]\<rparr>)"

definition set_host_params ::
  "('x, 'm host_exec_state_ext) Config \<Rightarrow> Origin \<Rightarrow> (StateMachine, HostParam) btree_map \<Rightarrow>
     (('x, 'm) hx_st, HostExecError, unit) comp" where
  "set_host_params cfg origin params = transactional
     (bindC (ensure (cf_admin_origin cfg origin) HxBadOrigin) (\<lambda>_.
        for_each (\<lambda>(state_machine, p).
          bindC (modify (\<lambda>s. s\<lparr>hx_host_params := (hx_host_params s)(state_machine \<mapsto> p)\<rparr>)) (\<lambda>_.
            hx_deposit_event (HxHostParamsSet state_machine p))) params))"

text \<open>The message sent to the host and the parameters kept afterwards; \<open>None\<close> when the update is for
  another kind of host.\<close>

definition host_param_post ::
  "('x, 'm) HostExecConfig \<Rightarrow> StateMachine \<Rightarrow> HostParam \<Rightarrow> HostParamUpdate \<Rightarrow> (DispatchPost \<times> HostParam) option" where
  "host_param_post hx state_machine params update =
     (case (params, update) of
        (EvmHostParam inner, EvmHostParamUpdate upd) \<Rightarrow>
          (let inner = EvmHostParam_update inner upd in
           Some (\<lparr>dp_dest = state_machine, dp_from = HOST_EXECUTIVE_ID,
                  dp_to = be_bytes 20 (ehp_host_manager inner), dp_timeout = 0,
                  dp_body = EvmHostParamsAbi_encode (hx_abi_encode hx) (EvmHostParamsAbi_from inner)\<rparr>,
                 EvmHostParam inner))
      | (SubstrateHostParam _, SubstrateHostParamUpdate upd) \<Rightarrow>
          Some (\<lparr>dp_dest = state_machine, dp_from = HOST_EXECUTIVE_ID, dp_to = PALLET_HYPERBRIDGE_ID,
                 dp_timeout = 0, dp_body = hx_encode_message hx (UpdateHostParams upd)\<rparr>,
                SubstrateHostParam upd)
      | _ \<Rightarrow> None)"

definition update_host_params ::
  "('x, 'm host_exec_state_ext) Config \<Rightarrow> ('x, 'm) HostExecConfig \<Rightarrow> Origin \<Rightarrow> StateMachine \<Rightarrow>
     HostParamUpdate \<Rightarrow> (('x, 'm) hx_st, HostExecError, unit) comp" where
  "update_host_params cfg hx origin state_machine update = transactional
     (bindC (ensure (cf_admin_origin cfg origin) HxBadOrigin) (\<lambda>_.
      bindC (asks (\<lambda>s. hx_host_params s state_machine)) (\<lambda>found.
      bindC (ok_or found UnknownStateMachine) (\<lambda>params.
      bindC (ok_or (host_param_post hx state_machine params update) MismatchedHostParams) (\<lambda>(post, updated).
      bindC (map_err (\<lambda>_. HxDispatchFailed)
               (d_dispatch_request (hx_dispatcher hx) (DispPost post) \<lparr>fee_payer = 0, fee_fee = 0\<rparr>)) (\<lambda>_.
      bindC (modify (\<lambda>s. s\<lparr>hx_host_params := (hx_host_params s)(state_machine \<mapsto> updated)\<rparr>)) (\<lambda>_.
        hx_deposit_event (HxHostParamsUpdated state_machine params updated))))))))"

definition update_evm_hosts ::
  "('x, 'm host_exec_state_ext) Config \<Rightarrow> Origin \<Rightarrow> (StateMachine, h160) btree_map \<Rightarrow>
     (('x, 'm) hx_st, HostExecError, unit) comp" where
  "update_evm_hosts cfg origin params = transactional
     (bindC (ensure (cf_admin_origin cfg origin) HxBadOrigin) (\<lambda>_.
        for_each (\<lambda>(state_machine, address).
          bindC (asks (\<lambda>s. hx_evm_hosts s state_machine)) (\<lambda>old.
          bindC (modify (\<lambda>s. s\<lparr>hx_evm_hosts := (hx_evm_hosts s)(state_machine \<mapsto> address)\<rparr>)) (\<lambda>_.
            case old of
              Some old_address \<Rightarrow> hx_deposit_event (HxHostAddressUpdated state_machine old_address address)
            | None \<Rightarrow> hx_deposit_event (HxHostAddressSet state_machine address)))) params))"

end
