(* ===== verification/Evm_State_Machine.thy ===== *)
theory Evm_State_Machine
  imports Pallet_Host_Executive
begin

text \<open>
  The proofs of EVM chains
  (\<^verbatim>\<open>modules/ismp/clients/sync-committee/evm-common/src\<close>: \<^verbatim>\<open>lib.rs\<close>,
  \<^verbatim>\<open>utils.rs\<close>, \<^verbatim>\<open>presets.rs\<close>, \<^verbatim>\<open>types.rs\<close>): the storage slots of the
  host contract and the state machine client that reads them from account and storage proofs. The
  trie library, the RLP codec of an account and the SCALE codec of the proof are parameters. Adding
  to a \<^verbatim>\<open>U256\<close> panics on overflow.
\<close>

section \<open>Storage slots\<close>

definition REQUEST_COMMITMENTS_SLOT :: u64 where "REQUEST_COMMITMENTS_SLOT = 0"

definition RESPONSE_COMMITMENTS_SLOT :: u64 where "RESPONSE_COMMITMENTS_SLOT = 1"

definition REQUEST_RECEIPTS_SLOT :: u64 where "REQUEST_RECEIPTS_SLOT = 2"

definition RESPONSE_RECEIPTS_SLOT :: u64 where "RESPONSE_RECEIPTS_SLOT = 3"

definition slot_bytes :: "u64 \<Rightarrow> bytes" where
  "slot_bytes slot = be_bytes 32 (ucast slot :: u256)"

text \<open>\<^verbatim>\<open>+\<close> on \<^verbatim>\<open>U256\<close>: \<open>None\<close> where it panics.\<close>

definition checked_add256 :: "u256 \<Rightarrow> u256 \<Rightarrow> u256 option" where
  "checked_add256 a b = (if a + b < a then None else Some (a + b))"

definition derive_map_key :: "(bytes \<Rightarrow> h256) \<Rightarrow> bytes \<Rightarrow> u64 \<Rightarrow> h256" where
  "derive_map_key keccak key slot = keccak (be_bytes 32 (keccak (key @ slot_bytes slot)))"

definition derive_map_key_with_offset :: "(bytes \<Rightarrow> h256) \<Rightarrow> bytes \<Rightarrow> u64 \<Rightarrow> u64 \<Rightarrow> h256 option" where
  "derive_map_key_with_offset keccak key slot offset =
     map_option (\<lambda>number. keccak (be_bytes 32 number)) (checked_add256 (keccak (key @ slot_bytes slot)) (ucast offset))"

definition derive_unhashed_map_key :: "(bytes \<Rightarrow> h256) \<Rightarrow> bytes \<Rightarrow> u64 \<Rightarrow> h256" where
  "derive_unhashed_map_key keccak key slot = keccak (key @ slot_bytes slot)"

definition add_off_set_to_map_key :: "bytes \<Rightarrow> u64 \<Rightarrow> h256 option" where
  "add_off_set_to_map_key key offset = checked_add256 (from_be_bytes key) (ucast offset)"

definition derive_array_item_key :: "(bytes \<Rightarrow> h256) \<Rightarrow> u64 \<Rightarrow> u64 \<Rightarrow> u64 \<Rightarrow> bytes option" where
  "derive_array_item_key keccak slot index offset =
     (case checked_add256 (keccak (slot_bytes slot)) (ucast (index * 2)) of
        None \<Rightarrow> None
      | Some pos \<Rightarrow> map_option (\<lambda>item. be_bytes 32 (keccak (be_bytes 32 item))) (checked_add256 pos (ucast offset)))"

definition state_comitment_key :: "(bytes \<Rightarrow> h256) \<Rightarrow> u256 \<Rightarrow> u256 \<Rightarrow> (h256 \<times> h256 \<times> h256) option" where
  "state_comitment_key keccak state_machine_id block_height =
     (let parent_map_key = keccak (be_bytes 32 state_machine_id @ slot_bytes 5);
          slot_hash = keccak (be_bytes 32 block_height @ be_bytes 32 parent_map_key) in
      case checked_add256 slot_hash 1 of
        None \<Rightarrow> None
      | Some overlay_root_slot \<Rightarrow>
          map_option (\<lambda>state_root_key. (slot_hash, overlay_root_slot, state_root_key)) (checked_add256 overlay_root_slot 1))"

definition req_res_commitment_key :: "(bytes \<Rightarrow> h256) \<Rightarrow> RequestResponse \<Rightarrow> ('s, Error, bytes list) comp" where
  "req_res_commitment_key keccak item =
     (case item of
        RRRequest requests \<Rightarrow> collect (\<lambda>req.
          bindC (expect (hash_request keccak req)) (\<lambda>commitment.
          bindC (expect (derive_map_key_with_offset keccak (be_bytes 32 commitment) REQUEST_COMMITMENTS_SLOT 1)) (\<lambda>key.
            ret (be_bytes 32 key)))) requests
      | RRResponse responses \<Rightarrow> collect (\<lambda>res.
          bindC (expect (hash_response keccak res)) (\<lambda>commitment.
          bindC (expect (derive_map_key_with_offset keccak (be_bytes 32 commitment) RESPONSE_COMMITMENTS_SLOT 1)) (\<lambda>key.
            ret (be_bytes 32 key)))) responses)"

definition req_res_receipt_keys :: "(bytes \<Rightarrow> h256) \<Rightarrow> RequestResponse \<Rightarrow> ('s, Error, bytes list) comp" where
  "req_res_receipt_keys keccak item =
     (case item of
        RRRequest requests \<Rightarrow> collect (\<lambda>req.
          bindC (expect (hash_request keccak req)) (\<lambda>commitment.
            ret (be_bytes 32 (derive_unhashed_map_key keccak (be_bytes 32 commitment) REQUEST_RECEIPTS_SLOT)))) requests
      | RRResponse responses \<Rightarrow> collect (\<lambda>res.
          bindC (expect (hash_request keccak (Response_request res))) (\<lambda>commitment.
            ret (be_bytes 32 (derive_unhashed_map_key keccak (be_bytes 32 commitment) RESPONSE_RECEIPTS_SLOT)))) responses)"

section \<open>Proofs\<close>

record EvmStateProof =
  esp_contract_proof :: "bytes list"
  esp_storage_proof :: "(bytes, bytes list) btree_map"

record Account =
  acc_nonce :: u64
  acc_balance :: u256
  acc_storage_root :: h256
  acc_code_hash :: h256

record EvmProofConfig =
  ev_decode_proof :: "bytes \<Rightarrow> EvmStateProof option"
  ev_trie_get :: "bytes list \<Rightarrow> h256 \<Rightarrow> bytes \<Rightarrow> bytes + bytes option"
  ev_decode_account :: "bytes \<Rightarrow> Account option"
  ev_encode_account :: "Account \<Rightarrow> bytes"

definition to_bytes_32 :: "bytes \<Rightarrow> ('s, Error, h256) comp" where
  "to_bytes_32 bs =
     (if length bs \<noteq> 32
      then fail (Custom (ascii ''Input vector must have exactly 32 elements '' @ debug_bytes bs))
      else ret (from_be_bytes bs))"

definition construct_intermediate_state ::
  "StateMachine \<Rightarrow> ConsensusStateId \<Rightarrow> u64 \<Rightarrow> u64 \<Rightarrow> bytes \<Rightarrow> ('s, Error, IntermediateState) comp" where
  "construct_intermediate_state sm csid height timestamp state_root =
     bindC (to_bytes_32 state_root) (\<lambda>root.
       ret \<lparr>is_height = \<lparr>smh_id = \<lparr>state_id = sm, consensus_state_id = csid\<rparr>, smh_height = height\<rparr>,
            is_commitment = \<lparr>sc_timestamp = timestamp, sc_overlay_root = None, sc_state_root = root\<rparr>\<rparr>)"

definition decode_evm_state_proof :: "EvmProofConfig \<Rightarrow> Proof \<Rightarrow> ('s, Error, EvmStateProof) comp" where
  "decode_evm_state_proof ev prf =
     ok_or (ev_decode_proof ev (proof_proof prf)) (Custom (ascii ''Cannot decode evm state proof''))"

definition get_contract_account ::
  "EvmProofConfig \<Rightarrow> (bytes \<Rightarrow> h256) \<Rightarrow> bytes list \<Rightarrow> bytes \<Rightarrow> h256 \<Rightarrow> ('s, Error, Account) comp" where
  "get_contract_account ev keccak contract_account_proof contract_address root =
     bindC (map_err (\<lambda>_. Custom (ascii ''Invalid contract account proof''))
              (propagate (ev_trie_get ev contract_account_proof root (be_bytes 32 (keccak contract_address))))) (\<lambda>found.
     bindC (ok_or found (Custom (ascii ''Contract account is not present in proof''))) (\<lambda>result.
       ok_or (ev_decode_account ev result)
         (Custom (ascii ''Error decoding contract account from value '' @ debug_bytes result))))"

definition get_values_from_proof ::
  "EvmProofConfig \<Rightarrow> bytes list \<Rightarrow> h256 \<Rightarrow> bytes list \<Rightarrow> ('s, Error, bytes option list) comp" where
  "get_values_from_proof ev keys root nodes =
     collect (\<lambda>key. map_err (\<lambda>_. Custom (ascii ''Error reading proof db'')) (propagate (ev_trie_get ev nodes root key))) keys"

definition get_value_from_proof ::
  "EvmProofConfig \<Rightarrow> bytes \<Rightarrow> h256 \<Rightarrow> bytes list \<Rightarrow> ('s, Error, bytes option) comp" where
  "get_value_from_proof ev key root nodes =
     map_err (\<lambda>e. Custom (ascii ''Error reading proof db '' @ e)) (propagate (ev_trie_get ev nodes root key))"

section \<open>Membership\<close>

definition evm_verify_membership ::
  "EvmProofConfig \<Rightarrow> (bytes \<Rightarrow> h256) \<Rightarrow> RequestResponse \<Rightarrow> StateCommitment \<Rightarrow> Proof \<Rightarrow> h160 \<Rightarrow> ('s, Error, unit) comp" where
  "evm_verify_membership ev keccak item state prf contract_address =
     bindC (decode_evm_state_proof ev prf) (\<lambda>evm_state_proof.
     bindC (ok_or (map_of (esp_storage_proof evm_state_proof) (be_bytes 20 contract_address))
              (Custom (ascii ''Ismp contract account trie proof is missing''))) (\<lambda>storage_proof.
     bindC (req_res_commitment_key keccak item) (\<lambda>keys.
     bindC (get_contract_account ev keccak (esp_contract_proof evm_state_proof) (be_bytes 20 contract_address)
              (sc_state_root state)) (\<lambda>account.
     bindC (get_values_from_proof ev keys (acc_storage_root account) storage_proof) (\<lambda>values.
       ensure (\<not> (\<exists>v \<in> set values. v = None)) (Custom (ascii ''Missing values for some keys in the proof'')))))))"

section \<open>Reading storage\<close>

text \<open>Grouping the keys by contract: a key of 52 bytes carries its contract, one of 32 bytes is a slot
  of the host contract, one of 20 bytes asks for an account.\<close>

record key_groups =
  kg_contract_to_keys :: "(bytes, (bytes \<times> bytes) list) btree_map"
  kg_account_queries :: "bytes list"

definition group_key ::
  "(bytes \<Rightarrow> h256) \<Rightarrow> h160 \<Rightarrow> bytes \<Rightarrow> key_groups \<Rightarrow> Error + key_groups" where
  "group_key keccak ismp_address key g =
     (if length key = 20 then Inr (g\<lparr>kg_account_queries := kg_account_queries g @ [key]\<rparr>)
      else if length key = 52 then
        Inr (g\<lparr>kg_contract_to_keys := btree_entry (take 20 key) []
                 (\<lambda>ks. ks @ [(key, be_bytes 32 (keccak (drop 20 key)))]) (kg_contract_to_keys g)\<rparr>)
      else if length key = 32 then
        Inr (g\<lparr>kg_contract_to_keys := btree_entry (be_bytes 20 ismp_address) []
                 (\<lambda>ks. ks @ [(key, be_bytes 32 (keccak key))]) (kg_contract_to_keys g)\<rparr>)
      else Inl (Custom (ascii ''Unsupported Key type, found a key whose length is not one of 20, 32 or 52'')))"

fun group_keys :: "(bytes \<Rightarrow> h256) \<Rightarrow> h160 \<Rightarrow> bytes list \<Rightarrow> key_groups \<Rightarrow> Error + key_groups" where
  "group_keys keccak ismp_address [] g = Inr g"
| "group_keys keccak ismp_address (key # keys) g =
     (case group_key keccak ismp_address key g of
        Inl e \<Rightarrow> Inl e
      | Inr g' \<Rightarrow> group_keys keccak ismp_address keys g')"

text \<open>The values of the contracts for which the proof has a storage proof.\<close>

fun read_contracts ::
  "EvmProofConfig \<Rightarrow> (bytes \<Rightarrow> h256) \<Rightarrow> bytes list \<Rightarrow> h256 \<Rightarrow> (bytes, bytes list) btree_map \<Rightarrow>
     (bytes, (bytes \<times> bytes) list) btree_map \<Rightarrow> (bytes, bytes option) btree_map \<Rightarrow>
     ('s, Error, (bytes, bytes option) btree_map) comp" where
  "read_contracts ev keccak contract_proof root [] groups acc = ret acc"
| "read_contracts ev keccak contract_proof root ((contract_address, storage_proof) # rest) groups acc =
     bindC (get_contract_account ev keccak contract_proof contract_address root) (\<lambda>account.
       case map_of groups contract_address of
         None \<Rightarrow> read_contracts ev keccak contract_proof root rest groups acc
       | Some keys \<Rightarrow>
           bindC (get_values_from_proof ev (map snd keys) (acc_storage_root account) storage_proof) (\<lambda>values.
             read_contracts ev keccak contract_proof root rest (btree_remove contract_address groups)
               (foldl (\<lambda>m ((key, _), value). btree_insert key value m) acc (zip keys values))))"

fun read_accounts ::
  "EvmProofConfig \<Rightarrow> (bytes \<Rightarrow> h256) \<Rightarrow> bytes list \<Rightarrow> h256 \<Rightarrow> bytes list \<Rightarrow> (bytes, bytes option) btree_map \<Rightarrow>
     ('s, Error, (bytes, bytes option) btree_map) comp" where
  "read_accounts ev keccak contract_proof root [] acc = ret acc"
| "read_accounts ev keccak contract_proof root (address # rest) acc =
     bindC (get_contract_account ev keccak contract_proof address root) (\<lambda>account.
       read_accounts ev keccak contract_proof root rest
         (btree_insert address (Some (ev_encode_account ev account)) acc))"

definition evm_verify_state_proof ::
  "EvmProofConfig \<Rightarrow> (bytes \<Rightarrow> h256) \<Rightarrow> bytes list \<Rightarrow> StateCommitment \<Rightarrow> Proof \<Rightarrow> h160 \<Rightarrow>
     ('s, Error, (bytes, bytes option) btree_map) comp" where
  "evm_verify_state_proof ev keccak keys state prf ismp_address =
     bindC (decode_evm_state_proof ev prf) (\<lambda>evm_state_proof.
     bindC (propagate (group_keys keccak ismp_address keys \<lparr>kg_contract_to_keys = [], kg_account_queries = []\<rparr>)) (\<lambda>groups.
     bindC (read_contracts ev keccak (esp_contract_proof evm_state_proof) (sc_state_root state)
              (esp_storage_proof evm_state_proof) (kg_contract_to_keys groups) []) (\<lambda>m.
       read_accounts ev keccak (esp_contract_proof evm_state_proof) (sc_state_root state) (kg_account_queries groups) m)))"

section \<open>The client\<close>

definition ismp_contract_address :: "StateMachineHeight \<Rightarrow> (('x, 'm) hx_st, Error, h160) comp" where
  "ismp_contract_address height =
     bindC (asks (\<lambda>s. hx_evm_hosts s (state_id (smh_id height)))) (\<lambda>found.
       ok_or found (Custom (ascii ''Ismp contract address not found'')))"

definition evm_client :: "EvmProofConfig \<Rightarrow> (bytes \<Rightarrow> h256) \<Rightarrow> ('x, 'm) hx_st StateMachineClient" where
  "evm_client ev keccak =
     \<lparr>verify_membership = (\<lambda>s item state prf. fst (
        bindC (ismp_contract_address (proof_height prf)) (\<lambda>contract_address.
          evm_verify_membership ev keccak item state prf contract_address) s)),
      receipts_state_trie_key = (\<lambda>s items. fst (req_res_receipt_keys keccak items s)),
      verify_state_proof = (\<lambda>s keys state prf. fst (
        bindC (ismp_contract_address (proof_height prf)) (\<lambda>contract_address.
          evm_verify_state_proof ev keccak keys state prf contract_address) s))\<rparr>"

end
