(* ===== verification/Substrate_State_Machine.thy ===== *)
theory Substrate_State_Machine
  imports Pallet_Host Rust_BTree
begin

text \<open>
  The proofs of substrate chains (\<^verbatim>\<open>modules/ismp/state-machines/substrate/src/lib.rs\<close>): the
  state machine client that reads the child trie of a counterparty, and the digest of a substrate
  header. The trie library is the parameter \<open>sb_trie_get\<close>: the value of a key in the trie with the
  given root, as the given proof nodes show it. The two branches for the two hashers differ only in
  the hasher, which is an argument here.
\<close>

datatype HashAlgorithm = Keccak | Blake2

record StateMachineProof =
  smp_hasher :: HashAlgorithm
  smp_storage_proof :: "bytes list"

datatype SubstrateStateProof = OverlayProof StateMachineProof | StateProof StateMachineProof

fun SubstrateStateProof_hasher :: "SubstrateStateProof \<Rightarrow> HashAlgorithm" where
  "SubstrateStateProof_hasher (OverlayProof p) = smp_hasher p"
| "SubstrateStateProof_hasher (StateProof p) = smp_hasher p"

fun SubstrateStateProof_storage_proof :: "SubstrateStateProof \<Rightarrow> bytes list" where
  "SubstrateStateProof_storage_proof (OverlayProof p) = smp_storage_proof p"
| "SubstrateStateProof_storage_proof (StateProof p) = smp_storage_proof p"

fun is_overlay_proof :: "SubstrateStateProof \<Rightarrow> bool" where
  "is_overlay_proof (OverlayProof _) = True"
| "is_overlay_proof (StateProof _) = False"

text \<open>The codec and the trie library. An error carries its debug output.\<close>

record SubstrateConfig =
  sb_decode_proof :: "bytes \<Rightarrow> bytes + SubstrateStateProof"
  sb_trie_get :: "HashAlgorithm \<Rightarrow> bytes list \<Rightarrow> h256 \<Rightarrow> bytes \<Rightarrow> bytes + bytes option"

definition decode_state_proof :: "SubstrateConfig \<Rightarrow> Proof \<Rightarrow> ('s, Error, SubstrateStateProof) comp" where
  "decode_state_proof sb prf =
     map_err (\<lambda>e. Custom (ascii ''failed to decode proof: '' @ e)) (propagate (sb_decode_proof sb (proof_proof prf)))"

definition child_root_missing :: Error where
  "child_root_missing = Custom (ascii ''Child trie root is not available for provided state commitment'')"

text \<open>The root of the child trie: on hyperbridge the state root is the child root.\<close>

definition overlay_root_of :: "StateMachine option \<Rightarrow> Proof \<Rightarrow> StateCommitment \<Rightarrow> ('s, Error, h256) comp" where
  "overlay_root_of coprocessor prf state =
     (if coprocessor = Some (state_id (smh_id (proof_height prf))) then ret (sc_state_root state)
      else ok_or (sc_overlay_root state) child_root_missing)"

definition trie_read ::
  "SubstrateConfig \<Rightarrow> SubstrateStateProof \<Rightarrow> h256 \<Rightarrow> bytes \<Rightarrow> ('s, Error, bytes option) comp" where
  "trie_read sb state_proof root key =
     map_err (\<lambda>e. Custom (ascii ''Error reading state proof: '' @ e))
       (propagate (sb_trie_get sb (SubstrateStateProof_hasher state_proof)
          (SubstrateStateProof_storage_proof state_proof) root key))"

definition substrate_commitment_keys :: "(bytes \<Rightarrow> h256) \<Rightarrow> RequestResponse \<Rightarrow> ('s, Error, bytes list) comp" where
  "substrate_commitment_keys keccak item =
     (case item of
        RRRequest requests \<Rightarrow> collect (\<lambda>request.
          bindC (expect (hash_request keccak request)) (\<lambda>c. ret (request_commitment_storage_key c))) requests
      | RRResponse responses \<Rightarrow> collect (\<lambda>response.
          bindC (expect (hash_response keccak response)) (\<lambda>c. ret (response_commitment_storage_key c))) responses)"

definition substrate_verify_membership ::
  "SubstrateConfig \<Rightarrow> (bytes \<Rightarrow> h256) \<Rightarrow> StateMachine option \<Rightarrow> RequestResponse \<Rightarrow> StateCommitment \<Rightarrow> Proof \<Rightarrow>
     ('s, Error, unit) comp" where
  "substrate_verify_membership sb keccak coprocessor item state prf =
     bindC (decode_state_proof sb prf) (\<lambda>state_proof.
     bindC (ensure (is_overlay_proof state_proof) (Custom (ascii ''Expected Overlay Proof''))) (\<lambda>_.
     bindC (overlay_root_of coprocessor prf state) (\<lambda>root.
     bindC (substrate_commitment_keys keccak item) (\<lambda>keys.
     bindC (collect (\<lambda>key.
              bindC (trie_read sb state_proof root key) (\<lambda>found.
                ok_or found (Custom
                  (ascii ''Every key in a membership proof should have a value, found a key '' @ debug_bytes key @
                   ascii '' with None'')))) keys) (\<lambda>_.
       ret ())))))"

text \<open>The keys that a timeout must prove absent. Get requests and responses are skipped.\<close>

fun request_receipt_keys :: "(bytes \<Rightarrow> h256) \<Rightarrow> Request \<Rightarrow> ('s, Error, bytes list) comp" where
  "request_receipt_keys keccak (ReqPost post) =
     bindC (expect (hash_request keccak (ReqPost post))) (\<lambda>c. ret [request_receipt_storage_key c])"
| "request_receipt_keys keccak (ReqGet _) = ret []"

fun response_receipt_keys :: "(bytes \<Rightarrow> h256) \<Rightarrow> Response \<Rightarrow> ('s, Error, bytes list) comp" where
  "response_receipt_keys keccak (ResPost post_response) =
     bindC (expect (hash_post_response keccak post_response)) (\<lambda>c. ret [response_receipt_storage_key c])"
| "response_receipt_keys keccak (ResGet _) = ret []"

definition substrate_receipts_state_trie_key :: "(bytes \<Rightarrow> h256) \<Rightarrow> RequestResponse \<Rightarrow> ('s, Error, bytes list) comp" where
  "substrate_receipts_state_trie_key keccak items =
     (case items of
        RRRequest requests \<Rightarrow> bindC (collect (request_receipt_keys keccak) requests) (\<lambda>keys. ret (concat keys))
      | RRResponse responses \<Rightarrow> bindC (collect (response_receipt_keys keccak) responses) (\<lambda>keys. ret (concat keys)))"

definition substrate_verify_state_proof ::
  "SubstrateConfig \<Rightarrow> StateMachine option \<Rightarrow> bytes list \<Rightarrow> StateCommitment \<Rightarrow> Proof \<Rightarrow>
     ('s, Error, (bytes, bytes option) btree_map) comp" where
  "substrate_verify_state_proof sb coprocessor keys state prf =
     bindC (decode_state_proof sb prf) (\<lambda>state_proof.
     bindC (if is_overlay_proof state_proof then overlay_root_of coprocessor prf state
            else ret (sc_state_root state)) (\<lambda>root.
     bindC (collect (\<lambda>key. bindC (trie_read sb state_proof root key) (\<lambda>value. ret (key, value))) keys) (\<lambda>entries.
       ret (btree_collect entries))))"

definition substrate_client ::
  "SubstrateConfig \<Rightarrow> (bytes \<Rightarrow> h256) \<Rightarrow> StateMachine option \<Rightarrow> 's StateMachineClient" where
  "substrate_client sb keccak coprocessor =
     \<lparr>verify_membership = (\<lambda>s item state prf. fst (substrate_verify_membership sb keccak coprocessor item state prf s)),
      receipts_state_trie_key = (\<lambda>s items. fst (substrate_receipts_state_trie_key keccak items s)),
      verify_state_proof = (\<lambda>s keys state prf. fst (substrate_verify_state_proof sb coprocessor keys state prf s))\<rparr>"

text \<open>\<^verbatim>\<open>read_proof_check\<close>: reading decoded values, after the root was found among the
  nodes of the proof.\<close>

definition read_proof_check ::
  "(bytes list \<Rightarrow> h256 \<Rightarrow> bool) \<Rightarrow> (bytes list \<Rightarrow> h256 \<Rightarrow> bytes \<Rightarrow> bytes + bytes option) \<Rightarrow> (bytes \<Rightarrow> bytes option) \<Rightarrow>
     h256 \<Rightarrow> bytes list \<Rightarrow> bytes list \<Rightarrow> ('s, Error, (bytes, bytes option) btree_map) comp" where
  "read_proof_check db_contains trie_get decode root nodes keys =
     bindC (ensure (db_contains nodes root) (Custom (ascii ''Invalid Proof''))) (\<lambda>_.
     bindC (collect (\<lambda>key.
              bindC (map_err (\<lambda>e. Custom (ascii ''Error reading from trie: '' @ e)) (propagate (trie_get nodes root key))) (\<lambda>value.
                ret (key, Option.bind value decode))) keys) (\<lambda>entries.
       ret (btree_collect entries)))"

section \<open>The digest of a header\<close>

record ConsensusDigest =
  cd_mmr_root :: h256
  cd_child_trie_root :: h256

datatype DigestItem = DiPreRuntime bytes bytes | DiConsensus bytes bytes | DiOther

record DigestResult =
  dr_timestamp :: u64
  dr_ismp_digest :: ConsensusDigest

text \<open>The codec of the digest items and the engine identifiers of the two slot based engines.\<close>

record DigestCodec =
  dc_aura_engine_id :: bytes
  dc_babe_engine_id :: bytes
  dc_decode_slot :: "bytes \<Rightarrow> bytes + u64"
  dc_decode_babe_slot :: "bytes \<Rightarrow> bytes + u64"
  dc_decode_digest :: "bytes \<Rightarrow> bytes + ConsensusDigest"

definition ISMP_ID :: bytes where
  "ISMP_ID = ascii ''ISMP''"

text \<open>\<^verbatim>\<open>Duration::from_millis(slot * slot_duration).as_secs()\<close>.\<close>

definition slot_timestamp :: "u64 \<Rightarrow> u64 \<Rightarrow> u64" where
  "slot_timestamp slot slot_duration = slot * slot_duration div 1000"

definition digest_step :: "DigestCodec \<Rightarrow> u64 \<Rightarrow> DigestItem \<Rightarrow> DigestResult \<Rightarrow> Error + DigestResult" where
  "digest_step dc slot_duration item acc =
     (case item of
        DiPreRuntime engine value \<Rightarrow>
          if engine = dc_aura_engine_id dc then
            (case dc_decode_slot dc value of
               Inl e \<Rightarrow> Inl (Custom (ascii ''Cannot slot: '' @ e))
             | Inr slot \<Rightarrow> Inr (acc\<lparr>dr_timestamp := slot_timestamp slot slot_duration\<rparr>))
          else if engine = dc_babe_engine_id dc then
            (case dc_decode_babe_slot dc value of
               Inl e \<Rightarrow> Inl (Custom (ascii ''Cannot slot: '' @ e))
             | Inr slot \<Rightarrow> Inr (acc\<lparr>dr_timestamp := slot_timestamp slot slot_duration\<rparr>))
          else Inr acc
      | DiConsensus engine value \<Rightarrow>
          if engine = ISMP_ID then
            (case dc_decode_digest dc value of
               Inl e \<Rightarrow> Inl (Custom (ascii ''Failed to decode digest: '' @ e))
             | Inr digest \<Rightarrow> Inr (acc\<lparr>dr_ismp_digest := digest\<rparr>))
          else Inr acc
      | DiOther \<Rightarrow> Inr acc)"

fun fetch_digests :: "DigestCodec \<Rightarrow> u64 \<Rightarrow> DigestItem list \<Rightarrow> DigestResult \<Rightarrow> Error + DigestResult" where
  "fetch_digests dc slot_duration [] acc = Inr acc"
| "fetch_digests dc slot_duration (item # logs) acc =
     (case digest_step dc slot_duration item acc of
        Inl e \<Rightarrow> Inl e
      | Inr acc' \<Rightarrow> fetch_digests dc slot_duration logs acc')"

definition fetch_overlay_root_and_timestamp ::
  "DigestCodec \<Rightarrow> DigestItem list \<Rightarrow> u64 \<Rightarrow> Error + DigestResult" where
  "fetch_overlay_root_and_timestamp dc logs slot_duration =
     fetch_digests dc slot_duration logs
       \<lparr>dr_timestamp = 0, dr_ismp_digest = \<lparr>cd_mmr_root = 0, cd_child_trie_root = 0\<rparr>\<rparr>"

section \<open>What the client shows\<close>

lemma trie_read_Ok:
  "trie_read sb p root key s = (Ok v, s') \<longleftrightarrow> s' = s \<and>
     sb_trie_get sb (SubstrateStateProof_hasher p) (SubstrateStateProof_storage_proof p) root key = Inr v"
  by (auto simp: trie_read_def comp_ok)

lemma readonly_trie_read [readonly_intros]: "readonly (trie_read sb p root key)"
  unfolding trie_read_def by (intro readonly_intros)

lemma readonly_client_steps [readonly_intros]:
  "readonly (decode_state_proof sb prf)"
  "readonly (overlay_root_of co prf state)"
  "readonly (substrate_commitment_keys keccak item)"
  unfolding decode_state_proof_def overlay_root_of_def substrate_commitment_keys_def
  by (auto intro!: readonly_intros split: RequestResponse.split)

text \<open>Every key asked for has an entry in the answer, with the value in the trie.\<close>

lemma collect_pairs_Ok:
  assumes "collect (\<lambda>key. bindC (f key) (\<lambda>v. ret (key, v))) keys s = (Ok entries, s')"
    and "\<And>key. readonly (f key)"
  shows "map fst entries = keys \<and> (\<forall>(k, v) \<in> set entries. f k s = (Ok v, s))"
  using assms(1)
proof (induction keys arbitrary: entries s')
  case Nil
  then show ?case by (simp add: comp_ok)
next
  case (Cons k ks)
  from Cons.prems obtain v t es where
    v: "f k s = (Ok v, t)" and rest: "collect (\<lambda>key. bindC (f key) (\<lambda>v. ret (key, v))) ks t = (Ok es, s')" and
    entries: "entries = (k, v) # es"
    by (auto simp: comp_ok)
  from readonlyD [OF assms(2) v] have "t = s" .
  with Cons.IH [of es s'] rest v entries show ?case by auto
qed

lemma substrate_verify_state_proof_Ok:
  assumes "substrate_verify_state_proof sb co keys state prf s = (Ok m, s')"
  shows "fst ` set m = set keys" and "btree_wf m"
    and "\<exists>p root. sb_decode_proof sb (proof_proof prf) = Inr p \<and>
      (root = sc_state_root state \<or> sc_overlay_root state = Some root) \<and>
      (\<forall>(k, v) \<in> set m. sb_trie_get sb (SubstrateStateProof_hasher p) (SubstrateStateProof_storage_proof p) root k = Inr v)"
proof -
  from assms obtain p root t u entries where
    p: "sb_decode_proof sb (proof_proof prf) = Inr p" and
    root: "(if is_overlay_proof p then overlay_root_of co prf state else ret (sc_state_root state)) t = (Ok root, u)" and
    es: "collect (\<lambda>key. bindC (trie_read sb p root key) (\<lambda>value. ret (key, value))) keys u = (Ok entries, s')" and
    m: "m = btree_collect entries"
    unfolding substrate_verify_state_proof_def by (auto simp: comp_ok decode_state_proof_def)
  from collect_pairs_Ok [OF es readonly_trie_read] have
    keys: "map fst entries = keys" and vals: "\<forall>(k, v) \<in> set entries. trie_read sb p root k u = (Ok v, u)" by auto
  show "fst ` set m = set keys" using keys m by (metis btree_collect_keys list.set_map)
  show "btree_wf m" using m by (simp add: btree_wf_collect)
  have "root = sc_state_root state \<or> sc_overlay_root state = Some root"
    using root by (auto simp: overlay_root_of_def comp_ok split: if_splits)
  with p vals m btree_collect_set [of entries] show "\<exists>p root. sb_decode_proof sb (proof_proof prf) = Inr p \<and>
      (root = sc_state_root state \<or> sc_overlay_root state = Some root) \<and>
      (\<forall>(k, v) \<in> set m. sb_trie_get sb (SubstrateStateProof_hasher p) (SubstrateStateProof_storage_proof p) root k = Inr v)"
    by (fastforce simp: trie_read_Ok)
qed

end
