(* ===== verification/Hyperbridge_State_Machine.thy ===== *)
theory Hyperbridge_State_Machine
  imports Pallet_Host_Executive Substrate_State_Machine
begin

text \<open>
  The state machine client that hyperbridge uses for connected substrate chains
  (\<^verbatim>\<open>modules/ismp/state-machines/hyperbridge/src/lib.rs\<close>): it wraps the substrate client and
  accepts a message only when its protocol fee was paid on the chain it comes from. The parameters
  of the counterparty are those kept by the host executive.
\<close>

record payment_check =
  pc_commitment_key :: bytes
  pc_payment_key :: bytes
  pc_size :: u128
  pc_dest :: "StateMachine option"

text \<open>What the proof must show of each message; no destination for a get request, which pays no fee.\<close>

definition payment_checks :: "(bytes \<Rightarrow> h256) \<Rightarrow> RequestResponse \<Rightarrow> ('s, Error, payment_check list) comp" where
  "payment_checks keccak item =
     (case item of
        RRRequest requests \<Rightarrow> collect (\<lambda>request.
          bindC (expect (hash_request keccak request)) (\<lambda>commitment.
            ret \<lparr>pc_commitment_key = request_commitment_storage_key commitment,
                 pc_payment_key = request_payment_storage_key commitment,
                 pc_size = of_nat (length (case Request_body request of Some b \<Rightarrow> b | None \<Rightarrow> [])),
                 pc_dest = (case request of ReqPost req \<Rightarrow> Some (pr_dest req) | ReqGet _ \<Rightarrow> None)\<rparr>)) requests
      | RRResponse responses \<Rightarrow> collect (\<lambda>response.
          bindC (expect (hash_response keccak response)) (\<lambda>commitment.
          bindC (expect (Response_encode response)) (\<lambda>encoded.
            ret \<lparr>pc_commitment_key = response_commitment_storage_key commitment,
                 pc_payment_key = response_payment_storage_key commitment,
                 pc_size = of_nat (length encoded),
                 pc_dest = Some (Response_dest_chain response)\<rparr>))) responses)"

definition commitment_not_present :: "HashAlgorithm \<Rightarrow> bytes \<Rightarrow> Error" where
  "commitment_not_present h key = Custom
     ((case h of Keccak \<Rightarrow> ascii ''Request commitment not present in path: ''
               | Blake2 \<Rightarrow> ascii ''Response commitment not present in path: '') @ debug_bytes key)"

text \<open>The least fee for a message of the given size, as the code computes it.\<close>

definition message_cost :: "u128 \<Rightarrow> balance \<Rightarrow> u128" where
  "message_cost n fee = (if 32 > n then 32 * fee else n * fee)"

definition read_payment ::
  "SubstrateConfig \<Rightarrow> (bytes \<Rightarrow> bytes + u128) \<Rightarrow> SubstrateStateProof \<Rightarrow> h256 \<Rightarrow> bytes \<Rightarrow> ('s, Error, u128) comp" where
  "read_payment sb decode_u128 state_proof root payment_key =
     bindC (trie_read sb state_proof root payment_key) (\<lambda>value.
       case value of
         Some v \<Rightarrow>
           map_err (\<lambda>e. Custom (ascii ''Failed to decode payment receipt: '' @ e)) (propagate (decode_u128 v))
       | None \<Rightarrow> fail (Custom (ascii ''Request payment not present in path: '' @ debug_bytes payment_key)))"

definition check_payment ::
  "SubstrateConfig \<Rightarrow> (bytes \<Rightarrow> bytes + u128) \<Rightarrow> SubstrateHostParams \<Rightarrow> SubstrateStateProof \<Rightarrow> h256 \<Rightarrow> payment_check \<Rightarrow>
     ('s, Error, unit) comp" where
  "check_payment sb decode_u128 params state_proof root pc =
     bindC (trie_read sb state_proof root (pc_commitment_key pc)) (\<lambda>found.
     bindC (ok_or found (commitment_not_present (SubstrateStateProof_hasher state_proof) (pc_commitment_key pc))) (\<lambda>_.
       case pc_dest pc of
         None \<Rightarrow> ret ()
       | Some dest \<Rightarrow>
           (let fee = per_byte_fee (V1 params) dest in
            if 0 < fee then
              bindC (read_payment sb decode_u128 state_proof root (pc_payment_key pc)) (\<lambda>paid.
                ensure (\<not> message_cost (pc_size pc) fee > paid) (Custom
                  (ascii ''Insufficient payment for request. Expected: '' @ decimal (unat (message_cost (pc_size pc) fee)) @
                   ascii '', got: '' @ decimal (unat paid))))
            else ret ())))"

definition substrate_params_of :: "StateMachine \<Rightarrow> (('x, 'm) hx_st, Error, SubstrateHostParams) comp" where
  "substrate_params_of state_machine =
     bindC (asks (\<lambda>s. hx_host_params s state_machine)) (\<lambda>found.
       case found of
         Some (SubstrateHostParam (V1 params)) \<Rightarrow> ret params
       | _ \<Rightarrow>
           bindC (expect (StateMachine_fmt state_machine)) (\<lambda>name.
             fail (Custom (ascii ''State machine host params not found for '' @ name))))"

definition hyperbridge_verify_membership ::
  "SubstrateConfig \<Rightarrow> (bytes \<Rightarrow> bytes + u128) \<Rightarrow> (bytes \<Rightarrow> h256) \<Rightarrow> StateMachine \<Rightarrow> RequestResponse \<Rightarrow> StateCommitment \<Rightarrow>
     Proof \<Rightarrow> (('x, 'm) hx_st, Error, unit) comp" where
  "hyperbridge_verify_membership sb decode_u128 keccak state_machine item state prf =
     bindC (decode_state_proof sb prf) (\<lambda>state_proof.
     bindC (ensure (is_overlay_proof state_proof) (Custom (ascii ''Expected Overlay Proof''))) (\<lambda>_.
     bindC (ok_or (sc_overlay_root state) child_root_missing) (\<lambda>root.
     bindC (payment_checks keccak item) (\<lambda>commitments.
     bindC (substrate_params_of state_machine) (\<lambda>params.
       for_each (check_payment sb decode_u128 params state_proof root) commitments)))))"

definition hyperbridge_client ::
  "SubstrateConfig \<Rightarrow> (bytes \<Rightarrow> bytes + u128) \<Rightarrow> (bytes \<Rightarrow> h256) \<Rightarrow> StateMachine option \<Rightarrow> StateMachine \<Rightarrow>
     ('x, 'm) hx_st StateMachineClient" where
  "hyperbridge_client sb decode_u128 keccak coprocessor state_machine =
     (let client = substrate_client sb keccak coprocessor in
      \<lparr>verify_membership = (\<lambda>s item state prf.
         fst (hyperbridge_verify_membership sb decode_u128 keccak state_machine item state prf s)),
       receipts_state_trie_key = receipts_state_trie_key client,
       verify_state_proof = verify_state_proof client\<rparr>)"

section \<open>What an accepted proof shows\<close>

lemma read_payment_Ok:
  "read_payment sb decode_u128 p root key s = (Ok paid, s') \<longleftrightarrow>
     s' = s \<and> (\<exists>v. sb_trie_get sb (SubstrateStateProof_hasher p) (SubstrateStateProof_storage_proof p) root key =
       Inr (Some v) \<and> decode_u128 v = Inr paid)"
proof -
  have "read_payment sb decode_u128 p root key s = (Ok paid, s') \<longleftrightarrow>
      (\<exists>value. trie_read sb p root key s = (Ok value, s) \<and>
         (case value of None \<Rightarrow> False | Some v \<Rightarrow> decode_u128 v = Inr paid \<and> s' = s))"
    unfolding read_payment_def by (fastforce simp: comp_ok trie_read_Ok split: option.splits)
  then show ?thesis by (auto simp: trie_read_Ok split: option.splits)
qed

lemma readonly_payment_steps [readonly_intros]:
  "readonly (payment_checks keccak item)"
  "readonly (check_payment sb decode_u128 params p root pc)"
  unfolding payment_checks_def check_payment_def read_payment_def Let_def
  by (auto intro!: readonly_intros split: RequestResponse.split option.split)

text \<open>The value a proof shows for a key, when it is accepted as an overlay proof.\<close>

definition shown :: "SubstrateConfig \<Rightarrow> SubstrateStateProof \<Rightarrow> h256 \<Rightarrow> bytes \<Rightarrow> bytes option \<Rightarrow> bool" where
  "shown sb p root key v \<longleftrightarrow>
     sb_trie_get sb (SubstrateStateProof_hasher p) (SubstrateStateProof_storage_proof p) root key = Inr v"

definition paid_for ::
  "SubstrateConfig \<Rightarrow> (bytes \<Rightarrow> bytes + u128) \<Rightarrow> SubstrateHostParams \<Rightarrow> SubstrateStateProof \<Rightarrow> h256 \<Rightarrow> payment_check \<Rightarrow> bool" where
  "paid_for sb decode_u128 params p root pc \<longleftrightarrow>
     (\<exists>v. shown sb p root (pc_commitment_key pc) (Some v)) \<and>
     (case pc_dest pc of
        None \<Rightarrow> True
      | Some dest \<Rightarrow>
          per_byte_fee (V1 params) dest = 0 \<or>
          (\<exists>v paid. shown sb p root (pc_payment_key pc) (Some v) \<and> decode_u128 v = Inr paid \<and>
             message_cost (pc_size pc) (per_byte_fee (V1 params) dest) \<le> paid))"

lemma check_payment_Ok:
  "check_payment sb decode_u128 params p root pc s = (Ok u, s') \<longleftrightarrow>
     s' = s \<and> paid_for sb decode_u128 params p root pc"
  unfolding check_payment_def paid_for_def shown_def Let_def
  by (auto simp: comp_ok trie_read_Ok read_payment_Ok not_less word_neq_0_conv split: option.splits if_splits)

lemma substrate_params_of_Ok:
  "substrate_params_of sm s = (Ok params, s') \<longleftrightarrow>
     s' = s \<and> hx_host_params s sm = Some (SubstrateHostParam (V1 params))"
  unfolding substrate_params_of_def
  by (auto simp: comp_ok split: option.splits HostParam.splits VersionedHostParams.splits)

lemma hyperbridge_verify_membership_Ok:
  "hyperbridge_verify_membership sb decode_u128 keccak sm item state prf s = (Ok u, s') \<longleftrightarrow>
     s' = s \<and> (\<exists>p root checks params.
       sb_decode_proof sb (proof_proof prf) = Inr p \<and> is_overlay_proof p \<and> sc_overlay_root state = Some root \<and>
       payment_checks keccak item s = (Ok checks, s) \<and>
       hx_host_params s sm = Some (SubstrateHostParam (V1 params)) \<and>
       (\<forall>pc \<in> set checks. paid_for sb decode_u128 params p root pc))"
  unfolding hyperbridge_verify_membership_def
    readonly_bindC_Ok [OF readonly_client_steps(1)] readonly_bindC_Ok [OF readonly_basic(6)]
    readonly_bindC_Ok [OF readonly_basic(7)] readonly_bindC_Ok [OF readonly_payment_steps(1)]
    bindC_Ok [of "substrate_params_of sm"] substrate_params_of_Ok check_payment_Ok
    for_each_readonly_Ok [where f = "check_payment sb decode_u128 params p root" for params p root,
      OF readonly_payment_steps(2)]
  by (auto simp: decode_state_proof_def comp_ok)

end
