(* ===== verification/State_Machine_Properties.thy ===== *)
theory State_Machine_Properties
  imports Sample_Runtime Evm_State_Machine Hyperbridge_State_Machine
begin

text \<open>
  What the proofs of a counterparty establish once they are combined with the handlers of the
  protocol and with the storage that the counterparty keeps: which receipts a timeout looks at,
  and which payments a message carries.
\<close>

section \<open>Timeouts against a substrate chain\<close>

lemma collect_run: "(\<And>x. x \<in> set xs \<Longrightarrow> g x s = (Ok (f x), s)) \<Longrightarrow> collect g xs s = (Ok (map f xs), s)"
  by (induction xs) (simp_all add: comp_app)

lemma timeout_posts_run:
  assumes "usable_height H (proof_height prf) client s"
    and "h_state_machine_commitment H (proof_height prf) s = Ok state"
    and "\<forall>q \<in> set requests. check_post_timeout H (state_id (smh_id (proof_height prf))) state q s = (Ok (), s)"
    and "undelivered client s (RRRequest requests) state prf"
  shows "timeout_posts H requests prf s = collect (timeout_post_request H) requests s"
proof -
  have v: "validate_state_machine H (proof_height prf) s = (Ok client, s)"
    using assms(1) by (simp add: validate_state_machine_Ok)
  have f: "for_each (check_post_timeout H (state_id (smh_id (proof_height prf))) state) requests s = (Ok (), s)"
    using assms(3) by (simp add: timeout_checks_Ok(1))
  from assms(4) obtain keys entries where
    "receipts_state_trie_key client s (RRRequest requests) = Ok keys"
    "verify_state_proof client s keys state prf = Ok entries" "\<not> (\<exists>e \<in> set entries. snd e \<noteq> None)"
    unfolding undelivered_def by (auto simp: split_beta)
  with v f assms(2) show ?thesis by (simp add: timeout_posts_def Let_def comp_app)
qed

lemma receipt_keys_Ok:
  assumes "substrate_receipts_state_trie_key keccak (RRRequest requests) s = (Ok keys, s')"
    and "ReqPost q \<in> set requests"
  shows "\<exists>c. hash_request keccak (ReqPost q) = Some c \<and> request_receipt_storage_key c \<in> set keys"
proof -
  from assms(1) obtain kss where kss: "collect (request_receipt_keys keccak) requests s = (Ok kss, s')" and keys: "keys = concat kss"
    unfolding substrate_receipts_state_trie_key_def by (auto simp: comp_ok)
  from assms(2) obtain i where i: "i < length requests" "requests ! i = ReqPost q" by (auto simp: in_set_conv_nth)
  from collect_Ok_nth [OF kss i(1)] i(2) obtain c where
    c: "hash_request keccak (ReqPost q) = Some c" "kss ! i = [request_receipt_storage_key c]"
    by (auto simp: comp_ok)
  moreover have "kss ! i \<in> set kss" using i(1) collect_Ok_length [OF kss] by simp
  ultimately show ?thesis using keys by (auto intro!: bexI [of _ "kss ! i"])
qed

text \<open>The root of the counterparty's child trie that the client reads.\<close>

definition child_root_of :: "StateMachine option \<Rightarrow> StateMachineHeight \<Rightarrow> StateCommitment \<Rightarrow> h256 option" where
  "child_root_of coprocessor h state =
     (if coprocessor = Some (state_id (smh_id h)) then Some (sc_state_root state) else sc_overlay_root state)"

lemma overlay_root_of_Ok:
  "overlay_root_of co prf state s = (Ok root, s') \<longleftrightarrow> s' = s \<and> child_root_of co (proof_height prf) state = Some root"
  by (auto simp: overlay_root_of_def child_root_of_def comp_ok)

lemma overlay_undelivered:
  assumes "undelivered (substrate_client sb keccak co) s (RRRequest requests) state prf"
    and "sb_decode_proof sb (proof_proof prf) = Inr (OverlayProof p)"
    and "child_root_of co (proof_height prf) state = Some root"
    and "ReqPost q \<in> set requests"
  shows "\<exists>c. hash_request keccak (ReqPost q) = Some c \<and>
    sb_trie_get sb (smp_hasher p) (smp_storage_proof p) root (request_receipt_storage_key c) = Inr None"
proof -
  from assms(1) obtain keys entries where
    k: "fst (substrate_receipts_state_trie_key keccak (RRRequest requests) s) = Ok keys" and
    e: "fst (substrate_verify_state_proof sb co keys state prf s) = Ok entries" and
    none: "\<forall>(k, v) \<in> set entries. v = None"
    unfolding undelivered_def substrate_client_def by auto
  obtain s1 where run: "substrate_verify_state_proof sb co keys state prf s = (Ok entries, s1)"
    using fst_Ok_run [OF e] by blast
  from receipt_keys_Ok [OF fst_Ok_run [OF k] assms(4)] obtain c where
    c: "hash_request keccak (ReqPost q) = Some c" "request_receipt_storage_key c \<in> set keys" by blast
  from run assms(2,3) obtain es s2 where
    es: "collect (\<lambda>key. bindC (trie_read sb (OverlayProof p) root key) (\<lambda>value. ret (key, value))) keys s = (Ok es, s2)"
      "entries = btree_collect es"
    unfolding substrate_verify_state_proof_def by (auto simp: comp_ok decode_state_proof_def overlay_root_of_Ok)
  from collect_pairs_Ok [OF es(1) readonly_trie_read] have
    vals: "map fst es = keys" "\<forall>(k, v) \<in> set es. trie_read sb (OverlayProof p) root k s = (Ok v, s)" by auto
  have "request_receipt_storage_key c \<in> fst ` set entries"
    using c(2) vals(1) es(2) by (metis btree_collect_keys list.set_map)
  then have "(request_receipt_storage_key c, None) \<in> set entries" using none by auto
  then have "(request_receipt_storage_key c, None) \<in> set es" using es(2) btree_collect_set by blast
  with vals(2) have "trie_read sb (OverlayProof p) root (request_receipt_storage_key c) s = (Ok None, s)" by auto
  with c(1) show ?thesis by (auto simp: trie_read_Ok)
qed

text \<open>C21: a request that was delivered cannot be timed out against a proof of the counterparty's
  child trie. Let the counterparty be a substrate chain in state \<open>t\<close>, and let the commitment used by
  the timeout carry the root of its child trie, so that the trie library, by its own promise, shows
  a value for exactly the keys that are in it. If this chain accepts the timeout of a post request,
  then the counterparty holds no receipt for that request.\<close>

theorem delivered_request_cannot_time_out:
  fixes t :: "('y, 'n) st"
  assumes run: "handle_timeout (pallet_host cfg) (TmPost requests prf) s = (Ok r, s')"
    and client: "\<forall>client. usable_height (pallet_host cfg) (proof_height prf) client s \<longrightarrow>
      client = substrate_client sb (cf_keccak256 cfg) (cf_coprocessor cfg)"
    and overlay: "sb_decode_proof sb (proof_proof prf) = Inr (OverlayProof p)"
    and state: "StateCommitments_get cfg (proof_height prf) s = Some state"
    and root: "child_root_of (cf_coprocessor cfg) (proof_height prf) state = Some root"
    and sound: "\<forall>k v. sb_trie_get sb (smp_hasher p) (smp_storage_proof p) root k = Inr v \<longrightarrow>
      (v = None \<longleftrightarrow> child_trie t k = None)"
    and q: "ReqPost q \<in> set requests" and c: "hash_request (cf_keccak256 cfg) (ReqPost q) = Some c"
  shows "RequestReceipts_get c t = None"
proof -
  from run obtain res where "timeout_posts (pallet_host cfg) requests prf s = (Ok res, s')"
    unfolding handle_timeout_def by (auto simp: comp_ok)
  from timeout_posts_accepts [OF this] client state have
    "undelivered (substrate_client sb (cf_keccak256 cfg) (cf_coprocessor cfg)) s (RRRequest requests) state prf"
    by (auto simp: pallet_state_machine_commitment_def split: option.splits)
  from overlay_undelivered [OF this overlay root q] c sound
  have "child_trie t (request_receipt_storage_key c) = None" by auto
  then show ?thesis by (simp add: RequestReceipts_get_def)
qed

text \<open>A runtime whose client for the sample chain is the substrate client, with a trie library that
  reads a fixed child trie.\<close>

definition sample_child_trie :: "bytes \<rightharpoonup> child_value" where
  "sample_child_trie = [request_receipt_storage_key 37 \<mapsto> CvReceipt [11]]"

definition sample_sb :: SubstrateConfig where
  "sample_sb =
     \<lparr>sb_decode_proof = (\<lambda>b. if b = [1] then Inr (OverlayProof \<lparr>smp_hasher = Keccak, smp_storage_proof = []\<rparr>)
        else Inr (StateProof \<lparr>smp_hasher = Keccak, smp_storage_proof = []\<rparr>)),
      sb_trie_get = (\<lambda>h nodes root key.
        if root = 6 then Inr (map_option (\<lambda>_. [0]) (sample_child_trie key)) else Inr None)\<rparr>"

definition sub_cfg :: "(sample_env, 'm) Config" where
  "sub_cfg = runtime_cfg\<lparr>cf_consensus_clients :=
     [sample_client\<lparr>cc_state_machine := (\<lambda>s sm. Ok (substrate_client sample_sb sample_hash None))\<rparr>]\<rparr>"

definition sub_commitment :: StateCommitment where
  "sub_commitment = \<lparr>sc_timestamp = 8000, sc_overlay_root = Some 6, sc_state_root = 5\<rparr>"

definition late_out :: "bytes \<Rightarrow> PostRequest" where
  "late_out body =
     \<lparr>pr_source = Polkadot 1000, pr_dest = Evm 1, pr_nonce = 0, pr_from = [1], pr_to = [3],
      pr_timeout_timestamp = 7000, pr_body = body\<rparr>"

definition sub_state :: sample_st where
  "sub_state = RequestCommitments_insert 37 (sample_meta 30) (RequestCommitments_insert 36 (sample_meta 30)
     (StateCommitments_insert sub_cfg (sample_height 5) sub_commitment sample_state))"

lemma sub_cfg_simps [simp]:
  "cf_keccak256 sub_cfg = sample_hash" "cf_coprocessor sub_cfg = None"
  "cf_router sub_cfg = sample_router" "cf_encode_height sub_cfg = sample_encode_height"
  "cf_host_state_machine sub_cfg = Polkadot 1000" "cf_encode_meta sub_cfg = sample_encode_meta"
  "cf_consensus_clients sub_cfg =
     [sample_client\<lparr>cc_state_machine := (\<lambda>s sm. Ok (substrate_client sample_sb sample_hash None))\<rparr>]"
  by (simp_all add: sub_cfg_def)

lemma sub_key: "state_commitment_storage_key sub_cfg h = state_commitment_storage_key sample_cfg h"
  by (simp add: state_commitment_storage_key_def)

lemma sub_state_simps [simp]:
  "child_trie sub_state =
     (child_trie sample_state)
       (state_commitment_storage_key sample_cfg (sample_height 5) \<mapsto> CvCommitment sub_commitment,
        request_commitment_storage_key 36 \<mapsto> CvMeta (sample_meta 30),
        request_commitment_storage_key 37 \<mapsto> CvMeta (sample_meta 30))"
  "now sub_state = now sample_state"
  "consensus_state_client sub_state = consensus_state_client sample_state"
  "frozen_clients sub_state = frozen_clients sample_state"
  "challenge_periods sub_state = challenge_periods sample_state"
  "state_machine_update_times sub_state = state_machine_update_times sample_state"
  "env sub_state = env sample_state"
  by (simp_all add: sub_state_def RequestCommitments_insert_def StateCommitments_insert_def child_put_def sub_key)

lemma sub_usable:
  "usable_height (pallet_host sub_cfg) h client s \<Longrightarrow> client = substrate_client sample_sb sample_hash None"
  by (auto simp: usable_height_def find_client_def split: if_splits)

lemma late_out_hash:
  "hash_request sample_hash (ReqPost (late_out [])) = Some 36"
  "hash_request sample_hash (ReqPost (late_out [0])) = Some 37"
  by (simp_all add: hash_request_def option_cat_def late_out_def sample_hash_def del: StateMachine_fmt.simps)

lemma late_out_fields [simp]:
  "pr_dest (late_out m) = Evm 1" "pr_source (late_out m) = Polkadot 1000" "pr_from (late_out m) = [1]"
  "pr_timeout_timestamp (late_out m) = 7000"
  by (simp_all add: late_out_def)

lemmas sub_eval =
  handle_timeout_def timeout_posts_def timeout_post_request_def take_request_receipt_def restore_request_def
  validate_state_machine_def verify_delay_passed_def check_post_timeout_def ensure_speaks_for_def
  proof_speaks_for_def sample_proof_def Request_timed_out_def Request_timeout_def get_timeout_def
  StateCommitment_timestamp_def sub_commitment_def late_out_hash sub_key
  RequestCommitments_get_def RequestCommitments_remove_def RequestCommitments_insert_def child_kill_def
  RefundingRouter_def RefundingModule_def refunding_on_timeout_def fee_of_timeout_def sample_router_def
  good_module_def bad_module_def substrate_client_def substrate_receipts_state_trie_key_def
  substrate_verify_state_proof_def decode_state_proof_def overlay_root_of_def trie_read_def sample_sb_def
  sample_child_trie_def btree_collect_def

lemma sub_timeout_run:
  "\<exists>r s'. handle_timeout (pallet_host sub_cfg) (TmPost [ReqPost (late_out [])] sample_proof) sub_state = (Ok r, s')"
  by (simp add: sample_eval sub_eval)

theorem delivered_request_cannot_time_out_witness:
  "RequestReceipts_get 36 (empty_state\<lparr>child_trie := sample_child_trie\<rparr>) = None"
proof -
  from sub_timeout_run obtain r s' where
    run: "handle_timeout (pallet_host sub_cfg) (TmPost [ReqPost (late_out [])] sample_proof) sub_state = (Ok r, s')" by blast
  show ?thesis
  proof (rule delivered_request_cannot_time_out [OF run, where sb = sample_sb and root = 6 and
        p = "\<lparr>smp_hasher = Keccak, smp_storage_proof = []\<rparr>" and q = "late_out []" and state = sub_commitment])
    show "\<forall>client. usable_height (pallet_host sub_cfg) (proof_height sample_proof) client sub_state \<longrightarrow>
        client = substrate_client sample_sb (cf_keccak256 sub_cfg) (cf_coprocessor sub_cfg)"
      by (auto dest: sub_usable)
    show "\<forall>k v. sb_trie_get sample_sb (smp_hasher \<lparr>smp_hasher = Keccak, smp_storage_proof = []\<rparr>)
        (smp_storage_proof \<lparr>smp_hasher = Keccak, smp_storage_proof = []\<rparr>) 6 k = Inr v \<longrightarrow>
        (v = None \<longleftrightarrow> child_trie (empty_state\<lparr>child_trie := sample_child_trie\<rparr>) k = None)"
      by (auto simp: sample_sb_def)
  qed (simp_all add: sample_sb_def sample_proof_def child_root_of_def sub_commitment_def late_out_hash
      StateCommitments_get_def sub_key)
qed

text \<open>A delivered request can nevertheless be timed out: the client also accepts a proof of the
  main state trie, where the receipts never are because they live in the child trie. Whenever the
  main trie shows nothing under the keys of the receipts, a timeout of known requests past their
  timeout goes on to the modules, whatever the child trie of the counterparty contains.\<close>

theorem state_proof_bypasses_receipts:
  assumes "usable_height (pallet_host cfg) (proof_height prf) (substrate_client sb (cf_keccak256 cfg) (cf_coprocessor cfg)) s"
    and "StateCommitments_get cfg (proof_height prf) s = Some state"
    and "sb_decode_proof sb (proof_proof prf) = Inr (StateProof p)"
    and "\<forall>c. sb_trie_get sb (smp_hasher p) (smp_storage_proof p) (sc_state_root state) (request_receipt_storage_key c) = Inr None"
    and "\<forall>q \<in> set requests. check_post_timeout (pallet_host cfg) (state_id (smh_id (proof_height prf))) state q s = (Ok (), s)"
  shows "timeout_posts (pallet_host cfg) requests prf s = collect (timeout_post_request (pallet_host cfg)) requests s"
proof (rule timeout_posts_run [OF assms(1) _ assms(5)])
  let ?k = "cf_keccak256 cfg"
  let ?keys = "\<lambda>q. case q of ReqPost post \<Rightarrow> [request_receipt_storage_key (the (hash_request ?k (ReqPost post)))] | ReqGet _ \<Rightarrow> []"
  show "h_state_machine_commitment (pallet_host cfg) (proof_height prf) s = Ok state"
    using assms(2) by (simp add: pallet_state_machine_commitment_def)
  have "request_receipt_keys ?k q s = (Ok (?keys q), s)" if "q \<in> set requests" for q
    using assms(5) that
    by (cases q) (auto simp: check_post_timeout_Ok known_request_def comp_app)
  then have "collect (request_receipt_keys ?k) requests s = (Ok (map ?keys requests), s)" by (rule collect_run)
  then have keys: "substrate_receipts_state_trie_key ?k (RRRequest requests) s = (Ok (concat (map ?keys requests)), s)"
    by (simp add: substrate_receipts_state_trie_key_def comp_app)
  have "bindC (trie_read sb (StateProof p) (sc_state_root state) key) (\<lambda>value. ret (key, value)) s = (Ok (key, None), s)"
    if "key \<in> set (concat (map ?keys requests))" for key
    using that assms(4) by (auto simp: trie_read_def comp_app split: Request.splits)
  then have "collect (\<lambda>key. bindC (trie_read sb (StateProof p) (sc_state_root state) key) (\<lambda>value. ret (key, value)))
      (concat (map ?keys requests)) s = (Ok (map (\<lambda>key. (key, None)) (concat (map ?keys requests))), s)"
    by (rule collect_run)
  then have "substrate_verify_state_proof sb (cf_coprocessor cfg) (concat (map ?keys requests)) state prf s =
      (Ok (btree_collect (map (\<lambda>key. (key, None)) (concat (map ?keys requests)))), s)"
    using assms(3) by (simp add: substrate_verify_state_proof_def decode_state_proof_def comp_app)
  with keys btree_collect_set [of "map (\<lambda>key. (key, None)) (concat (map ?keys requests))"]
  show "undelivered (substrate_client sb ?k (cf_coprocessor cfg)) s (RRRequest requests) state prf"
    unfolding undelivered_def substrate_client_def by auto
qed

text \<open>The counterparty holds the receipt of the request, and the timeout reaches the module.\<close>

definition main_trie_proof :: Proof where
  "main_trie_proof = \<lparr>proof_height = sample_height 5, proof_proof = [2]\<rparr>"

lemma sub_usable_run:
  "usable_height (pallet_host sub_cfg) (sample_height 5) (substrate_client sample_sb sample_hash None) sub_state"
  by (auto simp: usable_height_def find_client_def sample_eval)

theorem state_proof_bypasses_receipts_witness:
  "sample_child_trie (request_receipt_storage_key 37) \<noteq> None \<and>
   succeeds (timeout_posts (pallet_host sub_cfg) [ReqPost (late_out [0])] main_trie_proof) sub_state"
proof -
  have "timeout_posts (pallet_host sub_cfg) [ReqPost (late_out [0])] main_trie_proof sub_state =
      collect (timeout_post_request (pallet_host sub_cfg)) [ReqPost (late_out [0])] sub_state"
    by (rule state_proof_bypasses_receipts [where sb = sample_sb and state = sub_commitment and
          p = "\<lparr>smp_hasher = Keccak, smp_storage_proof = []\<rparr>"])
       (use sub_usable_run in \<open>simp_all add: main_trie_proof_def sample_eval sub_eval\<close>)
  then show ?thesis by (simp add: succeeds_def sample_child_trie_def) (simp add: sample_eval sub_eval)
qed

text \<open>The timeout of a response does not look at the receipt of that response. The counterparty
  files the receipt under the commitment of the request, while the client asks for the key made of
  the commitment of the response: delivering the response on the counterparty leaves what the
  timeout reads unchanged, so that a delivered response can still be timed out.\<close>

theorem response_timeout_misses_receipt:
  assumes "hash_request (cf_keccak256 cfg) (PostResponse_request r) = Some rc"
    and "hash_post_response (cf_keccak256 cfg) r = Some c" and "c \<noteq> rc"
  shows "\<exists>key. receipts_state_trie_key (substrate_client sb (cf_keccak256 cfg) co) s (RRResponse [ResPost r]) = Ok [key] \<and>
    (\<exists>t'. pallet_store_response_receipt cfg (ResPost r) signer t = (Ok (), t') \<and>
       ResponseReceipts_get rc t' = Some \<lparr>rr_response = c, rr_relayer = signer\<rparr> \<and>
       child_trie t' key = child_trie t key)"
  using assms
  by (simp add: substrate_client_def substrate_receipts_state_trie_key_def comp_app pallet_store_response_receipt_def
      PostResponse_request_def child_trie_defs)

definition sample_response :: PostResponse where
  "sample_response = \<lparr>prs_post = sample_post [1] [], prs_response = [5], prs_timeout_timestamp = 7000\<rparr>"

theorem response_timeout_misses_receipt_witness:
  "\<exists>key t'. pallet_store_response_receipt sample_cfg (ResPost sample_response) [11] empty_state = (Ok (), t') \<and>
     child_trie t' key = None \<and> ResponseReceipts_get 36 t' \<noteq> None"
proof -
  have h: "hash_request (cf_keccak256 sample_cfg) (PostResponse_request sample_response) = Some 36"
    "hash_post_response (cf_keccak256 sample_cfg) sample_response = Some 45"
    by (simp_all add: hash_request_def hash_post_response_def PostResponse_encode_def PostResponse_request_def option_cat_def
        sample_response_def sample_post_def sample_hash_def del: StateMachine_fmt.simps)
  have "\<exists>key. receipts_state_trie_key (substrate_client sample_sb (cf_keccak256 sample_cfg) None) sample_state (RRResponse [ResPost sample_response]) = Ok [key] \<and>
    (\<exists>t'. pallet_store_response_receipt sample_cfg (ResPost sample_response) [11] empty_state = (Ok (), t') \<and>
       ResponseReceipts_get 36 t' = Some \<lparr>rr_response = 45, rr_relayer = [11]\<rparr> \<and> child_trie t' key = child_trie empty_state key)"
    by (rule response_timeout_misses_receipt [OF h]) simp
  then show ?thesis by (auto simp: empty_state_def)
qed

section \<open>Timeouts against an EVM chain\<close>

lemma group_slot_keys:
  "\<forall>k \<in> set keys. length k = 32 \<Longrightarrow>
     \<exists>g'. group_keys keccak a keys g = Inr g' \<and> kg_account_queries g' = kg_account_queries g"
  by (induction keys arbitrary: g) (fastforce simp: group_key_def)+

text \<open>A timeout against an EVM chain needs no proof. The client reads the storage proofs that
  the message brings along and answers nothing for a key of a contract without one, and the handler
  takes no answer for no receipt: with a proof that has no storage proof at all, every timeout of
  known requests past their timeout goes on to the modules, whatever the state root commits to.\<close>

theorem evm_timeout_needs_no_proof:
  assumes "usable_height (pallet_host cfg) (proof_height prf) (evm_client ev (cf_keccak256 cfg)) s"
    and "StateCommitments_get cfg (proof_height prf) s = Some state"
    and "hx_evm_hosts s (state_id (smh_id (proof_height prf))) = Some address"
    and "ev_decode_proof ev (proof_proof prf) = Some \<lparr>esp_contract_proof = nodes, esp_storage_proof = []\<rparr>"
    and "\<forall>q \<in> set requests. check_post_timeout (pallet_host cfg) (state_id (smh_id (proof_height prf))) state q s = (Ok (), s)"
  shows "timeout_posts (pallet_host cfg) requests prf s = collect (timeout_post_request (pallet_host cfg)) requests s"
proof (rule timeout_posts_run [OF assms(1) _ assms(5)])
  let ?k = "cf_keccak256 cfg"
  let ?key = "\<lambda>q. be_bytes 32 (derive_unhashed_map_key ?k (be_bytes 32 (the (hash_request ?k q))) REQUEST_RECEIPTS_SLOT)"
  show "h_state_machine_commitment (pallet_host cfg) (proof_height prf) s = Ok state"
    using assms(2) by (simp add: pallet_state_machine_commitment_def)
  have keys: "req_res_receipt_keys ?k (RRRequest requests) s = (Ok (map ?key requests), s)"
    unfolding req_res_receipt_keys_def RequestResponse.case
    by (rule collect_run) (use assms(5) in \<open>auto simp: check_post_timeout_Ok known_request_def comp_app\<close>)
  obtain g where "group_keys ?k address (map ?key requests) \<lparr>kg_contract_to_keys = [], kg_account_queries = []\<rparr> = Inr g"
    "kg_account_queries g = []"
    using group_slot_keys [of "map ?key requests" ?k address "\<lparr>kg_contract_to_keys = [], kg_account_queries = []\<rparr>"] by auto
  then have "evm_verify_state_proof ev ?k (map ?key requests) state prf address s = (Ok [], s)"
    using assms(4) by (simp add: evm_verify_state_proof_def decode_evm_state_proof_def comp_app)
  with keys assms(3) show "undelivered (evm_client ev ?k) s (RRRequest requests) state prf"
    unfolding undelivered_def evm_client_def ismp_contract_address_def by (simp add: comp_app)
qed

definition sample_ev :: EvmProofConfig where
  "sample_ev =
     \<lparr>ev_decode_proof = (\<lambda>b. Some \<lparr>esp_contract_proof = [], esp_storage_proof = []\<rparr>),
      ev_trie_get = (\<lambda>nodes root key. Inr (Some [11])), ev_decode_account = (\<lambda>b. None), ev_encode_account = (\<lambda>a. [])\<rparr>"

definition evm_cfg :: "(sample_env, unit host_exec_state_ext) Config" where
  "evm_cfg = runtime_cfg\<lparr>cf_consensus_clients :=
     [sample_client\<lparr>cc_state_machine := (\<lambda>s sm. Ok (evm_client sample_ev sample_hash))\<rparr>]\<rparr>"

definition evm_state :: "(sample_env, unit) hx_st" where
  "evm_state = ismp_state.extend sub_state (host_exec_state.fields (\<lambda>_. None) [Evm 1 \<mapsto> 7] [])"

lemma evm_cfg_simps [simp]:
  "cf_keccak256 evm_cfg = sample_hash" "cf_coprocessor evm_cfg = None"
  "cf_router evm_cfg = sample_router" "cf_encode_height evm_cfg = sample_encode_height"
  "cf_host_state_machine evm_cfg = Polkadot 1000" "cf_encode_meta evm_cfg = sample_encode_meta"
  "cf_consensus_clients evm_cfg =
     [sample_client\<lparr>cc_state_machine := (\<lambda>s sm. Ok (evm_client sample_ev sample_hash))\<rparr>]"
  by (simp_all add: evm_cfg_def)

lemma evm_key: "state_commitment_storage_key evm_cfg h = state_commitment_storage_key sample_cfg h"
  by (simp add: state_commitment_storage_key_def)

lemma evm_state_simps [simp]:
  "child_trie evm_state = child_trie sub_state" "now evm_state = now sub_state"
  "consensus_state_client evm_state = consensus_state_client sub_state"
  "frozen_clients evm_state = frozen_clients sub_state" "challenge_periods evm_state = challenge_periods sub_state"
  "state_machine_update_times evm_state = state_machine_update_times sub_state" "env evm_state = env sub_state"
  "hx_evm_hosts evm_state = [Evm 1 \<mapsto> 7]"
  by (simp_all add: evm_state_def ismp_state.defs host_exec_state.defs)

lemma evm_usable: "usable_height (pallet_host evm_cfg) (sample_height 5) (evm_client sample_ev sample_hash) evm_state"
  by (auto simp: usable_height_def find_client_def sample_eval)

theorem evm_timeout_needs_no_proof_witness:
  "succeeds (timeout_posts (pallet_host evm_cfg) [ReqPost (late_out [0])] main_trie_proof) evm_state"
proof -
  have "timeout_posts (pallet_host evm_cfg) [ReqPost (late_out [0])] main_trie_proof evm_state =
      collect (timeout_post_request (pallet_host evm_cfg)) [ReqPost (late_out [0])] evm_state"
    by (rule evm_timeout_needs_no_proof [where ev = sample_ev and state = sub_commitment and address = 7 and nodes = "[]"])
       (use evm_usable in \<open>simp_all add: main_trie_proof_def sample_ev_def sample_eval sub_eval evm_key\<close>)
  then show ?thesis by (simp add: succeeds_def) (simp add: sample_eval sub_eval evm_key)
qed

section \<open>Payment of messages to hyperbridge\<close>

lemma unat_of_nat_small: "n < 2 ^ 128 \<Longrightarrow> unat (of_nat n :: u128) = n"
  by (simp add: unat_of_nat)



lemma payment_checks_response:
  "hash_response keccak (ResPost r) = Some c \<Longrightarrow> PostResponse_encode r = Some e \<Longrightarrow>
     payment_checks keccak (RRResponse [ResPost r]) s =
       (Ok [\<lparr>pc_commitment_key = response_commitment_storage_key c, pc_payment_key = response_payment_storage_key c,
             pc_size = of_nat (length e), pc_dest = Some (PostResponse_dest_chain r)\<rparr>], s)"
  by (simp add: payment_checks_def comp_app PostResponse_dest_chain_def)


definition fee_params :: VersionedHostParams where
  "fee_params = V1 \<lparr>shp_default_per_byte_fee = 2, shp_per_byte_fees = [], shp_asset_registration_fee = 0\<rparr>"

definition paying_state :: "(sample_env, unit) hb_st" where
  "paying_state = ismp_state.extend (RequestReceipts_insert 36 [11] empty_state) (hyperbridge_state.fields fee_params [])"

definition paying_hc :: "(sample_env, unit) HbConfig" where
  "paying_hc = \<lparr>hc_dispatcher = pallet_dispatcher runtime_cfg, hc_account = 2, hc_decode_message = (\<lambda>b. Inl [])\<rparr>"

definition paying_post :: DispatchPost where
  "paying_post = \<lparr>dp_dest = Evm 1, dp_from = [1], dp_to = [3], dp_timeout = 100, dp_body = []\<rparr>"

definition paying_fee :: "(account, balance) FeeMetadata" where
  "paying_fee = \<lparr>fee_payer = 77, fee_fee = 30\<rparr>"

definition collecting_state :: "(sample_env, unit) hx_st" where
  "collecting_state = ismp_state.extend empty_state
     (host_exec_state.fields [Polkadot 1000 \<mapsto> SubstrateHostParam fee_params] (\<lambda>_. None) [])"

definition paid_sb :: SubstrateConfig where
  "paid_sb =
     \<lparr>sb_decode_proof = (\<lambda>b. Inr (OverlayProof \<lparr>smp_hasher = Keccak, smp_storage_proof = []\<rparr>)),
      sb_trie_get = (\<lambda>h nodes root key. Inr (Some [64]))\<rparr>"

lemmas paying_eval =
  hb_dispatch_request_def hb_dispatch_response_def paying_state_def paying_hc_def paying_post_def paying_fee_def
  fee_params_def protocol_fee_def per_byte_fee_def collect_protocol_fee_def pallet_dispatcher_def dispatch_request_def
  dispatch_response_def collect_fee_def prepare_request_def next_nonce_def pallet_next_nonce_def pallet_dispatch_request_def
  pallet_dispatch_response_def deposit_event_def mmr_push_def on_env_def sample_transfer_def sample_push_def
  RequestCommitments_contains_key_def RequestCommitments_insert_def RequestReceipts_contains_key_def
  RequestReceipts_insert_def ResponseCommitments_insert_def hash_request_def option_cat_def sample_hash_def empty_state_def
  RequestPayments_insert_def RequestPayments_get_def ResponsePayments_insert_def ResponsePayments_get_def
  ismp_state.defs hyperbridge_state.defs



lemma fmt_length: "StateMachine_fmt sm = Some b \<Longrightarrow> 5 \<le> length b"
  using decimal_nonempty
  by (cases sm) (auto simp: Suc_le_eq split: if_splits)

lemma encoded_response_length:
  assumes "PostResponse_encode r = Some e"
  shows "length (prs_response r) + 34 \<le> length e"
proof -
  from assms obtain a b where
    "StateMachine_fmt (pr_source (prs_post r)) = Some a" "StateMachine_fmt (pr_dest (prs_post r)) = Some b"
    "length e = length a + length b + 24 + length (pr_from (prs_post r)) + length (pr_to (prs_post r)) +
       length (pr_body (prs_post r)) + length (prs_response r)"
    by (cases "StateMachine_fmt (pr_source (prs_post r))"; cases "StateMachine_fmt (pr_dest (prs_post r))")
       (auto simp: PostResponse_encode_def option_cat_def Let_def split: if_splits)
  with fmt_length [of "pr_source (prs_post r)" a] fmt_length [of "pr_dest (prs_post r)" b] show ?thesis by simp
qed

text \<open>The same does not hold of responses. The source chain collects the fee for the bytes of the
  response, hyperbridge asks it for the bytes of the whole encoding: unless the fee is zero, a
  response dispatched and paid through pallet-hyperbridge is rejected by hyperbridge's client for
  that chain, whatever the proof shows (as long as the fee does not overflow).\<close>

theorem paid_response_is_rejected:
  assumes "hb_dispatch_response cfg hc r fee t = (Ok c, t')"
    and "hash_post_response keccak r = Some c" and "PostResponse_encode r = Some e"
    and "hb_host_params t = V1 params" and "0 < per_byte_fee (V1 params) (PostResponse_dest_chain r)"
    and "length e * unat (per_byte_fee (V1 params) (PostResponse_dest_chain r)) < 2 ^ 128"
    and "\<forall>p root v b. sb_decode_proof sb (proof_proof prf) = Inr p \<and> sc_overlay_root state = Some root \<and>
      shown sb p root (response_payment_storage_key c) (Some v) \<and> decode_u128 v = Inr b \<longrightarrow>
      ResponsePayments_get c t' = Some b"
    and "hx_host_params s sm = Some (SubstrateHostParam (V1 params))"
  shows "verify_membership (hyperbridge_client sb decode_u128 keccak co sm) s (RRResponse [ResPost r]) state prf \<noteq> Ok ()"
proof
  let ?fee = "per_byte_fee (V1 params) (PostResponse_dest_chain r)"
  let ?n = "max 32 (length (prs_response r))"
  assume "verify_membership (hyperbridge_client sb decode_u128 keccak co sm) s (RRResponse [ResPost r]) state prf = Ok ()"
  then have "fst (hyperbridge_verify_membership sb decode_u128 keccak sm (RRResponse [ResPost r]) state prf s) = Ok ()"
    by (simp add: hyperbridge_client_def Let_def)
  from fst_Ok_run [OF this] obtain s' where
    "hyperbridge_verify_membership sb decode_u128 keccak sm (RRResponse [ResPost r]) state prf s = (Ok (), s')" by blast
  then obtain p root v b where
    "sb_decode_proof sb (proof_proof prf) = Inr p" "sc_overlay_root state = Some root"
    "shown sb p root (response_payment_storage_key c) (Some v)" "decode_u128 v = Inr b" and
    le: "message_cost (of_nat (length e)) ?fee \<le> b"
    unfolding hyperbridge_verify_membership_Ok
    using assms(2,3,5,8) payment_checks_response [of keccak r c e s] by (auto simp: paid_for_def)
  with assms(7) have rec: "ResponsePayments_get c t' = Some b" by blast
  from assms(1,4) rec have b: "b = protocol_fee (V1 params) (PostResponse_dest_chain r) (prs_response r)"
    by (auto simp: hb_dispatch_response_def Let_def comp_ok ResponsePayments_get_def ResponsePayments_insert_def child_put_def
        dest!: collect_protocol_fee_Ok)
  have len: "?n < length e" using encoded_response_length [OF assms(3)] by simp
  have fee: "0 < unat ?fee" using assms(5) by (simp add: word_less_nat_alt)
  have "length e * 1 \<le> length e * unat ?fee" using fee by (intro mult_le_mono2) (simp add: Suc_le_eq)
  then have small: "length e < 2 ^ 128" using assms(6) unfolding mult_1_right by (rule order.strict_trans1)
  then have e: "unat (of_nat (length e) :: u128) = length e" by (rule unat_of_nat_small)
  then have cost: "unat (message_cost (of_nat (length e)) ?fee) = length e * unat ?fee"
    using len assms(6) by (simp add: message_cost_def word_less_nat_alt unat_mult_lem [THEN iffD1])
  have paid: "unat b = ?n * unat ?fee"
  proof -
    have "?n * unat ?fee \<le> length e * unat ?fee" using len by (intro mult_le_mono1) simp
    then have "?n * unat ?fee < 2 ^ 128" using assms(6) by (rule order.strict_trans1)
    moreover have "b = ?fee * of_nat ?n" using b by (simp add: protocol_fee_def max_def)
    moreover have "?n < 2 ^ 128" using len small by (rule order.strict_trans)
    ultimately show ?thesis by (simp add: unat_word_ariths unat_of_nat mult.commute)
  qed
  have "?n * unat ?fee < length e * unat ?fee" using len fee by (rule mult_less_mono1)
  then have "unat b < unat (message_cost (of_nat (length e)) ?fee)" unfolding cost paid .
  with le show False by (simp add: word_le_nat_alt)
qed

definition paying_response :: PostResponse where
  "paying_response = \<lparr>prs_post = sample_post [1] [], prs_response = [5], prs_timeout_timestamp = 0\<rparr>"

lemma paying_response_run:
  "\<exists>t'. hb_dispatch_response runtime_cfg paying_hc paying_response paying_fee paying_state = (Ok 45, t') \<and>
     ResponsePayments_get 45 t' = Some 64"
  by (simp add: sample_eval paying_eval paying_response_def PostResponse_dest_chain_def PostResponse_request_def
      hash_post_response_def PostResponse_encode_def sample_post_def del: StateMachine_fmt.simps)

theorem paid_response_is_rejected_witness:
  "verify_membership (hyperbridge_client paid_sb (\<lambda>v. Inr 64) sample_hash None (Polkadot 1000)) collecting_state
     (RRResponse [ResPost paying_response]) sub_commitment sample_proof \<noteq> Ok ()"
proof -
  from paying_response_run obtain t' where
    run: "hb_dispatch_response runtime_cfg paying_hc paying_response paying_fee paying_state = (Ok 45, t')" and
    paid: "ResponsePayments_get 45 t' = Some 64" by blast
  have enc: "\<exists>e. PostResponse_encode paying_response = Some e \<and> length e = 45"
    by (simp add: PostResponse_encode_def option_cat_def paying_response_def sample_post_def del: StateMachine_fmt.simps)
  then obtain e where e: "PostResponse_encode paying_response = Some e" "length e = 45" by blast
  then have h: "hash_post_response sample_hash paying_response = Some 45"
    by (simp add: hash_post_response_def sample_hash_def)
  show ?thesis
    by (rule paid_response_is_rejected [OF run h e(1), where params =
          "\<lparr>shp_default_per_byte_fee = 2, shp_per_byte_fees = [], shp_asset_registration_fee = 0\<rparr>"])
       (simp_all add: e(2) paid per_byte_fee_def fee_params_def paying_state_def collecting_state_def
          ismp_state.defs host_exec_state.defs hyperbridge_state.defs)
qed

end
