(* ===== verification/Pallet_Relayer.thy ===== *)
theory Pallet_Relayer
  imports Evm_State_Machine
begin

text \<open>
  pallet-ismp-relayer (\<^verbatim>\<open>modules/ismp/pallets/relayer/src\<close>: \<^verbatim>\<open>lib.rs\<close>,
  \<^verbatim>\<open>withdrawal.rs\<close>): relayers prove that they delivered messages, accumulate the fees of
  those messages, and withdraw what they accumulated. The codecs and the signature schemes are
  parameters; the host and its router of proofs are those of the ISMP pallet. Adding to a
  \<^verbatim>\<open>U256\<close> panics on overflow.
\<close>

section \<open>Data\<close>

datatype Key = KeyRequest h256 | KeyResponse h256 h256

text \<open>\<open>KeyResponse\<close> has the request commitment first, then the response commitment.\<close>

record WithdrawalProof =
  wp_commitments :: "Key list"
  wp_source_proof :: Proof
  wp_dest_proof :: Proof

datatype Signature = SigEvm bytes bytes | SigSr25519 bytes bytes | SigEd25519 bytes bytes

record WithdrawalInputData =
  wd_signature :: Signature
  wd_dest_chain :: StateMachine

record WithdrawalParams =
  wpa_beneficiary_address :: bytes
  wpa_amount :: u256
  wpa_native :: bool

datatype RelayerError =
    RlBadOrigin
  | ProofValidationError
  | InvalidPublicKey
  | InvalidSignature
  | EmptyBalance
  | NotEnoughBalance
  | MismatchedStateMachine
  | MissingMangerAddress
  | RlDispatchFailed
  | ErrorCompletingCall
  | MissingCommitments

datatype RelayerEvent =
    RlAccumulateFees bytes StateMachine u256
  | RlWithdraw bytes StateMachine u256

record 'x relayer_state = "'x host_exec_state" +
  rl_fees :: "StateMachine \<Rightarrow> bytes \<Rightarrow> u256"
  rl_nonce :: "bytes \<Rightarrow> StateMachine \<Rightarrow> u64"
  rl_minimum_withdrawal :: u256
  rl_events :: "RelayerEvent list"

type_synonym ('x, 'm) rl_st = "('x, 'm) relayer_state_scheme"
type_synonym ('x, 'm) rl_config = "('x, 'm relayer_state_ext host_exec_state_ext) Config"

record ('x, 'm) RelayerConfig =
  rc_dispatcher :: "('x, 'm) rl_st IsmpDispatcher"
  rc_encode_nonce :: "u64 \<Rightarrow> StateMachine \<Rightarrow> bytes"
  rc_ecdsa_recover :: "bytes \<Rightarrow> h256 \<Rightarrow> bytes option"
  rc_sr25519_verify :: "bytes \<Rightarrow> h256 \<Rightarrow> bytes \<Rightarrow> bool"
  rc_ed25519_verify :: "bytes \<Rightarrow> h256 \<Rightarrow> bytes \<Rightarrow> bool"
  rc_rlp_u256 :: "bytes \<Rightarrow> u256 option"
  rc_rlp_address :: "bytes \<Rightarrow> h160 option"
  rc_rlp_b256 :: "bytes \<Rightarrow> h256 option"
  rc_decode_bytes :: "bytes \<Rightarrow> bytes option"
  rc_decode_receipt :: "bytes \<Rightarrow> ResponseReceipt option"
  rc_abi_encode :: "h160 \<Rightarrow> u256 \<Rightarrow> bool \<Rightarrow> bytes"
  rc_encode_message :: "HbMessage \<Rightarrow> bytes"
  rc_hash_order :: "bytes list \<Rightarrow> bytes list"

text \<open>\<^verbatim>\<open>MODULE_ID\<close> and the default of the minimum withdrawal.\<close>

definition RELAYER_MODULE_ID :: bytes where
  "RELAYER_MODULE_ID = ascii ''ISMP-RLYR''"

definition MinWithdrawal :: u256 where
  "MinWithdrawal = 10 * 1000000000000000000"

definition rl_deposit_event :: "RelayerEvent \<Rightarrow> (('x, 'm) rl_st, RelayerError, unit) comp" where
  "rl_deposit_event e = modify (\<lambda>s. s\<lparr>rl_events := rl_events s @ [e]\<rparr>)"

text \<open>\<^verbatim>\<open>BoundedVec::truncate_from\<close> for 32 bytes.\<close>

definition truncate32 :: "bytes \<Rightarrow> bytes" where
  "truncate32 b = take 32 b"

section \<open>Withdrawing\<close>

definition withdrawal_message ::
  "('x, 'm) rl_config \<Rightarrow> ('x, 'm) RelayerConfig \<Rightarrow> u64 \<Rightarrow> StateMachine \<Rightarrow> h256" where
  "withdrawal_message cfg rc n dest_chain = cf_keccak256 cfg (rc_encode_nonce rc n dest_chain)"

definition WithdrawalParams_abi_encode ::
  "('x, 'm) RelayerConfig \<Rightarrow> WithdrawalParams \<Rightarrow> ('s, 'e, bytes) comp" where
  "WithdrawalParams_abi_encode rc p =
     bindC (expect (if length (wpa_beneficiary_address p) = 20
                    then Some (from_be_bytes (wpa_beneficiary_address p)) else None)) (\<lambda>address.
       ret (0 # rc_abi_encode rc address (wpa_amount p) (wpa_native p)))"

definition check_public_key ::
  "(bytes \<Rightarrow> h256 \<Rightarrow> bytes \<Rightarrow> bool) \<Rightarrow> ('x, 'm) rl_config \<Rightarrow> ('x, 'm) RelayerConfig \<Rightarrow> StateMachine \<Rightarrow> bytes \<Rightarrow> bytes \<Rightarrow>
     (('x, 'm) rl_st, RelayerError, bytes) comp" where
  "check_public_key verify cfg rc dest_chain public_key signature =
     bindC (ensure (length signature = 64) InvalidSignature) (\<lambda>_.
     bindC (ensure (length public_key = 32) InvalidPublicKey) (\<lambda>_.
     bindC (asks (\<lambda>s. rl_nonce s public_key dest_chain)) (\<lambda>n.
     bindC (ensure (verify signature (withdrawal_message cfg rc n dest_chain) public_key) InvalidSignature) (\<lambda>_.
       ret public_key))))"

definition withdrawal_address ::
  "('x, 'm) rl_config \<Rightarrow> ('x, 'm) RelayerConfig \<Rightarrow> WithdrawalInputData \<Rightarrow> (('x, 'm) rl_st, RelayerError, bytes) comp" where
  "withdrawal_address cfg rc data =
     (case wd_signature data of
        SigEvm address signature \<Rightarrow>
          bindC (ensure (length signature = 65) InvalidSignature) (\<lambda>_.
          bindC (asks (\<lambda>s. rl_nonce s address (wd_dest_chain data))) (\<lambda>n.
          bindC (ok_or (rc_ecdsa_recover rc signature (withdrawal_message cfg rc n (wd_dest_chain data))) InvalidSignature) (\<lambda>pub_key.
          bindC (ensure (drop 12 (be_bytes 32 (cf_keccak256 cfg pub_key)) = address) InvalidPublicKey) (\<lambda>_.
            ret address))))
      | SigSr25519 public_key signature \<Rightarrow>
          check_public_key (rc_sr25519_verify rc) cfg rc (wd_dest_chain data) public_key signature
      | SigEd25519 public_key signature \<Rightarrow>
          check_public_key (rc_ed25519_verify rc) cfg rc (wd_dest_chain data) public_key signature)"

definition relayer_manager_address :: "StateMachine \<Rightarrow> (('x, 'm) rl_st, RelayerError, bytes) comp" where
  "relayer_manager_address dest_chain =
     (if is_substrate dest_chain then ret PALLET_HYPERBRIDGE_ID
      else bindC (asks (\<lambda>s. hx_host_params s dest_chain)) (\<lambda>found.
           bindC (ok_or found MissingMangerAddress) (\<lambda>params.
             case params of
               EvmHostParam p \<Rightarrow> ret (be_bytes 20 (ehp_host_manager p))
             | SubstrateHostParam _ \<Rightarrow> fail MismatchedStateMachine)))"

definition withdrawal_body ::
  "('x, 'm) RelayerConfig \<Rightarrow> StateMachine \<Rightarrow> bytes \<Rightarrow> u256 \<Rightarrow> (('x, 'm) rl_st, RelayerError, bytes) comp" where
  "withdrawal_body rc dest_chain address amount =
     (let params = \<lparr>wpa_beneficiary_address = address, wpa_amount = amount, wpa_native = False\<rparr> in
      if is_evm dest_chain then WithdrawalParams_abi_encode rc params
      else
        bindC (ok_or (if length address = 32 then Some (from_be_bytes address) else None) InvalidPublicKey) (\<lambda>account.
          ret (rc_encode_message rc (WithdrawRelayerFees
            \<lparr>hwr_amount = ucast (wpa_amount params), hwr_account = account\<rparr>))))"

definition withdraw ::
  "('x, 'm) rl_config \<Rightarrow> ('x, 'm) RelayerConfig \<Rightarrow> WithdrawalInputData \<Rightarrow> (('x, 'm) rl_st, RelayerError, unit) comp" where
  "withdraw cfg rc data =
     (let dest = wd_dest_chain data in
      bindC (withdrawal_address cfg rc data) (\<lambda>address.
      bindC (asks (\<lambda>s. rl_fees s dest address)) (\<lambda>available_amount.
      bindC (asks rl_minimum_withdrawal) (\<lambda>least.
      bindC (ensure (\<not> available_amount < least) NotEnoughBalance) (\<lambda>_.
      bindC (relayer_manager_address dest) (\<lambda>manager.
      bindC (modify (\<lambda>s. s\<lparr>rl_nonce := (rl_nonce s)(address := (rl_nonce s address)(dest := rl_nonce s address dest + 1))\<rparr>)) (\<lambda>_.
      bindC (withdrawal_body rc dest address available_amount) (\<lambda>body.
      bindC (map_err (\<lambda>_. RlDispatchFailed)
               (d_dispatch_request (rc_dispatcher rc)
                  (DispPost \<lparr>dp_dest = dest, dp_from = RELAYER_MODULE_ID, dp_to = manager, dp_timeout = 0, dp_body = body\<rparr>)
                  \<lparr>fee_payer = 0, fee_fee = 0\<rparr>)) (\<lambda>_.
      bindC (modify (\<lambda>s. s\<lparr>rl_fees := (rl_fees s)(dest := (rl_fees s dest)(address := 0))\<rparr>)) (\<lambda>_.
        rl_deposit_event (RlWithdraw (truncate32 address) dest available_amount)))))))))))"

section \<open>Accumulating\<close>

definition verify_withdrawal_proof ::
  "('x, 'm) rl_config \<Rightarrow> Proof \<Rightarrow> bytes list \<Rightarrow> (('x, 'm) rl_st, RelayerError, (bytes, bytes option) btree_map) comp" where
  "verify_withdrawal_proof cfg prf keys =
     bindC (map_err (\<lambda>_. ProofValidationError) (validate_state_machine (pallet_host cfg) (proof_height prf))) (\<lambda>state_machine.
     bindC (map_err (\<lambda>_. ProofValidationError) (reads (h_state_machine_commitment (pallet_host cfg) (proof_height prf)))) (\<lambda>state.
       map_err (\<lambda>_. ProofValidationError) (reads (\<lambda>s. verify_state_proof state_machine s keys state prf))))"

text \<open>The keys of one commitment: none where the chain is of an unsupported kind.\<close>

definition commitment_keys_of :: "('x, 'm) rl_config \<Rightarrow> StateMachine \<Rightarrow> Key \<Rightarrow> bytes list" where
  "commitment_keys_of cfg source key =
     (case key of
        KeyRequest commitment \<Rightarrow>
          if is_evm source then
            [be_bytes 32 (derive_unhashed_map_key (cf_keccak256 cfg) (be_bytes 32 commitment) REQUEST_COMMITMENTS_SLOT)]
          else if is_substrate source then [request_commitment_storage_key commitment]
          else []
      | KeyResponse _ response_commitment \<Rightarrow>
          if is_evm source then
            [be_bytes 32 (derive_unhashed_map_key (cf_keccak256 cfg) (be_bytes 32 response_commitment) RESPONSE_COMMITMENTS_SLOT)]
          else if is_substrate source then [response_commitment_storage_key response_commitment]
          else [])"

definition get_commitment_keys :: "('x, 'm) rl_config \<Rightarrow> WithdrawalProof \<Rightarrow> bytes list" where
  "get_commitment_keys cfg wp =
     concat (map (commitment_keys_of cfg (state_id (smh_id (proof_height (wp_source_proof wp))))) (wp_commitments wp))"

definition receipt_keys_of :: "('x, 'm) rl_config \<Rightarrow> StateMachine \<Rightarrow> Key \<Rightarrow> bytes list" where
  "receipt_keys_of cfg dest key =
     (case key of
        KeyRequest commitment \<Rightarrow>
          if is_evm dest then
            [be_bytes 32 (derive_unhashed_map_key (cf_keccak256 cfg) (be_bytes 32 commitment) REQUEST_RECEIPTS_SLOT)]
          else if is_substrate dest then [request_receipt_storage_key commitment]
          else []
      | KeyResponse request_commitment _ \<Rightarrow>
          if is_evm dest then
            [be_bytes 32 (derive_unhashed_map_key (cf_keccak256 cfg) (be_bytes 32 request_commitment) RESPONSE_RECEIPTS_SLOT)]
          else if is_substrate dest then [response_receipt_storage_key request_commitment]
          else [])"

definition get_receipt_keys :: "('x, 'm) rl_config \<Rightarrow> WithdrawalProof \<Rightarrow> bytes list" where
  "get_receipt_keys cfg wp =
     concat (map (receipt_keys_of cfg (state_id (smh_id (proof_height (wp_dest_proof wp))))) (wp_commitments wp))"

text \<open>The second slot of each response receipt on an EVM chain.\<close>

definition slot_2_keys :: "StateMachine \<Rightarrow> bytes list \<Rightarrow> Key list \<Rightarrow> (('x, 'm) rl_st, RelayerError, bytes list) comp" where
  "slot_2_keys dest dest_keys commitments =
     (if is_evm dest then
        bindC (collect (\<lambda>(key, commitment). case commitment of
            KeyResponse _ _ \<Rightarrow>
              bindC (expect (add_off_set_to_map_key key 1)) (\<lambda>k. ret [be_bytes 32 k])
          | KeyRequest _ \<Rightarrow> ret []) (zip dest_keys commitments)) (\<lambda>kss. ret (concat kss))
      else ret [])"

definition lookup_value :: "(bytes, bytes option) btree_map \<Rightarrow> bytes \<Rightarrow> bytes option" where
  "lookup_value m k = (case map_of m k of Some (Some v) \<Rightarrow> Some v | _ \<Rightarrow> None)"

definition decode_fee ::
  "('x, 'm) rl_config \<Rightarrow> ('x, 'm) RelayerConfig \<Rightarrow> StateMachine \<Rightarrow> bytes \<Rightarrow> (('x, 'm) rl_st, RelayerError, u256) comp" where
  "decode_fee cfg rc source encoded =
     (if is_evm source then ok_or (rc_rlp_u256 rc encoded) ProofValidationError
      else if is_substrate source then
        bindC (ok_or (cf_decode_meta cfg encoded) ProofValidationError) (\<lambda>meta. ret (ucast (fee_fee (rm_fee meta))))
      else fail MismatchedStateMachine)"

definition decode_request_relayer ::
  "('x, 'm) RelayerConfig \<Rightarrow> StateMachine \<Rightarrow> bytes \<Rightarrow> (('x, 'm) rl_st, RelayerError, bytes) comp" where
  "decode_request_relayer rc dest encoded =
     (if is_evm dest then
        bindC (ok_or (rc_rlp_address rc encoded) ProofValidationError) (\<lambda>address. ret (be_bytes 20 address))
      else if is_substrate dest then ok_or (rc_decode_bytes rc encoded) ProofValidationError
      else fail MismatchedStateMachine)"

definition decode_response_relayer ::
  "('x, 'm) RelayerConfig \<Rightarrow> StateMachine \<Rightarrow> (bytes, bytes option) btree_map \<Rightarrow> bytes \<Rightarrow> bytes \<Rightarrow>
     (('x, 'm) rl_st, RelayerError, bytes \<times> h256) comp" where
  "decode_response_relayer rc dest dest_result dest_key encoded =
     (if is_evm dest then
        bindC (ok_or (rc_rlp_b256 rc encoded) ProofValidationError) (\<lambda>response_commitment.
        bindC (expect (add_off_set_to_map_key dest_key 1)) (\<lambda>slot_2_key.
        bindC (ok_or (lookup_value dest_result (be_bytes 32 slot_2_key)) ProofValidationError) (\<lambda>encoded_address.
        bindC (ok_or (rc_rlp_address rc encoded_address) ProofValidationError) (\<lambda>address.
          ret (be_bytes 20 address, response_commitment)))))
      else if is_substrate dest then
        bindC (ok_or (rc_decode_receipt rc encoded) ProofValidationError) (\<lambda>receipt.
          ret (rr_relayer receipt, rr_response receipt))
      else fail MismatchedStateMachine)"

text \<open>One step of the loop: what a proven commitment earns its relayer; \<open>None\<close> where the loop
  continues with the next one.\<close>

definition validate_result ::
  "('x, 'm) rl_config \<Rightarrow> ('x, 'm) RelayerConfig \<Rightarrow> WithdrawalProof \<Rightarrow> (bytes, bytes option) btree_map \<Rightarrow>
     (bytes, bytes option) btree_map \<Rightarrow> (Key \<times> bytes) \<times> bytes \<Rightarrow>
     (('x, 'm) rl_st, RelayerError, (bytes \<times> u256 \<times> h256) option) comp" where
  "validate_result cfg rc wp source_result dest_result = (\<lambda>((key, source_key), dest_key).
     let source = state_id (smh_id (proof_height (wp_source_proof wp)));
         dest = state_id (smh_id (proof_height (wp_dest_proof wp))) in
     case lookup_value source_result source_key of
       None \<Rightarrow> ret None
     | Some encoded_metadata \<Rightarrow>
         bindC (decode_fee cfg rc source encoded_metadata) (\<lambda>fee.
         bindC (ok_or (lookup_value dest_result dest_key) ProofValidationError) (\<lambda>encoded_receipt.
           case key of
             KeyRequest commitment \<Rightarrow>
               bindC (decode_request_relayer rc dest encoded_receipt) (\<lambda>address.
                 ret (Some (address, fee, commitment)))
           | KeyResponse _ response_commitment \<Rightarrow>
               bindC (decode_response_relayer rc dest dest_result dest_key encoded_receipt) (\<lambda>(relayer, res).
               bindC (ensure (response_commitment = res) ProofValidationError) (\<lambda>_.
                 ret (Some (relayer, fee, response_commitment)))))))"

text \<open>The loop: the fees per relayer, in the order of a \<^verbatim>\<open>BTreeMap\<close>, and the claimed
  commitments.\<close>

fun validate_loop ::
  "('x, 'm) rl_config \<Rightarrow> ('x, 'm) RelayerConfig \<Rightarrow> WithdrawalProof \<Rightarrow> (bytes, bytes option) btree_map \<Rightarrow>
     (bytes, bytes option) btree_map \<Rightarrow> ((Key \<times> bytes) \<times> bytes) list \<Rightarrow> (bytes, u256) btree_map \<Rightarrow> h256 list \<Rightarrow>
     (('x, 'm) rl_st, RelayerError, (bytes, u256) btree_map \<times> h256 list) comp" where
  "validate_loop cfg rc wp source_result dest_result [] result commitments = ret (result, commitments)"
| "validate_loop cfg rc wp source_result dest_result (item # items) result commitments =
     bindC (validate_result cfg rc wp source_result dest_result item) (\<lambda>r.
       case r of
         None \<Rightarrow> validate_loop cfg rc wp source_result dest_result items result commitments
       | Some (address, fee, commitment) \<Rightarrow>
           bindC (expect (checked_add256 (case map_of result address of Some v \<Rightarrow> v | None \<Rightarrow> 0) fee)) (\<lambda>total.
             validate_loop cfg rc wp source_result dest_result items (btree_insert address total result)
               (commitments @ [commitment])))"

definition validate_results ::
  "('x, 'm) rl_config \<Rightarrow> ('x, 'm) RelayerConfig \<Rightarrow> WithdrawalProof \<Rightarrow> bytes list \<Rightarrow> bytes list \<Rightarrow>
     (bytes, bytes option) btree_map \<Rightarrow> (bytes, bytes option) btree_map \<Rightarrow>
     (('x, 'm) rl_st, RelayerError, (bytes, u256) btree_map \<times> h256 list) comp" where
  "validate_results cfg rc wp source_keys dest_keys source_result dest_result =
     validate_loop cfg rc wp source_result dest_result (zip (zip (wp_commitments wp) source_keys) dest_keys) [] []"

definition unclaimed :: "('x, 'm) rl_st \<Rightarrow> Key \<Rightarrow> bool" where
  "unclaimed s key =
     (case (case key of KeyRequest req \<Rightarrow> RequestCommitments_get req s
                      | KeyResponse _ res \<Rightarrow> ResponseCommitments_get res s) of
        Some leaf_meta \<Rightarrow> \<not> rm_claimed leaf_meta
      | None \<Rightarrow> False)"

text \<open>\<^verbatim>\<open>accumulate_fee\<close>, and the body of the first loop of \<^verbatim>\<open>accumulate\<close>.\<close>

definition accumulate_fee :: "StateMachine \<Rightarrow> bytes \<Rightarrow> u256 \<Rightarrow> (('x, 'm) rl_st, 'e, unit) comp" where
  "accumulate_fee state_machine address fee =
     bindC (asks (\<lambda>s. rl_fees s state_machine address)) (\<lambda>inner.
     bindC (expect (checked_add256 inner fee)) (\<lambda>total.
       modify (\<lambda>s. s\<lparr>rl_fees := (rl_fees s)(state_machine := (rl_fees s state_machine)(address := total))\<rparr>)))"

fun credit_fees ::
  "StateMachine \<Rightarrow> (bytes, u256) btree_map \<Rightarrow> (bytes \<Rightarrow> u256 option) \<Rightarrow> (('x, 'm) rl_st, RelayerError, bytes \<Rightarrow> u256 option) comp" where
  "credit_fees state_machine [] total_fee = ret total_fee"
| "credit_fees state_machine ((address, fee) # rest) total_fee =
     bindC (accumulate_fee state_machine address fee) (\<lambda>_.
     bindC (expect (checked_add256 (case total_fee address of Some v \<Rightarrow> v | None \<Rightarrow> 0) fee)) (\<lambda>inner_fee.
       credit_fees state_machine rest (total_fee(address \<mapsto> inner_fee))))"

definition mark_claimed :: "h256 list \<Rightarrow> Key \<Rightarrow> ('x, 'm) rl_st \<Rightarrow> ('x, 'm) rl_st" where
  "mark_claimed claimed_commitments key s =
     (case key of
        KeyRequest req \<Rightarrow>
          if req \<notin> set claimed_commitments then s
          else (case RequestCommitments_get req s of
                  Some leaf_meta \<Rightarrow> RequestCommitments_insert req (leaf_meta\<lparr>rm_claimed := True\<rparr>) s
                | None \<Rightarrow> s)
      | KeyResponse _ res \<Rightarrow>
          if res \<notin> set claimed_commitments then s
          else (case ResponseCommitments_get res s of
                  Some leaf_meta \<Rightarrow> ResponseCommitments_insert res (leaf_meta\<lparr>rm_claimed := True\<rparr>) s
                | None \<Rightarrow> s))"

definition accumulate ::
  "('x, 'm) rl_config \<Rightarrow> ('x, 'm) RelayerConfig \<Rightarrow> WithdrawalProof \<Rightarrow> (('x, 'm) rl_st, RelayerError, unit) comp" where
  "accumulate cfg rc withdrawal_proof =
     bindC (asks (\<lambda>s. withdrawal_proof\<lparr>wp_commitments := filter (unclaimed s) (wp_commitments withdrawal_proof)\<rparr>)) (\<lambda>wp.
     bindC (ensure (wp_commitments wp \<noteq> []) MissingCommitments) (\<lambda>_.
     (let source_keys = get_commitment_keys cfg wp;
          dest_keys = get_receipt_keys cfg wp;
          state_machine = state_id (smh_id (proof_height (wp_source_proof wp))) in
      bindC (slot_2_keys (state_id (smh_id (proof_height (wp_dest_proof wp)))) dest_keys (wp_commitments wp)) (\<lambda>slot_2.
      bindC (verify_withdrawal_proof cfg (wp_source_proof wp) source_keys) (\<lambda>source_result.
      bindC (verify_withdrawal_proof cfg (wp_dest_proof wp) (dest_keys @ slot_2)) (\<lambda>dest_result.
      bindC (validate_results cfg rc wp source_keys dest_keys source_result dest_result) (\<lambda>(result, claimed_commitments).
      bindC (credit_fees state_machine result (\<lambda>_. None)) (\<lambda>total_fee.
      bindC (modify (\<lambda>s. foldl (\<lambda>s key. mark_claimed claimed_commitments key s) s (wp_commitments wp))) (\<lambda>_.
        for_each (\<lambda>address. rl_deposit_event (RlAccumulateFees (truncate32 address) state_machine
            (case total_fee address of Some v \<Rightarrow> v | None \<Rightarrow> 0))) (rc_hash_order rc (map fst result)))))))))))"

section \<open>Calls\<close>

definition accumulate_fees ::
  "('x, 'm) rl_config \<Rightarrow> ('x, 'm) RelayerConfig \<Rightarrow> Origin \<Rightarrow> WithdrawalProof \<Rightarrow> (('x, 'm) rl_st, RelayerError, unit) comp" where
  "accumulate_fees cfg rc origin withdrawal_proof = transactional
     (bindC (ensure (origin = OriginNone) RlBadOrigin) (\<lambda>_. accumulate cfg rc withdrawal_proof))"

definition withdraw_fees ::
  "('x, 'm) rl_config \<Rightarrow> ('x, 'm) RelayerConfig \<Rightarrow> Origin \<Rightarrow> WithdrawalInputData \<Rightarrow> (('x, 'm) rl_st, RelayerError, unit) comp" where
  "withdraw_fees cfg rc origin data = transactional
     (bindC (ensure (origin = OriginNone) RlBadOrigin) (\<lambda>_. withdraw cfg rc data))"

definition set_minimum_withdrawal ::
  "('x, 'm) rl_config \<Rightarrow> Origin \<Rightarrow> u128 \<Rightarrow> (('x, 'm) rl_st, RelayerError, unit) comp" where
  "set_minimum_withdrawal cfg origin amount = transactional
     (bindC (ensure (cf_admin_origin cfg origin) RlBadOrigin) (\<lambda>_.
        modify (\<lambda>s. s\<lparr>rl_minimum_withdrawal := ucast (amount * 1000000000000000000)\<rparr>)))"

datatype RelayerCall =
    CallAccumulateFees WithdrawalProof | CallWithdrawFees WithdrawalInputData | CallSetMinimumWithdrawal u128

definition relayer_validate_unsigned ::
  "('x, 'm) rl_config \<Rightarrow> ('x, 'm) RelayerConfig \<Rightarrow> (WithdrawalProof \<Rightarrow> bytes) \<Rightarrow> (WithdrawalInputData \<Rightarrow> bytes) \<Rightarrow> RelayerCall \<Rightarrow>
     (('x, 'm) rl_st, TransactionValidityError, ValidTransaction) comp" where
  "relayer_validate_unsigned cfg rc encode_proof encode_data call =
     bindC (case call of
              CallAccumulateFees withdrawal_proof \<Rightarrow> map_err (\<lambda>_. InvalidCall) (accumulate cfg rc withdrawal_proof)
            | CallWithdrawFees data \<Rightarrow> map_err (\<lambda>_. InvalidCall) (withdraw cfg rc data)
            | CallSetMinimumWithdrawal _ \<Rightarrow> fail InvalidCall) (\<lambda>_.
     bindC (case call of
              CallAccumulateFees withdrawal_proof \<Rightarrow> ret (encode_proof withdrawal_proof)
            | CallWithdrawFees data \<Rightarrow> ret (encode_data data)
            | CallSetMinimumWithdrawal _ \<Rightarrow> panic) (\<lambda>encoding.
       ret \<lparr>vt_priority = 100, vt_requires = [], vt_provides = [be_bytes 32 (cf_keccak256 cfg encoding)],
            vt_longevity = - 1, vt_propagate = True\<rparr>))"

end
