(* ===== verification/Relayer_Properties.thy ===== *)
theory Relayer_Properties
  imports Sample_Runtime Pallet_Relayer
begin

text \<open>
  What pallet-ismp-relayer guarantees: which fees a relayer is credited with, that a commitment is
  not claimed again, and what a withdrawal does to the balance.
\<close>

section \<open>The proven results\<close>


lemma readonly_relayer_steps [readonly_intros]:
  "readonly (decode_fee cfg rc source e)" "readonly (decode_request_relayer rc dest e)"
  "readonly (decode_response_relayer rc dest m k e)"
  unfolding decode_fee_def decode_request_relayer_def decode_response_relayer_def
  by (auto intro!: readonly_intros)

lemma readonly_validate_result: "readonly (validate_result cfg rc wp sr dr item)"
  unfolding validate_result_def Let_def
  by (cases item) (auto intro!: readonly_intros split: option.split Key.split)


definition credit_of ::
  "('x, 'm) rl_config \<Rightarrow> ('x, 'm) RelayerConfig \<Rightarrow> WithdrawalProof \<Rightarrow> (bytes, bytes option) btree_map \<Rightarrow>
     (bytes, bytes option) btree_map \<Rightarrow> ('x, 'm) rl_st \<Rightarrow> (Key \<times> bytes) \<times> bytes \<Rightarrow> (bytes \<times> u256 \<times> h256) option" where
  "credit_of cfg rc wp sr dr s item =
     (case fst (validate_result cfg rc wp sr dr item s) of Ok r \<Rightarrow> r | _ \<Rightarrow> None)"

definition earned :: "bytes \<Rightarrow> (bytes \<times> u256 \<times> h256) list \<Rightarrow> nat" where
  "earned a credits = sum_list (map (\<lambda>(a', f, c). if a' = a then unat f else 0) credits)"

definition balance_of :: "(bytes, u256) btree_map \<Rightarrow> bytes \<Rightarrow> u256" where
  "balance_of m a = (case map_of m a of Some v \<Rightarrow> v | None \<Rightarrow> 0)"

lemma checked_add256_Some: "checked_add256 a b = Some c \<Longrightarrow> unat c = unat a + unat b"
  by (auto simp: checked_add256_def not_less unat_plus_simple [THEN iffD1] split: if_splits)

lemma map_filter_Cons: "List.map_filter f (x # xs) = (case f x of Some y \<Rightarrow> y # List.map_filter f xs | None \<Rightarrow> List.map_filter f xs)"
  by (simp add: List.map_filter_def split: option.split)

lemma validate_loop_Ok:
  assumes "validate_loop cfg rc wp sr dr items result cs s = (Ok (result', cs'), s')" and "btree_wf result"
  shows "s' = s \<and> btree_wf result' \<and>
    cs' = cs @ map (\<lambda>(a, f, c). c) (List.map_filter (credit_of cfg rc wp sr dr s) items) \<and>
    (\<forall>a. unat (balance_of result' a) =
       unat (balance_of result a) + earned a (List.map_filter (credit_of cfg rc wp sr dr s) items))"
  using assms
proof (induction items arbitrary: result cs)
  case Nil
  then show ?case by (simp add: comp_ok List.map_filter_def earned_def)
next
  case (Cons item items)
  from Cons.prems(1) obtain r t where
    v: "validate_result cfg rc wp sr dr item s = (Ok r, t)" and
    rest: "(case r of None \<Rightarrow> validate_loop cfg rc wp sr dr items result cs
       | Some (address, fee, commitment) \<Rightarrow>
           bindC (expect (checked_add256 (case map_of result address of Some v \<Rightarrow> v | None \<Rightarrow> 0) fee)) (\<lambda>total.
             validate_loop cfg rc wp sr dr items (btree_insert address total result) (cs @ [commitment]))) t =
       (Ok (result', cs'), s')"
    by (auto simp: comp_ok)
  from readonlyD [OF readonly_validate_result v] have t: "t = s" .
  have credit: "credit_of cfg rc wp sr dr s item = r" using v by (simp add: credit_of_def)
  show ?case
  proof (cases r)
    case None
    with rest t Cons.IH [of result cs] Cons.prems(2) credit show ?thesis by (simp add: map_filter_Cons)
  next
    case (Some x)
    obtain a f c where x: "x = (a, f, c)" by (rule prod_cases3)
    from rest t Some x obtain total where
      total: "checked_add256 (balance_of result a) f = Some total" and
      loop: "validate_loop cfg rc wp sr dr items (btree_insert a total result) (cs @ [c]) s = (Ok (result', cs'), s')"
      by (auto simp: comp_ok balance_of_def)
    have "balance_of (btree_insert a total result) b = (if b = a then total else balance_of result b)" for b
      by (simp add: balance_of_def map_of_btree_insert)
    with Cons.IH [OF loop btree_wf_insert [OF Cons.prems(2)]] checked_add256_Some [OF total] credit Some x
    show ?thesis by (auto simp: map_filter_Cons earned_def)
  qed
qed

section \<open>Crediting\<close>

lemma accumulate_fee_Ok:
  assumes "accumulate_fee sm a f s = (Ok u, s')"
  shows "\<exists>total. checked_add256 (rl_fees s sm a) f = Some total \<and>
    s' = s\<lparr>rl_fees := (rl_fees s)(sm := (rl_fees s sm)(a := total))\<rparr>"
  using assms by (auto simp: accumulate_fee_def comp_ok)

lemma credit_fees_Ok:
  assumes "credit_fees sm result tf s = (Ok tf', s')" and "btree_wf result"
  shows "\<exists>fees'. s' = s\<lparr>rl_fees := fees'\<rparr> \<and> (\<forall>sm'. sm' \<noteq> sm \<longrightarrow> fees' sm' = rl_fees s sm') \<and>
    (\<forall>a. unat (fees' sm a) = unat (rl_fees s sm a) + unat (balance_of result a))"
  using assms
proof (induction result arbitrary: tf s)
  case Nil
  then show ?case by (intro exI [of _ "rl_fees s"]) (simp add: comp_ok balance_of_def)
next
  case (Cons x result)
  obtain a f where x: "x = (a, f)" by (cases x)
  from Cons.prems(2) x have wf: "btree_wf result" and fresh: "a \<notin> fst ` set result"
    by (auto simp: btree_wf_def)
  from Cons.prems(1) x obtain t tf2 where
    acc: "accumulate_fee sm a f s = (Ok () :: (RelayerError, unit) outcome, t)" and rest: "credit_fees sm result tf2 t = (Ok tf', s')"
    by (auto simp: comp_ok)
  from accumulate_fee_Ok [OF acc] obtain total where
    total: "checked_add256 (rl_fees s sm a) f = Some total" and
    t: "t = s\<lparr>rl_fees := (rl_fees s)(sm := (rl_fees s sm)(a := total))\<rparr>" by blast
  from Cons.IH [OF rest wf] obtain fees' where
    s': "s' = t\<lparr>rl_fees := fees'\<rparr>" and other: "\<forall>sm'. sm' \<noteq> sm \<longrightarrow> fees' sm' = rl_fees t sm'" and
    here: "\<forall>b. unat (fees' sm b) = unat (rl_fees t sm b) + unat (balance_of result b)" by blast
  have "map_of result a = None" using fresh by (simp add: map_of_eq_None_iff)
  then have none: "balance_of result a = 0" by (simp add: balance_of_def)
  have bal: "balance_of (x # result) b = (if b = a then f else balance_of result b)" for b
    using x by (simp add: balance_of_def)
  show ?case
  proof (intro exI conjI allI impI)
    show "s' = s\<lparr>rl_fees := fees'\<rparr>" using s' t by simp
    show "fees' sm' = rl_fees s sm'" if "sm' \<noteq> sm" for sm' using other that t by simp
    show "unat (fees' sm b) = unat (rl_fees s sm b) + unat (balance_of (x # result) b)" for b
      using here [rule_format, of b] t none checked_add256_Some [OF total] by (simp add: bal)
  qed
qed

section \<open>Claiming\<close>






lemma mark_claimed_fees: "rl_fees (foldl (\<lambda>s key. mark_claimed cs key s) s ks) = rl_fees s"
  by (induction ks arbitrary: s)
     (simp_all add: mark_claimed_def RequestCommitments_insert_def ResponseCommitments_insert_def child_put_def
        split: Key.split option.split)

section \<open>Accumulating\<close>

lemma event_loop_Ok:
  "for_each (\<lambda>x. rl_deposit_event (f x)) xs s = (Ok u, s') \<Longrightarrow> s' = s\<lparr>rl_events := rl_events s @ map f xs\<rparr>"
proof (induction xs arbitrary: s)
  case Nil
  then show ?case by (simp add: comp_ok)
next
  case (Cons x xs)
  then have "for_each (\<lambda>x. rl_deposit_event (f x)) xs (s\<lparr>rl_events := rl_events s @ [f x]\<rparr>) = (Ok u, s')"
    by (simp add: comp_ok rl_deposit_event_def)
  from Cons.IH [OF this] show ?case by simp
qed

lemma readonly_proof_steps:
  "readonly (slot_2_keys d ks cs)" "readonly (verify_withdrawal_proof cfg prf ks)"
  unfolding slot_2_keys_def verify_withdrawal_proof_def
  by (auto intro!: readonly_intros readonly_guards split: prod.split Key.split)

text \<open>Everything a successful run of \<^verbatim>\<open>accumulate\<close> did.\<close>

lemma accumulate_Ok:
  assumes "accumulate cfg rc wp0 s = (Ok (), s')"
  defines "wp \<equiv> wp0\<lparr>wp_commitments := filter (unclaimed s) (wp_commitments wp0)\<rparr>"
  shows "\<exists>sr dr credits fees' ev.
    credits = List.map_filter (credit_of cfg rc wp sr dr s)
      (zip (zip (wp_commitments wp) (get_commitment_keys cfg wp)) (get_receipt_keys cfg wp)) \<and>
    verify_withdrawal_proof cfg (wp_source_proof wp) (get_commitment_keys cfg wp) s = (Ok sr, s) \<and>
    (\<forall>sm. sm \<noteq> state_id (smh_id (proof_height (wp_source_proof wp0))) \<longrightarrow> fees' sm = rl_fees s sm) \<and>
    (\<forall>a. unat (fees' (state_id (smh_id (proof_height (wp_source_proof wp0)))) a) =
       unat (rl_fees s (state_id (smh_id (proof_height (wp_source_proof wp0)))) a) + earned a credits) \<and>
    s' = (foldl (\<lambda>s key. mark_claimed (map (\<lambda>(a, f, c). c) credits) key s)
       (s\<lparr>rl_fees := fees'\<rparr>) (wp_commitments wp))\<lparr>rl_events := ev\<rparr>"
proof -
  let ?sm = "state_id (smh_id (proof_height (wp_source_proof wp0)))"
  from assms(1) obtain slot2 sr dr result cs tf t where
    sr: "verify_withdrawal_proof cfg (wp_source_proof wp) (get_commitment_keys cfg wp) s = (Ok sr, s)" and
    v: "validate_results cfg rc wp (get_commitment_keys cfg wp) (get_receipt_keys cfg wp) sr dr s = (Ok (result, cs), t)" and
    rest: "bindC (credit_fees ?sm result (\<lambda>_. None)) (\<lambda>total_fee.
      bindC (modify (\<lambda>s. foldl (\<lambda>s key. mark_claimed cs key s) s (wp_commitments wp))) (\<lambda>_.
        for_each (\<lambda>address. rl_deposit_event (RlAccumulateFees (truncate32 address) ?sm
            (case total_fee address of Some v \<Rightarrow> v | None \<Rightarrow> 0))) (rc_hash_order rc (map fst result)))) t = (Ok (), s')"
    unfolding accumulate_def Let_def readonly_bindC_Ok [OF readonly_basic(5)] readonly_bindC_Ok [OF readonly_basic(6)]
      readonly_bindC_Ok [OF readonly_proof_steps(1)] readonly_bindC_Ok [OF readonly_proof_steps(2)] wp_def
    by (auto simp: bindC_Ok [of "validate_results cfg rc x ks ds a b" for x ks ds a b] asks_def)
  define credits where "credits = List.map_filter (credit_of cfg rc wp sr dr s)
      (zip (zip (wp_commitments wp) (get_commitment_keys cfg wp)) (get_receipt_keys cfg wp))"
  have "btree_wf ([] :: (bytes, u256) btree_map)" by (simp add: btree_wf_def)
  from validate_loop_Ok [OF v [unfolded validate_results_def] this] have
    t: "t = s" and wf: "btree_wf result" and cs: "cs = map (\<lambda>(a, f, c). c) credits" and
    bal: "\<And>a. unat (balance_of result a) = earned a credits"
    by (simp_all add: credits_def balance_of_def)
  from rest t obtain tf t2 where
    cr: "credit_fees ?sm result (\<lambda>_. None) s = (Ok tf, t2)" and
    ev: "for_each (\<lambda>address. rl_deposit_event (RlAccumulateFees (truncate32 address) ?sm
            (case tf address of Some v \<Rightarrow> v | None \<Rightarrow> 0))) (rc_hash_order rc (map fst result))
          (foldl (\<lambda>s key. mark_claimed cs key s) t2 (wp_commitments wp)) = (Ok (), s')"
    by (auto simp: comp_ok)
  from credit_fees_Ok [OF cr wf] obtain fees' where
    t2: "t2 = s\<lparr>rl_fees := fees'\<rparr>" and other: "\<forall>sm'. sm' \<noteq> ?sm \<longrightarrow> fees' sm' = rl_fees s sm'" and
    here: "\<forall>a. unat (fees' ?sm a) = unat (rl_fees s ?sm a) + unat (balance_of result a)" by blast
  have here': "\<forall>a. unat (fees' ?sm a) = unat (rl_fees s ?sm a) + earned a credits" using here bal by simp
  show ?thesis
    by (rule exI [of _ sr], rule exI [of _ dr], rule exI [of _ credits], rule exI [of _ fees'], rule exI, intro conjI,
        rule credits_def, rule sr, rule other, rule here', rule event_loop_Ok [OF ev, unfolded t2 cs])
qed

lemma accumulate_fees_Ok: "accumulate_fees cfg rc origin wp s = (Ok (), s') \<Longrightarrow> accumulate cfg rc wp s = (Ok (), s')"
  by (simp add: accumulate_fees_def comp_ok)

lemma unclaimed_frame [simp]:
  "unclaimed (s\<lparr>rl_fees := fees\<rparr>) k = unclaimed s k" "unclaimed (s\<lparr>rl_events := ev\<rparr>) k = unclaimed s k"
  by (simp_all add: unclaimed_def RequestCommitments_get_def ResponseCommitments_get_def split: Key.split)







text \<open>A runtime in which every key has a value: every fee is 5 and every relayer has the address 9.\<close>

definition full_client :: "'s StateMachineClient" where
  "full_client =
     \<lparr>verify_membership = (\<lambda>s items c p. Ok ()), receipts_state_trie_key = (\<lambda>s items. Ok []),
      verify_state_proof = (\<lambda>s ks c p. Ok (map (\<lambda>k. (k, Some [7])) ks))\<rparr>"

definition relay_cfg :: "(sample_env, unit) rl_config" where
  "relay_cfg = runtime_cfg\<lparr>cf_consensus_clients := [sample_client\<lparr>cc_state_machine := (\<lambda>s sm. Ok full_client)\<rparr>]\<rparr>"

definition relay_rc :: "(sample_env, unit) RelayerConfig" where
  "relay_rc =
     \<lparr>rc_dispatcher = pallet_dispatcher runtime_cfg, rc_encode_nonce = (\<lambda>n sm. []), rc_ecdsa_recover = (\<lambda>sig m. None),
      rc_sr25519_verify = (\<lambda>sig m k. True), rc_ed25519_verify = (\<lambda>sig m k. True), rc_rlp_u256 = (\<lambda>b. Some 5),
      rc_rlp_address = (\<lambda>b. Some 9), rc_rlp_b256 = (\<lambda>b. Some 40), rc_decode_bytes = Some, rc_decode_receipt = (\<lambda>b. None),
      rc_abi_encode = (\<lambda>a n b. []), rc_encode_message = (\<lambda>m. []), rc_hash_order = (\<lambda>ks. ks)\<rparr>"

definition relay_state :: "(sample_env, unit) rl_st" where
  "relay_state = host_exec_state.extend
     (ismp_state.extend (RequestCommitments_insert 36 (sample_meta 30) sample_state)
       (host_exec_state.fields (\<lambda>_. None) (\<lambda>_. None) []))
     (relayer_state.fields (\<lambda>_ _. 0) (\<lambda>_ _. 0) 1 [])"

definition relay_proof :: "Key list \<Rightarrow> WithdrawalProof" where
  "relay_proof ks = \<lparr>wp_commitments = ks, wp_source_proof = sample_proof, wp_dest_proof = sample_proof\<rparr>"

lemma relay_cfg_simps [simp]:
  "cf_keccak256 relay_cfg = sample_hash" "cf_encode_height relay_cfg = sample_encode_height"
  "cf_consensus_clients relay_cfg = [sample_client\<lparr>cc_state_machine := (\<lambda>s sm. Ok full_client)\<rparr>]"
  by (simp_all add: relay_cfg_def)

lemma relay_key: "state_commitment_storage_key relay_cfg h = state_commitment_storage_key sample_cfg h"
  by (simp add: state_commitment_storage_key_def)

lemma relay_state_simps [simp]:
  "child_trie relay_state = (child_trie sample_state)(request_commitment_storage_key 36 \<mapsto> CvMeta (sample_meta 30))"
  "now relay_state = now sample_state" "consensus_state_client relay_state = consensus_state_client sample_state"
  "frozen_clients relay_state = frozen_clients sample_state" "challenge_periods relay_state = challenge_periods sample_state"
  "state_machine_update_times relay_state = state_machine_update_times sample_state" "env relay_state = env sample_state"
  "rl_fees relay_state = (\<lambda>_ _. 0)" "rl_nonce relay_state = (\<lambda>_ _. 0)" "rl_events relay_state = []"
  "rl_minimum_withdrawal relay_state = 1"
  by (simp_all add: relay_state_def ismp_state.defs host_exec_state.defs relayer_state.defs RequestCommitments_insert_def
      child_put_def)

lemmas relay_eval =
  accumulate_fees_def accumulate_def relay_proof_def unclaimed_def RequestCommitments_get_def sample_meta_def
  get_commitment_keys_def get_receipt_keys_def commitment_keys_of_def receipt_keys_of_def slot_2_keys_def
  verify_withdrawal_proof_def validate_state_machine_def verify_delay_passed_def sample_proof_def relay_key
  full_client_def validate_results_def validate_result_def lookup_value_def decode_fee_def decode_request_relayer_def
  relay_rc_def checked_add256_def accumulate_fee_def mark_claimed_def RequestCommitments_insert_def rl_deposit_event_def



text \<open>A commitment repeated inside one proof of deliveries is credited twice: only commitments
  claimed by an earlier proof are filtered out, not duplicates within the proof.\<close>

theorem repeated_commitment_credited_twice:
  assumes "accumulate_fees cfg rc origin wp s = (Ok (), s')" and "wp_commitments wp = [k, k]"
    and "src = state_id (smh_id (proof_height (wp_source_proof wp)))" and "is_evm src \<or> is_substrate src"
    and "dest = state_id (smh_id (proof_height (wp_dest_proof wp)))" and "is_evm dest \<or> is_substrate dest"
  shows "\<exists>source_result dest_result.
    fst (verify_withdrawal_proof cfg (wp_source_proof wp) (get_commitment_keys cfg wp) s) = Ok source_result \<and>
    (\<forall>a. unat (rl_fees s' src a) = unat (rl_fees s src a) +
       2 * (case fst (validate_result cfg rc wp source_result dest_result
                        ((k, hd (commitment_keys_of cfg src k)), hd (receipt_keys_of cfg dest k)) s) of
              Ok (Some (relayer, fee, c)) \<Rightarrow> if relayer = a then unat fee else 0
            | _ \<Rightarrow> 0))"
proof -
  have "unclaimed s k"
    using assms(1,2) by (cases "unclaimed s k") (auto simp: accumulate_fees_def accumulate_def comp_ok)
  with assms(2) have wp: "wp\<lparr>wp_commitments := filter (unclaimed s) (wp_commitments wp)\<rparr> = wp" by simp
  from accumulate_Ok [OF accumulate_fees_Ok [OF assms(1)]] obtain sr dr where
    sr: "verify_withdrawal_proof cfg (wp_source_proof wp) (get_commitment_keys cfg wp) s = (Ok sr, s)" and
    here: "\<And>a. unat (rl_fees s' src a) = unat (rl_fees s src a) +
      earned a (List.map_filter (credit_of cfg rc wp sr dr s)
        (zip (zip (wp_commitments wp) (get_commitment_keys cfg wp)) (get_receipt_keys cfg wp)))"
    unfolding wp assms(3) by (auto simp: mark_claimed_fees)
  let ?item = "((k, hd (commitment_keys_of cfg src k)), hd (receipt_keys_of cfg dest k))"
  have "zip (zip (wp_commitments wp) (get_commitment_keys cfg wp)) (get_receipt_keys cfg wp) = [?item, ?item]"
    using assms(4,6) unfolding get_commitment_keys_def get_receipt_keys_def assms(2) assms(3,5) [symmetric]
    by (cases k) (auto simp: commitment_keys_of_def receipt_keys_of_def)
  with here sr show ?thesis
    by (intro exI [of _ sr] exI [of _ dr])
       (simp add: List.map_filter_def earned_def credit_of_def split: outcome.split option.split)
qed

theorem repeated_commitment_credited_twice_witness:
  "\<exists>s'. accumulate_fees relay_cfg relay_rc OriginNone (relay_proof [KeyRequest 36, KeyRequest 36]) relay_state = (Ok (), s') \<and>
     (\<exists>source_result. fst (verify_withdrawal_proof relay_cfg sample_proof
        (get_commitment_keys relay_cfg (relay_proof [KeyRequest 36, KeyRequest 36])) relay_state) = Ok source_result) \<and>
     rl_fees s' (Evm 1) (be_bytes 20 (9 :: h160)) = 10"
proof -
  have "\<exists>s'. accumulate_fees relay_cfg relay_rc OriginNone (relay_proof [KeyRequest 36, KeyRequest 36]) relay_state = (Ok (), s') \<and>
      rl_fees s' (Evm 1) (be_bytes 20 (9 :: h160)) = 10"
    by (simp add: sample_eval relay_eval)
  then obtain s' where
    run: "accumulate_fees relay_cfg relay_rc OriginNone (relay_proof [KeyRequest 36, KeyRequest 36]) relay_state = (Ok (), s')" and
    ten: "rl_fees s' (Evm 1) (be_bytes 20 (9 :: h160)) = 10" by blast
  have side: "wp_commitments (relay_proof [KeyRequest 36, KeyRequest 36]) = [KeyRequest 36, KeyRequest 36]"
    "Evm 1 = state_id (smh_id (proof_height (wp_source_proof (relay_proof [KeyRequest 36, KeyRequest 36]))))"
    "Evm 1 = state_id (smh_id (proof_height (wp_dest_proof (relay_proof [KeyRequest 36, KeyRequest 36]))))"
    and same: "wp_source_proof (relay_proof [KeyRequest 36, KeyRequest 36]) = sample_proof"
    by (simp_all add: relay_proof_def sample_proof_def)
  have evm: "is_evm (Evm 1) \<or> is_substrate (Evm 1)" by simp
  from repeated_commitment_credited_twice [OF run side(1,2) evm side(3) evm, unfolded same] obtain sr where
    "fst (verify_withdrawal_proof relay_cfg sample_proof
        (get_commitment_keys relay_cfg (relay_proof [KeyRequest 36, KeyRequest 36])) relay_state) = Ok sr" by blast
  then show ?thesis by (intro exI [of _ s'] conjI run exI [of _ sr] ten)
qed

section \<open>Withdrawals\<close>



lemma readonly_withdraw_steps [readonly_intros]:
  "readonly (withdrawal_address cfg rc data)" "readonly (relayer_manager_address dest)"
  "readonly (withdrawal_body rc dest address amount)"
  unfolding withdrawal_address_def check_public_key_def relayer_manager_address_def withdrawal_body_def
    WithdrawalParams_abi_encode_def Let_def
  by (auto intro!: readonly_intros split: Signature.split HostParam.split)



lemma commitments_of_relayer_updates [simp]:
  "RequestCommitments_get c (s\<lparr>rl_nonce := n\<rparr>) = RequestCommitments_get c s"
  "RequestCommitments_get c (s\<lparr>rl_fees := f\<rparr>) = RequestCommitments_get c s"
  "RequestCommitments_get c (s\<lparr>rl_events := e\<rparr>) = RequestCommitments_get c s"
  by (simp_all add: RequestCommitments_get_def)



definition withdraw_cfg :: "(sample_env, unit) rl_config" where
  "withdraw_cfg = runtime_cfg"

definition withdraw_data :: "StateMachine \<Rightarrow> WithdrawalInputData" where
  "withdraw_data dest = \<lparr>wd_signature = SigSr25519 (replicate 32 3) (replicate 64 0), wd_dest_chain = dest\<rparr>"

definition withdraw_host_param :: EvmHostParam where
  "withdraw_host_param =
     \<lparr>ehp_default_timeout = 0, ehp_default_per_byte_fee = 0, ehp_state_commitment_fee = 0, ehp_fee_token = 0, ehp_admin = 0,
      ehp_handler = 0, ehp_host_manager = 4, ehp_uniswap_v2 = 0, ehp_un_staking_period = 0, ehp_challenge_period = 0,
      ehp_consensus_client = 0, ehp_state_machines = [], ehp_per_byte_fees = [], ehp_hyperbridge = []\<rparr>"

definition withdraw_state :: "(sample_env, unit) rl_st" where
  "withdraw_state = host_exec_state.extend
     (ismp_state.extend empty_state (host_exec_state.fields (\<lambda>_. Some (EvmHostParam withdraw_host_param)) (\<lambda>_. None) []))
     (relayer_state.fields (\<lambda>_ _. 25) (\<lambda>_ _. 0) 1 [])"


lemma withdraw_key:
  "fst (withdrawal_address withdraw_cfg relay_rc (withdraw_data dest) s) = Ok (replicate 32 3)"
  by (simp add: withdrawal_address_def withdraw_data_def check_public_key_def comp_app relay_rc_def)


text \<open>A relayer that is identified by a 32 byte key cannot withdraw on an EVM chain: the call does
  not fail with an error, it panics, since the key is turned into a 20 byte address unchecked.\<close>

theorem evm_withdrawal_panics:
  assumes "is_evm (wd_dest_chain data)"
    and "wd_signature data = SigSr25519 key sig \<or> wd_signature data = SigEd25519 key sig"
    and "fst (withdrawal_address cfg rc data s) = Ok key"
    and "rl_minimum_withdrawal s \<le> rl_fees s (wd_dest_chain data) key"
    and "hx_host_params s (wd_dest_chain data) = Some (EvmHostParam p)"
  shows "fst (withdraw_fees cfg rc OriginNone data s) = Panic"
proof -
  have w: "withdrawal_address cfg rc data s = (Ok key, s)"
    using assms(3) readonly_withdraw_steps(1) [of cfg rc data]
    by (cases "withdrawal_address cfg rc data s") (auto dest: readonlyD)
  have "length key = 32"
    using w assms(2) by (auto simp: withdrawal_address_def check_public_key_def comp_ok)
  with w assms(1,4,5) show ?thesis
    by (simp add: withdraw_fees_def withdraw_def Let_def transactional_def bindC_def comp_app relayer_manager_address_def
        withdrawal_body_def WithdrawalParams_abi_encode_def)
qed

theorem evm_withdrawal_panics_witness:
  "fst (withdraw_fees withdraw_cfg relay_rc OriginNone (withdraw_data (Evm 1)) withdraw_state) = Panic"
proof (rule evm_withdrawal_panics)
  show "is_evm (wd_dest_chain (withdraw_data (Evm 1)))"
    "wd_signature (withdraw_data (Evm 1)) = SigSr25519 (replicate 32 3) (replicate 64 0) \<or>
     wd_signature (withdraw_data (Evm 1)) = SigEd25519 (replicate 32 3) (replicate 64 0)"
    by (simp_all add: withdraw_data_def)
  show "fst (withdrawal_address withdraw_cfg relay_rc (withdraw_data (Evm 1)) withdraw_state) = Ok (replicate 32 3)"
    by (rule withdraw_key)
  show "rl_minimum_withdrawal withdraw_state \<le> rl_fees withdraw_state (wd_dest_chain (withdraw_data (Evm 1))) (replicate 32 3)"
    "hx_host_params withdraw_state (wd_dest_chain (withdraw_data (Evm 1))) = Some (EvmHostParam withdraw_host_param)"
    by (simp_all add: withdraw_state_def ismp_state.defs host_exec_state.defs relayer_state.defs)
qed

end
