(* ===== verification/Evm_Base.thy ===== *)
theory Evm_Base
  imports Rust_BTree
begin

text \<open>
  What the Solidity contracts (\<^verbatim>\<open>evm/src\<close>) share: the structs of the protocol, with the types
  their checked-in bindings give them (\<^verbatim>\<open>evm/abi/src/generated\<close>), the custom errors, and the
  world a contract runs in. A revert is the value \<open>Err\<close>: custom errors, Solidity panics (17 for
  arithmetic, 33 for an enum, 50 for an index) and reverts of a callee; the whole call is rolled back. The
  contracts that are called and the functions of third-party libraries are parameters, collected in
  the record \<open>EvmWorld\<close>. A callee may do anything to the state, reentering the host included.
\<close>

section \<open>Structs\<close>

record SolPostRequest =
  sq_source :: bytes
  sq_dest :: bytes
  sq_nonce :: u64
  sq_from :: bytes
  sq_to :: bytes
  sq_timeoutTimestamp :: u64
  sq_body :: bytes

record SolPostResponse =
  sp_request :: SolPostRequest
  sp_response :: bytes
  sp_timeoutTimestamp :: u64

record SolGetRequest =
  sg_source :: bytes
  sg_dest :: bytes
  sg_nonce :: u64
  sg_from :: h160
  sg_timeoutTimestamp :: u64
  sg_keys :: "bytes list"
  sg_height :: u64
  sg_context :: bytes

record SolStorageValue =
  sv_key :: bytes
  sv_value :: bytes

record SolGetResponse =
  sgr_request :: SolGetRequest
  sgr_values :: "SolStorageValue list"

record SolFeeMetadata =
  sf_fee :: u256
  sf_sender :: h160

record SolResponseReceipt =
  srr_responseCommitment :: h256
  srr_relayer :: h160

record SolStateCommitment =
  ssc_timestamp :: u256
  ssc_overlayRoot :: h256
  ssc_stateRoot :: h256

record SolStateMachineHeight =
  ssh_stateMachineId :: u256
  ssh_height :: u256

record SolIntermediateState =
  sis_stateMachineId :: u256
  sis_height :: u256
  sis_commitment :: SolStateCommitment

record SolDispatchPost =
  sdp_dest :: bytes
  sdp_to :: bytes
  sdp_body :: bytes
  sdp_timeout :: u64
  sdp_fee :: u256
  sdp_payer :: h160

record SolDispatchGet =
  sdg_dest :: bytes
  sdg_height :: u64
  sdg_keys :: "bytes list"
  sdg_timeout :: u64
  sdg_fee :: u256
  sdg_context :: bytes

record SolDispatchPostResponse =
  sdr_request :: SolPostRequest
  sdr_response :: bytes
  sdr_timeout :: u64
  sdr_fee :: u256
  sdr_payer :: h160

text \<open>\<^verbatim>\<open>FrozenStatus\<close>: which direction is closed.\<close>

datatype FrozenStatus = FrozenNone | FrozenIncoming | FrozenOutgoing | FrozenAll

text \<open>Proofs and the messages of the handler.\<close>

record SolProof =
  spr_height :: SolStateMachineHeight
  spr_multiproof :: "h256 list"
  spr_leafCount :: u256

record SolMmrLeaf =
  sml_kIndex :: u256
  sml_leafIndex :: u256
  sml_hash :: h256

record 'm SolLeaf =
  slf_message :: 'm
  slf_index :: u256
  slf_kIndex :: u256

record 'm SolMessage =
  smg_proof :: SolProof
  smg_leaves :: "'m SolLeaf list"

record 'm SolTimeoutMessage =
  stm_timeouts :: "'m list"
  stm_height :: SolStateMachineHeight
  stm_proof :: "bytes list"

text \<open>Host parameters and withdrawals (\<^verbatim>\<open>EvmHost.sol\<close>).\<close>

record SolPerByteFee =
  spf_stateIdHash :: h256
  spf_perByteFee :: u256

record SolHostParams =
  hp_defaultTimeout :: u256
  hp_defaultPerByteFee :: u256
  hp_stateCommitmentFee :: u256
  hp_feeToken :: h160
  hp_admin :: h160
  hp_handler :: h160
  hp_hostManager :: h160
  hp_uniswapV2 :: h160
  hp_unStakingPeriod :: u256
  hp_challengePeriod :: u256
  hp_consensusClient :: h160
  hp_stateMachines :: "u256 list"
  hp_perByteFees :: "SolPerByteFee list"
  hp_hyperbridge :: bytes

record SolWithdrawParams =
  swp_beneficiary :: h160
  swp_amount :: u256
  swp_native :: bool

section \<open>Errors\<close>

datatype EvmHostError =
    EhUnauthorizedAccount
  | EhInvalidAddressLength
  | EhUnknownRequest
  | EhUnknownResponse
  | EhUnauthorizedAction
  | EhUnauthorizedResponse
  | EhDuplicateResponse
  | EhInvalidHostManager
  | EhInvalidHandler
  | EhInvalidConsensusClient
  | EhInvalidHyperbridgeId
  | EhInvalidStateMachinesLength
  | EhInvalidUnstakingPeriod
  | EhWithdrawalFailed
  | EhFrozenHost
  | EhCannotChangeFeeToken

datatype HandlerError =
    HdConsensusClientExpired
  | HdHostFrozen
  | HdChallengePeriodNotElapsed
  | HdStateCommitmentNotFound
  | HdInvalidMessageDestination
  | HdMessageTimedOut
  | HdMessageNotTimedOut
  | HdDuplicateMessage
  | HdUnknownMessage
  | HdInvalidProof

datatype GatewayError =
    TgUnauthorizedAction
  | TgZeroAddress
  | TgInvalidAmount
  | TgUnknownAsset
  | TgInconsistentState
  | TgInvalidAddressLength

datatype EvmRevert =
    HostError EvmHostError
  | HandlerRevert HandlerError
  | ManagerUnauthorizedAction
  | GatewayRevert GatewayError
  | RegistrarUnauthorizedAction
  | SolidityPanic nat
  | CalleeRevert bytes

section \<open>The world of a contract\<close>

record Msg =
  msg_sender :: h160
  msg_value :: u256

text \<open>The calls the host makes on an application, with the relayer where there is one.\<close>

datatype ModuleCall =
    OnAccept SolPostRequest h160
  | OnPostResponse SolPostResponse h160
  | OnGetResponse SolGetResponse h160
  | OnPostRequestTimeout SolPostRequest
  | OnPostResponseTimeout SolPostResponse
  | OnGetTimeout SolGetRequest

datatype InterfaceId = IIsmpModule | IHandler | IConsensusClient

record 's EvmWorld =
  ew_this :: h160
  ew_chainid :: u256
  ew_call :: "h160 \<Rightarrow> ModuleCall \<Rightarrow> ('s, EvmRevert, unit) comp"
  ew_send :: "h160 \<Rightarrow> u256 \<Rightarrow> ('s, EvmRevert, unit) comp"
  ew_safeTransferFrom :: "h160 \<Rightarrow> h160 \<Rightarrow> h160 \<Rightarrow> u256 \<Rightarrow> ('s, EvmRevert, unit) comp"
  ew_safeTransfer :: "h160 \<Rightarrow> h160 \<Rightarrow> u256 \<Rightarrow> ('s, EvmRevert, unit) comp"
  ew_balanceOf :: "h160 \<Rightarrow> h160 \<Rightarrow> 's \<Rightarrow> (EvmRevert, u256) outcome"
  ew_WETH :: "h160 \<Rightarrow> 's \<Rightarrow> (EvmRevert, h160) outcome"
  ew_swapETHForExactTokens ::
    "h160 \<Rightarrow> u256 \<Rightarrow> u256 \<Rightarrow> h160 list \<Rightarrow> h160 \<Rightarrow> u256 \<Rightarrow> ('s, EvmRevert, unit) comp"
  ew_code_length :: "h160 \<Rightarrow> 's \<Rightarrow> nat"
  ew_supportsInterface :: "h160 \<Rightarrow> InterfaceId \<Rightarrow> 's \<Rightarrow> (EvmRevert, bool) outcome"
  ew_verifyConsensus ::
    "h160 \<Rightarrow> bytes \<Rightarrow> bytes \<Rightarrow> ('s, EvmRevert, bytes \<times> SolIntermediateState list) comp"
  ew_keccak256 :: "bytes \<Rightarrow> h256"
  ew_state_machine_evm :: "u256 \<Rightarrow> bytes"
  ew_hash_post :: "SolPostRequest \<Rightarrow> h256"
  ew_hash_response :: "SolPostResponse \<Rightarrow> h256"
  ew_hash_get :: "SolGetRequest \<Rightarrow> h256"
  ew_hash_get_response :: "SolGetResponse \<Rightarrow> h256"
  ew_timeout_post :: "SolPostRequest \<Rightarrow> u64"
  ew_timeout_response :: "SolPostResponse \<Rightarrow> u64"
  ew_timeout_get :: "SolGetRequest \<Rightarrow> u64"
  ew_mmr_verify :: "h256 \<Rightarrow> h256 list \<Rightarrow> SolMmrLeaf list \<Rightarrow> u256 \<Rightarrow> (EvmRevert, bool) outcome"
  ew_verify_substrate :: "h256 \<Rightarrow> bytes list \<Rightarrow> bytes list \<Rightarrow> (EvmRevert, SolStorageValue list) outcome"
  ew_decode_withdraw :: "bytes \<Rightarrow> (EvmRevert, SolWithdrawParams) outcome"
  ew_decode_params :: "bytes \<Rightarrow> (EvmRevert, SolHostParams) outcome"

text \<open>\<^verbatim>\<open>(bool success, ) = a.call(...)\<close>: what a failing callee did is undone, and the caller goes on.\<close>

definition low_level_call :: "('s, EvmRevert, unit) comp \<Rightarrow> ('s, EvmRevert, bool) comp" where
  "low_level_call m = (\<lambda>s. case m s of (Ok _, s') \<Rightarrow> (Ok True, s') | _ \<Rightarrow> (Ok False, s))"

text \<open>Checked arithmetic.\<close>

definition checked :: "'a option \<Rightarrow> ('s, EvmRevert, 'a) comp" where
  "checked r = ok_or r (SolidityPanic 17)"

definition add_checked :: "'a::len word \<Rightarrow> 'a word \<Rightarrow> ('s, EvmRevert, 'a word) comp" where
  "add_checked a b = checked (if a + b < a then None else Some (a + b))"

definition sub_checked :: "'a::len word \<Rightarrow> 'a word \<Rightarrow> ('s, EvmRevert, 'a word) comp" where
  "sub_checked a b = checked (if a < b then None else Some (a - b))"

definition mul_checked :: "'a::len word \<Rightarrow> 'a word \<Rightarrow> ('s, EvmRevert, 'a word) comp" where
  "mul_checked a b = checked (if unat a * unat b < 2 ^ LENGTH('a) then Some (a * b) else None)"

lemma readonly_checked [readonly_intros]:
  "readonly (checked r)" "readonly (add_checked a b)" "readonly (sub_checked a b)" "readonly (mul_checked a b)"
  unfolding checked_def add_checked_def sub_checked_def mul_checked_def by (auto intro!: readonly_intros)

lemma checked_Ok:
  "checked r s = (Ok a, s') \<longleftrightarrow> r = Some a \<and> s' = s"
  by (auto simp: checked_def comp_ok)

lemma add_checked_Ok: "add_checked a b s = (Ok c, s') \<Longrightarrow> s' = s \<and> c = a + b \<and> unat c = unat a + unat b"
  by (auto simp: add_checked_def checked_Ok not_less unat_plus_simple [THEN iffD1] split: if_splits)

lemma sub_checked_Ok: "sub_checked a b s = (Ok c, s') \<longleftrightarrow> s' = s \<and> c = a - b \<and> b \<le> a"
  by (auto simp: sub_checked_def checked_Ok not_less split: if_splits)

lemma mul_checked_Ok: "mul_checked a b s = (Ok c, s') \<Longrightarrow> s' = s \<and> c = a * b \<and> unat c = unat a * unat b"
  by (auto simp: mul_checked_def checked_Ok unat_mult_lem split: if_splits)

lemma low_level_call_Ok:
  "low_level_call m s = (Ok r, s') \<longleftrightarrow>
     (if r then m s = (Ok (), s') else (\<forall>u. fst (m s) \<noteq> Ok u) \<and> s' = s)"
  by (cases "m s"; cases "fst (m s)") (auto simp: low_level_call_def)

lemma keeps_low_level_call: "keeps P m \<Longrightarrow> keeps P (low_level_call m)"
  by (auto simp: keeps_def low_level_call_def split: prod.splits outcome.splits)

end
