(* ===== verification/Evm_Host.thy ===== *)
theory Evm_Host
  imports Evm_Base
begin

text \<open>
  The ISMP host of EVM chains (\<^verbatim>\<open>evm/src/hosts/EvmHost.sol\<close>). A mapping of Solidity is a total
  function with the zero of its type as the default. Every external function takes the message it is
  called with; \<^verbatim>\<open>_msgSender()\<close> is its sender. The time of the block is part of the state, since it
  moves from one transaction to the next.
\<close>

section \<open>Storage\<close>

datatype HostEvent =
    EePostRequestHandled h256 h160
  | EePostRequestTimeoutHandled h256 bytes
  | EePostResponseHandled h256 h160
  | EePostResponseTimeoutHandled h256 bytes
  | EeGetRequestHandled h256 h160
  | EeGetRequestTimeoutHandled h256 bytes
  | EeStateMachineUpdated bytes u256
  | EeStateCommitmentVetoed bytes u256 SolStateCommitment h160
  | EePostRequestEvent SolPostRequest h160 u256
  | EePostResponseEvent SolPostResponse h160 u256
  | EeGetRequestEvent SolGetRequest u256
  | EeRequestFunded h256 u256
  | EePostResponseFunded h256 u256
  | EeHostFrozen FrozenStatus
  | EeHostParamsUpdated SolHostParams SolHostParams
  | EeHostWithdrawal u256 h160 bool
  | EeStateCommitmentRead h160 u256

record 'x EvmHost =
  eh_requestCommitments :: "h256 \<Rightarrow> SolFeeMetadata"
  eh_responseCommitments :: "h256 \<Rightarrow> SolFeeMetadata"
  eh_requestReceipts :: "h256 \<Rightarrow> h160"
  eh_responseReceipts :: "h256 \<Rightarrow> SolResponseReceipt"
  eh_responded :: "h256 \<Rightarrow> bool"
  eh_stateCommitments :: "u256 \<Rightarrow> u256 \<Rightarrow> SolStateCommitment"
  eh_stateCommitmentsUpdateTime :: "u256 \<Rightarrow> u256 \<Rightarrow> u256"
  eh_latestStateMachineHeight :: "u256 \<Rightarrow> u256"
  eh_vetoes :: "u256 \<Rightarrow> u256 \<Rightarrow> h160"
  eh_perByteFees :: "h256 \<Rightarrow> u256"
  eh_hostParams :: SolHostParams
  eh_nonce :: u256
  eh_frozen :: FrozenStatus
  eh_consensusState :: bytes
  eh_consensusUpdateTimestamp :: u256
  eh_events :: "HostEvent list"
  eh_block_timestamp :: u256
  eh_world :: 'x

type_synonym 'x evm_world = "'x EvmHost EvmWorld"
type_synonym ('x, 'a) sol = "('x EvmHost, EvmRevert, 'a) comp"

definition no_fee :: SolFeeMetadata where
  "no_fee = \<lparr>sf_fee = 0, sf_sender = 0\<rparr>"

definition no_receipt :: SolResponseReceipt where
  "no_receipt = \<lparr>srr_responseCommitment = 0, srr_relayer = 0\<rparr>"

definition no_commitment :: SolStateCommitment where
  "no_commitment = \<lparr>ssc_timestamp = 0, ssc_overlayRoot = 0, ssc_stateRoot = 0\<rparr>"

definition no_params :: SolHostParams where
  "no_params =
     \<lparr>hp_defaultTimeout = 0, hp_defaultPerByteFee = 0, hp_stateCommitmentFee = 0, hp_feeToken = 0, hp_admin = 0,
      hp_handler = 0, hp_hostManager = 0, hp_uniswapV2 = 0, hp_unStakingPeriod = 0, hp_challengePeriod = 0,
      hp_consensusClient = 0, hp_stateMachines = [], hp_perByteFees = [], hp_hyperbridge = []\<rparr>"

text \<open>The storage of a contract before its constructor has run.\<close>

definition EvmHost_zero :: "u256 \<Rightarrow> 'x \<Rightarrow> 'x EvmHost" where
  "EvmHost_zero timestamp x =
     \<lparr>eh_requestCommitments = (\<lambda>_. no_fee), eh_responseCommitments = (\<lambda>_. no_fee), eh_requestReceipts = (\<lambda>_. 0),
      eh_responseReceipts = (\<lambda>_. no_receipt), eh_responded = (\<lambda>_. False), eh_stateCommitments = (\<lambda>_ _. no_commitment),
      eh_stateCommitmentsUpdateTime = (\<lambda>_ _. 0), eh_latestStateMachineHeight = (\<lambda>_. 0), eh_vetoes = (\<lambda>_ _. 0),
      eh_perByteFees = (\<lambda>_. 0), eh_hostParams = no_params, eh_nonce = 0, eh_frozen = FrozenNone, eh_consensusState = [],
      eh_consensusUpdateTimestamp = 0, eh_events = [], eh_block_timestamp = timestamp, eh_world = x\<rparr>"

definition emit :: "HostEvent \<Rightarrow> ('x, unit) sol" where
  "emit e = modify (\<lambda>s. s\<lparr>eh_events := eh_events s @ [e]\<rparr>)"

section \<open>Modifiers and helpers\<close>

definition restrict :: "Msg \<Rightarrow> (SolHostParams \<Rightarrow> h160) \<Rightarrow> ('x, unit) sol" where
  "restrict m who =
     bindC (asks (\<lambda>s. who (eh_hostParams s))) (\<lambda>caller. ensure (msg_sender m = caller) (HostError EhUnauthorizedAction))"

definition notFrozen :: "('x, unit) sol" where
  "notFrozen = bindC (asks eh_frozen) (\<lambda>frozen.
     ensure (\<not> (frozen = FrozenOutgoing \<or> frozen = FrozenAll)) (HostError EhFrozenHost))"

definition host_id :: "'x evm_world \<Rightarrow> bytes" where
  "host_id w = ew_state_machine_evm w (ew_chainid w)"

definition bytesToAddress :: "bytes \<Rightarrow> ('x, h160) sol" where
  "bytesToAddress b =
     bindC (ensure (length b = 20) (HostError EhInvalidAddressLength)) (\<lambda>_. ret (from_be_bytes b))"

definition nextNonce :: "('x, u256) sol" where
  "nextNonce = bindC (asks eh_nonce) (\<lambda>nonce_copy.
     bindC (modify (\<lambda>s. s\<lparr>eh_nonce := eh_nonce s + 1\<rparr>)) (\<lambda>_. ret nonce_copy))"

definition perByteFee :: "'x evm_world \<Rightarrow> bytes \<Rightarrow> 'x EvmHost \<Rightarrow> u256" where
  "perByteFee w stateId s =
     (let overridden = eh_perByteFees s (ew_keccak256 w stateId) in
      if overridden = 0 then hp_defaultPerByteFee (eh_hostParams s) else overridden)"

text \<open>The payment of a fee: a swap of the native token where some was sent, or else a transfer of the
  fee token from the caller.\<close>

definition collect_payment :: "'x evm_world \<Rightarrow> Msg \<Rightarrow> u256 \<Rightarrow> ('x, unit) sol" where
  "collect_payment w m fee =
     bindC (asks eh_hostParams) (\<lambda>params.
       if msg_value m > 0 then
         bindC (reads (ew_WETH w (hp_uniswapV2 params))) (\<lambda>weth.
         bindC (asks eh_block_timestamp) (\<lambda>deadline.
           ew_swapETHForExactTokens w (hp_uniswapV2 params) (msg_value m) fee [weth, hp_feeToken params] (ew_this w) deadline))
       else ew_safeTransferFrom w (hp_feeToken params) (msg_sender m) (ew_this w) fee)"

text \<open>\<^verbatim>\<open>uint64(block.timestamp) + uint64(timeout)\<close>, checked, of the larger of the default and
  the given timeout, both cut to 64 bits.\<close>

definition adjust_timeout :: "u64 \<Rightarrow> ('x, u64) sol" where
  "adjust_timeout given =
     bindC (asks (\<lambda>s. hp_defaultTimeout (eh_hostParams s))) (\<lambda>defaultTimeout.
     bindC (asks eh_block_timestamp) (\<lambda>timestamp.
       let timeout = (if defaultTimeout > ucast given then defaultTimeout else ucast given) in
       if given = 0 then ret 0 else add_checked (ucast timestamp) (ucast timeout)))"

definition stateMachineId :: "bytes \<Rightarrow> u256 \<Rightarrow> ('x, bytes) sol" where
  "stateMachineId parachainId identifier =
     bindC (checked (if length parachainId < 4 then None else Some (length parachainId - 4))) (\<lambda>offset.
       ret (take offset parachainId @ decimal (unat identifier)))"

section \<open>Parameters\<close>

definition valid_contract :: "'x evm_world \<Rightarrow> h160 \<Rightarrow> InterfaceId \<Rightarrow> EvmHostError \<Rightarrow> ('x, unit) sol" where
  "valid_contract w a interface e =
     bindC (asks (ew_code_length w a)) (\<lambda>size.
       if a = 0 \<or> size = 0 then fail (HostError e)
       else bindC (reads (ew_supportsInterface w a interface)) (\<lambda>supported. ensure supported (HostError e)))"

definition check_fee_token :: "'x evm_world \<Rightarrow> SolHostParams \<Rightarrow> ('x, unit) sol" where
  "check_fee_token w params =
     bindC (asks (\<lambda>s. hp_feeToken (eh_hostParams s))) (\<lambda>oldFeeToken.
       if oldFeeToken \<noteq> 0 \<and> oldFeeToken \<noteq> hp_feeToken params then
         bindC (reads (ew_balanceOf w oldFeeToken (ew_this w))) (\<lambda>balance.
           ensure (balance = 0) (HostError EhCannotChangeFeeToken))
       else ret ())"

definition init_state_machine :: "u256 \<Rightarrow> 'x EvmHost \<Rightarrow> 'x EvmHost" where
  "init_state_machine i s =
     (if eh_latestStateMachineHeight s i = 0
      then s\<lparr>eh_latestStateMachineHeight := (eh_latestStateMachineHeight s)(i := 1)\<rparr> else s)"

definition set_per_byte_fee :: "SolPerByteFee \<Rightarrow> 'x EvmHost \<Rightarrow> 'x EvmHost" where
  "set_per_byte_fee f s = s\<lparr>eh_perByteFees := (eh_perByteFees s)(spf_stateIdHash f := spf_perByteFee f)\<rparr>"

text \<open>The per-byte fees of the stored parameters are never written; the event is emitted after the
  assignments.\<close>

definition updateHostParamsInternal :: "'x evm_world \<Rightarrow> SolHostParams \<Rightarrow> ('x, unit) sol" where
  "updateHostParamsInternal w params =
     bindC (valid_contract w (hp_hostManager params) IIsmpModule EhInvalidHostManager) (\<lambda>_.
     bindC (valid_contract w (hp_handler params) IHandler EhInvalidHandler) (\<lambda>_.
     bindC (valid_contract w (hp_consensusClient params) IConsensusClient EhInvalidConsensusClient) (\<lambda>_.
     bindC (ensure (ew_keccak256 w (hp_hyperbridge params) \<noteq> ew_keccak256 w []) (HostError EhInvalidHyperbridgeId)) (\<lambda>_.
     bindC (ensure (hp_stateMachines params \<noteq> []) (HostError EhInvalidStateMachinesLength)) (\<lambda>_.
     bindC (ensure (\<not> 86400 > hp_unStakingPeriod params) (HostError EhInvalidUnstakingPeriod)) (\<lambda>_.
     bindC (check_fee_token w params) (\<lambda>_.
     bindC (modify (\<lambda>s. s\<lparr>eh_hostParams := params\<lparr>hp_perByteFees := hp_perByteFees (eh_hostParams s)\<rparr>\<rparr>)) (\<lambda>_.
     bindC (asks eh_hostParams) (\<lambda>oldParams.
     bindC (emit (EeHostParamsUpdated oldParams params)) (\<lambda>_.
     bindC (modify (\<lambda>s. foldl (\<lambda>s f. set_per_byte_fee f s) s (hp_perByteFees params))) (\<lambda>_.
       modify (\<lambda>s. foldl (\<lambda>s i. init_state_machine i s) s (hp_stateMachines params)))))))))))))"

definition EvmHost_constructor :: "'x evm_world \<Rightarrow> SolHostParams \<Rightarrow> ('x, unit) sol" where
  "EvmHost_constructor w params = transactional
     (bindC (updateHostParamsInternal w params) (\<lambda>_.
        modify (\<lambda>s. s\<lparr>eh_consensusUpdateTimestamp := eh_block_timestamp s\<rparr>)))"

text \<open>\<open>CHAIN_ID\<close> is the constant of the concrete host: the id of the main network.\<close>

definition updateHostParams :: "u256 \<Rightarrow> 'x evm_world \<Rightarrow> Msg \<Rightarrow> SolHostParams \<Rightarrow> ('x, unit) sol" where
  "updateHostParams CHAIN_ID w m params = transactional
     (bindC (asks eh_hostParams) (\<lambda>current.
      bindC (ensure (\<not> (msg_sender m \<noteq> hp_hostManager current \<and> msg_sender m \<noteq> hp_admin current)) (HostError EhUnauthorizedAction)) (\<lambda>_.
      bindC (if msg_sender m = hp_admin current then
               bindC (ensure (CHAIN_ID \<noteq> ew_chainid w) (HostError EhUnauthorizedAction)) (\<lambda>_.
                 modify (\<lambda>s. foldl (\<lambda>s i. s\<lparr>eh_latestStateMachineHeight := (eh_latestStateMachineHeight s)(i := 0)\<rparr>) s (hp_stateMachines params)))
             else ret ()) (\<lambda>_.
        updateHostParamsInternal w params))))"

definition withdraw_revenue :: "'x evm_world \<Rightarrow> Msg \<Rightarrow> SolWithdrawParams \<Rightarrow> ('x, unit) sol" where
  "withdraw_revenue w m params = transactional
     (bindC (restrict m hp_hostManager) (\<lambda>_.
      bindC (if swp_native params then
               bindC (low_level_call (ew_send w (swp_beneficiary params) (swp_amount params))) (\<lambda>sent.
                 ensure sent (HostError EhWithdrawalFailed))
             else bindC (asks (\<lambda>s. hp_feeToken (eh_hostParams s))) (\<lambda>token.
                 ew_safeTransfer w token (swp_beneficiary params) (swp_amount params))) (\<lambda>_.
        emit (EeHostWithdrawal (swp_amount params) (swp_beneficiary params) (swp_native params)))))"

section \<open>Consensus\<close>

definition stateMachineCommitment :: "'x evm_world \<Rightarrow> Msg \<Rightarrow> SolStateMachineHeight \<Rightarrow> ('x, SolStateCommitment) sol" where
  "stateMachineCommitment w m height = transactional
     (bindC (asks eh_hostParams) (\<lambda>params.
      bindC (if msg_sender m \<noteq> hp_handler params then
               bindC (collect_payment w m (hp_stateCommitmentFee params)) (\<lambda>_.
                 emit (EeStateCommitmentRead (msg_sender m) (hp_stateCommitmentFee params)))
             else ret ()) (\<lambda>_.
        asks (\<lambda>s. eh_stateCommitments s (ssh_stateMachineId height) (ssh_height height)))))"

definition storeConsensusState :: "Msg \<Rightarrow> bytes \<Rightarrow> ('x, unit) sol" where
  "storeConsensusState m state = transactional
     (bindC (restrict m hp_handler) (\<lambda>_.
        modify (\<lambda>s. s\<lparr>eh_consensusState := state, eh_consensusUpdateTimestamp := eh_block_timestamp s\<rparr>)))"

definition put_commitment :: "SolStateMachineHeight \<Rightarrow> SolStateCommitment \<Rightarrow> 'x EvmHost \<Rightarrow> 'x EvmHost" where
  "put_commitment height commitment s =
     (let i = ssh_stateMachineId height; h = ssh_height height in
      s\<lparr>eh_stateCommitments := (eh_stateCommitments s)(i := (eh_stateCommitments s i)(h := commitment)),
        eh_stateCommitmentsUpdateTime := (eh_stateCommitmentsUpdateTime s)(i := (eh_stateCommitmentsUpdateTime s i)(h := eh_block_timestamp s)),
        eh_latestStateMachineHeight := (eh_latestStateMachineHeight s)(i := h)\<rparr>)"

definition storeStateMachineCommitment ::
  "Msg \<Rightarrow> SolStateMachineHeight \<Rightarrow> SolStateCommitment \<Rightarrow> ('x, unit) sol" where
  "storeStateMachineCommitment m height commitment = transactional
     (bindC (restrict m hp_handler) (\<lambda>_.
      bindC (modify (put_commitment height commitment)) (\<lambda>_.
      bindC (asks (\<lambda>s. hp_hyperbridge (eh_hostParams s))) (\<lambda>hyperbridge.
      bindC (stateMachineId hyperbridge (ssh_stateMachineId height)) (\<lambda>name.
        emit (EeStateMachineUpdated name (ssh_height height)))))))"

definition deleteStateMachineCommitmentInternal :: "SolStateMachineHeight \<Rightarrow> h160 \<Rightarrow> ('x, unit) sol" where
  "deleteStateMachineCommitmentInternal height fisherman =
     (let i = ssh_stateMachineId height; h = ssh_height height in
      bindC (asks (\<lambda>s. eh_stateCommitments s i h)) (\<lambda>stateCommitment.
      bindC (modify (\<lambda>s. s\<lparr>
          eh_stateCommitments := (eh_stateCommitments s)(i := (eh_stateCommitments s i)(h := no_commitment)),
          eh_stateCommitmentsUpdateTime := (eh_stateCommitmentsUpdateTime s)(i := (eh_stateCommitmentsUpdateTime s i)(h := 0)),
          eh_latestStateMachineHeight := (if eh_latestStateMachineHeight s i = h
             then (eh_latestStateMachineHeight s)(i := 1) else eh_latestStateMachineHeight s),
          eh_vetoes := (eh_vetoes s)(i := (eh_vetoes s i)(h := fisherman))\<rparr>)) (\<lambda>_.
      bindC (asks (\<lambda>s. hp_hyperbridge (eh_hostParams s))) (\<lambda>hyperbridge.
      bindC (stateMachineId hyperbridge i) (\<lambda>name.
        emit (EeStateCommitmentVetoed name h stateCommitment fisherman))))))"

definition deleteStateMachineCommitment :: "Msg \<Rightarrow> SolStateMachineHeight \<Rightarrow> h160 \<Rightarrow> ('x, unit) sol" where
  "deleteStateMachineCommitment m height fisherman = transactional
     (bindC (restrict m hp_handler) (\<lambda>_. deleteStateMachineCommitmentInternal height fisherman))"

definition setFrozenState :: "Msg \<Rightarrow> FrozenStatus \<Rightarrow> ('x, unit) sol" where
  "setFrozenState m newState = transactional
     (bindC (asks eh_hostParams) (\<lambda>params.
      bindC (ensure (\<not> (msg_sender m \<noteq> hp_admin params \<and> msg_sender m \<noteq> hp_handler params)) (HostError EhUnauthorizedAction)) (\<lambda>_.
      bindC (modify (\<lambda>s. s\<lparr>eh_frozen := newState\<rparr>)) (\<lambda>_.
        emit (EeHostFrozen newState)))))"

definition setConsensusState ::
  "u256 \<Rightarrow> 'x evm_world \<Rightarrow> Msg \<Rightarrow> bytes \<Rightarrow> SolStateMachineHeight \<Rightarrow> SolStateCommitment \<Rightarrow> ('x, unit) sol" where
  "setConsensusState CHAIN_ID w m state height commitment = transactional
     (bindC (restrict m hp_admin) (\<lambda>_.
      bindC (asks eh_consensusState) (\<lambda>current.
      bindC (ensure (if CHAIN_ID = ew_chainid w then ew_keccak256 w current = ew_keccak256 w [] else True)
               (HostError EhUnauthorizedAction)) (\<lambda>_.
        modify (\<lambda>s. put_commitment height commitment
          (s\<lparr>eh_consensusState := state, eh_consensusUpdateTimestamp := eh_block_timestamp s\<rparr>))))))"

section \<open>Incoming messages\<close>

definition dispatchIncoming_post :: "'x evm_world \<Rightarrow> Msg \<Rightarrow> SolPostRequest \<Rightarrow> h160 \<Rightarrow> ('x, unit) sol" where
  "dispatchIncoming_post w m request relayer = transactional
     (bindC (restrict m hp_handler) (\<lambda>_.
      bindC (bytesToAddress (sq_to request)) (\<lambda>destination.
      bindC (asks (ew_code_length w destination)) (\<lambda>size.
        if size = 0 then ret ()
        else
          let commitment = ew_hash_post w request in
          bindC (modify (\<lambda>s. s\<lparr>eh_requestReceipts := (eh_requestReceipts s)(commitment := relayer)\<rparr>)) (\<lambda>_.
          bindC (low_level_call (ew_call w destination (OnAccept request relayer))) (\<lambda>success.
            if \<not> success then modify (\<lambda>s. s\<lparr>eh_requestReceipts := (eh_requestReceipts s)(commitment := 0)\<rparr>)
            else emit (EePostRequestHandled commitment relayer)))))))"

definition dispatchIncoming_response :: "'x evm_world \<Rightarrow> Msg \<Rightarrow> SolPostResponse \<Rightarrow> h160 \<Rightarrow> ('x, unit) sol" where
  "dispatchIncoming_response w m response relayer = transactional
     (bindC (restrict m hp_handler) (\<lambda>_.
      bindC (bytesToAddress (sq_from (sp_request response))) (\<lambda>origin.
      let requestCommitment = ew_hash_post w (sp_request response);
          responseCommitment = ew_hash_response w response in
      bindC (modify (\<lambda>s. s\<lparr>eh_responseReceipts := (eh_responseReceipts s)(requestCommitment :=
               \<lparr>srr_responseCommitment = responseCommitment, srr_relayer = relayer\<rparr>)\<rparr>)) (\<lambda>_.
      bindC (low_level_call (ew_call w origin (OnPostResponse response relayer))) (\<lambda>success.
        if \<not> success then modify (\<lambda>s. s\<lparr>eh_responseReceipts := (eh_responseReceipts s)(requestCommitment := no_receipt)\<rparr>)
        else emit (EePostResponseHandled responseCommitment relayer))))))"

definition dispatchIncoming_get :: "'x evm_world \<Rightarrow> Msg \<Rightarrow> SolGetResponse \<Rightarrow> h160 \<Rightarrow> ('x, unit) sol" where
  "dispatchIncoming_get w m response relayer = transactional
     (bindC (restrict m hp_handler) (\<lambda>_.
      let commitment = ew_hash_get w (sgr_request response) in
      bindC (modify (\<lambda>s. s\<lparr>eh_responseReceipts := (eh_responseReceipts s)(commitment :=
               \<lparr>srr_responseCommitment = 0, srr_relayer = relayer\<rparr>)\<rparr>)) (\<lambda>_.
      bindC (low_level_call (ew_call w (sg_from (sgr_request response)) (OnGetResponse response relayer))) (\<lambda>success.
        if \<not> success then modify (\<lambda>s. s\<lparr>eh_responseReceipts := (eh_responseReceipts s)(commitment := no_receipt)\<rparr>)
        else emit (EeGetRequestHandled commitment relayer)))))"

section \<open>Timeouts\<close>

text \<open>The refund of the relayer fee at the end of a handled timeout.\<close>

definition refund_fee :: "'x evm_world \<Rightarrow> SolFeeMetadata \<Rightarrow> ('x, unit) sol" where
  "refund_fee w meta =
     (if sf_fee meta \<noteq> 0 then
        bindC (asks (\<lambda>s. hp_feeToken (eh_hostParams s))) (\<lambda>token. ew_safeTransfer w token (sf_sender meta) (sf_fee meta))
      else ret ())"

definition dispatchTimeOut_get ::
  "'x evm_world \<Rightarrow> Msg \<Rightarrow> SolGetRequest \<Rightarrow> SolFeeMetadata \<Rightarrow> h256 \<Rightarrow> ('x, unit) sol" where
  "dispatchTimeOut_get w m request meta commitment = transactional
     (bindC (restrict m hp_handler) (\<lambda>_.
      bindC (modify (\<lambda>s. s\<lparr>eh_requestCommitments := (eh_requestCommitments s)(commitment := no_fee)\<rparr>)) (\<lambda>_.
      bindC (low_level_call (ew_call w (sg_from request) (OnGetTimeout request))) (\<lambda>success.
        if \<not> success then modify (\<lambda>s. s\<lparr>eh_requestCommitments := (eh_requestCommitments s)(commitment := meta)\<rparr>)
        else bindC (refund_fee w meta) (\<lambda>_. emit (EeGetRequestTimeoutHandled commitment (sg_dest request)))))))"

definition dispatchTimeOut_post ::
  "'x evm_world \<Rightarrow> Msg \<Rightarrow> SolPostRequest \<Rightarrow> SolFeeMetadata \<Rightarrow> h256 \<Rightarrow> ('x, unit) sol" where
  "dispatchTimeOut_post w m request meta commitment = transactional
     (bindC (restrict m hp_handler) (\<lambda>_.
      bindC (bytesToAddress (sq_from request)) (\<lambda>origin.
      bindC (modify (\<lambda>s. s\<lparr>eh_requestCommitments := (eh_requestCommitments s)(commitment := no_fee)\<rparr>)) (\<lambda>_.
      bindC (low_level_call (ew_call w origin (OnPostRequestTimeout request))) (\<lambda>success.
        if \<not> success then modify (\<lambda>s. s\<lparr>eh_requestCommitments := (eh_requestCommitments s)(commitment := meta)\<rparr>)
        else bindC (refund_fee w meta) (\<lambda>_. emit (EePostRequestTimeoutHandled commitment (sq_dest request))))))))"

definition dispatchTimeOut_response ::
  "'x evm_world \<Rightarrow> Msg \<Rightarrow> SolPostResponse \<Rightarrow> SolFeeMetadata \<Rightarrow> h256 \<Rightarrow> ('x, unit) sol" where
  "dispatchTimeOut_response w m response meta commitment = transactional
     (bindC (restrict m hp_handler) (\<lambda>_.
      bindC (bytesToAddress (sq_to (sp_request response))) (\<lambda>origin.
      let reqCommitment = ew_hash_post w (sp_request response) in
      bindC (modify (\<lambda>s. s\<lparr>eh_responseCommitments := (eh_responseCommitments s)(commitment := no_fee),
                          eh_responded := (eh_responded s)(reqCommitment := False)\<rparr>)) (\<lambda>_.
      bindC (low_level_call (ew_call w origin (OnPostResponseTimeout response))) (\<lambda>success.
        if \<not> success then modify (\<lambda>s. s\<lparr>eh_responseCommitments := (eh_responseCommitments s)(commitment := meta),
                                        eh_responded := (eh_responded s)(reqCommitment := True)\<rparr>)
        else bindC (refund_fee w meta) (\<lambda>_.
          emit (EePostResponseTimeoutHandled commitment (sq_source (sp_request response)))))))))"

section \<open>Outgoing messages\<close>

definition at_least_a_word :: "bytes \<Rightarrow> u256" where
  "at_least_a_word b = (if 32 > length b then 32 else of_nat (length b))"

definition dispatch_post :: "'x evm_world \<Rightarrow> Msg \<Rightarrow> SolDispatchPost \<Rightarrow> ('x, h256) sol" where
  "dispatch_post w m post = transactional
     (bindC notFrozen (\<lambda>_.
      bindC (asks (perByteFee w (sdp_dest post))) (\<lambda>pbf.
      bindC (mul_checked pbf (at_least_a_word (sdp_body post))) (\<lambda>protocol_fee.
      bindC (add_checked protocol_fee (sdp_fee post)) (\<lambda>fee.
      bindC (collect_payment w m fee) (\<lambda>_.
      bindC (adjust_timeout (sdp_timeout post)) (\<lambda>timeoutTimestamp.
      bindC nextNonce (\<lambda>n.
      let request = \<lparr>sq_source = host_id w, sq_dest = sdp_dest post, sq_nonce = ucast n, sq_from = be_bytes 20 (msg_sender m),
                     sq_to = sdp_to post, sq_timeoutTimestamp = timeoutTimestamp, sq_body = sdp_body post\<rparr>;
          commitment = ew_hash_post w request in
      bindC (modify (\<lambda>s. s\<lparr>eh_requestCommitments := (eh_requestCommitments s)(commitment :=
               \<lparr>sf_fee = sdp_fee post, sf_sender = sdp_payer post\<rparr>)\<rparr>)) (\<lambda>_.
      bindC (emit (EePostRequestEvent request (msg_sender m) (sdp_fee post))) (\<lambda>_.
        ret commitment))))))))))"

definition dispatch_get :: "'x evm_world \<Rightarrow> Msg \<Rightarrow> SolDispatchGet \<Rightarrow> ('x, h256) sol" where
  "dispatch_get w m get = transactional
     (bindC notFrozen (\<lambda>_.
      bindC (asks (perByteFee w (host_id w))) (\<lambda>pbf.
      bindC (mul_checked 32 pbf) (\<lambda>minimumFee.
      bindC (mul_checked pbf (of_nat (length (sdg_context get)))) (\<lambda>contextFee.
      bindC (add_checked (sdg_fee get) contextFee) (\<lambda>totalFee.
      let fee = (if minimumFee > totalFee then minimumFee else totalFee) in
      bindC (collect_payment w m fee) (\<lambda>_.
      bindC (adjust_timeout (sdg_timeout get)) (\<lambda>timeoutTimestamp.
      bindC nextNonce (\<lambda>n.
      let request = \<lparr>sg_source = host_id w, sg_dest = sdg_dest get, sg_nonce = ucast n, sg_from = msg_sender m,
                     sg_timeoutTimestamp = timeoutTimestamp, sg_keys = sdg_keys get, sg_height = sdg_height get,
                     sg_context = sdg_context get\<rparr>;
          commitment = ew_hash_get w request in
      bindC (modify (\<lambda>s. s\<lparr>eh_requestCommitments := (eh_requestCommitments s)(commitment :=
               \<lparr>sf_fee = fee, sf_sender = msg_sender m\<rparr>)\<rparr>)) (\<lambda>_.
      bindC (emit (EeGetRequestEvent request fee)) (\<lambda>_.
        ret commitment)))))))))))"

definition dispatch_post_response :: "'x evm_world \<Rightarrow> Msg \<Rightarrow> SolDispatchPostResponse \<Rightarrow> ('x, h256) sol" where
  "dispatch_post_response w m post = transactional
     (bindC notFrozen (\<lambda>_.
      let receipt = ew_hash_post w (sdr_request post) in
      bindC (asks (\<lambda>s. eh_requestReceipts s receipt)) (\<lambda>known.
      bindC (ensure (known \<noteq> 0) (HostError EhUnknownRequest)) (\<lambda>_.
      bindC (bytesToAddress (sq_to (sdr_request post))) (\<lambda>to.
      bindC (ensure (to = msg_sender m) (HostError EhUnauthorizedResponse)) (\<lambda>_.
      bindC (asks (\<lambda>s. eh_responded s receipt)) (\<lambda>done.
      bindC (ensure (\<not> done) (HostError EhDuplicateResponse)) (\<lambda>_.
      bindC (asks (perByteFee w (sq_source (sdr_request post)))) (\<lambda>pbf.
      bindC (mul_checked pbf (at_least_a_word (sdr_response post))) (\<lambda>protocol_fee.
      bindC (add_checked protocol_fee (sdr_fee post)) (\<lambda>fee.
      bindC (collect_payment w m fee) (\<lambda>_.
      bindC (adjust_timeout (sdr_timeout post)) (\<lambda>timeoutTimestamp.
      let response = \<lparr>sp_request = sdr_request post, sp_response = sdr_response post, sp_timeoutTimestamp = timeoutTimestamp\<rparr>;
          commitment = ew_hash_response w response in
      bindC (modify (\<lambda>s. s\<lparr>eh_responseCommitments := (eh_responseCommitments s)(commitment :=
               \<lparr>sf_fee = sdr_fee post, sf_sender = sdr_payer post\<rparr>),
             eh_responded := (eh_responded s)(receipt := True)\<rparr>)) (\<lambda>_.
      bindC (emit (EePostResponseEvent response (msg_sender m) (sdr_fee post))) (\<lambda>_.
        ret commitment)))))))))))))))"

definition fundRequest :: "'x evm_world \<Rightarrow> Msg \<Rightarrow> h256 \<Rightarrow> u256 \<Rightarrow> ('x, unit) sol" where
  "fundRequest w m commitment amount = transactional
     (bindC (collect_payment w m amount) (\<lambda>_.
      bindC (asks (\<lambda>s. eh_requestCommitments s commitment)) (\<lambda>metadata.
      bindC (ensure (sf_sender metadata \<noteq> 0) (HostError EhUnknownRequest)) (\<lambda>_.
      bindC (add_checked (sf_fee metadata) amount) (\<lambda>fee.
      bindC (modify (\<lambda>s. s\<lparr>eh_requestCommitments := (eh_requestCommitments s)(commitment := metadata\<lparr>sf_fee := fee\<rparr>)\<rparr>)) (\<lambda>_.
        emit (EeRequestFunded commitment fee)))))))"

definition fundResponse :: "'x evm_world \<Rightarrow> Msg \<Rightarrow> h256 \<Rightarrow> u256 \<Rightarrow> ('x, unit) sol" where
  "fundResponse w m commitment amount = transactional
     (bindC (collect_payment w m amount) (\<lambda>_.
      bindC (asks (\<lambda>s. eh_responseCommitments s commitment)) (\<lambda>metadata.
      bindC (ensure (sf_sender metadata \<noteq> 0) (HostError EhUnknownResponse)) (\<lambda>_.
      bindC (add_checked (sf_fee metadata) amount) (\<lambda>fee.
      bindC (modify (\<lambda>s. s\<lparr>eh_responseCommitments := (eh_responseCommitments s)(commitment := metadata\<lparr>sf_fee := fee\<rparr>)\<rparr>)) (\<lambda>_.
        emit (EePostResponseFunded commitment fee)))))))"

section \<open>The hosts of the main networks\<close>

text \<open>\<^verbatim>\<open>chainId()\<close> of the concrete hosts: where it is the id of the chain the host runs on, the admin may
  neither change the parameters nor replace the consensus state.\<close>

definition EthereumHost_CHAIN_ID :: u256 where
  "EthereumHost_CHAIN_ID = 1"

definition OptimismHost_CHAIN_ID :: u256 where
  "OptimismHost_CHAIN_ID = 10"

definition BscHost_CHAIN_ID :: u256 where
  "BscHost_CHAIN_ID = 56"

definition GnosisHost_CHAIN_ID :: u256 where
  "GnosisHost_CHAIN_ID = 100"

definition PolygonHost_CHAIN_ID :: u256 where
  "PolygonHost_CHAIN_ID = 137"

definition BaseHost_CHAIN_ID :: u256 where
  "BaseHost_CHAIN_ID = 8453"

definition ArbitrumHost_CHAIN_ID :: u256 where
  "ArbitrumHost_CHAIN_ID = 42161"

end
