(* ===== verification/Evm_Handler.thy ===== *)
theory Evm_Handler
  imports Evm_Host
begin

text \<open>
  The message handler of EVM chains (\<^verbatim>\<open>evm/src/modules/HandlerV1.sol\<close>) and the module through which
  governance reaches the host (\<^verbatim>\<open>evm/src/modules/HostManager.sol\<close>). The handler is a contract of its own:
  it calls the host with its own address as the sender, and \<open>self\<close> is that address. Merkle proofs
  and the hashes of messages are those of third-party libraries, parameters of the world.
\<close>

section \<open>Guards\<close>

text \<open>The sender of the calls the handler makes on the host.\<close>

definition from_handler :: "h160 \<Rightarrow> Msg" where
  "from_handler self = \<lparr>msg_sender = self, msg_value = 0\<rparr>"

definition notFrozen_incoming :: "('x, unit) sol" where
  "notFrozen_incoming = bindC (asks eh_frozen) (\<lambda>state.
     ensure (\<not> (state = FrozenIncoming \<or> state = FrozenAll)) (HandlerRevert HdHostFrozen))"

definition check_challenge_period :: "SolStateMachineHeight \<Rightarrow> ('x, unit) sol" where
  "check_challenge_period height =
     bindC (asks eh_block_timestamp) (\<lambda>timestamp.
     bindC (asks (\<lambda>s. eh_stateCommitmentsUpdateTime s (ssh_stateMachineId height) (ssh_height height))) (\<lambda>updated.
     bindC (sub_checked timestamp updated) (\<lambda>delay.
     bindC (asks (\<lambda>s. hp_challengePeriod (eh_hostParams s))) (\<lambda>challengePeriod.
       ensure (\<not> (challengePeriod \<noteq> 0 \<and> challengePeriod > delay)) (HandlerRevert HdChallengePeriodNotElapsed)))))"

definition verify_overlay :: "'x evm_world \<Rightarrow> h160 \<Rightarrow> SolProof \<Rightarrow> SolMmrLeaf list \<Rightarrow> ('x, unit) sol" where
  "verify_overlay w self pf leaves =
     bindC (stateMachineCommitment w (from_handler self) (spr_height pf)) (\<lambda>commitment.
     let root = ssc_overlayRoot commitment in
     bindC (ensure (root \<noteq> 0) (HandlerRevert HdStateCommitmentNotFound)) (\<lambda>_.
     bindC (reads (\<lambda>_. ew_mmr_verify w root (spr_multiproof pf) leaves (spr_leafCount pf))) (\<lambda>valid.
       ensure valid (HandlerRevert HdInvalidProof))))"

section \<open>Consensus\<close>

definition store_intermediate :: "h160 \<Rightarrow> SolIntermediateState \<Rightarrow> ('x, unit) sol" where
  "store_intermediate self intermediate =
     bindC (asks (\<lambda>s. eh_latestStateMachineHeight s (sis_stateMachineId intermediate))) (\<lambda>latestHeight.
       if latestHeight \<noteq> 0 \<and> sis_height intermediate > latestHeight then
         storeStateMachineCommitment (from_handler self)
           \<lparr>ssh_stateMachineId = sis_stateMachineId intermediate, ssh_height = sis_height intermediate\<rparr>
           (sis_commitment intermediate)
       else ret ())"

definition handleConsensus :: "'x evm_world \<Rightarrow> h160 \<Rightarrow> bytes \<Rightarrow> ('x, unit) sol" where
  "handleConsensus w self pf = transactional
     (bindC notFrozen_incoming (\<lambda>_.
      bindC (asks eh_block_timestamp) (\<lambda>timestamp.
      bindC (asks eh_consensusUpdateTimestamp) (\<lambda>updated.
      bindC (sub_checked timestamp updated) (\<lambda>delay.
      bindC (asks eh_hostParams) (\<lambda>params.
      bindC (ensure (\<not> delay \<ge> hp_unStakingPeriod params) (HandlerRevert HdConsensusClientExpired)) (\<lambda>_.
      bindC (asks eh_consensusState) (\<lambda>trusted.
      bindC (ew_verifyConsensus w (hp_consensusClient params) trusted pf) (\<lambda>(verifiedState, intermediates).
      bindC (storeConsensusState (from_handler self) verifiedState) (\<lambda>_.
        for_each (store_intermediate self) intermediates))))))))))"

section \<open>Requests and responses\<close>

definition check_post_leaf :: "'x evm_world \<Rightarrow> SolPostRequest SolLeaf \<Rightarrow> ('x, SolMmrLeaf) sol" where
  "check_post_leaf w leaf =
     (let request = slf_message leaf; commitment = ew_hash_post w request in
      bindC (ensure (sq_dest request = host_id w) (HandlerRevert HdInvalidMessageDestination)) (\<lambda>_.
      bindC (asks eh_block_timestamp) (\<lambda>timestamp.
      bindC (ensure (\<not> timestamp \<ge> ucast (ew_timeout_post w request)) (HandlerRevert HdMessageTimedOut)) (\<lambda>_.
      bindC (asks (\<lambda>s. eh_requestReceipts s commitment)) (\<lambda>receipt.
      bindC (ensure (receipt = 0) (HandlerRevert HdDuplicateMessage)) (\<lambda>_.
        ret \<lparr>sml_kIndex = slf_kIndex leaf, sml_leafIndex = slf_index leaf, sml_hash = commitment\<rparr>))))))"

definition handlePostRequests :: "'x evm_world \<Rightarrow> h160 \<Rightarrow> Msg \<Rightarrow> SolPostRequest SolMessage \<Rightarrow> ('x, unit) sol" where
  "handlePostRequests w self m message = transactional
     (bindC notFrozen_incoming (\<lambda>_.
      bindC (check_challenge_period (spr_height (smg_proof message))) (\<lambda>_.
      bindC (collect (check_post_leaf w) (smg_leaves message)) (\<lambda>leaves.
      bindC (verify_overlay w self (smg_proof message) leaves) (\<lambda>_.
        for_each (\<lambda>leaf. dispatchIncoming_post w (from_handler self) (slf_message leaf) (msg_sender m))
          (smg_leaves message))))))"

definition check_response_leaf :: "'x evm_world \<Rightarrow> SolPostResponse SolLeaf \<Rightarrow> ('x, SolMmrLeaf) sol" where
  "check_response_leaf w leaf =
     (let response = slf_message leaf; requestCommitment = ew_hash_post w (sp_request response);
          responseCommitment = ew_hash_response w response in
      bindC (asks eh_block_timestamp) (\<lambda>timestamp.
      bindC (ensure (\<not> timestamp \<ge> ucast (ew_timeout_response w response)) (HandlerRevert HdMessageTimedOut)) (\<lambda>_.
      bindC (asks (\<lambda>s. eh_requestCommitments s requestCommitment)) (\<lambda>meta.
      bindC (ensure (sf_sender meta \<noteq> 0) (HandlerRevert HdInvalidProof)) (\<lambda>_.
      bindC (asks (\<lambda>s. srr_relayer (eh_responseReceipts s responseCommitment))) (\<lambda>relayer.
      bindC (ensure (relayer = 0) (HandlerRevert HdDuplicateMessage)) (\<lambda>_.
        ret \<lparr>sml_kIndex = slf_kIndex leaf, sml_leafIndex = slf_index leaf, sml_hash = responseCommitment\<rparr>)))))))"

definition handlePostResponses :: "'x evm_world \<Rightarrow> h160 \<Rightarrow> Msg \<Rightarrow> SolPostResponse SolMessage \<Rightarrow> ('x, unit) sol" where
  "handlePostResponses w self m message = transactional
     (bindC notFrozen_incoming (\<lambda>_.
      bindC (check_challenge_period (spr_height (smg_proof message))) (\<lambda>_.
      bindC (collect (check_response_leaf w) (smg_leaves message)) (\<lambda>leaves.
      bindC (verify_overlay w self (smg_proof message) leaves) (\<lambda>_.
        for_each (\<lambda>leaf. dispatchIncoming_response w (from_handler self) (slf_message leaf) (msg_sender m))
          (smg_leaves message))))))"

definition check_get_leaf :: "'x evm_world \<Rightarrow> SolGetResponse SolLeaf \<Rightarrow> ('x, SolMmrLeaf) sol" where
  "check_get_leaf w leaf =
     (let response = slf_message leaf; requestCommitment = ew_hash_get w (sgr_request response) in
      bindC (asks (\<lambda>s. eh_requestCommitments s requestCommitment)) (\<lambda>meta.
      bindC (ensure (sf_sender meta \<noteq> 0) (HandlerRevert HdUnknownMessage)) (\<lambda>_.
      bindC (asks (\<lambda>s. srr_relayer (eh_responseReceipts s requestCommitment))) (\<lambda>relayer.
      bindC (ensure (relayer = 0) (HandlerRevert HdDuplicateMessage)) (\<lambda>_.
        ret \<lparr>sml_kIndex = slf_kIndex leaf, sml_leafIndex = slf_index leaf, sml_hash = ew_hash_get_response w response\<rparr>)))))"

definition handleGetResponses :: "'x evm_world \<Rightarrow> h160 \<Rightarrow> Msg \<Rightarrow> SolGetResponse SolMessage \<Rightarrow> ('x, unit) sol" where
  "handleGetResponses w self m message = transactional
     (bindC notFrozen_incoming (\<lambda>_.
      bindC (check_challenge_period (spr_height (smg_proof message))) (\<lambda>_.
      bindC (collect (check_get_leaf w) (smg_leaves message)) (\<lambda>leaves.
      bindC (verify_overlay w self (smg_proof message) leaves) (\<lambda>_.
        for_each (\<lambda>leaf. dispatchIncoming_get w (from_handler self) (slf_message leaf) (msg_sender m))
          (smg_leaves message))))))"

section \<open>Timeouts\<close>

definition REQUEST_RECEIPTS_STORAGE_PREFIX :: bytes where
  "REQUEST_RECEIPTS_STORAGE_PREFIX =
     [0x52, 0x65, 0x71, 0x75, 0x65, 0x73, 0x74, 0x52, 0x65, 0x63, 0x65, 0x69, 0x70, 0x74, 0x73]"

definition RESPONSE_RECEIPTS_STORAGE_PREFIX :: bytes where
  "RESPONSE_RECEIPTS_STORAGE_PREFIX =
     [0x52, 0x65, 0x73, 0x70, 0x6f, 0x6e, 0x73, 0x65, 0x52, 0x65, 0x63, 0x65, 0x69, 0x70, 0x74, 0x73]"

text \<open>\<^verbatim>\<open>bytes[] memory keys = new bytes[](1); keys[i] = key;\<close>\<close>

definition keys_with :: "nat \<Rightarrow> bytes \<Rightarrow> ('x, bytes list) sol" where
  "keys_with i key = ok_or (if i < 1 then Some ([[]][i := key]) else None) (SolidityPanic 50)"

text \<open>The proof that the destination has no value under the key.\<close>

definition verify_absent :: "'x evm_world \<Rightarrow> h256 \<Rightarrow> bytes list \<Rightarrow> nat \<Rightarrow> bytes \<Rightarrow> ('x, unit) sol" where
  "verify_absent w root pf i key =
     bindC (keys_with i key) (\<lambda>keys.
     bindC (reads (\<lambda>_. ew_verify_substrate w root pf keys)) (\<lambda>values.
     bindC (ok_or (case values of [] \<Rightarrow> None | entry # _ \<Rightarrow> Some entry) (SolidityPanic 50)) (\<lambda>entry.
       ensure (length (sv_value entry) = 0) (HandlerRevert HdInvalidProof))))"

definition timeout_state :: "'x evm_world \<Rightarrow> h160 \<Rightarrow> SolStateMachineHeight \<Rightarrow> ('x, SolStateCommitment) sol" where
  "timeout_state w self height =
     bindC (stateMachineCommitment w (from_handler self) height) (\<lambda>state.
     bindC (ensure (ssc_stateRoot state \<noteq> 0) (HandlerRevert HdStateCommitmentNotFound)) (\<lambda>_. ret state))"

definition timeout_post :: "'x evm_world \<Rightarrow> h160 \<Rightarrow> bytes list \<Rightarrow> SolStateCommitment \<Rightarrow> nat \<times> SolPostRequest \<Rightarrow> ('x, unit) sol" where
  "timeout_post w self pf state = (\<lambda>(i, request).
     let commitment = ew_hash_post w request in
     bindC (ensure (\<not> ucast (ew_timeout_post w request) > ssc_timestamp state) (HandlerRevert HdMessageNotTimedOut)) (\<lambda>_.
     bindC (asks (\<lambda>s. eh_requestCommitments s commitment)) (\<lambda>meta.
     bindC (ensure (sf_sender meta \<noteq> 0) (HandlerRevert HdUnknownMessage)) (\<lambda>_.
     bindC (verify_absent w (ssc_stateRoot state) pf i (REQUEST_RECEIPTS_STORAGE_PREFIX @ be_bytes 32 commitment)) (\<lambda>_.
       dispatchTimeOut_post w (from_handler self) request meta commitment)))))"

definition handlePostRequestTimeouts :: "'x evm_world \<Rightarrow> h160 \<Rightarrow> SolPostRequest SolTimeoutMessage \<Rightarrow> ('x, unit) sol" where
  "handlePostRequestTimeouts w self message = transactional
     (bindC notFrozen_incoming (\<lambda>_.
      bindC (check_challenge_period (stm_height message)) (\<lambda>_.
      bindC (timeout_state w self (stm_height message)) (\<lambda>state.
        for_each (timeout_post w self (stm_proof message) state) (List.enumerate 0 (stm_timeouts message))))))"

definition timeout_response :: "'x evm_world \<Rightarrow> h160 \<Rightarrow> bytes list \<Rightarrow> SolStateCommitment \<Rightarrow> nat \<times> SolPostResponse \<Rightarrow> ('x, unit) sol" where
  "timeout_response w self pf state = (\<lambda>(i, response).
     let commitment = ew_hash_response w response in
     bindC (ensure (\<not> ucast (ew_timeout_response w response) > ssc_timestamp state) (HandlerRevert HdMessageNotTimedOut)) (\<lambda>_.
     bindC (asks (\<lambda>s. eh_responseCommitments s commitment)) (\<lambda>meta.
     bindC (ensure (sf_sender meta \<noteq> 0) (HandlerRevert HdUnknownMessage)) (\<lambda>_.
     bindC (verify_absent w (ssc_stateRoot state) pf i (RESPONSE_RECEIPTS_STORAGE_PREFIX @ be_bytes 32 commitment)) (\<lambda>_.
       dispatchTimeOut_response w (from_handler self) response meta commitment)))))"

definition handlePostResponseTimeouts :: "'x evm_world \<Rightarrow> h160 \<Rightarrow> SolPostResponse SolTimeoutMessage \<Rightarrow> ('x, unit) sol" where
  "handlePostResponseTimeouts w self message = transactional
     (bindC notFrozen_incoming (\<lambda>_.
      bindC (check_challenge_period (stm_height message)) (\<lambda>_.
      bindC (timeout_state w self (stm_height message)) (\<lambda>state.
        for_each (timeout_response w self (stm_proof message) state) (List.enumerate 0 (stm_timeouts message))))))"

definition timeout_get :: "'x evm_world \<Rightarrow> h160 \<Rightarrow> bytes list \<Rightarrow> SolStateCommitment \<Rightarrow> nat \<times> SolGetRequest \<Rightarrow> ('x, unit) sol" where
  "timeout_get w self pf state = (\<lambda>(i, request).
     let commitment = ew_hash_get w request in
     bindC (ensure (\<not> ucast (ew_timeout_get w request) > ssc_timestamp state) (HandlerRevert HdMessageNotTimedOut)) (\<lambda>_.
     bindC (asks (\<lambda>s. eh_requestCommitments s commitment)) (\<lambda>meta.
     bindC (ensure (sf_sender meta \<noteq> 0) (HandlerRevert HdUnknownMessage)) (\<lambda>_.
     bindC (verify_absent w (ssc_stateRoot state) pf i (REQUEST_RECEIPTS_STORAGE_PREFIX @ be_bytes 32 commitment)) (\<lambda>_.
       dispatchTimeOut_get w (from_handler self) request meta commitment)))))"

definition handleGetRequestTimeouts :: "'x evm_world \<Rightarrow> h160 \<Rightarrow> SolGetRequest SolTimeoutMessage \<Rightarrow> ('x, unit) sol" where
  "handleGetRequestTimeouts w self message = transactional
     (bindC notFrozen_incoming (\<lambda>_.
      bindC (check_challenge_period (stm_height message)) (\<lambda>_.
      bindC (timeout_state w self (stm_height message)) (\<lambda>state.
        for_each (timeout_get w self (stm_proof message) state) (List.enumerate 0 (stm_timeouts message))))))"

section \<open>The host manager\<close>

record HostManagerParams =
  hmp_admin :: h160
  hmp_host :: h160

definition setIsmpHost :: "HostManagerParams \<Rightarrow> Msg \<Rightarrow> h160 \<Rightarrow> EvmRevert + HostManagerParams" where
  "setIsmpHost params m host =
     (if msg_sender m \<noteq> hmp_admin params then Inl ManagerUnauthorizedAction
      else Inr (params\<lparr>hmp_host := host, hmp_admin := 0\<rparr>))"

text \<open>\<^verbatim>\<open>onAccept\<close> of the manager at the address \<open>self\<close>: the first byte of the body selects the
  action.\<close>

definition HostManager_onAccept ::
  "u256 \<Rightarrow> 'x evm_world \<Rightarrow> h160 \<Rightarrow> HostManagerParams \<Rightarrow> Msg \<Rightarrow> SolPostRequest \<Rightarrow> ('x, unit) sol" where
  "HostManager_onAccept CHAIN_ID w self params m request = transactional
     (bindC (ensure (msg_sender m = hmp_host params) ManagerUnauthorizedAction) (\<lambda>_.
      bindC (asks (\<lambda>s. hp_hyperbridge (eh_hostParams s))) (\<lambda>hyperbridge.
      bindC (ensure (sq_source request = hyperbridge) ManagerUnauthorizedAction) (\<lambda>_.
      bindC (ok_or (case sq_body request of [] \<Rightarrow> None | b # _ \<Rightarrow> Some b) (SolidityPanic 50)) (\<lambda>action.
        if action = 0 then
          bindC (reads (\<lambda>_. ew_decode_withdraw w (drop 1 (sq_body request)))) (\<lambda>withdrawParams.
            withdraw_revenue w \<lparr>msg_sender = self, msg_value = 0\<rparr> withdrawParams)
        else if action = 1 then
          bindC (reads (\<lambda>_. ew_decode_params w (drop 1 (sq_body request)))) (\<lambda>hostParams.
            updateHostParams CHAIN_ID w \<lparr>msg_sender = self, msg_value = 0\<rparr> hostParams)
        else fail (SolidityPanic 33))))))"

end
