(* ===== verification/Evm_Contract.thy ===== *)
theory Evm_Contract
  imports Evm_Handler
begin

text \<open>
  The library of the Solidity contracts: how the operations of the host and the handler run, what
  they keep, and the contract between the handler's batches and the host's receipts. A contract that
  is called from the host may do anything; where a lemma needs that it leaves a part of the host
  alone, the hypothesis is \<open>callees_keep\<close> for that part.
\<close>

section \<open>Callees\<close>

definition callees_keep :: "('x EvmHost \<Rightarrow> bool) \<Rightarrow> 'x evm_world \<Rightarrow> bool" where
  "callees_keep P w \<longleftrightarrow>
     (\<forall>a c. keeps P (ew_call w a c)) \<and> (\<forall>a v. keeps P (ew_send w a v)) \<and>
     (\<forall>t a b v. keeps P (ew_safeTransferFrom w t a b v)) \<and> (\<forall>t a v. keeps P (ew_safeTransfer w t a v)) \<and>
     (\<forall>r v f p a d. keeps P (ew_swapETHForExactTokens w r v f p a d)) \<and>
     (\<forall>a b p. keeps P (ew_verifyConsensus w a b p))"

text \<open>No callee changes the part \<open>f\<close> of the host's storage.\<close>

definition callees_leave :: "('x EvmHost \<Rightarrow> 'b) \<Rightarrow> 'x evm_world \<Rightarrow> bool" where
  "callees_leave f w \<longleftrightarrow> (\<forall>v. callees_keep (\<lambda>s. f s = v) w)"

lemma callees_keepD:
  assumes "callees_keep P w"
  shows "keeps P (ew_call w a c)" "keeps P (ew_send w a v)" "keeps P (ew_safeTransferFrom w t a b v)"
    "keeps P (ew_safeTransfer w t a v)" "keeps P (ew_swapETHForExactTokens w r v f p a d)"
    "keeps P (ew_verifyConsensus w a x y)"
  using assms by (simp_all add: callees_keep_def)

lemma callees_leaveD: "callees_leave f w \<Longrightarrow> callees_keep (\<lambda>s. f s = v) w"
  by (simp add: callees_leave_def)

lemma callees_leave_call: "callees_leave f w \<Longrightarrow> ew_call w a c s = (r, s') \<Longrightarrow> f s' = f s"
  by (rule keepsD [where P = "\<lambda>t. f t = f s", OF callees_keepD(1) [OF callees_leaveD]]) simp_all

section \<open>Guards\<close>

lemma restrict_Ok: "restrict m who s = (Ok u, s') \<longleftrightarrow> s' = s \<and> msg_sender m = who (eh_hostParams s)"
  by (auto simp: restrict_def comp_ok)

lemma bytesToAddress_Ok: "bytesToAddress b s = (Ok a, s') \<longleftrightarrow> s' = s \<and> length b = 20 \<and> a = from_be_bytes b"
  by (auto simp: bytesToAddress_def comp_ok)

lemma notFrozen_Ok: "notFrozen s = (Ok u, s') \<longleftrightarrow> s' = s \<and> eh_frozen s \<noteq> FrozenOutgoing \<and> eh_frozen s \<noteq> FrozenAll"
  by (auto simp: notFrozen_def comp_ok)

lemma notFrozen_incoming_Ok:
  "notFrozen_incoming s = (Ok u, s') \<longleftrightarrow> s' = s \<and> eh_frozen s \<noteq> FrozenIncoming \<and> eh_frozen s \<noteq> FrozenAll"
  by (auto simp: notFrozen_incoming_def comp_ok)

lemma readonly_evm_guards [readonly_intros]:
  "readonly (restrict m who)" "readonly notFrozen" "readonly notFrozen_incoming" "readonly (bytesToAddress b)"
  "readonly (adjust_timeout t)" "readonly (stateMachineId p i)" "readonly (valid_contract w a interface e)"
  "readonly (check_fee_token w params)" "readonly (check_challenge_period h)" "readonly (keys_with n k)"
  "readonly (verify_absent w root pf n k)"
  unfolding restrict_def notFrozen_def notFrozen_incoming_def bytesToAddress_def adjust_timeout_def stateMachineId_def
    valid_contract_def check_fee_token_def check_challenge_period_def keys_with_def verify_absent_def Let_def
  by (auto intro!: readonly_intros)

lemma readonly_check_leaves [readonly_intros]:
  "readonly (check_post_leaf w l)" "readonly (check_response_leaf w l')" "readonly (check_get_leaf w l'')"
  unfolding check_post_leaf_def check_response_leaf_def check_get_leaf_def Let_def
  by (auto intro!: readonly_intros)

text \<open>Calls of the handler on the host it belongs to read a commitment without a fee.\<close>

lemma from_handler_simps [simp]: "msg_sender (from_handler self) = self" "msg_value (from_handler self) = 0"
  by (simp_all add: from_handler_def)

lemma handler_reads_commitment:
  "hp_handler (eh_hostParams s) = self \<Longrightarrow>
     stateMachineCommitment w (from_handler self) h s = (Ok (eh_stateCommitments s (ssh_stateMachineId h) (ssh_height h)), s)"
  by (simp add: stateMachineCommitment_def from_handler_def comp_app)

section \<open>What an operation keeps\<close>

lemma keeps_emit: "(\<And>s e. P s \<Longrightarrow> P (s\<lparr>eh_events := e\<rparr>)) \<Longrightarrow> keeps P (emit e)"
  by (simp add: keeps_def emit_def modify_def)

lemma keeps_modify_evm: "(\<And>s. P s \<Longrightarrow> P (f s)) \<Longrightarrow> keeps P (modify f)"
  by (simp add: keeps_def modify_def)

lemma keeps_readonly_guard: "readonly m \<Longrightarrow> keeps P m"
  by (rule readonly_keeps)

lemma keeps_collect_payment: "callees_keep P w \<Longrightarrow> keeps P (collect_payment w m fee)"
  unfolding collect_payment_def by (auto intro!: keeps_intros intro: callees_keepD)

lemma keeps_refund_fee: "callees_keep P w \<Longrightarrow> keeps P (refund_fee w meta)"
  unfolding refund_fee_def by (auto intro!: keeps_intros intro: callees_keepD)

lemma keeps_nextNonce: "(\<And>s n. P s \<Longrightarrow> P (s\<lparr>eh_nonce := n\<rparr>)) \<Longrightarrow> keeps P nextNonce"
  unfolding nextNonce_def by (auto intro!: keeps_intros keeps_modify_evm)

section \<open>Batches and receipts\<close>

lemma batch_Ok:
  assumes "transactional (bindC notFrozen_incoming (\<lambda>_. bindC (check_challenge_period h) (\<lambda>_.
      bindC (collect check leaves) rest))) s = (Ok u, s')"
    and "\<And>leaf. readonly (check leaf)"
  shows "\<exists>ls. notFrozen_incoming s = (Ok (), s) \<and> check_challenge_period h s = (Ok (), s) \<and>
    collect check leaves s = (Ok ls, s) \<and> rest ls s = (Ok u, s')"
  using assms(1)
  by (auto simp: transactional_Ok readonly_bindC_Ok [OF readonly_evm_guards(3)] readonly_bindC_Ok [OF readonly_evm_guards(9)]
      readonly_bindC_Ok [OF readonly_collect [OF assms(2)]])

text \<open>
  A batch of messages is checked as a whole and then delivered message by message. The contract of a
  kind of message that is protected against replay: the check of a message only reads, and accepts
  it only while its key is not taken. Then a batch with a taken message is refused as a whole.
\<close>

locale replay_protected =
  fixes handle :: "Msg \<Rightarrow> 'm SolMessage \<Rightarrow> ('x, unit) sol"
    and check :: "'m SolLeaf \<Rightarrow> ('x, SolMmrLeaf) sol"
    and rest :: "Msg \<Rightarrow> 'm SolMessage \<Rightarrow> SolMmrLeaf list \<Rightarrow> ('x, unit) sol"
    and key :: "'m \<Rightarrow> h256"
    and taken :: "h256 \<Rightarrow> 'x EvmHost \<Rightarrow> bool"
  assumes batch: "handle m message = transactional
      (bindC notFrozen_incoming (\<lambda>_.
       bindC (check_challenge_period (spr_height (smg_proof message))) (\<lambda>_.
       bindC (collect check (smg_leaves message)) (rest m message))))"
    and check_reads: "readonly (check leaf)"
    and check_returns: "fst (check leaf s) \<noteq> Panic"
    and check_free: "check leaf s = (Ok l, s') \<Longrightarrow> \<not> taken (key (slf_message leaf)) s"
begin

lemma collect_reverts:
  assumes "leaf \<in> set leaves" and "taken (key (slf_message leaf)) s"
  shows "\<exists>e. collect check leaves s = (Err e, s)"
  using assms(1)
proof (induction leaves)
  case Nil
  then show ?case by simp
next
  case (Cons l leaves)
  obtain r t where run: "check l s = (r, t)" by (rule prod.exhaust)
  with readonlyD [OF check_reads run] have run: "check l s = (r, s)" by simp
  show ?case
  proof (cases r)
    case (Ok x)
    with run check_free assms(2) have "l \<noteq> leaf" by blast
    with Cons obtain e where "collect check leaves s = (Err e, s)" by auto
    with run Ok show ?thesis by (simp add: comp_app)
  next
    case (Err e)
    with run show ?thesis by (simp add: comp_app)
  next
    case Panic
    with run check_returns [of l s] show ?thesis by simp
  qed
qed

lemma taken_blocks:
  assumes "leaf \<in> set (smg_leaves message)" and "taken (key (slf_message leaf)) s"
  shows "\<exists>e. handle m message s = (Err e, s)"
proof -
  from collect_reverts [OF assms] obtain e where "collect check (smg_leaves message) s = (Err e, s)" by blast
  then show ?thesis
    by (auto simp: batch comp_app notFrozen_incoming_def check_challenge_period_def sub_checked_def checked_def
        split: if_splits option.split)
qed

lemma accepted_was_free:
  assumes "handle m message s = (Ok (), s')" and "leaf \<in> set (smg_leaves message)"
  shows "\<not> taken (key (slf_message leaf)) s"
  using taken_blocks [OF assms(2), of s m] assms(1) by auto

end

text \<open>Post requests and get responses are protected by the receipt under the commitment of the request.\<close>

definition post_rest :: "'x evm_world \<Rightarrow> h160 \<Rightarrow> Msg \<Rightarrow> SolPostRequest SolMessage \<Rightarrow> SolMmrLeaf list \<Rightarrow> ('x, unit) sol" where
  "post_rest w self m message leaves =
     bindC (verify_overlay w self (smg_proof message) leaves) (\<lambda>_.
       for_each (\<lambda>leaf. dispatchIncoming_post w (from_handler self) (slf_message leaf) (msg_sender m))
         (smg_leaves message))"

definition get_rest :: "'x evm_world \<Rightarrow> h160 \<Rightarrow> Msg \<Rightarrow> SolGetResponse SolMessage \<Rightarrow> SolMmrLeaf list \<Rightarrow> ('x, unit) sol" where
  "get_rest w self m message leaves =
     bindC (verify_overlay w self (smg_proof message) leaves) (\<lambda>_.
       for_each (\<lambda>leaf. dispatchIncoming_get w (from_handler self) (slf_message leaf) (msg_sender m))
         (smg_leaves message))"

interpretation posts: replay_protected "handlePostRequests w self" "check_post_leaf w" "post_rest w self"
  "ew_hash_post w" "\<lambda>c s. eh_requestReceipts s c \<noteq> 0" for w self
proof (unfold_locales, goal_cases)
  case (1 m message)
  show ?case by (simp add: handlePostRequests_def post_rest_def [abs_def])
next
  case (2 leaf)
  show ?case by (rule readonly_check_leaves)
next
  case (3 leaf s)
  show ?case by (simp add: check_post_leaf_def Let_def comp_app)
next
  case (4 leaf s l s')
  then show ?case by (auto simp: check_post_leaf_def Let_def comp_ok)
qed

interpretation gets: replay_protected "handleGetResponses w self" "check_get_leaf w" "get_rest w self"
  "\<lambda>r. ew_hash_get w (sgr_request r)" "\<lambda>c s. srr_relayer (eh_responseReceipts s c) \<noteq> 0" for w self
proof (unfold_locales, goal_cases)
  case (1 m message)
  show ?case by (simp add: handleGetResponses_def get_rest_def [abs_def])
next
  case (2 leaf)
  show ?case by (rule readonly_check_leaves)
next
  case (3 leaf s)
  show ?case by (simp add: check_get_leaf_def Let_def comp_app)
next
  case (4 leaf s l s')
  then show ?case by (auto simp: check_get_leaf_def Let_def comp_ok)
qed

section \<open>The host as a machine\<close>

text \<open>Every external function of the host that changes its state.\<close>

datatype HostCall =
    CallUpdateHostParams SolHostParams
  | CallWithdraw SolWithdrawParams
  | CallStateMachineCommitment SolStateMachineHeight
  | CallStoreConsensusState bytes
  | CallStoreStateMachineCommitment SolStateMachineHeight SolStateCommitment
  | CallDeleteStateMachineCommitment SolStateMachineHeight h160
  | CallSetFrozenState FrozenStatus
  | CallSetConsensusState bytes SolStateMachineHeight SolStateCommitment
  | CallIncomingPost SolPostRequest h160
  | CallIncomingResponse SolPostResponse h160
  | CallIncomingGet SolGetResponse h160
  | CallTimeOutGet SolGetRequest SolFeeMetadata h256
  | CallTimeOutPost SolPostRequest SolFeeMetadata h256
  | CallTimeOutResponse SolPostResponse SolFeeMetadata h256
  | CallDispatchPost SolDispatchPost
  | CallDispatchGet SolDispatchGet
  | CallDispatchPostResponse SolDispatchPostResponse
  | CallFundRequest h256 u256
  | CallFundResponse h256 u256

fun host_call :: "u256 \<Rightarrow> 'x evm_world \<Rightarrow> Msg \<Rightarrow> HostCall \<Rightarrow> ('x, unit) sol" where
  "host_call CHAIN_ID w m (CallUpdateHostParams params) = updateHostParams CHAIN_ID w m params"
| "host_call CHAIN_ID w m (CallWithdraw params) = withdraw_revenue w m params"
| "host_call CHAIN_ID w m (CallStateMachineCommitment height) = bindC (stateMachineCommitment w m height) (\<lambda>_. ret ())"
| "host_call CHAIN_ID w m (CallStoreConsensusState state) = storeConsensusState m state"
| "host_call CHAIN_ID w m (CallStoreStateMachineCommitment height commitment) = storeStateMachineCommitment m height commitment"
| "host_call CHAIN_ID w m (CallDeleteStateMachineCommitment height fisherman) = deleteStateMachineCommitment m height fisherman"
| "host_call CHAIN_ID w m (CallSetFrozenState status) = setFrozenState m status"
| "host_call CHAIN_ID w m (CallSetConsensusState state height commitment) = setConsensusState CHAIN_ID w m state height commitment"
| "host_call CHAIN_ID w m (CallIncomingPost request relayer) = dispatchIncoming_post w m request relayer"
| "host_call CHAIN_ID w m (CallIncomingResponse response relayer) = dispatchIncoming_response w m response relayer"
| "host_call CHAIN_ID w m (CallIncomingGet response relayer) = dispatchIncoming_get w m response relayer"
| "host_call CHAIN_ID w m (CallTimeOutGet request meta commitment) = dispatchTimeOut_get w m request meta commitment"
| "host_call CHAIN_ID w m (CallTimeOutPost request meta commitment) = dispatchTimeOut_post w m request meta commitment"
| "host_call CHAIN_ID w m (CallTimeOutResponse response meta commitment) = dispatchTimeOut_response w m response meta commitment"
| "host_call CHAIN_ID w m (CallDispatchPost post) = bindC (dispatch_post w m post) (\<lambda>_. ret ())"
| "host_call CHAIN_ID w m (CallDispatchGet get) = bindC (dispatch_get w m get) (\<lambda>_. ret ())"
| "host_call CHAIN_ID w m (CallDispatchPostResponse post) = bindC (dispatch_post_response w m post) (\<lambda>_. ret ())"
| "host_call CHAIN_ID w m (CallFundRequest commitment amount) = fundRequest w m commitment amount"
| "host_call CHAIN_ID w m (CallFundResponse commitment amount) = fundResponse w m commitment amount"

text \<open>The states a deployed host can be in: any account calls any function, and between two calls time
  passes and the rest of the world does what it likes.\<close>

inductive host_reachable :: "u256 \<Rightarrow> 'x evm_world \<Rightarrow> 'x EvmHost \<Rightarrow> bool" for CHAIN_ID w where
  deployed: "EvmHost_constructor w params (EvmHost_zero timestamp x) = (Ok (), s) \<Longrightarrow> host_reachable CHAIN_ID w s"
| called: "host_reachable CHAIN_ID w s \<Longrightarrow> host_call CHAIN_ID w m call s = (Ok (), s') \<Longrightarrow> host_reachable CHAIN_ID w s'"
| passes: "host_reachable CHAIN_ID w s \<Longrightarrow> eh_block_timestamp s \<le> t \<Longrightarrow>
    host_reachable CHAIN_ID w (s\<lparr>eh_block_timestamp := t, eh_world := x\<rparr>)"

text \<open>What every function keeps, whoever calls it: a predicate that callees keep and that does not look at
  the parts the function writes.\<close>

lemma keeps_foldl: "(\<And>s x. P s \<Longrightarrow> P (f s x)) \<Longrightarrow> P s \<Longrightarrow> P (foldl f s xs)"
  by (induction xs arbitrary: s) simp_all

lemmas evm_keeps = keeps_intros keeps_modify_evm keeps_emit keeps_low_level_call keeps_collect_payment keeps_refund_fee
  keeps_nextNonce readonly_evm_guards [THEN readonly_keeps] readonly_checked [THEN readonly_keeps] callees_keepD

section \<open>The payment of a dispatch\<close>

lemma unat_at_least_a_word: "length b < 2 ^ 256 \<Longrightarrow> unat (at_least_a_word b) = max 32 (length b)"
  by (simp add: at_least_a_word_def unsigned_of_nat take_bit_nat_eq_self)

lemma dispatch_post_pays:
  assumes "dispatch_post w m post s = (Ok c, s')" and "msg_value m = 0" and "length (sdp_body post) < 2 ^ 256"
  shows "\<exists>(fee :: u256) t. unat fee = unat (perByteFee w (sdp_dest post) s) * max 32 (length (sdp_body post)) + unat (sdp_fee post) \<and>
    ew_safeTransferFrom w (hp_feeToken (eh_hostParams s)) (msg_sender m) (ew_this w) fee s = (Ok (), t) \<and>
    eh_requestCommitments s' = (eh_requestCommitments t)(c := \<lparr>sf_fee = sdp_fee post, sf_sender = sdp_payer post\<rparr>)"
proof -
  from assms(1) obtain f1 f2 s0 s1 s2 s3 s4 ts where
    n: "notFrozen s = (Ok (), s0)" and
    m: "mul_checked (perByteFee w (sdp_dest post) s0) (at_least_a_word (sdp_body post)) s0 = (Ok f1, s1)" and
    a: "add_checked f1 (sdp_fee post) s1 = (Ok f2, s2)" and
    p: "collect_payment w m f2 s2 = (Ok (), s3)" and t: "adjust_timeout (sdp_timeout post) s3 = (Ok ts, s4)" and
    s': "eh_requestCommitments s' = (eh_requestCommitments s4)(c := \<lparr>sf_fee = sdp_fee post, sf_sender = sdp_payer post\<rparr>)"
    unfolding dispatch_post_def transactional_Ok Let_def
    by (auto simp: bindC_Ok asks_Ok modify_Ok ret_Ok nextNonce_def emit_def)
  have same: "s0 = s" "s4 = s3" using n t readonlyD [OF readonly_evm_guards(5)] by (auto simp: notFrozen_Ok)
  note m = m [unfolded same] and s' = s' [unfolded same]
  note m = mul_checked_Ok [OF m] and a = add_checked_Ok [OF a]
  have "ew_safeTransferFrom w (hp_feeToken (eh_hostParams s)) (msg_sender m) (ew_this w) f2 s = (Ok (), s3)"
    using p m a assms(2) by (auto simp: collect_payment_def comp_ok)
  with m a s' unat_at_least_a_word [OF assms(3)] show ?thesis by auto
qed

end
