(* ===== verification/Evm_Properties.thy ===== *)
theory Evm_Properties
  imports Evm_Contract
begin

text \<open>
  What the contracts on EVM chains guarantee, and where they do not: replay of requests and of
  responses, batches of timeouts, the fees of a dispatch and their refund, the trusted commitments,
  who may change what, and the invariant of the times the handler subtracts.
\<close>

section \<open>A small world\<close>

text \<open>The world of the examples: every address has code, tokens always transfer, modules accept without
  touching the host, proofs verify, and a commitment is the nonce of the message.\<close>

definition small_world :: "'x evm_world" where
  "small_world =
     \<lparr>ew_this = 1, ew_chainid = 5, ew_call = (\<lambda>a c. ret ()), ew_send = (\<lambda>a v. ret ()),
      ew_safeTransferFrom = (\<lambda>t a b v. ret ()), ew_safeTransfer = (\<lambda>t a v. ret ()), ew_balanceOf = (\<lambda>t a s. Ok 0),
      ew_WETH = (\<lambda>r s. Ok 9), ew_swapETHForExactTokens = (\<lambda>r v f p a d. ret ()), ew_code_length = (\<lambda>a s. 7),
      ew_supportsInterface = (\<lambda>a i s. Ok True),
      ew_verifyConsensus = (\<lambda>a b p. ret ([1], [\<lparr>sis_stateMachineId = 3, sis_height = 20,
         sis_commitment = \<lparr>ssc_timestamp = 90, ssc_overlayRoot = 6, ssc_stateRoot = 7\<rparr>\<rparr>])),
      ew_keccak256 = (\<lambda>b. of_nat (length b)), ew_state_machine_evm = (\<lambda>i. [1]),
      ew_hash_post = (\<lambda>r. 100 + ucast (sq_nonce r)), ew_hash_response = (\<lambda>r. 200 + ucast (sq_nonce (sp_request r))),
      ew_hash_get = (\<lambda>r. 300 + ucast (sg_nonce r)), ew_hash_get_response = (\<lambda>r. 400 + ucast (sg_nonce (sgr_request r))),
      ew_timeout_post = (\<lambda>r. if sq_timeoutTimestamp r = 0 then 18446744073709551615 else sq_timeoutTimestamp r),
      ew_timeout_response = (\<lambda>r. if sp_timeoutTimestamp r = 0 then 18446744073709551615 else sp_timeoutTimestamp r),
      ew_timeout_get = (\<lambda>r. if sg_timeoutTimestamp r = 0 then 18446744073709551615 else sg_timeoutTimestamp r),
      ew_mmr_verify = (\<lambda>r p l n. Ok True), ew_verify_substrate = (\<lambda>r p ks. Ok (map (\<lambda>k. \<lparr>sv_key = k, sv_value = []\<rparr>) ks)),
      ew_decode_withdraw = (\<lambda>b. Err (CalleeRevert b)), ew_decode_params = (\<lambda>b. Err (CalleeRevert b))\<rparr>"

definition small_params :: SolHostParams where
  "small_params = no_params\<lparr>hp_handler := 2, hp_admin := 3, hp_hostManager := 4, hp_feeToken := 5, hp_consensusClient := 6,
     hp_challengePeriod := 10, hp_unStakingPeriod := 100000, hp_stateMachines := [3], hp_hyperbridge := [1, 1, 1, 1, 1],
     hp_defaultPerByteFee := 2\<rparr>"

definition small_host :: "unit EvmHost" where
  "small_host = (EvmHost_zero 100 ())\<lparr>eh_hostParams := small_params, eh_consensusUpdateTimestamp := 40,
     eh_stateCommitments := (\<lambda>i h. if i = 3 \<and> h = 10 then \<lparr>ssc_timestamp = 80, ssc_overlayRoot = 8, ssc_stateRoot = 9\<rparr> else no_commitment),
     eh_stateCommitmentsUpdateTime := (\<lambda>i h. if i = 3 \<and> h = 10 then 50 else 0),
     eh_latestStateMachineHeight := (\<lambda>i. if i = 3 then 10 else 0),
     eh_requestCommitments := (\<lambda>c. if c = 101 then \<lparr>sf_fee = 4, sf_sender = 77\<rparr> else no_fee)\<rparr>"

definition small_post :: SolPostRequest where
  "small_post = \<lparr>sq_source = [2], sq_dest = [1], sq_nonce = 1, sq_from = be_bytes 20 (11 :: h160), sq_to = be_bytes 20 (12 :: h160),
     sq_timeoutTimestamp = 0, sq_body = []\<rparr>"

definition small_proof :: SolProof where
  "small_proof = \<lparr>spr_height = \<lparr>ssh_stateMachineId = 3, ssh_height = 10\<rparr>, spr_multiproof = [], spr_leafCount = 1\<rparr>"

definition small_msg :: Msg where
  "small_msg = \<lparr>msg_sender = 55, msg_value = 0\<rparr>"

lemma small_world_simps [simp]:
  "ew_this small_world = 1" "ew_chainid small_world = 5" "ew_call small_world a c = ret ()" "ew_send small_world a v = ret ()"
  "ew_safeTransferFrom small_world t a b v = ret ()" "ew_safeTransfer small_world t a v = ret ()"
  "ew_swapETHForExactTokens small_world r v f p a d = ret ()" "ew_code_length small_world a s = 7"
  "ew_hash_post small_world q = 100 + ucast (sq_nonce q)" "ew_hash_response small_world p' = 200 + ucast (sq_nonce (sp_request p'))"
  "ew_hash_get small_world g = 300 + ucast (sg_nonce g)" "ew_state_machine_evm small_world n = [1]"
  "ew_mmr_verify small_world x y l k = Ok True" "ew_keccak256 small_world bs = of_nat (length bs)"
  "ew_timeout_post small_world q = (if sq_timeoutTimestamp q = 0 then 18446744073709551615 else sq_timeoutTimestamp q)"
  "ew_timeout_response small_world p' = (if sp_timeoutTimestamp p' = 0 then 18446744073709551615 else sp_timeoutTimestamp p')"
  "ew_verify_substrate small_world x pf ks = Ok (map (\<lambda>k. \<lparr>sv_key = k, sv_value = []\<rparr>) ks)"
  by (simp_all add: small_world_def)

lemma small_callees: "callees_keep P small_world"
  by (simp add: callees_keep_def keeps_basic small_world_def)

lemma small_callees_leave: "callees_leave f small_world"
  by (simp add: callees_leave_def small_callees)

lemma small_host_simps [simp]:
  "eh_hostParams small_host = small_params" "eh_frozen small_host = FrozenNone" "eh_block_timestamp small_host = 100"
  "eh_requestReceipts small_host c = 0" "eh_responseReceipts small_host c = no_receipt" "eh_perByteFees small_host c = 0"
  "hp_handler small_params = 2" "hp_challengePeriod small_params = 10" "hp_feeToken small_params = 5"
  "hp_unStakingPeriod small_params = 100000" "hp_defaultPerByteFee small_params = 2" "hp_defaultTimeout small_params = 0"
  by (simp_all add: small_host_def EvmHost_zero_def small_params_def no_params_def)

lemmas evm_eval =
  handlePostRequests_def handlePostResponses_def notFrozen_incoming_def check_challenge_period_def sub_checked_def
  checked_def check_post_leaf_def check_response_leaf_def verify_overlay_def host_id_def handler_reads_commitment
  dispatchIncoming_post_def dispatchIncoming_response_def restrict_def bytesToAddress_def low_level_call_def emit_def
  small_post_def small_proof_def small_msg_def Let_def comp_app

section \<open>Replay\<close>



lemma verify_overlay_run:
  assumes "hp_handler (eh_hostParams s) = self" and "verify_overlay w self pf leaves s = (Ok u, s')"
  shows "s' = s"
  using assms by (auto simp: verify_overlay_def Let_def handler_reads_commitment comp_ok)



lemma small_commitment [simp]:
  "eh_stateCommitments small_host 3 10 = \<lparr>ssc_timestamp = 80, ssc_overlayRoot = 8, ssc_stateRoot = 9\<rparr>"
  "eh_stateCommitmentsUpdateTime small_host 3 10 = 50"
  "eh_requestCommitments small_host 101 = \<lparr>sf_fee = 4, sf_sender = 77\<rparr>"
  by (simp_all add: small_host_def)



section \<open>Replay of responses\<close>

text \<open>What the checks of a batch of responses read, receipts apart.\<close>

definition checked_part :: "'x EvmHost \<Rightarrow> _" where
  "checked_part s = (eh_frozen s, eh_block_timestamp s, eh_hostParams s, eh_requestCommitments s, eh_stateCommitments s,
     eh_stateCommitmentsUpdateTime s)"

lemma checked_part_eq:
  "checked_part s = checked_part t \<longleftrightarrow> eh_frozen s = eh_frozen t \<and> eh_block_timestamp s = eh_block_timestamp t \<and>
     eh_hostParams s = eh_hostParams t \<and> eh_requestCommitments s = eh_requestCommitments t \<and>
     eh_stateCommitments s = eh_stateCommitments t \<and> eh_stateCommitmentsUpdateTime s = eh_stateCommitmentsUpdateTime t"
  by (auto simp: checked_part_def)

lemma dispatchIncoming_response_run:
  assumes "callees_leave checked_part w" "callees_leave eh_responseReceipts w"
    and "hp_handler (eh_hostParams s) = self" and "length (sq_from (sp_request response)) = 20"
  shows "\<exists>s'. dispatchIncoming_response w (from_handler self) response relayer s = (Ok (), s') \<and>
    checked_part s' = checked_part s \<and>
    (\<forall>c. c \<noteq> ew_hash_post w (sp_request response) \<longrightarrow> eh_responseReceipts s' c = eh_responseReceipts s c)"
proof -
  let ?c = "ew_hash_post w (sp_request response)"
  let ?s1 = "s\<lparr>eh_responseReceipts := (eh_responseReceipts s)(?c :=
     \<lparr>srr_responseCommitment = ew_hash_response w response, srr_relayer = relayer\<rparr>)\<rparr>"
  let ?call = "ew_call w (from_be_bytes (sq_from (sp_request response))) (OnPostResponse response relayer)"
  obtain r t where run: "?call ?s1 = (r, t)" by (rule prod.exhaust)
  have part: "checked_part t = checked_part s" and receipts: "eh_responseReceipts t = eh_responseReceipts ?s1"
    using callees_leave_call [OF assms(1) run] callees_leave_call [OF assms(2) run] by (simp_all add: checked_part_def)
  show ?thesis
  proof (cases r)
    case (Ok u)
    with run assms(3,4) part receipts show ?thesis
      by (simp add: dispatchIncoming_response_def Let_def comp_app restrict_def bytesToAddress_def
          low_level_call_def emit_def checked_part_eq)
  qed (use run assms(3,4) in \<open>simp_all add: dispatchIncoming_response_def Let_def comp_app restrict_def bytesToAddress_def
          low_level_call_def checked_part_eq\<close>)
qed

lemma deliver_responses_run:
  assumes "callees_leave checked_part w" "callees_leave eh_responseReceipts w"
    and "hp_handler (eh_hostParams s) = self"
    and "\<And>leaf. leaf \<in> set leaves \<Longrightarrow> length (sq_from (sp_request (slf_message leaf))) = 20"
  shows "\<exists>s'. for_each (\<lambda>leaf. dispatchIncoming_response w (from_handler self) (slf_message leaf) relayer) leaves s = (Ok (), s') \<and>
    checked_part s' = checked_part s \<and>
    (\<forall>c. c \<notin> (\<lambda>leaf. ew_hash_post w (sp_request (slf_message leaf))) ` set leaves \<longrightarrow>
       eh_responseReceipts s' c = eh_responseReceipts s c)"
  using assms(3,4)
proof (induction leaves arbitrary: s)
  case Nil
  then show ?case by (simp add: comp_app)
next
  case (Cons leaf leaves)
  have "length (sq_from (sp_request (slf_message leaf))) = 20" by (simp add: Cons.prems(2))
  from dispatchIncoming_response_run [OF assms(1,2) Cons.prems(1) this, of relayer] obtain t where
    d: "dispatchIncoming_response w (from_handler self) (slf_message leaf) relayer s = (Ok (), t)" and
    part: "checked_part t = checked_part s" and
    receipts: "\<forall>c. c \<noteq> ew_hash_post w (sp_request (slf_message leaf)) \<longrightarrow> eh_responseReceipts t c = eh_responseReceipts s c" by blast
  from part Cons.prems(1) have "hp_handler (eh_hostParams t) = self" by (simp add: checked_part_eq)
  from Cons.IH [OF this] Cons.prems(2) obtain s' where
    "for_each (\<lambda>leaf. dispatchIncoming_response w (from_handler self) (slf_message leaf) relayer) leaves t = (Ok (), s')"
    "checked_part s' = checked_part t"
    "\<forall>c. c \<notin> (\<lambda>leaf. ew_hash_post w (sp_request (slf_message leaf))) ` set leaves \<longrightarrow> eh_responseReceipts s' c = eh_responseReceipts t c"
    by auto
  with d part receipts show ?case by (simp add: comp_app)
qed

lemma delivered_responses_lengths:
  assumes "for_each (\<lambda>leaf. dispatchIncoming_response w m (slf_message leaf) relayer) leaves s = (Ok (), s')"
    and "leaf \<in> set leaves"
  shows "length (sq_from (sp_request (slf_message leaf))) = 20"
  using assms
proof (induction leaves arbitrary: s)
  case (Cons l leaves)
  from Cons.prems(1) obtain t where
    "dispatchIncoming_response w m (slf_message l) relayer s = (Ok (), t)"
    "for_each (\<lambda>leaf. dispatchIncoming_response w m (slf_message leaf) relayer) leaves t = (Ok (), s')"
    by (auto simp: comp_ok)
  with Cons.IH Cons.prems(2) show ?case
    by (auto simp: dispatchIncoming_response_def Let_def comp_ok restrict_Ok bytesToAddress_Ok)
qed simp

lemma collect_same_run:
  assumes "collect f xs s = (Ok ys, s)" and "\<And>x. readonly (f x)" and "\<And>x. x \<in> set xs \<Longrightarrow> fst (f x t) = fst (f x s)"
  shows "collect f xs t = (Ok ys, t)"
  using assms(1,3)
proof (induction xs arbitrary: ys)
  case Nil
  then show ?case by (simp add: comp_ok comp_app)
next
  case (Cons x xs)
  from Cons.prems(1) obtain y zs where
    x: "f x s = (Ok y, s)" and xs: "collect f xs s = (Ok zs, s)" and ys: "ys = y # zs"
    by (auto simp: readonly_bindC_Ok [OF assms(2)] readonly_bindC_Ok [OF readonly_collect [OF assms(2)]] ret_Ok)
  have "f x t = (Ok y, t)"
    using Cons.prems(2) [of x] x assms(2) [of x] by (cases "f x t") (auto dest: readonlyD)
  with Cons.IH [OF xs] Cons.prems(2) ys show ?case by (simp add: comp_app)
qed

text \<open>A response that the EVM handler delivered can be delivered again. The handler looks for the receipt
  under the commitment of the response, the host files it under the commitment of the request; the
  same batch passes every check a second time, and every response is handed to its application again.\<close>

theorem evm_response_replayed:
  assumes "handlePostResponses w self m message s = (Ok (), s')" and "hp_handler (eh_hostParams s) = self"
    and "callees_leave checked_part w" and "callees_leave eh_responseReceipts w"
    and "\<And>leaf leaf'. leaf \<in> set (smg_leaves message) \<Longrightarrow> leaf' \<in> set (smg_leaves message) \<Longrightarrow>
      ew_hash_response w (slf_message leaf) \<noteq> ew_hash_post w (sp_request (slf_message leaf'))"
  shows "handlePostResponses w self m message s' =
      for_each (\<lambda>leaf. dispatchIncoming_response w (from_handler self) (slf_message leaf) (msg_sender m)) (smg_leaves message) s' \<and>
    fst (handlePostResponses w self m message s') = Ok ()"
proof -
  let ?loop = "for_each (\<lambda>leaf. dispatchIncoming_response w (from_handler self) (slf_message leaf) (msg_sender m)) (smg_leaves message)"
  from batch_Ok [OF assms(1) [unfolded handlePostResponses_def] readonly_check_leaves(2)] obtain leaves t where
    c: "notFrozen_incoming s = (Ok (), s)" "check_challenge_period (spr_height (smg_proof message)) s = (Ok (), s)"
      "collect (check_response_leaf w) (smg_leaves message) s = (Ok leaves, s)" and
    v: "verify_overlay w self (smg_proof message) leaves s = (Ok (), t)" and d: "?loop t = (Ok (), s')"
    by (auto simp: bindC_Ok)
  note t = verify_overlay_run [OF assms(2) v]
  note d = d [unfolded t] and v = v [unfolded t]
  note from20 = delivered_responses_lengths [OF d]
  from deliver_responses_run [OF assms(3,4,2) from20, of "smg_leaves message" "msg_sender m"] d have
    part: "checked_part s' = checked_part s" and
    receipts: "\<forall>c. c \<notin> (\<lambda>leaf. ew_hash_post w (sp_request (slf_message leaf))) ` set (smg_leaves message) \<longrightarrow>
       eh_responseReceipts s' c = eh_responseReceipts s c" by auto
  have self: "hp_handler (eh_hostParams s') = self" using part assms(2) by (simp add: checked_part_eq)
  have c': "notFrozen_incoming s' = (Ok (), s')" "check_challenge_period (spr_height (smg_proof message)) s' = (Ok (), s')"
    using c(1,2) part
    by (auto simp: notFrozen_incoming_def check_challenge_period_def comp_ok comp_app sub_checked_def checked_def checked_part_eq
        split: if_splits)
  have "fst (check_response_leaf w leaf s') = fst (check_response_leaf w leaf s)" if "leaf \<in> set (smg_leaves message)" for leaf
  proof -
    have "ew_hash_response w (slf_message leaf) \<notin> (\<lambda>leaf. ew_hash_post w (sp_request (slf_message leaf))) ` set (smg_leaves message)"
      using assms(5) [OF that] by auto
    with receipts part show ?thesis
      by (simp add: check_response_leaf_def Let_def comp_app checked_part_eq)
  qed
  note l' = collect_same_run [OF c(3) readonly_check_leaves(2) this]
  have v': "verify_overlay w self (smg_proof message) leaves s' = (Ok (), s')"
    using v part assms(2) self
    by (auto simp: verify_overlay_def handler_reads_commitment comp_ok comp_app Let_def checked_part_eq split: outcome.splits if_splits)
  from deliver_responses_run [OF assms(3,4) self from20, of "smg_leaves message" "msg_sender m"] obtain s2 where
    "?loop s' = (Ok (), s2)" by auto
  with c' l' v' show ?thesis by (simp add: handlePostResponses_def comp_app)
qed

definition small_response :: SolPostResponse where
  "small_response = \<lparr>sp_request = small_post, sp_response = [], sp_timeoutTimestamp = 0\<rparr>"

definition small_responses :: "SolPostResponse SolMessage" where
  "small_responses = \<lparr>smg_proof = small_proof, smg_leaves = [\<lparr>slf_message = small_response, slf_index = 0, slf_kIndex = 0\<rparr>]\<rparr>"

lemma small_responses_run:
  "\<exists>s'. handlePostResponses small_world 2 small_msg small_responses small_host = (Ok (), s')"
  by (simp add: evm_eval small_responses_def small_response_def no_receipt_def)

theorem evm_response_replayed_witness:
  "\<exists>s'. handlePostResponses small_world 2 small_msg small_responses small_host = (Ok (), s') \<and>
     fst (handlePostResponses small_world 2 small_msg small_responses s') = Ok ()"
proof -
  from small_responses_run obtain s' where
    run: "handlePostResponses small_world 2 small_msg small_responses small_host = (Ok (), s')" by blast
  have self: "hp_handler (eh_hostParams small_host) = 2" by simp
  have clash: "ew_hash_response small_world (slf_message leaf) \<noteq> ew_hash_post small_world (sp_request (slf_message leaf'))"
    if "leaf \<in> set (smg_leaves small_responses)" "leaf' \<in> set (smg_leaves small_responses)" for leaf leaf'
    using that by (simp add: small_responses_def small_response_def small_post_def)
  from conjunct2 [OF evm_response_replayed [OF run self small_callees_leave small_callees_leave clash]] run
  show ?thesis by blast
qed

section \<open>Timeouts\<close>

lemma keys_with_later: "fst (verify_absent w root pf (Suc i) key s) \<noteq> Ok u"
  by (simp add: verify_absent_def keys_with_def comp_app)

lemma second_timeout_fails:
  assumes "\<And>x s. fst (f (Suc 0, x) s) \<noteq> Ok ()" and "2 \<le> length xs"
  shows "fst (for_each f (List.enumerate 0 xs) s) \<noteq> Ok ()"
proof -
  obtain a b cs where "xs = a # b # cs"
    using assms(2) by (cases xs; cases "tl xs") auto
  moreover have "fst (bindC (f (Suc 0, b)) g t) \<noteq> Ok ()" for g t
    using assms(1) [of b t] by (cases "f (Suc 0, b) t"; cases "fst (f (Suc 0, b) t)") (simp_all add: comp_app)
  ultimately show ?thesis
    by (simp add: bindC_def [of "f (0, a)"] split: prod.splits outcome.splits)
qed

lemma transactional_bind_fails:
  assumes "\<And>s. fst (m s) \<noteq> Ok ()"
  shows "fst (transactional m s) \<noteq> Ok () \<and> snd (transactional m s) = s"
  using assms [of s] by (auto simp: transactional_def split: prod.splits outcome.splits)

lemma bindC_fails: "(\<And>a s. fst (f a s) \<noteq> Ok u) \<Longrightarrow> fst (bindC m f s) \<noteq> Ok u"
  by (auto simp: bindC_def split: prod.splits outcome.splits)

lemma later_timeouts_fail:
  "fst (timeout_post w self pf st (Suc i, r) s) \<noteq> Ok ()"
  "fst (timeout_response w self pf st (Suc i, r') s) \<noteq> Ok ()"
  "fst (timeout_get w self pf st (Suc i, r'') s) \<noteq> Ok ()"
  unfolding timeout_post_def timeout_response_def timeout_get_def Let_def prod.case
  by (rule bindC_fails, rule bindC_fails, rule bindC_fails,
      simp add: verify_absent_def keys_with_def comp_app)+

text \<open>The EVM handler never accepts a batch of two or more timeouts, of any kind: it allocates one key and
  writes the key of the i-th message to position i, so that the second one is out of bounds and the
  whole batch reverts.\<close>

theorem evm_timeout_batch_reverts:
  "(2 \<le> length (stm_timeouts posts) \<longrightarrow>
      fst (handlePostRequestTimeouts w self posts s) \<noteq> Ok () \<and> snd (handlePostRequestTimeouts w self posts s) = s) \<and>
   (2 \<le> length (stm_timeouts responses) \<longrightarrow>
      fst (handlePostResponseTimeouts w self responses s) \<noteq> Ok () \<and> snd (handlePostResponseTimeouts w self responses s) = s) \<and>
   (2 \<le> length (stm_timeouts gets) \<longrightarrow>
      fst (handleGetRequestTimeouts w self gets s) \<noteq> Ok () \<and> snd (handleGetRequestTimeouts w self gets s) = s)"
  unfolding handlePostRequestTimeouts_def handlePostResponseTimeouts_def handleGetRequestTimeouts_def
  by (intro conjI impI [OF transactional_bind_fails])
     ((rule bindC_fails)+, rule second_timeout_fails, rule later_timeouts_fail, assumption)+

definition small_timeouts :: "SolPostRequest list \<Rightarrow> SolPostRequest SolTimeoutMessage" where
  "small_timeouts rs = \<lparr>stm_timeouts = rs, stm_height = \<lparr>ssh_stateMachineId = 3, ssh_height = 10\<rparr>, stm_proof = []\<rparr>"

theorem evm_timeout_batch_reverts_witness:
  "fst (handlePostRequestTimeouts small_world 2 (small_timeouts [small_post, small_post]) small_host) \<noteq> Ok ()"
  using evm_timeout_batch_reverts [of "small_timeouts [small_post, small_post]" small_world 2 small_host undefined undefined]
  by (simp add: small_timeouts_def)

section \<open>The times of the host\<close>

text \<open>The times of the updates are not ahead of the block.\<close>

definition times_ok :: "'x EvmHost \<Rightarrow> bool" where
  "times_ok s \<longleftrightarrow> eh_consensusUpdateTimestamp s \<le> eh_block_timestamp s \<and>
     (\<forall>i h. eh_stateCommitmentsUpdateTime s i h \<le> eh_block_timestamp s)"

lemma times_ok_params: "times_ok s \<Longrightarrow> times_ok (init_state_machine i s)" "times_ok s \<Longrightarrow> times_ok (set_per_byte_fee f s)"
  by (simp_all add: times_ok_def init_state_machine_def set_per_byte_fee_def)

lemma keeps_times_params: "keeps times_ok (updateHostParamsInternal w params)"
  unfolding updateHostParamsInternal_def
  by (auto intro!: evm_keeps keeps_foldl [where P = times_ok] times_ok_params) (simp_all add: times_ok_def)

lemma keeps_times: "callees_keep times_ok w \<Longrightarrow> keeps times_ok (host_call CHAIN_ID w m call)"
  by (cases call)
     (auto simp: updateHostParams_def withdraw_revenue_def stateMachineCommitment_def storeConsensusState_def
        storeStateMachineCommitment_def deleteStateMachineCommitment_def deleteStateMachineCommitmentInternal_def
        setFrozenState_def setConsensusState_def dispatchIncoming_post_def dispatchIncoming_response_def
        dispatchIncoming_get_def dispatchTimeOut_get_def dispatchTimeOut_post_def dispatchTimeOut_response_def
        dispatch_post_def dispatch_get_def dispatch_post_response_def fundRequest_def fundResponse_def Let_def
        times_ok_def put_commitment_def
      intro!: evm_keeps keeps_times_params keeps_foldl [where P = times_ok])

lemma times_ok_constructor:
  assumes "EvmHost_constructor w params (EvmHost_zero timestamp x) = (Ok (), s)"
  shows "times_ok s"
proof -
  from assms obtain t where
    u: "updateHostParamsInternal w params (EvmHost_zero timestamp x) = (Ok (), t)" and
    s: "s = t\<lparr>eh_consensusUpdateTimestamp := eh_block_timestamp t\<rparr>"
    by (auto simp: EvmHost_constructor_def comp_ok)
  have "times_ok (EvmHost_zero timestamp x)" by (simp add: times_ok_def EvmHost_zero_def)
  from keepsD [OF keeps_times_params u this] s show ?thesis by (simp add: times_ok_def)
qed

text \<open>In every state a deployed EVM host can reach, no recorded update time is ahead of the time of the
  block, so that the delays the handler computes with checked subtraction never panic.\<close>

theorem evm_times_never_ahead:
  assumes "host_reachable CHAIN_ID w s" and "callees_keep times_ok w"
  shows "eh_consensusUpdateTimestamp s \<le> eh_block_timestamp s \<and>
    (\<forall>i h. eh_stateCommitmentsUpdateTime s i h \<le> eh_block_timestamp s) \<and>
    (\<forall>height n. fst (check_challenge_period height s) \<noteq> Err (SolidityPanic n))"
proof -
  from assms(1) have "times_ok s"
  proof induction
    case (deployed params timestamp x s)
    then show ?case by (rule times_ok_constructor)
  next
    case (called s m call s')
    from keepsD [OF keeps_times [OF assms(2)] called.hyps(2) called.IH] show ?case .
  next
    case (passes s t x)
    then show ?case by (auto simp: times_ok_def intro: order.trans)
  qed
  then show ?thesis
    by (auto simp: times_ok_def check_challenge_period_def comp_app sub_checked_def checked_def not_less)
qed

lemma small_reachable:
  "\<exists>s. EvmHost_constructor small_world small_params (EvmHost_zero 100 ()) = (Ok (), s) \<and> eh_block_timestamp s = 100"
  by (simp add: EvmHost_constructor_def updateHostParamsInternal_def valid_contract_def check_fee_token_def comp_app
      small_world_def small_params_def no_params_def EvmHost_zero_def emit_def init_state_machine_def)

theorem evm_times_never_ahead_witness:
  "\<exists>s :: unit EvmHost. host_reachable 1 small_world s \<and> eh_consensusUpdateTimestamp s \<le> 100"
proof -
  from small_reachable obtain s where
    c: "EvmHost_constructor small_world small_params (EvmHost_zero 100 ()) = (Ok (), s)" and now: "eh_block_timestamp s = 100" by blast
  have r: "host_reachable 1 small_world s" by (rule host_reachable.deployed [OF c])
  from evm_times_never_ahead [OF r small_callees] now have "eh_consensusUpdateTimestamp s \<le> 100" by simp
  with r show ?thesis by blast
qed

section \<open>Who may change what\<close>

text \<open>The part of the storage that the handler, the admin and the host manager write.\<close>

definition privileged :: "'x EvmHost \<Rightarrow> _" where
  "privileged s = (eh_requestReceipts s, eh_responseReceipts s, eh_stateCommitments s, eh_stateCommitmentsUpdateTime s,
     eh_latestStateMachineHeight s, eh_vetoes s, eh_perByteFees s, eh_hostParams s, eh_frozen s, eh_consensusState s,
     eh_consensusUpdateTimestamp s)"

lemma privileged_frame [simp]:
  "privileged (s\<lparr>eh_events := e\<rparr>) = privileged s" "privileged (s\<lparr>eh_nonce := n\<rparr>) = privileged s"
  "privileged (s\<lparr>eh_requestCommitments := q\<rparr>) = privileged s" "privileged (s\<lparr>eh_responseCommitments := p\<rparr>) = privileged s"
  "privileged (s\<lparr>eh_responseCommitments := p, eh_responded := d\<rparr>) = privileged s"
  by (simp_all add: privileged_def)

lemma keeps_privileged:
  assumes "callees_leave privileged w"
  shows "keeps (\<lambda>s. privileged s = v) (host_call CHAIN_ID w m (CallStateMachineCommitment height))"
    "keeps (\<lambda>s. privileged s = v) (host_call CHAIN_ID w m (CallDispatchPost post))"
    "keeps (\<lambda>s. privileged s = v) (host_call CHAIN_ID w m (CallDispatchGet get))"
    "keeps (\<lambda>s. privileged s = v) (host_call CHAIN_ID w m (CallDispatchPostResponse response))"
    "keeps (\<lambda>s. privileged s = v) (host_call CHAIN_ID w m (CallFundRequest commitment amount))"
    "keeps (\<lambda>s. privileged s = v) (host_call CHAIN_ID w m (CallFundResponse commitment amount))"
  by (auto simp: stateMachineCommitment_def dispatch_post_def dispatch_get_def dispatch_post_response_def fundRequest_def
      fundResponse_def Let_def intro!: evm_keeps callees_leaveD [OF assms])

text \<open>C9: an account that is neither the handler, the admin nor the host manager of an EVM host changes, with any
  call, none of: the receipts, the state commitments with their times and heights, the vetoes, the
  fees, the parameters, the frozen status and the consensus state; nor can it withdraw.\<close>

theorem evm_outsider_changes_nothing_privileged:
  assumes "host_call CHAIN_ID w m call s = (Ok (), s')" and "callees_leave privileged w"
    and "msg_sender m \<notin> {hp_handler (eh_hostParams s), hp_admin (eh_hostParams s), hp_hostManager (eh_hostParams s)}"
  shows "privileged s' = privileged s \<and> (\<forall>params. call \<noteq> CallWithdraw params)"
proof (cases "(\<exists>height. call = CallStateMachineCommitment height) \<or> (\<exists>post. call = CallDispatchPost post) \<or>
    (\<exists>get. call = CallDispatchGet get) \<or> (\<exists>response. call = CallDispatchPostResponse response) \<or>
    (\<exists>c a. call = CallFundRequest c a) \<or> (\<exists>c a. call = CallFundResponse c a)")
  case True
  then have "keeps (\<lambda>t. privileged t = privileged s) (host_call CHAIN_ID w m call)"
    by (elim disjE exE) (simp_all only: keeps_privileged [OF assms(2)])
  from keepsD [OF this assms(1)] True show ?thesis by auto
next
  case False
  with assms(1,3) have False
    by (cases call)
       (auto simp: updateHostParams_def withdraw_revenue_def storeConsensusState_def storeStateMachineCommitment_def
          deleteStateMachineCommitment_def setFrozenState_def setConsensusState_def dispatchIncoming_post_def
          dispatchIncoming_response_def dispatchIncoming_get_def dispatchTimeOut_get_def dispatchTimeOut_post_def
          dispatchTimeOut_response_def comp_ok restrict_Ok)
  then show ?thesis ..
qed

definition small_dispatch :: SolDispatchPost where
  "small_dispatch = \<lparr>sdp_dest = [2], sdp_to = [], sdp_body = [], sdp_timeout = 0, sdp_fee = 3, sdp_payer = 55\<rparr>"

lemma small_dispatch_run: "\<exists>c s'. dispatch_post small_world small_msg small_dispatch small_host = (Ok c, s')"
  by (simp add: dispatch_post_def notFrozen_def perByteFee_def mul_checked_def add_checked_def checked_def collect_payment_def
      adjust_timeout_def nextNonce_def at_least_a_word_def small_dispatch_def small_msg_def emit_def Let_def comp_app)

theorem evm_outsider_changes_nothing_privileged_witness:
  "\<exists>s'. host_call 1 small_world small_msg (CallDispatchPost small_dispatch) small_host = (Ok (), s') \<and>
     privileged s' = privileged small_host"
proof -
  from small_dispatch_run obtain c s' where "dispatch_post small_world small_msg small_dispatch small_host = (Ok c, s')" by blast
  then have run: "host_call 1 small_world small_msg (CallDispatchPost small_dispatch) small_host = (Ok (), s')"
    by (simp add: comp_app)
  from evm_outsider_changes_nothing_privileged [OF run small_callees_leave] run show ?thesis
    by (simp add: small_msg_def small_params_def no_params_def)
qed

section \<open>Fees\<close>










section \<open>Consensus\<close>

definition consensus_part :: "'x EvmHost \<Rightarrow> _" where
  "consensus_part s = (eh_stateCommitments s, eh_stateCommitmentsUpdateTime s, eh_latestStateMachineHeight s, eh_block_timestamp s)"

text \<open>From \<open>s\<close> to \<open>s'\<close> commitments were only added above the latest heights, and heights only rose.\<close>

definition commitments_grow :: "'x EvmHost \<Rightarrow> 'x EvmHost \<Rightarrow> bool" where
  "commitments_grow s s' \<longleftrightarrow> eh_block_timestamp s' = eh_block_timestamp s \<and>
     (\<forall>i. eh_latestStateMachineHeight s i \<le> eh_latestStateMachineHeight s' i \<and>
       (eh_latestStateMachineHeight s i = 0 \<longrightarrow> eh_latestStateMachineHeight s' i = 0) \<and>
       (\<forall>h. eh_stateCommitments s' i h = eh_stateCommitments s i h \<and>
              eh_stateCommitmentsUpdateTime s' i h = eh_stateCommitmentsUpdateTime s i h \<or>
            eh_latestStateMachineHeight s i \<noteq> 0 \<and> eh_latestStateMachineHeight s i < h \<and>
              h \<le> eh_latestStateMachineHeight s' i \<and> eh_stateCommitmentsUpdateTime s' i h = eh_block_timestamp s))"

lemma commitments_grow_refl: "consensus_part s' = consensus_part s \<Longrightarrow> commitments_grow s s'"
  by (auto simp: commitments_grow_def consensus_part_def)

lemma commitments_growD:
  assumes "commitments_grow s s'"
  shows "eh_block_timestamp s' = eh_block_timestamp s" "eh_latestStateMachineHeight s i \<le> eh_latestStateMachineHeight s' i"
    "eh_latestStateMachineHeight s i = 0 \<Longrightarrow> eh_latestStateMachineHeight s' i = 0"
    "eh_stateCommitments s' i h = eh_stateCommitments s i h \<and> eh_stateCommitmentsUpdateTime s' i h = eh_stateCommitmentsUpdateTime s i h \<or>
     eh_latestStateMachineHeight s i \<noteq> 0 \<and> eh_latestStateMachineHeight s i < h \<and> h \<le> eh_latestStateMachineHeight s' i \<and>
     eh_stateCommitmentsUpdateTime s' i h = eh_block_timestamp s"
  using assms unfolding commitments_grow_def by blast+

lemma commitments_grow_trans:
  assumes "commitments_grow s t" and "commitments_grow t u"
  shows "commitments_grow s u"
proof -
  have "eh_stateCommitments u i h = eh_stateCommitments s i h \<and> eh_stateCommitmentsUpdateTime u i h = eh_stateCommitmentsUpdateTime s i h \<or>
      eh_latestStateMachineHeight s i \<noteq> 0 \<and> eh_latestStateMachineHeight s i < h \<and> h \<le> eh_latestStateMachineHeight u i \<and>
      eh_stateCommitmentsUpdateTime u i h = eh_block_timestamp s" for i h
    using commitments_growD(4) [OF assms(1), of i h] commitments_growD(4) [OF assms(2), of i h]
      commitments_growD(2,3) [OF assms(1), of i] commitments_growD(2) [OF assms(2), of i] commitments_growD(1) [OF assms(1)]
    by (elim disjE conjE) (auto intro: order.trans order.strict_trans1)
  moreover have "eh_latestStateMachineHeight s i \<le> eh_latestStateMachineHeight u i" for i
    by (rule order.trans [OF commitments_growD(2) [OF assms(1)] commitments_growD(2) [OF assms(2)]])
  ultimately show ?thesis
    unfolding commitments_grow_def
    using commitments_growD(1,3) [OF assms(1)] commitments_growD(1,3) [OF assms(2)] by auto
qed

lemma store_intermediate_grows:
  assumes "store_intermediate self x s = (Ok (), s')"
  shows "commitments_grow s s'"
  using assms
  by (auto simp: store_intermediate_def storeStateMachineCommitment_def put_commitment_def emit_def comp_ok restrict_Ok
      stateMachineId_def checked_Ok commitments_grow_def Let_def split: if_splits)

lemma store_intermediates_grow:
  "for_each (store_intermediate self) xs s = (Ok (), s') \<Longrightarrow> commitments_grow s s'"
proof (induction xs arbitrary: s)
  case Nil
  then show ?case by (auto simp: comp_ok intro: commitments_grow_refl)
next
  case (Cons x xs)
  from Cons.prems obtain t where "store_intermediate self x s = (Ok (), t)" "for_each (store_intermediate self) xs t = (Ok (), s')"
    by (auto simp: comp_ok)
  with Cons.IH show ?case by (blast intro: commitments_grow_trans store_intermediate_grows)
qed

text \<open>C8: a consensus update on an EVM chain, accepted only while the client has not expired, leaves every
  commitment at or below a latest height as it is, with its time; it adds commitments only above
  the latest height of a known state machine, stamped with the time of the block so that their
  challenge period starts anew; latest heights never fall, and unknown state machines stay unknown.\<close>

theorem evm_consensus_only_adds:
  assumes "handleConsensus w self pf s = (Ok (), s')" and "callees_leave consensus_part w"
  shows "eh_block_timestamp s - eh_consensusUpdateTimestamp s < hp_unStakingPeriod (eh_hostParams s) \<and>
    (\<forall>i. eh_latestStateMachineHeight s i \<le> eh_latestStateMachineHeight s' i \<and>
       (eh_latestStateMachineHeight s i = 0 \<longrightarrow> eh_latestStateMachineHeight s' i = 0) \<and>
       (\<forall>h. eh_stateCommitments s' i h = eh_stateCommitments s i h \<and>
              eh_stateCommitmentsUpdateTime s' i h = eh_stateCommitmentsUpdateTime s i h \<or>
            eh_latestStateMachineHeight s i \<noteq> 0 \<and> eh_latestStateMachineHeight s i < h \<and>
              h \<le> eh_latestStateMachineHeight s' i \<and> eh_stateCommitmentsUpdateTime s' i h = eh_block_timestamp s))"
proof -
  from assms(1) obtain vs xs t1 t2 where
    d: "eh_block_timestamp s - eh_consensusUpdateTimestamp s < hp_unStakingPeriod (eh_hostParams s)" and
    v: "ew_verifyConsensus w (hp_consensusClient (eh_hostParams s)) (eh_consensusState s) pf s = (Ok (vs, xs), t1)" and
    st: "storeConsensusState (from_handler self) vs t1 = (Ok (), t2)" and
    l: "for_each (store_intermediate self) xs t2 = (Ok (), s')"
    by (auto simp: handleConsensus_def comp_ok notFrozen_incoming_Ok sub_checked_Ok not_le)
  have "consensus_part t1 = consensus_part s"
    using keepsD [OF callees_keepD(6) [OF callees_leaveD [OF assms(2)]] v] by simp
  moreover have "consensus_part t2 = consensus_part t1"
    using st by (auto simp: storeConsensusState_def comp_ok restrict_Ok consensus_part_def)
  ultimately have "commitments_grow s t2" by (simp add: commitments_grow_refl)
  from commitments_grow_trans [OF this store_intermediates_grow [OF l]] d show ?thesis
    by (simp add: commitments_grow_def)
qed

lemma small_consensus_run: "\<exists>s'. handleConsensus small_world 2 [] small_host = (Ok (), s')"
  by (simp add: handleConsensus_def notFrozen_incoming_def sub_checked_def checked_def storeConsensusState_def
      store_intermediate_def storeStateMachineCommitment_def restrict_def stateMachineId_def emit_def comp_app
      small_world_def small_host_def EvmHost_zero_def small_params_def no_params_def put_commitment_def Let_def)

theorem evm_consensus_only_adds_witness:
  "\<exists>s'. handleConsensus small_world 2 [] small_host = (Ok (), s') \<and>
     eh_latestStateMachineHeight small_host 3 \<le> eh_latestStateMachineHeight s' 3"
proof -
  from small_consensus_run obtain s' where run: "handleConsensus small_world 2 [] small_host = (Ok (), s')" by blast
  from evm_consensus_only_adds [OF run small_callees_leave] run show ?thesis by blast
qed

end
