(* ===== verification/Cross_Chain_Properties.thy ===== *)
theory Cross_Chain_Properties
  imports Evm_Properties Pallet_Host_Executive
begin

text \<open>
  Properties of the pallets and the contracts together: the storage keys the EVM handler asks for,
  and the parameters of an EVM host as governance sends them from pallet-ismp-host-executive through
  the host manager to the host.
\<close>

section \<open>Storage keys\<close>

text \<open>The key whose absence the EVM handler wants to see proved before it times a request out is the key under
  which pallet-ismp files the receipt of that request; the key for a response is one of pallet-ismp's
  map of response receipts.\<close>

theorem evm_handler_uses_pallet_keys:
  "REQUEST_RECEIPTS_STORAGE_PREFIX @ be_bytes 32 commitment = request_receipt_storage_key commitment \<and>
   RESPONSE_RECEIPTS_STORAGE_PREFIX @ be_bytes 32 commitment = response_receipt_storage_key commitment"
  by (simp add: REQUEST_RECEIPTS_STORAGE_PREFIX_def RESPONSE_RECEIPTS_STORAGE_PREFIX_def request_receipt_storage_key_def
      response_receipt_storage_key_def ascii_def of_char_def)

section \<open>Parameters\<close>


lemma host_param_post_evm:
  assumes "host_param_post hx sm (EvmHostParam current) (EvmHostParamUpdate upd) = Some (post, EvmHostParam updated)"
  shows "dp_to post = be_bytes 20 (ehp_host_manager updated)"
    "dp_body post = 1 # hx_abi_encode hx (EvmHostParamsAbi_from updated)"
  using assms by (auto simp: host_param_post_def Let_def EvmHostParamsAbi_encode_def)

lemma onAccept_params_Ok:
  assumes "HostManager_onAccept CHAIN_ID w self mp m request s = (Ok (), s')" and "sq_body request = 1 # encoded"
  shows "\<exists>params. ew_decode_params w encoded = Ok params \<and>
    updateHostParams CHAIN_ID w \<lparr>msg_sender = self, msg_value = 0\<rparr> params s = (Ok (), s')"
  using assms by (auto simp: HostManager_onAccept_def comp_ok)

text \<open>Governance cannot replace the host manager of an EVM host. pallet-ismp-host-executive addresses the
  update to the host manager that the update names, not to the one in office; when the update is
  delivered there, the host does not accept it from that contract, and nothing changes.\<close>

theorem manager_update_never_executes:
  assumes "host_param_post hx sm (EvmHostParam current) (EvmHostParamUpdate upd) = Some (post, EvmHostParam updated)"
    and "hp_hostManager (eh_hostParams s) = ehp_host_manager current"
    and "ehp_host_manager updated \<noteq> ehp_host_manager current" and "ehp_host_manager updated \<noteq> hp_admin (eh_hostParams s)"
    and "sq_to request = dp_to post" and "sq_body request = dp_body post" and "self = from_be_bytes (sq_to request)"
  shows "fst (HostManager_onAccept CHAIN_ID w self mp m request s) \<noteq> Ok () \<and>
    snd (HostManager_onAccept CHAIN_ID w self mp m request s) = s"
proof -
  note post = host_param_post_evm [OF assms(1)]
  have self: "self = ehp_host_manager updated" using assms(5,7) post(1) by (simp add: from_be_bytes_back)
  have body: "sq_body request = 1 # hx_abi_encode hx (EvmHostParamsAbi_from updated)" using assms(6) post(2) by simp
  have "HostManager_onAccept CHAIN_ID w self mp m request s \<noteq> (Ok (), s')" for s'
  proof
    assume "HostManager_onAccept CHAIN_ID w self mp m request s = (Ok (), s')"
    from onAccept_params_Ok [OF this body] obtain params where
      "updateHostParams CHAIN_ID w \<lparr>msg_sender = self, msg_value = 0\<rparr> params s = (Ok (), s')" by blast
    with self assms(2-4) show False by (auto simp: updateHostParams_def comp_ok)
  qed
  then show ?thesis
    by (cases "HostManager_onAccept CHAIN_ID w self mp m request s")
       (auto simp: HostManager_onAccept_def transactional_def split: prod.splits outcome.splits)
qed

definition plain_param :: "h160 \<Rightarrow> EvmHostParam" where
  "plain_param manager =
     \<lparr>ehp_default_timeout = 0, ehp_default_per_byte_fee = 2, ehp_state_commitment_fee = 0, ehp_fee_token = 5, ehp_admin = 3,
      ehp_handler = 2, ehp_host_manager = manager, ehp_uniswap_v2 = 0, ehp_un_staking_period = 100000, ehp_challenge_period = 10,
      ehp_consensus_client = 6, ehp_state_machines = [3], ehp_per_byte_fees = [\<lparr>pbf_state_id = 8, pbf_per_byte_fee = 9\<rparr>],
      ehp_hyperbridge = [1, 1, 1, 1, 1]\<rparr>"

definition no_update :: EvmHostParamUpdate where
  "no_update =
     \<lparr>ehu_default_timeout = None, ehu_default_per_byte_fee = None, ehu_fee_token = None, ehu_state_commitment_fee = None,
      ehu_admin = None, ehu_handler = None, ehu_host_manager = None, ehu_uniswap_v2 = None, ehu_un_staking_period = None,
      ehu_challenge_period = None, ehu_consensus_client = None, ehu_state_machines = None, ehu_per_byte_fees = None,
      ehu_hyperbridge = None\<rparr>"

definition plain_hx :: "(unit, unit) HostExecConfig" where
  "plain_hx = \<lparr>hx_dispatcher = \<lparr>d_dispatch_request = (\<lambda>r f. panic), d_dispatch_response = (\<lambda>r f. panic)\<rparr>,
     hx_abi_encode = (\<lambda>p. []), hx_encode_message = (\<lambda>m. [])\<rparr>"

definition param_request :: "h160 \<Rightarrow> SolPostRequest" where
  "param_request manager = \<lparr>sq_source = [1, 1, 1, 1, 1], sq_dest = [1], sq_nonce = 2, sq_from = [], sq_to = be_bytes 20 manager,
     sq_timeoutTimestamp = 0, sq_body = [1]\<rparr>"

lemma plain_post:
  "host_param_post plain_hx (Evm 5) (EvmHostParam (plain_param 4)) (EvmHostParamUpdate (no_update\<lparr>ehu_host_manager := new\<rparr>)) =
     Some (\<lparr>dp_dest = Evm 5, dp_from = HOST_EXECUTIVE_ID, dp_to = be_bytes 20 (case new of Some a \<Rightarrow> a | None \<Rightarrow> 4), dp_timeout = 0,
            dp_body = [1]\<rparr>, EvmHostParam (plain_param (case new of Some a \<Rightarrow> a | None \<Rightarrow> 4)))"
  by (simp add: host_param_post_def EvmHostParamsAbi_encode_def plain_hx_def EvmHostParam_update_def set_if_some_def
      no_update_def plain_param_def split: option.split)

theorem manager_update_never_executes_witness:
  "fst (HostManager_onAccept 1 small_world 40 \<lparr>hmp_admin = 0, hmp_host = 1\<rparr> \<lparr>msg_sender = 1, msg_value = 0\<rparr> (param_request 40) small_host) \<noteq> Ok ()"
proof -
  have "from_be_bytes (be_bytes 20 (40 :: h160)) = (40 :: h160)" by (rule from_be_bytes_back) simp
  then show ?thesis
    using manager_update_never_executes [OF plain_post [of "Some 40", simplified], of small_host "param_request 40" 40 1 small_world
        "\<lparr>hmp_admin = 0, hmp_host = 1\<rparr>" "\<lparr>msg_sender = 1, msg_value = 0\<rparr>"]
    by (simp add: plain_param_def param_request_def small_params_def no_params_def)
qed

text \<open>The parameters after an accepted update.\<close>

lemma foldl_init_params [simp]:
  "eh_hostParams (foldl (\<lambda>s i. init_state_machine i s) s is) = eh_hostParams s"
  "eh_perByteFees (foldl (\<lambda>s i. init_state_machine i s) s is) = eh_perByteFees s"
  by (induction "is" arbitrary: s) (simp_all add: init_state_machine_def)

lemma foldl_fees_params [simp]: "eh_hostParams (foldl (\<lambda>s f. set_per_byte_fee f s) s fs) = eh_hostParams s"
  by (induction fs arbitrary: s) (simp_all add: set_per_byte_fee_def)

lemma foldl_fees:
  "f \<in> set fs \<Longrightarrow> distinct (map spf_stateIdHash fs) \<Longrightarrow>
     eh_perByteFees (foldl (\<lambda>s f. set_per_byte_fee f s) s fs) (spf_stateIdHash f) = spf_perByteFee f"
proof (induction fs arbitrary: s rule: rev_induct)
  case (snoc x fs)
  show ?case
  proof (cases "f = x")
    case False
    with snoc.prems have "f \<in> set fs" and "spf_stateIdHash x \<notin> spf_stateIdHash ` set fs" by auto
    then have "spf_stateIdHash f \<noteq> spf_stateIdHash x" by (metis imageI)
    with snoc \<open>f \<in> set fs\<close> show ?thesis by (simp add: set_per_byte_fee_def)
  qed (simp add: set_per_byte_fee_def)
qed simp

lemma updateHostParams_Ok:
  assumes "updateHostParams CHAIN_ID w m params s = (Ok (), s')"
  shows "eh_hostParams s' = params\<lparr>hp_perByteFees := hp_perByteFees (eh_hostParams s)\<rparr>"
    "f \<in> set (hp_perByteFees params) \<Longrightarrow> distinct (map spf_stateIdHash (hp_perByteFees params)) \<Longrightarrow>
       eh_perByteFees s' (spf_stateIdHash f) = spf_perByteFee f"
proof -
  have reset: "eh_hostParams (foldl (\<lambda>s i. s\<lparr>eh_latestStateMachineHeight := (eh_latestStateMachineHeight s)(i := 0)\<rparr>) t is) = eh_hostParams t"
    for t :: "'a EvmHost" and "is" by (induction "is" arbitrary: t) simp_all
  from assms obtain t where
    u: "updateHostParamsInternal w params t = (Ok (), s')" and t: "eh_hostParams t = eh_hostParams s"
    by (auto simp: updateHostParams_def comp_ok reset split: if_splits)
  define t1 where "t1 = t\<lparr>eh_hostParams := params\<lparr>hp_perByteFees := hp_perByteFees (eh_hostParams t)\<rparr>,
    eh_events := eh_events t @ [EeHostParamsUpdated (params\<lparr>hp_perByteFees := hp_perByteFees (eh_hostParams t)\<rparr>) params]\<rparr>"
  from u have
    s': "s' = foldl (\<lambda>s i. init_state_machine i s) (foldl (\<lambda>s f. set_per_byte_fee f s) t1 (hp_perByteFees params)) (hp_stateMachines params)"
    unfolding updateHostParamsInternal_def t1_def
    by (auto simp: comp_ok emit_def
        dest!: readonlyD [OF readonly_evm_guards(7)] readonlyD [OF readonly_evm_guards(8)])
  have t1: "eh_hostParams t1 = params\<lparr>hp_perByteFees := hp_perByteFees (eh_hostParams t)\<rparr>" by (simp add: t1_def)
  show "eh_hostParams s' = params\<lparr>hp_perByteFees := hp_perByteFees (eh_hostParams s)\<rparr>" using s' t1 t by simp
  show "eh_perByteFees s' (spf_stateIdHash f) = spf_perByteFee f"
    if "f \<in> set (hp_perByteFees params)" "distinct (map spf_stateIdHash (hp_perByteFees params))"
    using foldl_fees [OF that] s' by simp
qed





text \<open>The check of the parameters does not keep an EVM host from being bricked. The identifier of hyperbridge
  only has to be non-empty, but the host cuts four bytes off it whenever it stores a commitment; with
  a shorter one, every commitment that the handler stores reverts from then on.\<close>

theorem short_hyperbridge_id_bricks_host:
  assumes "updateHostParams CHAIN_ID w m params s = (Ok (), s')" and "length (hp_hyperbridge params) < 4"
  shows "fst (storeStateMachineCommitment m' height commitment s') \<noteq> Ok () \<and>
    snd (storeStateMachineCommitment m' height commitment s') = s'"
proof -
  have "length (hp_hyperbridge (eh_hostParams s')) < 4" using updateHostParams_Ok(1) [OF assms(1)] assms(2) by simp
  then have "storeStateMachineCommitment m' height commitment s' \<noteq> (Ok (), t)" for t
    by (auto simp: storeStateMachineCommitment_def put_commitment_def Let_def comp_ok restrict_Ok stateMachineId_def checked_Ok)
  then show ?thesis
    by (cases "storeStateMachineCommitment m' height commitment s'")
       (auto simp: storeStateMachineCommitment_def transactional_def split: prod.splits outcome.splits)
qed

lemma short_id_run:
  "\<exists>s'. updateHostParams 1 small_world \<lparr>msg_sender = 4, msg_value = 0\<rparr> (small_params\<lparr>hp_hyperbridge := [1]\<rparr>) small_host = (Ok (), s')"
  by (simp add: updateHostParams_def updateHostParamsInternal_def valid_contract_def check_fee_token_def
      emit_def comp_app small_world_def small_params_def no_params_def small_host_def EvmHost_zero_def)

theorem short_hyperbridge_id_bricks_host_witness:
  "\<exists>s'. updateHostParams 1 small_world \<lparr>msg_sender = 4, msg_value = 0\<rparr> (small_params\<lparr>hp_hyperbridge := [1]\<rparr>) small_host = (Ok (), s') \<and>
     fst (storeStateMachineCommitment (from_handler 2) \<lparr>ssh_stateMachineId = 3, ssh_height = 20\<rparr> no_commitment s') \<noteq> Ok ()"
proof -
  from short_id_run obtain s' where
    run: "updateHostParams 1 small_world \<lparr>msg_sender = 4, msg_value = 0\<rparr> (small_params\<lparr>hp_hyperbridge := [1]\<rparr>) small_host = (Ok (), s')" by blast
  from short_hyperbridge_id_bricks_host [OF run] run show ?thesis by auto
qed

end
