(* ===== verification/Encoding_Properties.thy ===== *)
theory Encoding_Properties
  imports Hyperbridge_State_Machine Evm_State_Machine
begin

text \<open>
  What the byte forms of the protocol preserve: the text form of a state machine is read back, the
  encoding under which a request is committed to determines the request only up to the boundaries of
  its variable length fields, and the maps that the state machine clients answer with are well-formed
  maps over the keys that were asked for.
\<close>

section \<open>State machines as text\<close>

lemma takeWhile_shorter: "x \<in> set xs \<Longrightarrow> \<not> P x \<Longrightarrow> length (takeWhile P xs) < length xs"
  by (induction xs) auto

lemma last_segment_short: "c \<in> set s \<Longrightarrow> length (last_segment c (p @ s)) < length s"
  using takeWhile_shorter [of c "rev s" "\<lambda>b. b \<noteq> c"] by (simp add: last_segment_def takeWhile_append1 [of c])

text \<open>C36: the text form of a state machine is read back as that state machine, and reading panics exactly
  where the four byte identifier of a standalone chain contains a dash: the parser cuts the text at
  its last dash and copies what follows into four bytes.\<close>

theorem state_machine_text_roundtrip:
  assumes "StateMachine_fmt m = Some s"
  shows "StateMachine_from_str s = (if 45 \<in> set (sm_id m) then Panic else Ok m)"
proof (cases "45 \<in> set (sm_id m)")
  case False
  with assms from_str_fmt show ?thesis by simp
next
  case True
  have tail: "copy_from_slice4 (last_segment 45 (p @ sm_id m)) = None" for p
    using last_segment_short [OF True, of p] True by (intro copy_from_slice4_None) (cases m; simp)
  from True assms tail show ?thesis
    by (cases m) (auto simp: StateMachine_from_str_def parse_id_tail_def utf8_string_def split: if_splits)
qed

theorem state_machine_text_roundtrip_witness:
  "StateMachine_from_str (ascii ''SUBSTRATE-hybr'') = Ok (Substrate (104, 121, 98, 114))"
  using state_machine_text_roundtrip [of "Substrate (104, 121, 98, 114)"]
  by (simp add: utf8_string_def ascii_def of_char_def)

section \<open>Commitments\<close>

lemma option_cat_Some: "option_cat (map Some xs) = Some (concat xs)"
  by (auto simp: option_cat_def comp_def)

lemma option_cat_fields:
  "option_cat (a # b # map Some xs) =
     (case (a, b) of (Some x, Some y) \<Rightarrow> Some (x @ y @ concat xs) | _ \<Rightarrow> None)"
  by (cases a; cases b) (auto simp: option_cat_def comp_def)

text \<open>The encodings with their fields in front of them joined.\<close>

lemma Request_encode_fields:
  "Request_encode (ReqPost p) =
     (case (StateMachine_fmt (pr_source p), StateMachine_fmt (pr_dest p)) of
        (Some x, Some y) \<Rightarrow> Some (x @ y @ be_bytes 8 (pr_nonce p) @ be_bytes 8 (pr_timeout_timestamp p) @
          pr_from p @ pr_to p @ pr_body p)
      | _ \<Rightarrow> None)"
  "Request_encode (ReqGet g) =
     (case (StateMachine_fmt (gr_source g), StateMachine_fmt (gr_dest g)) of
        (Some x, Some y) \<Rightarrow> Some (x @ y @ be_bytes 8 (gr_nonce g) @ be_bytes 8 (gr_height g) @
          be_bytes 8 (gr_timeout_timestamp g) @ gr_from g @ concat (gr_keys g) @ gr_context g)
      | _ \<Rightarrow> None)"
  using option_cat_fields [of _ _ "[be_bytes 8 (pr_nonce p), be_bytes 8 (pr_timeout_timestamp p), pr_from p, pr_to p, pr_body p]"]
    option_cat_fields [of _ _ "[be_bytes 8 (gr_nonce g), be_bytes 8 (gr_height g), be_bytes 8 (gr_timeout_timestamp g),
      gr_from g, concat (gr_keys g), gr_context g]"]
  by (simp_all split: option.split)

text \<open>Between two given chains, and with modules of given lengths, the encoding that is hashed into the
  commitment of a post request determines the whole request: two such requests share a commitment only
  if the hash collides.\<close>

theorem post_encoding_injective:
  assumes "Request_encode (ReqPost p) = Some b" and "Request_encode (ReqPost q) = Some b"
    and "pr_source p = pr_source q" and "pr_dest p = pr_dest q"
    and "length (pr_from p) = length (pr_from q)" and "length (pr_to p) = length (pr_to q)"
  shows "p = q"
proof -
  from assms have
    "be_bytes 8 (pr_nonce p) @ be_bytes 8 (pr_timeout_timestamp p) @ pr_from p @ pr_to p @ pr_body p =
     be_bytes 8 (pr_nonce q) @ be_bytes 8 (pr_timeout_timestamp q) @ pr_from q @ pr_to q @ pr_body q"
    unfolding Request_encode_fields by (auto simp del: StateMachine_fmt.simps split: option.splits)
  with assms(5,6) have
    "be_bytes 8 (pr_nonce p) = be_bytes 8 (pr_nonce q)" "pr_from p = pr_from q" "pr_to p = pr_to q"
    "be_bytes 8 (pr_timeout_timestamp p) = be_bytes 8 (pr_timeout_timestamp q)" "pr_body p = pr_body q"
    by (simp_all add: append_eq_same_length)
  with assms(3,4) be_bytes_inj [of 8 "pr_nonce p" "pr_nonce q"]
    be_bytes_inj [of 8 "pr_timeout_timestamp p" "pr_timeout_timestamp q"]
  show ?thesis by simp
qed

definition plain_post :: PostRequest where
  "plain_post = \<lparr>pr_source = Evm 1, pr_dest = Evm 10, pr_nonce = 7, pr_from = [1, 2], pr_to = [3],
     pr_timeout_timestamp = 0, pr_body = [4]\<rparr>"

theorem post_encoding_injective_witness:
  "\<exists>b. Request_encode (ReqPost plain_post) = Some b \<and>
     Request_encode (ReqPost (plain_post\<lparr>pr_body := [5]\<rparr>)) \<noteq> Some b"
proof -
  obtain x y where "StateMachine_fmt (pr_source plain_post) = Some x" and "StateMachine_fmt (pr_dest plain_post) = Some y"
    unfolding plain_post_def by simp
  then obtain b where b: "Request_encode (ReqPost plain_post) = Some b" unfolding Request_encode_fields by simp
  have "Request_encode (ReqPost (plain_post\<lparr>pr_body := [5]\<rparr>)) \<noteq> Some b"
  proof
    assume "Request_encode (ReqPost (plain_post\<lparr>pr_body := [5]\<rparr>)) = Some b"
    then have "plain_post = plain_post\<lparr>pr_body := [5]\<rparr>" by (rule post_encoding_injective [OF b]) simp_all
    from arg_cong [OF this, of pr_body] show False by (simp add: plain_post_def)
  qed
  with b show ?thesis by blast
qed

text \<open>The commitment of a request does not fix where its variable length fields end. Moving bytes
  between sender and recipient, or between recipient and body, leaves the commitment of a post request
  as it is, and every get request has the commitment of a post request, whose sender starts with the
  timeout of the get request.\<close>

theorem commitment_ignores_boundaries:
  "hash_request keccak (ReqPost (p\<lparr>pr_from := a @ b, pr_to := c\<rparr>)) =
     hash_request keccak (ReqPost (p\<lparr>pr_from := a, pr_to := b @ c\<rparr>)) \<and>
   hash_request keccak (ReqPost (p\<lparr>pr_to := a @ b, pr_body := c\<rparr>)) =
     hash_request keccak (ReqPost (p\<lparr>pr_to := a, pr_body := b @ c\<rparr>)) \<and>
   hash_request keccak (ReqGet g) =
     hash_request keccak (ReqPost
       \<lparr>pr_source = gr_source g, pr_dest = gr_dest g, pr_nonce = gr_nonce g,
        pr_from = be_bytes 8 (gr_timeout_timestamp g) @ gr_from g, pr_to = concat (gr_keys g),
        pr_timeout_timestamp = gr_height g, pr_body = gr_context g\<rparr>)"
  unfolding hash_request_def Request_encode_fields by (simp split: option.split)

section \<open>Answers of the state machine clients\<close>

lemma btree_insert_zip:
  assumes "btree_wf acc"
  shows "btree_wf (foldl (\<lambda>m ((key, h), value). btree_insert key value m) acc kvs) \<and>
    fst ` set (foldl (\<lambda>m ((key, h), value). btree_insert key value m) acc kvs) = fst ` set acc \<union> (fst \<circ> fst) ` set kvs"
  using assms
proof (induction kvs arbitrary: acc)
  case (Cons x kvs)
  obtain key h v where "x = ((key, h), v)" by (metis prod.collapse)
  with Cons.IH [OF btree_wf_insert [OF Cons.prems], of key v] show ?case by simp
qed simp

text \<open>The keys in the groups are the keys that were grouped.\<close>

definition group_names :: "(bytes, (bytes \<times> bytes) list) btree_map \<Rightarrow> bytes set" where
  "group_names m = {key. \<exists>(c, ks) \<in> set m. key \<in> fst ` set ks}"

definition grouped :: "key_groups \<Rightarrow> bytes set" where
  "grouped g = set (kg_account_queries g) \<union> group_names (kg_contract_to_keys g)"

lemma btree_entry_set: "set (btree_entry k d f m) \<subseteq> insert (k, f (case map_of m k of Some v \<Rightarrow> v | None \<Rightarrow> d)) (set m)"
  unfolding btree_entry_def by (rule btree_insert_set)

lemma grouped_in: "(c, ks) \<in> set m \<Longrightarrow> fst ` set ks \<subseteq> group_names m"
  by (force simp: group_names_def)

lemma grouped_entry:
  assumes "x \<in> group_names (btree_entry k [] (\<lambda>ks. ks @ [(key, h)]) m)"
  shows "x = key \<or> x \<in> group_names m"
proof -
  from assms obtain c ks where c: "(c, ks) \<in> set (btree_entry k [] (\<lambda>ks. ks @ [(key, h)]) m)" and x: "x \<in> fst ` set ks"
    by (auto simp: group_names_def)
  from btree_entry_set c consider "(c, ks) \<in> set m" | "ks = (case map_of m k of Some v \<Rightarrow> v | None \<Rightarrow> []) @ [(key, h)]"
    by fastforce
  then show ?thesis
  proof cases
    case 1
    from grouped_in [OF this] x show ?thesis by blast
  next
    case 2
    show ?thesis
    proof (cases "map_of m k")
      case None
      with 2 x show ?thesis by simp
    next
      case (Some v)
      with 2 x have "x = key \<or> x \<in> fst ` set v" by auto
      with grouped_in [OF map_of_SomeD [OF Some]] show ?thesis by blast
    qed
  qed
qed

lemma group_key_keys: "group_key keccak a key g = Inr g' \<Longrightarrow> grouped g' \<subseteq> insert key (grouped g)"
  by (auto simp: group_key_def grouped_def split: if_splits dest!: grouped_entry)

lemma group_keys_keys: "group_keys keccak a keys g = Inr g' \<Longrightarrow> grouped g' \<subseteq> set keys \<union> grouped g"
proof (induction keys arbitrary: g)
  case (Cons k ks)
  then obtain g1 where "group_key keccak a k g = Inr g1" "group_keys keccak a ks g1 = Inr g'"
    by (auto split: sum.splits)
  with Cons.IH [of g1] group_key_keys show ?case by fastforce
qed simp

lemma read_contracts_keys:
  assumes "read_contracts ev keccak cp root proofs groups acc s = (Ok m, s')" and "btree_wf acc"
  shows "btree_wf m \<and> fst ` set m \<subseteq> fst ` set acc \<union> group_names groups"
  using assms
proof (induction proofs arbitrary: groups acc s)
  case Nil
  then show ?case by (simp add: comp_ok)
next
  case (Cons x rest)
  obtain a storage_proof where x: "x = (a, storage_proof)" by fastforce
  show ?case
  proof (cases "map_of groups a")
    case None
    with Cons.prems(1) x obtain t where "read_contracts ev keccak cp root rest groups acc t = (Ok m, s')"
      by (auto simp: comp_ok)
    then show ?thesis using Cons.prems(2) by (rule Cons.IH)
  next
    case (Some keys)
    from Cons.prems(1) x Some obtain vals t where
      rest: "read_contracts ev keccak cp root rest (btree_remove a groups)
        (foldl (\<lambda>m ((key, _), value). btree_insert key value m) acc (zip keys vals)) t = (Ok m, s')"
      by (auto simp: comp_ok)
    note ins = btree_insert_zip [OF Cons.prems(2), of "zip keys vals"]
    have "(fst \<circ> fst) ` set (zip keys vals) \<subseteq> fst ` set keys" by (auto dest: set_zip_leftD intro: rev_image_eqI)
    moreover have "fst ` set keys \<subseteq> group_names groups"
      by (rule grouped_in [OF map_of_SomeD [OF Some]])
    moreover have "group_names (btree_remove a groups) \<subseteq> group_names groups"
      by (auto simp: btree_remove_def group_names_def)
    moreover from Cons.IH [OF rest conjunct1 [OF ins]] conjunct2 [OF ins] have "btree_wf m" and
      "fst ` set m \<subseteq> fst ` set acc \<union> (fst \<circ> fst) ` set (zip keys vals) \<union> group_names (btree_remove a groups)"
      by simp_all
    ultimately show ?thesis by (meson Un_mono order_refl order_trans sup_least sup_ge1 sup_ge2)
  qed
qed

lemma read_accounts_keys:
  assumes "read_accounts ev keccak cp root addresses acc s = (Ok m, s')" and "btree_wf acc"
  shows "btree_wf m \<and> fst ` set m = fst ` set acc \<union> set addresses"
  using assms
proof (induction addresses arbitrary: acc s)
  case (Cons a as)
  from Cons.prems(1) obtain v t where
    rest: "read_accounts ev keccak cp root as (btree_insert a v acc) t = (Ok m, s')" by (auto simp: comp_ok)
  from Cons.IH [OF rest btree_wf_insert [OF Cons.prems(2)]] show ?case by auto
qed (simp add: comp_ok)

lemma evm_verify_state_proof_keys:
  assumes "evm_verify_state_proof ev keccak keys state pf a s = (Ok m, s')"
  shows "btree_wf m \<and> fst ` set m \<subseteq> set keys"
proof -
  from assms obtain p :: EvmStateProof and groups :: key_groups and m1 t u where
    g: "group_keys keccak a keys \<lparr>kg_contract_to_keys = [], kg_account_queries = []\<rparr> = Inr groups" and
    c: "read_contracts ev keccak (esp_contract_proof p) (sc_state_root state) (esp_storage_proof p)
      (kg_contract_to_keys groups) [] t = (Ok m1, u)" and
    q: "read_accounts ev keccak (esp_contract_proof p) (sc_state_root state) (kg_account_queries groups) m1 u = (Ok m, s')"
    unfolding evm_verify_state_proof_def by (auto simp: comp_ok)
  from group_keys_keys [OF g] have "grouped groups \<subseteq> set keys" by (simp add: grouped_def group_names_def)
  moreover from read_contracts_keys [OF c] have
    wf: "btree_wf m1" and "fst ` set m1 \<subseteq> group_names (kg_contract_to_keys groups)"
    by (simp_all add: btree_wf_def)
  moreover from read_accounts_keys [OF q wf] have "btree_wf m" "fst ` set m = fst ` set m1 \<union> set (kg_account_queries groups)"
    by simp_all
  ultimately show ?thesis unfolding grouped_def by blast
qed

text \<open>C37: whatever proof they are given, the state machine clients answer a query with a well-formed map, its
  keys strictly ascending, over the keys that were asked for and no others; the clients of substrate
  chains and of hyperbridge answer for every key that was asked for.\<close>

theorem client_answers_are_typed:
  "(verify_state_proof (evm_client ev keccak) s keys state pf = Ok m \<longrightarrow> btree_wf m \<and> fst ` set m \<subseteq> set keys) \<and>
   (verify_state_proof (substrate_client sb keccak co) t keys state pf = Ok m \<longrightarrow> btree_wf m \<and> fst ` set m = set keys) \<and>
   (verify_state_proof (hyperbridge_client sb dec keccak co sm) u keys state pf = Ok m \<longrightarrow> btree_wf m \<and> fst ` set m = set keys)"
proof (intro conjI [of "_ \<longrightarrow> _"] impI)
  assume "verify_state_proof (evm_client ev keccak) s keys state pf = Ok m"
  then have "fst (bindC (ismp_contract_address (proof_height pf)) (evm_verify_state_proof ev keccak keys state pf) s) = Ok m"
    by (simp add: evm_client_def)
  from fst_Ok_run [OF this] evm_verify_state_proof_keys show "btree_wf m \<and> fst ` set m \<subseteq> set keys"
    by (fastforce simp only: bindC_Ok)
next
  assume "verify_state_proof (substrate_client sb keccak co) t keys state pf = Ok m"
  then have "fst (substrate_verify_state_proof sb co keys state pf t) = Ok m" by (simp add: substrate_client_def)
  from substrate_verify_state_proof_Ok(1,2) [OF fst_Ok_run [OF this]] show "btree_wf m \<and> fst ` set m = set keys" by simp
next
  assume "verify_state_proof (hyperbridge_client sb dec keccak co sm) u keys state pf = Ok m"
  then have "fst (substrate_verify_state_proof sb co keys state pf u) = Ok m" by (simp add: hyperbridge_client_def substrate_client_def Let_def)
  from substrate_verify_state_proof_Ok(1,2) [OF fst_Ok_run [OF this]] show "btree_wf m \<and> fst ` set m = set keys" by simp
qed

definition echo_client :: "unit StateMachineClient" where
  "echo_client = substrate_client
     \<lparr>sb_decode_proof = (\<lambda>_. Inr (StateProof \<lparr>smp_hasher = Keccak, smp_storage_proof = []\<rparr>)),
      sb_trie_get = (\<lambda>_ _ _ key. Inr (Some key))\<rparr> (\<lambda>_. 0) None"

theorem client_answers_are_typed_witness:
  "\<exists>m. verify_state_proof echo_client () [[2], [1], [2]] \<lparr>sc_timestamp = 0, sc_overlay_root = None, sc_state_root = 0\<rparr>
       \<lparr>proof_height = \<lparr>smh_id = \<lparr>state_id = Evm 1, consensus_state_id = (0, 0, 0, 0)\<rparr>, smh_height = 1\<rparr>, proof_proof = []\<rparr> = Ok m \<and>
     btree_wf m \<and> fst ` set m = {[1], [2]}"
proof -
  obtain m where m: "verify_state_proof echo_client () [[2], [1], [2]] \<lparr>sc_timestamp = 0, sc_overlay_root = None, sc_state_root = 0\<rparr>
       \<lparr>proof_height = \<lparr>smh_id = \<lparr>state_id = Evm 1, consensus_state_id = (0, 0, 0, 0)\<rparr>, smh_height = 1\<rparr>, proof_proof = []\<rparr> = Ok m"
    unfolding echo_client_def substrate_client_def
    by (simp add: substrate_verify_state_proof_def decode_state_proof_def trie_read_def propagate_def comp_app)
  with client_answers_are_typed [THEN conjunct2, THEN conjunct1, THEN mp, OF m [unfolded echo_client_def]]
  show ?thesis by (auto simp: insert_commute)
qed

end
