(* ===== verification/Mmr_Pallet.thy ===== *)
theory Mmr_Pallet
  imports Pallet_Child_Trie
begin

text \<open>
  The tree of outgoing messages (\<^verbatim>\<open>modules/trees/mmr\<close>): the pallet that buffers the leaves of a
  block and commits them at its end, its storage of the peaks, proofs, the tree that keeps nothing but
  the leaves, and the conversion of positions into k-indices. The Merkle mountain range itself is a
  third-party library and a parameter: pushing, bagging and committing, the peaks of a size, the
  position of a leaf. A node that is not a leaf is a hash.
\<close>

section \<open>Nodes\<close>

datatype 'l DataOrHash = Data 'l | Hash h256

text \<open>What the pallet is configured with, and the library it calls. The library's tree, of type
  \<open>'t\<close>, reads the store through \<open>get_elem\<close>, joins nodes with \<open>merge\<close>, and keeps what it will
  append to the store as batches of a first position and the nodes from there on.\<close>

datatype MmrLibError = InconsistentStore | LibError bytes

type_synonym 'l get_elem = "u64 \<Rightarrow> MmrLibError + 'l DataOrHash option"
type_synonym 'l merge = "'l DataOrHash \<Rightarrow> 'l DataOrHash \<Rightarrow> 'l DataOrHash"

record ('l, 't) MmrConfig =
  mc_preimage :: "'l \<Rightarrow> bytes"
  mc_hash :: "bytes \<Rightarrow> h256"
  mc_encode_node :: "'l DataOrHash \<Rightarrow> bytes"
  mc_decode_node :: "bytes \<Rightarrow> 'l DataOrHash option"
  mc_encode_leaf :: "'l \<Rightarrow> bytes"
  mc_temp_key :: "u64 \<Rightarrow> h256 \<Rightarrow> bytes"
  mc_canon_key :: "u64 \<Rightarrow> bytes"
  mc_fork_identifier :: h256
  mc_size :: "u64 \<Rightarrow> u64"
  mc_leaf_index_to_pos :: "u64 \<Rightarrow> u64"
  mc_get_peaks :: "u64 \<Rightarrow> u64 list"
  mc_new :: "u64 \<Rightarrow> 't"
  mc_mmr_size :: "'t \<Rightarrow> u64"
  mc_push :: "'l get_elem \<Rightarrow> 'l merge \<Rightarrow> 'l DataOrHash \<Rightarrow> 't \<Rightarrow> MmrLibError + u64 \<times> 't"
  mc_get_root :: "'l get_elem \<Rightarrow> 'l merge \<Rightarrow> 't \<Rightarrow> MmrLibError + 'l DataOrHash"
  mc_batches :: "'t \<Rightarrow> (u64 \<times> 'l DataOrHash list) list"
  mc_gen_proof :: "'l get_elem \<Rightarrow> 'l merge \<Rightarrow> 't \<Rightarrow> u64 list \<Rightarrow> MmrLibError + 'l DataOrHash list"
  mc_verify :: "'l merge \<Rightarrow> u64 \<Rightarrow> 'l DataOrHash list \<Rightarrow> 'l DataOrHash \<Rightarrow> (u64 \<times> 'l DataOrHash) list \<Rightarrow> MmrLibError + bool"

fun node_hash :: "('l, 't) MmrConfig \<Rightarrow> 'l DataOrHash \<Rightarrow> h256" where
  "node_hash mc (Data leaf) = mc_hash mc (mc_preimage mc leaf)"
| "node_hash mc (Hash hash) = hash"

definition node_merge :: "('l, 't) MmrConfig \<Rightarrow> 'l merge" where
  "node_merge mc left right = Hash (mc_hash mc (be_bytes 32 (node_hash mc left) @ be_bytes 32 (node_hash mc right)))"

section \<open>Storage\<close>

text \<open>\<^verbatim>\<open>IntermediateLeaves\<close> is a counted map: the counter is stored beside it. The off-chain
  database is written under \<^verbatim>\<open>offchain_index\<close> and read under \<^verbatim>\<open>local_storage_get\<close>.\<close>

record 'l MmrState =
  ms_RootHash :: h256
  ms_NumberOfLeaves :: u64
  ms_InitialHeight :: "u32 option"
  ms_IntermediateLeaves :: "u64 \<rightharpoonup> 'l"
  ms_IntermediateCount :: u32
  ms_Nodes :: "u64 \<rightharpoonup> h256"
  ms_offchain_index :: "bytes \<rightharpoonup> bytes"
  ms_offchain_db :: "bytes \<rightharpoonup> bytes"

datatype MmrError = MeInvalidNumericOp | MePush | MeGetRoot | MeCommit | MeGenerateProof | MeVerify | MeLeafNotFound

definition IntermediateLeaves_insert :: "u64 \<Rightarrow> 'l \<Rightarrow> 'l MmrState \<Rightarrow> 'l MmrState" where
  "IntermediateLeaves_insert k leaf s =
     s\<lparr>ms_IntermediateLeaves := (ms_IntermediateLeaves s)(k \<mapsto> leaf),
       ms_IntermediateCount := (if ms_IntermediateLeaves s k \<noteq> None \<or> ms_IntermediateCount s = 4294967295
         then ms_IntermediateCount s else ms_IntermediateCount s + 1)\<rparr>"

definition IntermediateLeaves_clear :: "'l MmrState \<Rightarrow> 'l MmrState" where
  "IntermediateLeaves_clear s = s\<lparr>ms_IntermediateLeaves := (\<lambda>_. None), ms_IntermediateCount := 0\<rparr>"

section \<open>The on-chain store\<close>

text \<open>\<^verbatim>\<open>Peekable::peek\<close> and \<^verbatim>\<open>next\<close>: an exhausted iterator stays exhausted.\<close>

definition peek :: "'a list \<Rightarrow> 'a option" where
  "peek xs = (case xs of [] \<Rightarrow> None | x # _ \<Rightarrow> Some x)"

text \<open>The loop that drops the common prefix. It compares what both iterators would yield, so that it
  never ends once both are exhausted.\<close>

partial_function (option) skip_common :: "u64 list \<Rightarrow> u64 list \<Rightarrow> (u64 list \<times> u64 list) option" where
  "skip_common peaks_before peaks_after =
     (if peek peaks_before = peek peaks_after then skip_common (tl peaks_before) (tl peaks_after)
      else Some (peaks_before, peaks_after))"

definition peaks_before :: "('l, 't) MmrConfig \<Rightarrow> u64 \<Rightarrow> u64 list" where
  "peaks_before mc old_size = (if old_size = 0 then [] else mc_get_peaks mc old_size)"

definition peaks_to_prune_and_store :: "('l, 't) MmrConfig \<Rightarrow> u64 \<Rightarrow> u64 \<Rightarrow> (u64 list \<times> u64 list) option" where
  "peaks_to_prune_and_store mc old_size new_size =
     skip_common (peaks_before mc old_size) (mc_get_peaks mc new_size)"

definition store_to_offchain :: "('l, 't) MmrConfig \<Rightarrow> u64 \<Rightarrow> h256 \<Rightarrow> 'l DataOrHash \<Rightarrow> 'l MmrState \<Rightarrow> 'l MmrState" where
  "store_to_offchain mc pos fork_identifier node s =
     s\<lparr>ms_offchain_index := (ms_offchain_index s)(mc_temp_key mc pos fork_identifier \<mapsto> mc_encode_node mc node)\<rparr>"

text \<open>The loop over the new nodes, with the peaks still to be stored, the position of the next node and
  the number of leaves so far.\<close>

fun store_elems ::
  "('l, 't) MmrConfig \<Rightarrow> 'l DataOrHash list \<Rightarrow> u64 list \<Rightarrow> u64 \<Rightarrow> u64 \<Rightarrow> 'l MmrState \<Rightarrow> u64 \<times> 'l MmrState" where
  "store_elems mc [] peaks_to_store node_index next_leaf s = (next_leaf, s)"
| "store_elems mc (elem # elems) peaks_to_store node_index next_leaf s =
     (let (peaks_to_store, s) =
            (if peek peaks_to_store = Some node_index
             then (tl peaks_to_store, s\<lparr>ms_Nodes := (ms_Nodes s)(node_index \<mapsto> node_hash mc elem)\<rparr>)
             else (peaks_to_store, s));
          s = store_to_offchain mc node_index (mc_fork_identifier mc) elem s;
          next_leaf = (case elem of Data _ \<Rightarrow> next_leaf + 1 | Hash _ \<Rightarrow> next_leaf)
      in store_elems mc elems peaks_to_store (node_index + 1) next_leaf s)"

definition runtime_get_elem :: "'l MmrState \<Rightarrow> 'l get_elem" where
  "runtime_get_elem s pos = Inr (map_option Hash (ms_Nodes s pos))"

text \<open>\<^verbatim>\<open>append\<close>. A run in which the loop over the peaks does not end produces no block, as
  one that panics.\<close>

definition runtime_append :: "('l, 't) MmrConfig \<Rightarrow> u64 \<Rightarrow> 'l DataOrHash list \<Rightarrow> ('l MmrState, MmrLibError, unit) comp" where
  "runtime_append mc pos elems =
     (if elems = [] then ret ()
      else
        bindC (asks ms_NumberOfLeaves) (\<lambda>leaves.
        let size = mc_size mc leaves in
        bindC (ensure (pos = size) InconsistentStore) (\<lambda>_.
        let new_size = size + of_nat (length elems) in
        bindC (expect (peaks_to_prune_and_store mc size new_size)) (\<lambda>(peaks_to_prune, peaks_to_store).
        bindC (asks (store_elems mc elems peaks_to_store size leaves)) (\<lambda>(next_leaf, s).
        bindC (modify (\<lambda>_. s\<lparr>ms_NumberOfLeaves := next_leaf\<rparr>)) (\<lambda>_.
          modify (\<lambda>s. foldl (\<lambda>s pos. s\<lparr>ms_Nodes := (ms_Nodes s)(pos := None)\<rparr>) s peaks_to_prune)))))))"

section \<open>The off-chain store\<close>

definition offchain_get_elem :: "('l, 't) MmrConfig \<Rightarrow> 'l MmrState \<Rightarrow> 'l get_elem" where
  "offchain_get_elem mc s pos =
     (case ms_offchain_db s (mc_canon_key mc pos) of
        Some elem \<Rightarrow> Inr (mc_decode_node mc elem)
      | None \<Rightarrow> Inl InconsistentStore)"

section \<open>The wrapper of the library\<close>

record 't Mmr =
  mmr_tree :: 't
  mmr_leaves :: u64

definition Mmr_new :: "('l, 't) MmrConfig \<Rightarrow> u64 \<Rightarrow> 't Mmr" where
  "Mmr_new mc leaves = \<lparr>mmr_tree = mc_new mc (mc_size mc leaves), mmr_leaves = leaves\<rparr>"

definition Mmr_push :: "('l, 't) MmrConfig \<Rightarrow> 'l MmrState \<Rightarrow> 'l \<Rightarrow> 't Mmr \<Rightarrow> (u64 \<times> 't Mmr) option" where
  "Mmr_push mc s leaf mmr =
     (case mc_push mc (runtime_get_elem s) (node_merge mc) (Data leaf) (mmr_tree mmr) of
        Inl _ \<Rightarrow> None
      | Inr (position, tree) \<Rightarrow> Some (position, \<lparr>mmr_tree = tree, mmr_leaves = mmr_leaves mmr + 1\<rparr>))"

definition Mmr_finalize :: "('l, 't) MmrConfig \<Rightarrow> 't Mmr \<Rightarrow> ('l MmrState, MmrError, u64 \<times> h256) comp" where
  "Mmr_finalize mc mmr =
     bindC (asks (\<lambda>s. mc_get_root mc (runtime_get_elem s) (node_merge mc) (mmr_tree mmr))) (\<lambda>r.
     bindC (map_err (\<lambda>_. MeGetRoot) (propagate r)) (\<lambda>root.
     bindC (map_err (\<lambda>_. MeCommit) (for_each (\<lambda>(pos, elems). runtime_append mc pos elems) (mc_batches mc (mmr_tree mmr)))) (\<lambda>_.
       ret (mmr_leaves mmr, node_hash mc root))))"

record LeafProof =
  lp_leaf_indices :: "u64 list"
  lp_leaf_count :: u64
  lp_items :: "h256 list"

definition Mmr_generate_proof ::
  "('l, 't) MmrConfig \<Rightarrow> 't Mmr \<Rightarrow> u64 list \<Rightarrow> ('l MmrState, MmrError, 'l list \<times> LeafProof) comp" where
  "Mmr_generate_proof mc mmr leaf_indices =
     (let positions = map (mc_leaf_index_to_pos mc) leaf_indices in
      bindC (collect (\<lambda>pos. bindC (asks (\<lambda>s. offchain_get_elem mc s pos)) (\<lambda>elem.
               case elem of Inr (Some (Data leaf)) \<Rightarrow> ret leaf | _ \<Rightarrow> fail MeLeafNotFound)) positions) (\<lambda>leaves.
      bindC (asks (\<lambda>s. mc_gen_proof mc (offchain_get_elem mc s) (node_merge mc) (mmr_tree mmr) positions)) (\<lambda>p.
      bindC (map_err (\<lambda>_. MeGenerateProof) (propagate p)) (\<lambda>items.
        ret (leaves, \<lparr>lp_leaf_indices = leaf_indices, lp_leaf_count = mmr_leaves mmr, lp_items = map (node_hash mc) items\<rparr>)))))"

definition Mmr_verify_leaves_proof ::
  "('l, 't) MmrConfig \<Rightarrow> 't Mmr \<Rightarrow> 'l list \<Rightarrow> LeafProof \<Rightarrow> ('l MmrState, MmrError, bool) comp" where
  "Mmr_verify_leaves_proof mc mmr leaves pf =
     bindC (ensure (length leaves = length (lp_leaf_indices pf)) MeVerify) (\<lambda>_.
     bindC (asks (\<lambda>s. mc_get_root mc (offchain_get_elem mc s) (node_merge mc) (mmr_tree mmr))) (\<lambda>r.
     bindC (map_err (\<lambda>_. MeGetRoot) (propagate r)) (\<lambda>root.
       map_err (\<lambda>_. MeVerify) (propagate
         (mc_verify mc (node_merge mc) (mc_mmr_size mc (mmr_tree mmr)) (map Hash (lp_items pf)) root
            (zip (map (mc_leaf_index_to_pos mc) (lp_leaf_indices pf)) (map Data leaves)))))))"

text \<open>Stateless verification against a root.\<close>

definition verify_leaves_proof ::
  "('l, 't) MmrConfig \<Rightarrow> h256 \<Rightarrow> 'l DataOrHash list \<Rightarrow> LeafProof \<Rightarrow> MmrError + unit" where
  "verify_leaves_proof mc root leaves pf =
     (if length leaves \<noteq> length (lp_leaf_indices pf) then Inl MeVerify
      else case mc_verify mc (node_merge mc) (mc_size mc (lp_leaf_count pf)) (map Hash (lp_items pf)) (Hash root)
                  (zip (map (mc_leaf_index_to_pos mc) (lp_leaf_indices pf)) leaves) of
        Inl _ \<Rightarrow> Inl MeVerify
      | Inr is_valid \<Rightarrow> if is_valid then Inr () else Inl MeVerify)"

section \<open>The pallet\<close>

definition mmr_on_initialize :: "u32 \<Rightarrow> 'l MmrState \<Rightarrow> 'l MmrState" where
  "mmr_on_initialize block_number s =
     (if ms_NumberOfLeaves s > 0 \<and> ms_InitialHeight s = None
      then s\<lparr>ms_InitialHeight := Some (block_number - 1)\<rparr> else s)"

definition mmr_leaf_count :: "'l MmrState \<Rightarrow> u64" where
  "mmr_leaf_count s = ms_NumberOfLeaves s"

definition mmr_pallet_push :: "('l, 't) MmrConfig \<Rightarrow> 'l \<Rightarrow> 'l MmrState \<Rightarrow> LeafMetadata \<times> 'l MmrState" where
  "mmr_pallet_push mc leaf s =
     (let temp_count = (ucast (ms_IntermediateCount s) :: u64);
          index = ms_NumberOfLeaves s + temp_count;
          s = IntermediateLeaves_insert temp_count leaf s;
          position = mc_leaf_index_to_pos mc index
      in (\<lparr>lm_index = index, lm_position = position\<rparr>, s))"

text \<open>The loop that hands the buffered leaves to the library.\<close>

fun push_buffered :: "('l, 't) MmrConfig \<Rightarrow> u64 list \<Rightarrow> 't Mmr \<Rightarrow> ('l MmrState, MmrError, 't Mmr) comp" where
  "push_buffered mc [] mmr = ret mmr"
| "push_buffered mc (index # rest) mmr =
     bindC (asks (\<lambda>s. ms_IntermediateLeaves s index)) (\<lambda>found.
     bindC (expect found) (\<lambda>leaf.
     bindC (asks (\<lambda>s. Mmr_push mc s leaf mmr)) (\<lambda>pushed.
       case pushed of None \<Rightarrow> fail MePush | Some (position, mmr) \<Rightarrow> push_buffered mc rest mmr)))"

definition mmr_pallet_finalize :: "('l, 't) MmrConfig \<Rightarrow> ('l MmrState, MmrError, h256) comp" where
  "mmr_pallet_finalize mc =
     bindC (asks ms_IntermediateCount) (\<lambda>buffer_len.
       if buffer_len = 0 then asks ms_RootHash
       else
         bindC (asks ms_NumberOfLeaves) (\<lambda>leaves.
         bindC (push_buffered mc (map of_nat [0..<unat buffer_len]) (Mmr_new mc leaves)) (\<lambda>mmr.
         bindC (map_err (\<lambda>_. MeCommit) (Mmr_finalize mc mmr)) (\<lambda>(leaves, root).
         bindC (modify IntermediateLeaves_clear) (\<lambda>_.
         bindC (modify (\<lambda>s. s\<lparr>ms_NumberOfLeaves := leaves, ms_RootHash := root\<rparr>)) (\<lambda>_.
           ret root))))))"

definition mmr_pallet_get_leaf :: "('l, 't) MmrConfig \<Rightarrow> u64 \<Rightarrow> 'l MmrState \<Rightarrow> MmrError + 'l option" where
  "mmr_pallet_get_leaf mc pos s =
     (case offchain_get_elem mc s pos of
        Inl _ \<Rightarrow> Inl MeLeafNotFound
      | Inr (Some (Data leaf)) \<Rightarrow> Inr (Some leaf)
      | Inr _ \<Rightarrow> Inr None)"

definition mmr_pallet_generate_proof :: "('l, 't) MmrConfig \<Rightarrow> u64 list \<Rightarrow> ('l MmrState, MmrError, 'l list \<times> LeafProof) comp" where
  "mmr_pallet_generate_proof mc indices =
     bindC (asks ms_NumberOfLeaves) (\<lambda>leaves_count. Mmr_generate_proof mc (Mmr_new mc leaves_count) indices)"

definition mmr_pallet_verify_leaves :: "('l, 't) MmrConfig \<Rightarrow> 'l list \<Rightarrow> LeafProof \<Rightarrow> ('l MmrState, MmrError, unit) comp" where
  "mmr_pallet_verify_leaves mc leaves pf =
     bindC (asks ms_NumberOfLeaves) (\<lambda>number_of_leaves.
     bindC (ensure (\<not> (lp_leaf_count pf > number_of_leaves \<or> lp_leaf_count pf = 0 \<or>
              (of_nat (length (lp_items pf) + length leaves) :: u64) > lp_leaf_count pf)) MeVerify) (\<lambda>_.
     bindC (Mmr_verify_leaves_proof mc (Mmr_new mc (lp_leaf_count pf)) leaves pf) (\<lambda>is_valid.
       ensure is_valid MeVerify)))"

section \<open>The tree that keeps no nodes\<close>

definition NoOpTree_offchain_key :: "h256 \<Rightarrow> bytes" where
  "NoOpTree_offchain_key commitment = ascii ''no_op'' @ be_bytes 32 commitment"

definition NoOpTree_push :: "('l, 't) MmrConfig \<Rightarrow> 'l \<Rightarrow> 'l MmrState \<Rightarrow> LeafMetadata \<times> 'l MmrState" where
  "NoOpTree_push mc leaf s =
     (let commitment = mc_hash mc (mc_preimage mc leaf) in
      (\<lparr>lm_index = 0, lm_position = 0\<rparr>,
       s\<lparr>ms_offchain_index := (ms_offchain_index s)(NoOpTree_offchain_key commitment \<mapsto> mc_encode_leaf mc leaf)\<rparr>))"

section \<open>Indices within a layer\<close>

fun take_while_vec :: "('a \<Rightarrow> bool) \<Rightarrow> 'a list \<Rightarrow> 'a list \<times> 'a list" where
  "take_while_vec p [] = ([], [])"
| "take_while_vec p (x # xs) = (if p x then (case take_while_vec p xs of (taken, rest) \<Rightarrow> (x # taken, rest)) else ([], x # xs))"

text \<open>The walk from a peak down to a leaf; the helpers of the library give the distances between a node
  and its children by height.\<close>

record MmrHelper =
  mh_get_peaks :: "u64 \<Rightarrow> u64 list"
  mh_pos_height_in_tree :: "u64 \<Rightarrow> u32"
  mh_parent_offset :: "u32 \<Rightarrow> u64"
  mh_sibling_offset :: "u32 \<Rightarrow> u64"

fun k_index_walk :: "MmrHelper \<Rightarrow> u64 \<Rightarrow> u32 list \<Rightarrow> u64 \<Rightarrow> u64 \<Rightarrow> u64" where
  "k_index_walk mh pos [] index parent_pos = index"
| "k_index_walk mh pos (height # heights) index parent_pos =
     (let left_child = parent_pos - mh_parent_offset mh (height - 1);
          right_child = left_child + mh_sibling_offset mh (height - 1);
          index = index * 2 in
      if left_child \<ge> pos then k_index_walk mh pos heights index left_child
      else k_index_walk mh pos heights (index + 1) right_child)"

definition k_index_in_peak :: "MmrHelper \<Rightarrow> u64 \<Rightarrow> u64 \<Rightarrow> u64" where
  "k_index_in_peak mh peak pos =
     k_index_walk mh pos (map of_nat (rev [1..<Suc (unat (mh_pos_height_in_tree mh peak))])) 0 peak"

fun k_indices_of_peaks :: "MmrHelper \<Rightarrow> u64 list \<Rightarrow> u64 list \<Rightarrow> (u64 \<times> u64) list" where
  "k_indices_of_peaks mh [] leaves = []"
| "k_indices_of_peaks mh (peak # peaks) leaves =
     (case take_while_vec (\<lambda>pos. pos \<le> peak) leaves of
        (taken, rest) \<Rightarrow> map (\<lambda>pos. (pos, k_index_in_peak mh peak pos)) taken @ k_indices_of_peaks mh peaks rest)"

definition mmr_position_to_k_index :: "MmrHelper \<Rightarrow> u64 list \<Rightarrow> u64 \<Rightarrow> (u64 \<times> u64) list" where
  "mmr_position_to_k_index mh leaves mmr_size = k_indices_of_peaks mh (mh_get_peaks mh mmr_size) leaves"

end
