(* ===== verification/Mmr_Properties.thy ===== *)
theory Mmr_Properties
  imports Mmr_Pallet Pallet_Ismp
begin

text \<open>
  The tree of outgoing messages: the loop over the peaks ends, the on-chain store holds exactly the
  peaks, the leaves of a block are committed in the order and under the indices in which they were
  pushed, and the k-index of a leaf is its number within its peak.
\<close>

section \<open>A small tree\<close>

text \<open>An executable stand-in for the library, a mountain range of up to two leaves, on which the
  properties are instantiated.\<close>

definition tiny_push :: "'l get_elem \<Rightarrow> 'l merge \<Rightarrow> 'l DataOrHash \<Rightarrow> u64 \<times> 'l DataOrHash list \<Rightarrow> MmrLibError + u64 \<times> u64 \<times> 'l DataOrHash list" where
  "tiny_push get join e tree =
     (if fst tree = 0 then Inr (0, 1, [e])
      else if fst tree = 1 then
        (case (snd tree, get 0) of
           (left # _, _) \<Rightarrow> Inr (1, 3, snd tree @ [e, join left e])
         | ([], Inr (Some left)) \<Rightarrow> Inr (1, 3, [e, join left e])
         | _ \<Rightarrow> Inl InconsistentStore)
      else Inl InconsistentStore)"

definition tiny_mmr :: "('l \<Rightarrow> bytes) \<Rightarrow> (bytes \<Rightarrow> h256) \<Rightarrow> ('l, u64 \<times> 'l DataOrHash list) MmrConfig" where
  "tiny_mmr preimage hash =
     \<lparr>mc_preimage = preimage, mc_hash = hash, mc_encode_node = (\<lambda>_. []), mc_decode_node = (\<lambda>_. None),
      mc_encode_leaf = preimage, mc_temp_key = (\<lambda>p f. be_bytes 8 p), mc_canon_key = (\<lambda>p. be_bytes 8 p), mc_fork_identifier = 0,
      mc_size = (\<lambda>n. if n < 2 then n else 3), mc_leaf_index_to_pos = (\<lambda>i. i),
      mc_get_peaks = (\<lambda>n. if n = 1 then [0] else if n = 3 then [2] else []),
      mc_new = (\<lambda>size. (size, [])), mc_mmr_size = fst, mc_push = tiny_push,
      mc_get_root = (\<lambda>get join tree. case snd tree of [] \<Rightarrow> Inl InconsistentStore | _ \<Rightarrow> Inr (last (snd tree))),
      mc_batches = (\<lambda>tree. [(fst tree - of_nat (length (snd tree)), snd tree)]),
      mc_gen_proof = (\<lambda>_ _ _ _. Inr []), mc_verify = (\<lambda>_ _ _ _ _. Inr False)\<rparr>"

definition empty_mmr :: "'l MmrState" where
  "empty_mmr = \<lparr>ms_RootHash = 0, ms_NumberOfLeaves = 0, ms_InitialHeight = None, ms_IntermediateLeaves = (\<lambda>_. None),
     ms_IntermediateCount = 0, ms_Nodes = (\<lambda>_. None), ms_offchain_index = (\<lambda>_. None), ms_offchain_db = (\<lambda>_. None)\<rparr>"

abbreviation sum_mmr :: "(u64, u64 \<times> u64 DataOrHash list) MmrConfig" where
  "sum_mmr \<equiv> tiny_mmr (be_bytes 8) (\<lambda>bs. ucast (sum_list bs))"

section \<open>The loop over the peaks\<close>

lemma peek_simps [simp]: "peek [] = None" "peek (x # xs) = Some x"
  by (simp_all add: peek_def)

lemma peek_eq: "peek xs = peek ys \<Longrightarrow> xs = [] \<and> ys = [] \<or> (\<exists>x us vs. xs = x # us \<and> ys = x # vs)"
  by (cases xs; cases ys) auto

lemma skip_common_split:
  "skip_common before after = Some r \<Longrightarrow>
     \<exists>common. before = common @ fst r \<and> after = common @ snd r \<and> peek (fst r) \<noteq> peek (snd r)"
proof (induction rule: skip_common.raw_induct [rotated, consumes 1, case_names 1])
  case (1 f before after r)
  show ?case
  proof (cases "peek before = peek after")
    case False
    with 1(2) show ?thesis by (intro exI [of _ "[]"]) auto
  next
    case True
    with 1(2) have "f (tl before) (tl after) = Some r" by simp
    from 1(1) [OF this] obtain common where
      c: "tl before = common @ fst r" "tl after = common @ snd r" "peek (fst r) \<noteq> peek (snd r)" by auto
    from peek_eq [OF True] c show ?thesis
    proof (elim disjE exE conjE)
      fix x us vs assume "before = x # us" "after = x # vs"
      with c show ?thesis by (intro exI [of _ "x # common"]) simp
    qed simp
  qed
qed

lemmas skip_common_Some = skip_common_split [of _ _ "(prune, store)" for prune store, unfolded fst_conv snd_conv]

lemma skip_common_total:
  assumes "before \<noteq> after"
  shows "\<exists>prune store. skip_common before after = Some (prune, store)"
  using assms
proof (induction before after rule: list_induct2')
  case (4 x xs y ys)
  show ?case
  proof (cases "x = y")
    case True
    with 4 show ?thesis by (subst skip_common.simps) auto
  qed (subst skip_common.simps, simp)
qed (subst skip_common.simps, simp)+

lemma skip_common_iff: "(\<exists>r. skip_common before after = Some r) \<longleftrightarrow> before \<noteq> after"
  using skip_common_total skip_common_Some by fastforce

section \<open>Appending to the on-chain store\<close>

definition prune :: "u64 list \<Rightarrow> 'l MmrState \<Rightarrow> 'l MmrState" where
  "prune peaks s = foldl (\<lambda>s pos. s\<lparr>ms_Nodes := (ms_Nodes s)(pos := None)\<rparr>) s peaks"

lemma prune_effect:
  "ms_Nodes (prune peaks s) = (\<lambda>p. if p \<in> set peaks then None else ms_Nodes s p)"
  "ms_NumberOfLeaves (prune peaks s) = ms_NumberOfLeaves s"
  unfolding prune_def by (induction peaks arbitrary: s) (auto simp: fun_eq_iff)

lemma runtime_append_run:
  assumes "elems \<noteq> []" and "pos = mc_size mc (ms_NumberOfLeaves s)"
  shows "runtime_append mc pos elems s =
    (case skip_common (peaks_before mc pos) (mc_get_peaks mc (pos + of_nat (length elems))) of
       None \<Rightarrow> (Panic, s)
     | Some (old, new) \<Rightarrow> (case store_elems mc elems new pos (ms_NumberOfLeaves s) s of
         (n, t) \<Rightarrow> (Ok (), prune old (t\<lparr>ms_NumberOfLeaves := n\<rparr>))))"
  using assms unfolding runtime_append_def peaks_to_prune_and_store_def prune_def
  by (simp add: comp_app Let_def split: option.split prod.split)

lemma append_returns_iff:
  assumes "pos = mc_size mc (ms_NumberOfLeaves s)"
  shows "(\<exists>s'. runtime_append mc pos elems s = (Ok (), s')) \<longleftrightarrow>
    elems = [] \<or> peaks_before mc pos \<noteq> mc_get_peaks mc (pos + of_nat (length elems))"
proof (cases "elems = []")
  case True
  then show ?thesis by (simp add: runtime_append_def comp_app)
next
  case False
  show ?thesis
    unfolding runtime_append_run [OF False assms]
    using skip_common_iff [of "peaks_before mc pos" "mc_get_peaks mc (pos + of_nat (length elems))"] False
    by (auto split: option.split prod.split)
qed

text \<open>C32: appending nodes to the on-chain store returns exactly when there is no node to append, where the
  loop over the old and the new peaks is not entered, or when the peaks before and after differ: the
  loop that skips the common peaks runs forever only on two equal lists.\<close>

theorem append_returns:
  assumes "pos = mc_size mc (ms_NumberOfLeaves s)"
  shows "(\<exists>s'. runtime_append mc pos elems s = (Ok (), s')) \<longleftrightarrow>
    elems = [] \<or> peaks_before mc pos \<noteq> mc_get_peaks mc (pos + of_nat (length elems))"
  by (rule append_returns_iff [OF assms])

theorem append_returns_witness:
  "\<exists>s'. runtime_append sum_mmr 0 [Data 5] empty_mmr = (Ok (), s')"
  using append_returns [of 0 sum_mmr empty_mmr "[Data 5]"]
  by (simp add: tiny_mmr_def empty_mmr_def peaks_before_def)

text \<open>What the library promises of the peaks of two sizes of a mountain range: both lists ascend and lie
  within their sizes, and the peaks that are not shared from the left on are new nodes.\<close>

definition peaks_grow :: "u64 list \<Rightarrow> u64 list \<Rightarrow> u64 \<Rightarrow> u64 \<Rightarrow> bool" where
  "peaks_grow old new old_size new_size \<longleftrightarrow>
     sorted_wrt (<) old \<and> sorted_wrt (<) new \<and> (\<forall>p \<in> set old. p < old_size) \<and> (\<forall>p \<in> set new. p < new_size) \<and>
     (\<forall>p \<in> set (drop (length (takeWhile (\<lambda>(a, b). a = b) (zip old new))) new). old_size \<le> p)"

lemma common_prefix_length:
  "peek xs \<noteq> peek ys \<Longrightarrow> length (takeWhile (\<lambda>(a, b). a = b) (zip (common @ xs) (common @ ys))) = length common"
  by (induction common) (cases xs; cases ys; simp)+

lemma store_elems_effect:
  assumes "sorted_wrt (<) peaks" and "unat node_index + length elems < 2 ^ 64"
    and "\<And>p. p \<in> set peaks \<Longrightarrow> node_index \<le> p \<and> unat p < unat node_index + length elems"
    and "store_elems mc elems peaks node_index n s = (m, t)"
  shows "ms_Nodes t = (\<lambda>p. if p \<in> set peaks then Some (node_hash mc (elems ! (unat p - unat node_index))) else ms_Nodes s p) \<and>
    m = n + of_nat (length (filter (\<lambda>e. \<exists>leaf. e = Data leaf) elems))"
  using assms
proof (induction elems arbitrary: peaks node_index n s)
  case Nil
  have "peaks = []" using Nil.prems(3) [of "hd peaks"] by (cases peaks) (auto simp: word_le_nat_alt)
  with Nil.prems(4) show ?case by simp
next
  case (Cons e elems)
  define u where "u = (if peek peaks = Some node_index then s\<lparr>ms_Nodes := (ms_Nodes s)(node_index \<mapsto> node_hash mc e)\<rparr> else s)"
  define ps where "ps = (if peek peaks = Some node_index then tl peaks else peaks)"
  define n' where "n' = (case e of Data _ \<Rightarrow> n + 1 | Hash _ \<Rightarrow> n)"
  have run: "store_elems mc elems ps (node_index + 1) n' (store_to_offchain mc node_index (mc_fork_identifier mc) e u) = (m, t)"
    using Cons.prems(4) by (simp add: u_def ps_def n'_def split: if_splits)
  have succ: "unat (node_index + 1) = Suc (unat node_index)"
    using Cons.prems(2) by (simp add: unat_word_ariths)
  have sorted: "sorted_wrt (<) ps" using Cons.prems(1) by (cases peaks) (simp_all add: ps_def)
  have later: "node_index < p" if "p \<in> set ps" for p
  proof (cases "peek peaks = Some node_index")
    case True
    with that Cons.prems(1) show ?thesis by (cases peaks) (simp_all add: ps_def)
  next
    case False
    with that have p: "p \<in> set peaks" by (simp add: ps_def)
    have "p \<noteq> node_index"
    proof
      assume "p = node_index"
      with p False obtain q rest where "peaks = q # rest" "p \<in> set rest" by (cases peaks) auto
      with Cons.prems(1) Cons.prems(3) [of q] \<open>p = node_index\<close> show False by fastforce
    qed
    with Cons.prems(3) [OF p] show ?thesis by auto
  qed
  have range: "node_index + 1 \<le> p \<and> unat p < unat (node_index + 1) + length elems" if "p \<in> set ps" for p
  proof -
    have "p \<in> set peaks" using that by (cases peaks) (simp_all add: ps_def split: if_splits)
    from Cons.prems(3) [OF this] later [OF that] succ show ?thesis
      by (simp add: word_le_nat_alt word_less_nat_alt)
  qed
  have len: "unat (node_index + 1) + length elems < 2 ^ 64" using Cons.prems(2) succ by simp
  note IH = Cons.IH [OF sorted len range run]
  have "ms_Nodes t p = (if p \<in> set peaks then Some (node_hash mc ((e # elems) ! (unat p - unat node_index))) else ms_Nodes s p)" for p
  proof (cases "p \<in> set ps")
    case True
    then have "p \<in> set peaks" by (cases peaks) (simp_all add: ps_def split: if_splits)
    moreover have "unat p - unat node_index = Suc (unat p - Suc (unat node_index))"
      using later [OF True] by (simp add: word_less_nat_alt)
    ultimately show ?thesis using IH True succ by simp
  next
    case False
    show ?thesis
    proof (cases "p = node_index \<and> peek peaks = Some node_index")
      case True
      then have "p \<in> set peaks" by (cases peaks) simp_all
      with True False IH show ?thesis by (simp add: u_def store_to_offchain_def)
    next
      case nothere: False
      with False have "p \<notin> set peaks" by (cases peaks) (auto simp: ps_def split: if_splits)
      with nothere False IH show ?thesis by (auto simp: u_def store_to_offchain_def)
    qed
  qed
  moreover from IH have "m = n + of_nat (length (filter (\<lambda>e. \<exists>leaf. e = Data leaf) (e # elems)))"
    by (cases e) (simp_all add: n'_def)
  ultimately show ?case by blast
qed

text \<open>C30: the on-chain store holds exactly the peaks of the tree. If it did before nodes are appended, it does
  afterwards: peaks that stay keep their hash, every new peak has the hash of the appended node at its
  position, and no other node is left; the number of leaves grows by the leaves among the nodes.\<close>

theorem append_keeps_peaks:
  assumes "runtime_append mc pos elems s = (Ok (), s')" and "elems \<noteq> []"
    and "dom (ms_Nodes s) = set (peaks_before mc pos)" and "unat pos + length elems < 2 ^ 64"
    and "new_size = pos + of_nat (length elems)"
    and "peaks_grow (peaks_before mc pos) (mc_get_peaks mc new_size) pos new_size"
  shows "dom (ms_Nodes s') = set (mc_get_peaks mc new_size) \<and>
    (\<forall>p \<in> set (mc_get_peaks mc new_size).
       ms_Nodes s' p = (if p < pos then ms_Nodes s p else Some (node_hash mc (elems ! (unat p - unat pos))))) \<and>
    ms_NumberOfLeaves s' = ms_NumberOfLeaves s + of_nat (length (filter (\<lambda>e. \<exists>leaf. e = Data leaf) elems))"
proof -
  from assms(1,2) have pos: "pos = mc_size mc (ms_NumberOfLeaves s)"
    unfolding runtime_append_def by (auto simp: comp_ok Let_def)
  from assms(1) obtain old new n t where
    skip: "skip_common (peaks_before mc pos) (mc_get_peaks mc new_size) = Some (old, new)" and
    store: "store_elems mc elems new pos (ms_NumberOfLeaves s) s = (n, t)" and
    s': "s' = prune old (t\<lparr>ms_NumberOfLeaves := n\<rparr>)"
    unfolding runtime_append_run [OF assms(2) pos] assms(5) by (auto split: option.splits prod.splits)
  from skip_common_Some [OF skip] obtain common where
    b: "peaks_before mc pos = common @ old" and a: "mc_get_peaks mc new_size = common @ new" and d: "peek old \<noteq> peek new" by blast
  from assms(6) have sorted: "sorted_wrt (<) (common @ old)" "sorted_wrt (<) (common @ new)" and
    low: "\<And>p. p \<in> set (common @ old) \<Longrightarrow> p < pos" and high: "\<And>p. p \<in> set new \<Longrightarrow> pos \<le> p" and
    top: "\<And>p. p \<in> set new \<Longrightarrow> p < new_size"
    unfolding peaks_grow_def a b common_prefix_length [OF d] by simp_all
  have size: "unat new_size = unat pos + length elems"
    using assms(4) unfolding assms(5) by (simp add: unat_word_ariths unat_of_nat)
  have range: "pos \<le> p \<and> unat p < unat pos + length elems" if "p \<in> set new" for p
    using high [OF that] top [OF that] size by (simp add: word_less_nat_alt)
  have "sorted_wrt (<) new" using sorted(2) by (simp add: sorted_wrt_append)
  note eff = store_elems_effect [OF this assms(4) range store]
  have disjoint: "p \<notin> set old" if "p \<in> set (common @ new)" for p
  proof
    assume "p \<in> set old"
    with low that high have "p \<in> set common" by fastforce
    with sorted(1) \<open>p \<in> set old\<close> show False by (fastforce simp: sorted_wrt_append)
  qed
  have nodes: "ms_Nodes s' p = (if p \<in> set old then None
      else if p \<in> set new then Some (node_hash mc (elems ! (unat p - unat pos))) else ms_Nodes s p)" for p
    unfolding s' using eff by (simp add: prune_effect)
  have before: "ms_Nodes s p \<noteq> None \<longleftrightarrow> p \<in> set (common @ old)" for p
    using assms(3) unfolding b by blast
  have "p \<in> dom (ms_Nodes s') \<longleftrightarrow> p \<in> set (common @ new)" for p
    using nodes [of p] before [of p] disjoint [of p] by (auto split: if_splits)
  then have "dom (ms_Nodes s') = set (mc_get_peaks mc new_size)" unfolding a by blast
  moreover have "ms_Nodes s' p = (if p < pos then ms_Nodes s p else Some (node_hash mc (elems ! (unat p - unat pos))))"
    if "p \<in> set (mc_get_peaks mc new_size)" for p
  proof (cases "p \<in> set new")
    case True
    from high [OF True] have "\<not> p < pos" by simp
    with True nodes [of p] disjoint [of p] show ?thesis by simp
  next
    case False
    with that have "p \<in> set common" unfolding a by simp
    with low [of p] nodes [of p] disjoint [of p] False show ?thesis by simp
  qed
  moreover have "ms_NumberOfLeaves s' = ms_NumberOfLeaves s + of_nat (length (filter (\<lambda>e. \<exists>leaf. e = Data leaf) elems))"
    unfolding s' using eff by (simp add: prune_effect)
  ultimately show ?thesis by blast
qed

theorem append_keeps_peaks_witness:
  "\<exists>s'. runtime_append sum_mmr 0 [Data 5, Data 6, Hash 9] empty_mmr = (Ok (), s') \<and> dom (ms_Nodes s') = {2} \<and>
     ms_NumberOfLeaves s' = 2"
proof -
  obtain s' where run: "runtime_append sum_mmr 0 [Data 5, Data 6, Hash 9] empty_mmr = (Ok (), s')"
    using append_returns_iff [of 0 sum_mmr empty_mmr "[Data 5, Data 6, Hash 9]"]
    by (auto simp: tiny_mmr_def empty_mmr_def peaks_before_def)
  from append_keeps_peaks [OF run, of 3] have "dom (ms_Nodes s') = {2} \<and> ms_NumberOfLeaves s' = 2"
    by (simp add: tiny_mmr_def empty_mmr_def peaks_before_def peaks_grow_def)
  with run show ?thesis by blast
qed

section \<open>The leaves of a block\<close>



definition buffered :: "'l list \<Rightarrow> 'l MmrState \<Rightarrow> bool" where
  "buffered leaves s \<longleftrightarrow> length leaves < 2 ^ 32 \<and> ms_IntermediateCount s = of_nat (length leaves) \<and>
     ms_IntermediateLeaves s = (\<lambda>k. if unat k < length leaves then Some (leaves ! unat k) else None)"

lemma push_buffered_leaf:
  assumes "buffered leaves s" and "length leaves + 1 < 2 ^ 32" and "mmr_pallet_push mc leaf s = (meta, s')"
  shows "buffered (leaves @ [leaf]) s' \<and> ms_NumberOfLeaves s' = ms_NumberOfLeaves s \<and> ms_Nodes s' = ms_Nodes s \<and>
    lm_index meta = ms_NumberOfLeaves s + of_nat (length leaves) \<and>
    lm_position meta = mc_leaf_index_to_pos mc (lm_index meta)"
proof -
  let ?k = "of_nat (length leaves) :: u64"
  have k: "ucast (ms_IntermediateCount s) = ?k"
    using assms(1,2) by (simp add: buffered_def word_unat_eq_iff unsigned_ucast_eq unat_of_nat take_bit_eq_mod)
  have unat_k: "unat ?k = length leaves" using assms(2) by (simp add: unat_of_nat)
  have free: "ms_IntermediateLeaves s ?k = None" using assms(1) unat_k by (simp add: buffered_def)
  have count: "ms_IntermediateCount s \<noteq> 4294967295"
    using assms(1,2) by (auto simp: buffered_def word_unat_eq_iff unat_of_nat)
  have leaf_at: "(ms_IntermediateLeaves s)(?k \<mapsto> leaf) =
      (\<lambda>i. if unat i < Suc (length leaves) then Some ((leaves @ [leaf]) ! unat i) else None)"
  proof
    fix i :: u64
    have "i = ?k \<longleftrightarrow> unat i = length leaves" using unat_k by (auto simp: word_unat_eq_iff)
    then show "((ms_IntermediateLeaves s)(?k \<mapsto> leaf)) i =
        (if unat i < Suc (length leaves) then Some ((leaves @ [leaf]) ! unat i) else None)"
      using assms(1) by (auto simp: buffered_def nth_append less_Suc_eq)
  qed
  from assms(3) have s': "s' = IntermediateLeaves_insert ?k leaf s" and
    meta: "meta = \<lparr>lm_index = ms_NumberOfLeaves s + ?k, lm_position = mc_leaf_index_to_pos mc (ms_NumberOfLeaves s + ?k)\<rparr>"
    unfolding mmr_pallet_push_def k by (auto simp: Let_def)
  show ?thesis
    unfolding s' meta using assms(1,2) free count leaf_at
    by (simp add: IntermediateLeaves_insert_def buffered_def)
qed






section \<open>k-indices\<close>

text \<open>In a perfect tree of height \<open>h\<close> numbered in post-order with its root at \<open>root\<close>, the position of the
  \<open>j\<close>-th leaf from the left.\<close>

fun leaf_position :: "nat \<Rightarrow> nat \<Rightarrow> nat \<Rightarrow> nat" where
  "leaf_position 0 root j = root"
| "leaf_position (Suc h) root j =
     (if j < 2 ^ h then leaf_position h (root - 2 ^ (h + 1)) j else leaf_position h (root - 1) (j - 2 ^ h))"

lemma leaf_position_bounds:
  assumes "2 ^ (h + 1) \<le> root + 2" and "j < 2 ^ h"
  shows "root + 2 \<le> leaf_position h root j + 2 ^ (h + 1) \<and> leaf_position h root j \<le> root"
  using assms
proof (induction h arbitrary: root j)
  case (Suc h)
  have one: "1 \<le> (2 :: nat) ^ h" by simp
  show ?case
  proof (cases "j < 2 ^ h")
    case True
    from Suc.prems have "2 ^ (h + 1) \<le> root - 2 ^ (h + 1) + 2" by simp
    from Suc.IH [OF this True] Suc.prems True one show ?thesis by simp linarith
  next
    case False
    from Suc.prems have "2 ^ (h + 1) \<le> root - 1 + 2" and "j - 2 ^ h < 2 ^ h" using False by simp_all
    from Suc.IH [OF this] Suc.prems False one show ?thesis by simp linarith
  qed
qed simp

text \<open>The distances between a node and its children in post-order, as the library documents its helpers.\<close>

definition post_order_offsets :: "MmrHelper \<Rightarrow> bool" where
  "post_order_offsets mh \<longleftrightarrow>
     (\<forall>h < 63. mh_parent_offset mh (of_nat h) = 2 ^ (h + 1) \<and> mh_sibling_offset mh (of_nat h) = 2 ^ (h + 1) - 1)"

lemma unat_pow2: "k < 64 \<Longrightarrow> unat (2 ^ k :: u64) = 2 ^ k"
  using unat_of_nat [of "2 ^ k", where 'a = 64] power_strict_increasing [of k 64 "2 :: nat"] by simp

lemma unat_of_nat_below: "p \<le> unat (w :: u64) \<Longrightarrow> unat (of_nat p :: u64) = p"
  using unsigned_less [of w, where ?'a = nat] by (simp add: unat_of_nat)

lemma k_index_walk_leaf:
  assumes "post_order_offsets mh" and "h < 63" and "2 ^ (h + 1) \<le> unat root + 2" and "j < 2 ^ h"
  shows "k_index_walk mh (of_nat (leaf_position h (unat root) j)) (map of_nat (rev [1..<Suc h])) index root =
    index * 2 ^ h + of_nat j"
  using assms(2-)
proof (induction h arbitrary: root j index)
  case 0
  then show ?case by simp
next
  case (Suc h)
  have heights: "map of_nat (rev [1..<Suc (Suc h)]) = (of_nat (Suc h) :: u32) # map of_nat (rev [1..<Suc h])" by simp
  have below: "(of_nat (Suc h) :: u32) - 1 = of_nat h" by simp
  from assms(1) Suc.prems(1) have off: "mh_parent_offset mh (of_nat h) = 2 ^ (h + 1)" "mh_sibling_offset mh (of_nat h) = 2 ^ (h + 1) - 1"
    by (simp_all add: post_order_offsets_def)
  let ?left = "root - 2 ^ (h + 1) :: u64"
  have pow: "unat (2 ^ (h + 1) :: u64) = 2 ^ (h + 1)" by (rule unat_pow2) (use Suc.prems(1) in simp)
  have pos: "1 \<le> (2 :: nat) ^ h" by simp
  then have big: "(2 :: nat) ^ (h + 1) \<le> unat root" and one: "1 \<le> unat root" using Suc.prems(2) by (simp_all, linarith+)
  have left: "unat ?left = unat root - 2 ^ (h + 1)"
    using big pow by (simp add: unat_sub word_le_nat_alt)
  have right: "?left + (2 ^ (h + 1) - 1) = root - 1" "unat (root - 1) = unat root - 1"
    using one by (simp_all add: unat_sub word_le_nat_alt)
  let ?p = "leaf_position (Suc h) (unat root) j"
  have p: "unat (of_nat ?p :: u64) = ?p"
    by (rule unat_of_nat_below [OF conjunct2 [OF leaf_position_bounds [OF Suc.prems(2,3)]]])
  show ?case
  proof (cases "j < 2 ^ h")
    case True
    have fits: "2 ^ (h + 1) \<le> unat ?left + 2" using Suc.prems(2) left by simp
    from leaf_position_bounds [OF fits True] have "(of_nat ?p :: u64) \<le> ?left"
      using p True left by (simp add: word_le_nat_alt)
    then show ?thesis
      unfolding heights k_index_walk.simps Let_def below off
      using Suc.IH [OF _ fits True] Suc.prems(1) True left by (simp add: mult.assoc)
  next
    case False
    have fits: "2 ^ (h + 1) \<le> unat (root - 1) + 2" and j: "j - 2 ^ h < 2 ^ h"
      using Suc.prems(2,3) right(2) False by simp_all
    from leaf_position_bounds [OF fits j] have "\<not> (of_nat ?p :: u64) \<le> ?left"
      using p False left right(2) big one by (simp add: word_le_nat_alt) linarith
    moreover have "(index * 2 + 1) * 2 ^ h + of_nat (j - 2 ^ h) = index * 2 ^ Suc h + (of_nat j :: u64)"
      using False by (simp add: of_nat_diff algebra_simps)
    ultimately show ?thesis
      unfolding heights k_index_walk.simps Let_def below off right(1)
      using Suc.IH [OF _ fits j] Suc.prems(1) False right(2) by (simp add: mult.assoc)
  qed
qed

lemma take_while_vec_split: "take_while_vec p xs = (takeWhile p xs, dropWhile p xs)"
  by (induction xs) auto

lemma takeWhile_sorted:
  fixes x :: "'a::linorder"
  assumes "sorted xs" and "x \<in> set xs" and "x \<le> y"
  shows "x \<in> set (takeWhile (\<lambda>z. z \<le> y) xs)"
  using assms by (induction xs) auto

lemma k_indices_of_peaks_in:
  assumes "sorted leaves" and "pos \<in> set leaves" and "\<forall>q \<in> set before. q < pos" and "pos \<le> peak"
  shows "(pos, k_index_in_peak mh peak pos) \<in> set (k_indices_of_peaks mh (before @ peak # after) leaves)"
  using assms
proof (induction before arbitrary: leaves)
  case Nil
  with takeWhile_sorted [of leaves pos peak] show ?case by (simp add: take_while_vec_split)
next
  case (Cons q qs)
  have "pos \<in> set (dropWhile (\<lambda>z. z \<le> q) leaves)"
  proof (rule ccontr)
    assume "pos \<notin> set (dropWhile (\<lambda>z. z \<le> q) leaves)"
    with Cons.prems(2) have "pos \<in> set (takeWhile (\<lambda>z. z \<le> q) leaves)"
      by (metis Un_iff set_append takeWhile_dropWhile_id)
    with Cons.prems(3) show False by (auto dest: set_takeWhileD)
  qed
  with Cons.IH [OF sorted_dropWhile [OF Cons.prems(1)] this] Cons.prems show ?case
    by (simp add: take_while_vec_split)
qed

text \<open>The k-index that is computed for the position of a leaf is the number of the leaf within the
  perfect tree below its peak, for every leaf, every height of the tree and every number of other
  leaves asked for at the same time.\<close>

theorem k_index_of_leaf:
  assumes "post_order_offsets mh" and "mh_get_peaks mh mmr_size = before @ peak # after"
    and "sorted leaves" and "pos \<in> set leaves" and "\<forall>q \<in> set before. q < pos"
    and "h = unat (mh_pos_height_in_tree mh peak)" and "h < 63" and "2 ^ (h + 1) \<le> unat peak + 2"
    and "j < 2 ^ h" and "pos = of_nat (leaf_position h (unat peak) j)"
  shows "(pos, of_nat j) \<in> set (mmr_position_to_k_index mh leaves mmr_size)"
proof -
  have "leaf_position h (unat peak) j \<le> unat peak" using leaf_position_bounds [OF assms(8,9)] by simp
  then have "pos \<le> peak" using unat_of_nat_below assms(10) by (simp add: word_le_nat_alt)
  from k_indices_of_peaks_in [OF assms(3-5) this, of mh after] k_index_walk_leaf [OF assms(1,7-9), of 0]
  show ?thesis
    unfolding mmr_position_to_k_index_def assms(2) k_index_in_peak_def assms(6) [symmetric] assms(10) by simp
qed

definition shift_helper :: MmrHelper where
  "shift_helper = \<lparr>mh_get_peaks = (\<lambda>n. if n = 7 then [6] else []), mh_pos_height_in_tree = (\<lambda>p. if p = 6 then 2 else 0),
     mh_parent_offset = (\<lambda>h. push_bit (unat h) 2), mh_sibling_offset = (\<lambda>h. push_bit (unat h) 2 - 1)\<rparr>"

theorem k_index_of_leaf_witness: "(4, 3) \<in> set (mmr_position_to_k_index shift_helper [0, 4] 7)"
proof -
  have "post_order_offsets shift_helper"
    by (simp add: post_order_offsets_def shift_helper_def unat_of_nat push_bit_eq_mult)
  from k_index_of_leaf [OF this, of 7 "[]" 6 "[]" "[0, 4]" 4 "Suc (Suc 0)" 3] show ?thesis by (simp add: shift_helper_def)
qed

section \<open>Dispatched messages\<close>

text \<open>Where pallet-ismp is configured with this tree, a dispatched request becomes the next leaf of the
  block: the index recorded with its commitment is the one its place in the buffer stands for, and the
  hash of the leaf, which is what proofs of membership are about, is the commitment of the request.\<close>

theorem dispatched_request_is_leaf:
  assumes "pallet_dispatch_request cfg r fee s = (Ok c, s')"
    and "\<And>leaf x. cf_mmr_push cfg leaf x = (case mmr_pallet_push mc leaf (tree_of x) of (k, m) \<Rightarrow> (k, with_tree m x))"
    and "\<And>m x. tree_of (with_tree m x) = m"
    and "\<And>leaf b. Leaf_preimage leaf = Some b \<Longrightarrow> mc_preimage mc leaf = b" and "mc_hash mc = cf_keccak256 cfg"
    and "buffered leaves (tree_of (env s))" and "length leaves + 1 < 2 ^ 32"
  shows "buffered (leaves @ [LeafRequest r]) (tree_of (env s')) \<and>
    (\<exists>m. RequestCommitments_get c s' = Some m \<and>
       leaf_index (rm_mmr m) = ms_NumberOfLeaves (tree_of (env s)) + of_nat (length leaves) \<and>
       leaf_pos (rm_mmr m) = mc_leaf_index_to_pos mc (leaf_index (rm_mmr m))) \<and>
    node_hash mc (Data (LeafRequest r)) = c"
proof -
  obtain k m where push: "mmr_pallet_push mc (LeafRequest r) (tree_of (env s)) = (k, m)" by fastforce
  note dr = pallet_dispatch_request_Ok [OF assms(1)]
  from dr(3) push assms(2) have s': "s' = RequestCommitments_insert c
      \<lparr>rm_mmr = leaf_index_and_pos k, rm_fee = fee, rm_claimed = False\<rparr>
      (s\<lparr>env := with_tree m (env s), events := events s @ [PeRequest (Request_dest_chain r) (Request_source_chain r) (Request_nonce r) c]\<rparr>)"
    by auto
  from dr(1) obtain b where "Request_encode r = Some b" "c = cf_keccak256 cfg b" by (auto simp: hash_request_def)
  with assms(4) [of "LeafRequest r"] assms(5) have "node_hash mc (Data (LeafRequest r)) = c" by simp
  moreover from push_buffered_leaf [OF assms(6,7) push] s' assms(3) have
    "buffered (leaves @ [LeafRequest r]) (tree_of (env s'))" by (simp add: RequestCommitments_insert_def child_put_def)
  moreover from push_buffered_leaf [OF assms(6,7) push] s' have
    "RequestCommitments_get c s' = Some \<lparr>rm_mmr = leaf_index_and_pos k, rm_fee = fee, rm_claimed = False\<rparr>"
    "leaf_index (leaf_index_and_pos k) = ms_NumberOfLeaves (tree_of (env s)) + of_nat (length leaves)"
    "leaf_pos (leaf_index_and_pos k) = mc_leaf_index_to_pos mc (leaf_index (leaf_index_and_pos k))"
    by (simp_all add: leaf_index_and_pos_def child_trie_defs)
  ultimately show ?thesis by auto
qed

definition leaf_mmr :: "(Leaf, u64 \<times> Leaf DataOrHash list) MmrConfig" where
  "leaf_mmr = tiny_mmr (\<lambda>leaf. case Leaf_preimage leaf of Some b \<Rightarrow> b | None \<Rightarrow> []) (\<lambda>bs. ucast (sum_list bs))"

definition tree_cfg :: "(Leaf MmrState, unit) Config" where
  "tree_cfg =
     \<lparr>cf_keccak256 = (\<lambda>bs. ucast (sum_list bs)), cf_host_state_machine = Polkadot 1, cf_coprocessor = None,
      cf_encode_height = (\<lambda>_. []), cf_encode_meta = (\<lambda>_. []), cf_decode_meta = (\<lambda>_. None),
      cf_transfer = (\<lambda>_ _ _. ret ()), cf_fee_account = 1, cf_mmr_push = mmr_pallet_push leaf_mmr,
      cf_mmr_finalize = (\<lambda>x. (Inr 0, x)), cf_child_root = (\<lambda>t. 0), cf_deposit_digest = (\<lambda>a b x. x),
      cf_consensus_clients = [], cf_router = (\<lambda>i s. Err (AnyMsg i)), cf_error_to_string = (\<lambda>e. []),
      cf_admin_origin = (\<lambda>_. False), cf_encode_hashes = (\<lambda>hs. []), cf_mmr_get_leaf = (\<lambda>p x. Inr None),
      cf_mmr_generate_proof = (\<lambda>is x. Inl []), cf_offchain_get = (\<lambda>c x. None), cf_decode_leaf = (\<lambda>b. None)\<rparr>"

definition tree_state :: "(Leaf MmrState, unit) st" where
  "tree_state =
     \<lparr>child_trie = (\<lambda>_. None), state_commitments = (\<lambda>_. None), consensus_states = (\<lambda>_. None),
      consensus_state_client = (\<lambda>_. None), unbonding_periods = (\<lambda>_. None), challenge_periods = (\<lambda>_. None),
      frozen_clients = (\<lambda>_. False), latest_heights = (\<lambda>_. None), consensus_update_times = (\<lambda>_. None),
      state_machine_update_times = (\<lambda>_. None), responded = (\<lambda>_. None), nonce = 0, child_trie_root = 0,
      events = [], now = 0, env = empty_mmr\<rparr>"

definition tree_request :: Request where
  "tree_request = ReqPost \<lparr>pr_source = Polkadot 1, pr_dest = Evm 1, pr_nonce = 0, pr_from = [1], pr_to = [2],
     pr_timeout_timestamp = 0, pr_body = []\<rparr>"

lemma tree_dispatch_run: "succeeds (pallet_dispatch_request tree_cfg tree_request \<lparr>fee_payer = 1, fee_fee = 0\<rparr>) tree_state"
  by (simp add: succeeds_def pallet_dispatch_request_def tree_cfg_def tree_state_def tree_request_def comp_app mmr_push_run
      hash_request_def option_cat_def deposit_event_def RequestCommitments_contains_key_def mmr_pallet_push_def Let_def
      split: prod.split)

theorem dispatched_request_is_leaf_witness:
  "\<exists>s'. s' = snd (pallet_dispatch_request tree_cfg tree_request \<lparr>fee_payer = 1, fee_fee = 0\<rparr> tree_state) \<and>
     buffered [LeafRequest tree_request] (env s')"
proof -
  obtain c s' where run: "pallet_dispatch_request tree_cfg tree_request \<lparr>fee_payer = 1, fee_fee = 0\<rparr> tree_state = (Ok c, s')"
    using succeeds_run [OF tree_dispatch_run] by blast
  have "buffered [] (env tree_state)" by (simp add: tree_state_def empty_mmr_def buffered_def)
  with dispatched_request_is_leaf [OF run, where mc = leaf_mmr and tree_of = "\<lambda>x. x" and with_tree = "\<lambda>m x. m" and leaves = "[]"] run show ?thesis
    by (auto simp: tree_cfg_def leaf_mmr_def tiny_mmr_def)
qed

end
