(* ===== verification/Evm_Gateway.thy ===== *)
theory Evm_Gateway
  imports Evm_Base
begin

text \<open>
  The modules on top of an EVM host: the token gateway (\<^verbatim>\<open>TokenGateway.sol\<close>), the token registrar
  (\<^verbatim>\<open>Registrar.sol\<close>) and the dispatcher of calls (\<^verbatim>\<open>CallDispatcher.sol\<close>). Each has its own storage and a
  part \<open>world\<close> for all other contracts; the host, the tokens, the exchange and the ABI codec are
  parameters, collected in the record \<open>ModuleWorld\<close>.
\<close>

section \<open>Structs\<close>

record TeleportParams =
  tp_amount :: u256
  tp_relayerFee :: u256
  tp_assetId :: h256
  tp_redeem :: bool
  tp_to :: h256
  tp_dest :: bytes
  tp_timeout :: u64
  tp_nativeCost :: u256
  tp_data :: bytes

record Body =
  bd_amount :: u256
  bd_assetId :: h256
  bd_redeem :: bool
  bd_from :: h256
  bd_to :: h256

record BodyWithCall =
  bc_amount :: u256
  bc_assetId :: h256
  bc_redeem :: bool
  bc_from :: h256
  bc_to :: h256
  bc_data :: bytes

record TokenGatewayParams =
  tgp_host :: h160
  tgp_dispatcher :: h160

record AssetMetadata =
  am_erc20 :: h160
  am_erc6160 :: h160
  am_name :: bytes
  am_symbol :: bytes
  am_initialSupply :: u256
  am_beneficiary :: h160

record TokenGatewayParamsExt =
  tge_params :: TokenGatewayParams
  tge_assets :: "AssetMetadata list"

record ContractInstance =
  ci_chain :: bytes
  ci_moduleId :: h160

record ChangeAssetAdmin =
  ca_assetId :: h256
  ca_newAdmin :: h160

text \<open>The actions of \<^verbatim>\<open>onAccept\<close>, by their number.\<close>

datatype OnAcceptActions = IncomingAsset | GovernanceAction | CreateAsset | DeregisterAsset | ChangeAdmin | NewInstance

definition OnAcceptActions_from :: "byte \<Rightarrow> OnAcceptActions option" where
  "OnAcceptActions_from b =
     (if b = 0 then Some IncomingAsset else if b = 1 then Some GovernanceAction else if b = 2 then Some CreateAsset
      else if b = 3 then Some DeregisterAsset else if b = 4 then Some ChangeAdmin
      else if b = 5 then Some NewInstance else None)"

definition BODY_BYTES_SIZE :: nat where "BODY_BYTES_SIZE = 161"

record RegistrarParams =
  rp_host :: h160
  rp_baseFee :: u256

record CallDispatcherParams =
  cd_target :: h160
  cd_data :: bytes

section \<open>The world of a module\<close>

record 's ModuleWorld =
  mw_this :: h160
  mw_block_timestamp :: "'s \<Rightarrow> u256"
  mw_feeToken :: "h160 \<Rightarrow> 's \<Rightarrow> (EvmRevert, h160) outcome"
  mw_hyperbridge :: "h160 \<Rightarrow> 's \<Rightarrow> (EvmRevert, bytes) outcome"
  mw_perByteFee :: "h160 \<Rightarrow> bytes \<Rightarrow> 's \<Rightarrow> (EvmRevert, u256) outcome"
  mw_uniswapV2Router :: "h160 \<Rightarrow> 's \<Rightarrow> (EvmRevert, h160) outcome"
  mw_dispatch :: "h160 \<Rightarrow> u256 \<Rightarrow> SolDispatchPost \<Rightarrow> ('s, EvmRevert, h256) comp"
  mw_WETH :: "h160 \<Rightarrow> 's \<Rightarrow> (EvmRevert, h160) outcome"
  mw_swapETHForExactTokens :: "h160 \<Rightarrow> u256 \<Rightarrow> u256 \<Rightarrow> h160 list \<Rightarrow> h160 \<Rightarrow> u256 \<Rightarrow> ('s, EvmRevert, unit) comp"
  mw_send :: "h160 \<Rightarrow> u256 \<Rightarrow> ('s, EvmRevert, unit) comp"
  mw_safeTransferFrom :: "h160 \<Rightarrow> h160 \<Rightarrow> h160 \<Rightarrow> u256 \<Rightarrow> ('s, EvmRevert, unit) comp"
  mw_safeTransfer :: "h160 \<Rightarrow> h160 \<Rightarrow> u256 \<Rightarrow> ('s, EvmRevert, unit) comp"
  mw_approve :: "h160 \<Rightarrow> h160 \<Rightarrow> u256 \<Rightarrow> ('s, EvmRevert, unit) comp"
  mw_safeIncreaseAllowance :: "h160 \<Rightarrow> h160 \<Rightarrow> u256 \<Rightarrow> ('s, EvmRevert, unit) comp"
  mw_burn :: "h160 \<Rightarrow> h160 \<Rightarrow> u256 \<Rightarrow> ('s, EvmRevert, unit) comp"
  mw_mint :: "h160 \<Rightarrow> h160 \<Rightarrow> u256 \<Rightarrow> ('s, EvmRevert, unit) comp"
  mw_changeAdmin :: "h160 \<Rightarrow> h160 \<Rightarrow> ('s, EvmRevert, unit) comp"
  mw_new_ERC6160 :: "h256 \<Rightarrow> h160 \<Rightarrow> bytes \<Rightarrow> bytes \<Rightarrow> ('s, EvmRevert, h160) comp"
  mw_call_dispatcher :: "h160 \<Rightarrow> bytes \<Rightarrow> ('s, EvmRevert, unit) comp"
  mw_extcodesize :: "h160 \<Rightarrow> 's \<Rightarrow> nat"
  mw_call :: "h160 \<Rightarrow> bytes \<Rightarrow> ('s, EvmRevert, unit) comp"
  mw_keccak256 :: "bytes \<Rightarrow> h256"
  mw_hash_post :: "SolPostRequest \<Rightarrow> h256"
  mw_encode_body :: "Body \<Rightarrow> bytes"
  mw_encode_call :: "BodyWithCall \<Rightarrow> bytes"
  mw_decode_body :: "bytes \<Rightarrow> (EvmRevert, Body) outcome"
  mw_decode_call :: "bytes \<Rightarrow> (EvmRevert, BodyWithCall) outcome"
  mw_decode_params :: "bytes \<Rightarrow> (EvmRevert, TokenGatewayParams) outcome"
  mw_decode_asset :: "bytes \<Rightarrow> (EvmRevert, AssetMetadata) outcome"
  mw_decode_deregister :: "bytes \<Rightarrow> (EvmRevert, h256 list) outcome"
  mw_decode_change_admin :: "bytes \<Rightarrow> (EvmRevert, ChangeAssetAdmin) outcome"
  mw_decode_instance :: "bytes \<Rightarrow> (EvmRevert, ContractInstance) outcome"
  mw_encode_registration :: "h160 \<Rightarrow> h256 \<Rightarrow> bytes"
  mw_decode_registrar :: "bytes \<Rightarrow> (EvmRevert, RegistrarParams) outcome"
  mw_decode_calls :: "bytes \<Rightarrow> (EvmRevert, CallDispatcherParams list) outcome"

section \<open>The token gateway\<close>

datatype GatewayEvent =
    TgAssetReceived u256 h256 h256 h160 h256
  | TgAssetTeleported h256 bytes u256 h256 h160 h256 bool
  | TgAssetRefunded u256 h256 h160 h256
  | TgAssetRegistered AssetMetadata h256
  | TgNewContractInstance bytes h160
  | TgParamsUpdated TokenGatewayParams TokenGatewayParams
  | TgAssetRemoved h256
  | TgAssetAdminChanged h160 h160

record 'x TokenGateway =
  tg_params :: TokenGatewayParams
  tg_admin :: h160
  tg_erc6160s :: "h256 \<Rightarrow> h160"
  tg_erc20s :: "h256 \<Rightarrow> h160"
  tg_instances :: "h256 \<Rightarrow> h160"
  tg_events :: "GatewayEvent list"
  tg_world :: 'x

type_synonym ('x, 'a) gateway = "('x TokenGateway, EvmRevert, 'a) comp"
type_synonym 'x gateway_world = "'x TokenGateway ModuleWorld"

definition tg_emit :: "GatewayEvent \<Rightarrow> ('x, unit) gateway" where
  "tg_emit e = modify (\<lambda>s. s\<lparr>tg_events := tg_events s @ [e]\<rparr>)"

definition tg_restrict :: "Msg \<Rightarrow> ('x TokenGateway \<Rightarrow> h160) \<Rightarrow> ('x, unit) gateway" where
  "tg_restrict m who =
     bindC (asks who) (\<lambda>caller. ensure (msg_sender m = caller) (GatewayRevert TgUnauthorizedAction))"

definition tg_bytesToAddress :: "bytes \<Rightarrow> ('x, h160) gateway" where
  "tg_bytesToAddress b =
     bindC (ensure (length b = 20) (GatewayRevert TgInvalidAddressLength)) (\<lambda>_. ret (from_be_bytes b))"

definition addressToBytes32 :: "h160 \<Rightarrow> h256" where
  "addressToBytes32 a = ucast a"

definition bytes32ToAddress :: "h256 \<Rightarrow> h160" where
  "bytes32ToAddress b = ucast b"

text \<open>\<^verbatim>\<open>authenticate\<close>: the second operand is evaluated only where the first one holds.\<close>

definition authenticate :: "'x gateway_world \<Rightarrow> SolPostRequest \<Rightarrow> ('x, unit) gateway" where
  "authenticate w request =
     (if sq_from request = be_bytes 20 (mw_this w) then ret ()
      else
        bindC (asks (\<lambda>s. tg_instances s (mw_keccak256 w (sq_source request)))) (\<lambda>known.
        bindC (tg_bytesToAddress (sq_from request)) (\<lambda>from.
          ensure (known = from) (GatewayRevert TgUnauthorizedAction))))"

definition TokenGateway_constructor :: "h160 \<Rightarrow> 'x TokenGateway \<Rightarrow> 'x TokenGateway" where
  "TokenGateway_constructor admin s = s\<lparr>tg_admin := admin\<rparr>"

text \<open>One iteration of \<^verbatim>\<open>createAssets\<close>. The new token's address is written back to the metadata.\<close>

definition createAsset :: "'x gateway_world \<Rightarrow> AssetMetadata \<Rightarrow> ('x, unit) gateway" where
  "createAsset w asset =
     (let identifier = mw_keccak256 w (am_symbol asset);
          symbol = (if am_erc20 asset \<noteq> 0 then am_symbol asset @ ascii ''.h'' else am_symbol asset) in
      bindC (if am_erc6160 asset = 0 then
               bindC (mw_new_ERC6160 w identifier (mw_this w) (am_name asset) symbol) (\<lambda>erc6160Asset.
               bindC (if am_beneficiary asset \<noteq> 0 \<and> am_initialSupply asset \<noteq> 0
                      then mw_mint w erc6160Asset (am_beneficiary asset) (am_initialSupply asset)
                      else ret ()) (\<lambda>_.
                 ret erc6160Asset))
             else ret (am_erc6160 asset)) (\<lambda>erc6160.
      bindC (modify (\<lambda>s. s\<lparr>tg_erc20s := (tg_erc20s s)(identifier := am_erc20 asset),
                           tg_erc6160s := (tg_erc6160s s)(identifier := erc6160)\<rparr>)) (\<lambda>_.
        tg_emit (TgAssetRegistered (asset\<lparr>am_erc6160 := erc6160\<rparr>) identifier))))"

definition createAssets :: "'x gateway_world \<Rightarrow> AssetMetadata list \<Rightarrow> ('x, unit) gateway" where
  "createAssets w assets = for_each (createAsset w) assets"

definition gateway_init :: "'x gateway_world \<Rightarrow> Msg \<Rightarrow> TokenGatewayParamsExt \<Rightarrow> ('x, unit) gateway" where
  "gateway_init w m teleportParams = transactional
     (bindC (tg_restrict m tg_admin) (\<lambda>_.
      bindC (modify (\<lambda>s. s\<lparr>tg_params := tge_params teleportParams\<rparr>)) (\<lambda>_.
      bindC (createAssets w (tge_assets teleportParams)) (\<lambda>_.
      bindC (asks (\<lambda>s. tgp_host (tg_params s))) (\<lambda>host.
      bindC (reads (mw_feeToken w host)) (\<lambda>feeToken.
      bindC (mw_approve w feeToken (tgp_host (tge_params teleportParams)) (- 1)) (\<lambda>_.
        modify (\<lambda>s. s\<lparr>tg_admin := 0\<rparr>))))))))"

definition instance_of :: "'x gateway_world \<Rightarrow> bytes \<Rightarrow> 'x TokenGateway \<Rightarrow> h160" where
  "instance_of w destination s =
     (let gateway = tg_instances s (mw_keccak256 w destination) in if gateway = 0 then mw_this w else gateway)"

text \<open>\<^verbatim>\<open>teleport\<close>, first part: funds are taken into custody or burnt. What is returned is the
  native token that is left.\<close>

definition take_funds :: "'x gateway_world \<Rightarrow> Msg \<Rightarrow> TeleportParams \<Rightarrow> ('x, u256) gateway" where
  "take_funds w m tp =
     bindC (asks (\<lambda>s. tg_erc20s s (tp_assetId tp))) (\<lambda>erc20.
     bindC (asks (\<lambda>s. tg_erc6160s s (tp_assetId tp))) (\<lambda>erc6160.
       if erc20 \<noteq> 0 \<and> \<not> tp_redeem tp then
         bindC (asks (\<lambda>s. tgp_host (tg_params s))) (\<lambda>host.
         bindC (reads (mw_uniswapV2Router w host)) (\<lambda>uniswapV2.
         bindC (reads (mw_WETH w uniswapV2)) (\<lambda>weth.
           if msg_value m \<ge> tp_amount tp \<and> erc20 = weth then
             bindC (low_level_call (mw_send w weth (tp_amount tp))) (\<lambda>sent.
             bindC (ensure sent (GatewayRevert TgInconsistentState)) (\<lambda>_.
               sub_checked (msg_value m) (tp_amount tp)))
           else
             bindC (mw_safeTransferFrom w erc20 (msg_sender m) (mw_this w) (tp_amount tp)) (\<lambda>_. ret (msg_value m)))))
       else if erc6160 \<noteq> 0 then bindC (mw_burn w erc6160 (msg_sender m) (tp_amount tp)) (\<lambda>_. ret (msg_value m))
       else fail (GatewayRevert TgUnknownAsset)))"

definition teleport_body :: "'x gateway_world \<Rightarrow> Msg \<Rightarrow> TeleportParams \<Rightarrow> bytes" where
  "teleport_body w m tp =
     0 # (if length (tp_data tp) > 0
          then mw_encode_call w
            \<lparr>bc_amount = tp_amount tp, bc_assetId = tp_assetId tp, bc_redeem = tp_redeem tp,
             bc_from = addressToBytes32 (msg_sender m), bc_to = tp_to tp, bc_data = tp_data tp\<rparr>
          else mw_encode_body w
            \<lparr>bd_amount = tp_amount tp, bd_assetId = tp_assetId tp, bd_redeem = tp_redeem tp,
             bd_from = addressToBytes32 (msg_sender m), bd_to = tp_to tp\<rparr>)"

text \<open>\<^verbatim>\<open>teleport\<close>, second part: the request is paid for and dispatched.\<close>

definition dispatch_teleport ::
  "'x gateway_world \<Rightarrow> Msg \<Rightarrow> TeleportParams \<Rightarrow> h160 \<Rightarrow> u256 \<Rightarrow> ('x, h256) gateway" where
  "dispatch_teleport w m tp feeToken msgValue =
     bindC (asks (\<lambda>s. tgp_host (tg_params s))) (\<lambda>host.
     bindC (asks (instance_of w (tp_dest tp))) (\<lambda>gateway.
     let data = teleport_body w m tp;
         request = \<lparr>sdp_dest = tp_dest tp, sdp_to = be_bytes 20 gateway, sdp_body = data, sdp_timeout = tp_timeout tp,
           sdp_fee = tp_relayerFee tp, sdp_payer = msg_sender m\<rparr> in
       if msgValue \<ge> tp_nativeCost tp \<and> tp_nativeCost tp > 0 then mw_dispatch w host (tp_nativeCost tp) request
       else
         bindC (reads (mw_perByteFee w host (tp_dest tp))) (\<lambda>perByte.
         bindC (mul_checked perByte (of_nat (length data))) (\<lambda>protocolFee.
         bindC (add_checked protocolFee (tp_relayerFee tp)) (\<lambda>fee.
         bindC (mw_safeTransferFrom w feeToken (msg_sender m) (mw_this w) fee) (\<lambda>_.
         bindC (asks (\<lambda>s. tgp_host (tg_params s))) (\<lambda>host.
           mw_dispatch w host 0 request)))))))"

definition teleport :: "'x gateway_world \<Rightarrow> Msg \<Rightarrow> TeleportParams \<Rightarrow> ('x, unit) gateway" where
  "teleport w m tp = transactional
     (bindC (ensure (tp_to tp \<noteq> 0) (GatewayRevert TgZeroAddress)) (\<lambda>_.
      bindC (ensure (tp_amount tp \<noteq> 0) (GatewayRevert TgInvalidAmount)) (\<lambda>_.
      bindC (asks (\<lambda>s. tgp_host (tg_params s))) (\<lambda>host.
      bindC (reads (mw_feeToken w host)) (\<lambda>feeToken.
      bindC (take_funds w m tp) (\<lambda>msgValue.
      bindC (dispatch_teleport w m tp feeToken msgValue) (\<lambda>commitment.
        tg_emit (TgAssetTeleported (tp_to tp) (tp_dest tp) (tp_amount tp) commitment (msg_sender m) (tp_assetId tp) (tp_redeem tp)))))))))"

section \<open>Incoming messages\<close>

definition handleIncomingAsset :: "'x gateway_world \<Rightarrow> Body \<Rightarrow> ('x, unit) gateway" where
  "handleIncomingAsset w body =
     bindC (asks (\<lambda>s. tg_erc20s s (bd_assetId body))) (\<lambda>erc20.
     bindC (asks (\<lambda>s. tg_erc6160s s (bd_assetId body))) (\<lambda>erc6160.
       if erc20 \<noteq> 0 \<and> bd_redeem body then mw_safeTransfer w erc20 (bytes32ToAddress (bd_to body)) (bd_amount body)
       else if erc6160 \<noteq> 0 then mw_mint w erc6160 (bytes32ToAddress (bd_to body)) (bd_amount body)
       else fail (GatewayRevert TgUnknownAsset)))"

definition asset_received :: "'x gateway_world \<Rightarrow> SolPostRequest \<Rightarrow> Body \<Rightarrow> ('x, unit) gateway" where
  "asset_received w request body =
     tg_emit (TgAssetReceived (bd_amount body) (mw_hash_post w request) (bd_from body) (bytes32ToAddress (bd_to body)) (bd_assetId body))"

definition without_call :: "BodyWithCall \<Rightarrow> Body" where
  "without_call b = \<lparr>bd_amount = bc_amount b, bd_assetId = bc_assetId b, bd_redeem = bc_redeem b, bd_from = bc_from b, bd_to = bc_to b\<rparr>"

definition handleIncomingAssetWithoutCall :: "'x gateway_world \<Rightarrow> SolPostRequest \<Rightarrow> ('x, unit) gateway" where
  "handleIncomingAssetWithoutCall w request =
     bindC (authenticate w request) (\<lambda>_.
     bindC (reads (\<lambda>_. mw_decode_body w (drop 1 (sq_body request)))) (\<lambda>body.
     bindC (handleIncomingAsset w body) (\<lambda>_.
       asset_received w request body)))"

definition handleIncomingAssetWithCall :: "'x gateway_world \<Rightarrow> SolPostRequest \<Rightarrow> ('x, unit) gateway" where
  "handleIncomingAssetWithCall w request =
     bindC (authenticate w request) (\<lambda>_.
     bindC (reads (\<lambda>_. mw_decode_call w (drop 1 (sq_body request)))) (\<lambda>body.
     bindC (handleIncomingAsset w (without_call body)) (\<lambda>_.
     bindC (asks (\<lambda>s. tgp_dispatcher (tg_params s))) (\<lambda>dispatcher.
     bindC (mw_call_dispatcher w dispatcher (bc_data body)) (\<lambda>_.
       asset_received w request (without_call body))))))"

text \<open>The check in front of every action of governance.\<close>

definition from_hyperbridge :: "'x gateway_world \<Rightarrow> SolPostRequest \<Rightarrow> ('x, unit) gateway" where
  "from_hyperbridge w request =
     bindC (asks (\<lambda>s. tgp_host (tg_params s))) (\<lambda>host.
     bindC (reads (mw_hyperbridge w host)) (\<lambda>hyperbridge.
       ensure (sq_source request = hyperbridge) (GatewayRevert TgUnauthorizedAction)))"

definition handleGovernance :: "'x gateway_world \<Rightarrow> SolPostRequest \<Rightarrow> ('x, unit) gateway" where
  "handleGovernance w request =
     bindC (from_hyperbridge w request) (\<lambda>_.
     bindC (reads (\<lambda>_. mw_decode_params w (drop 1 (sq_body request)))) (\<lambda>newParams.
     bindC (asks tg_params) (\<lambda>oldParams.
     bindC (tg_emit (TgParamsUpdated oldParams newParams)) (\<lambda>_.
       modify (\<lambda>s. s\<lparr>tg_params := newParams\<rparr>)))))"

definition handleCreateAsset :: "'x gateway_world \<Rightarrow> SolPostRequest \<Rightarrow> ('x, unit) gateway" where
  "handleCreateAsset w request =
     bindC (from_hyperbridge w request) (\<lambda>_.
     bindC (reads (\<lambda>_. mw_decode_asset w (drop 1 (sq_body request)))) (\<lambda>asset.
       createAssets w [asset]))"

definition deregister_asset :: "h256 \<Rightarrow> ('x, unit) gateway" where
  "deregister_asset assetId =
     bindC (modify (\<lambda>s. s\<lparr>tg_erc20s := (tg_erc20s s)(assetId := 0), tg_erc6160s := (tg_erc6160s s)(assetId := 0)\<rparr>)) (\<lambda>_.
       tg_emit (TgAssetRemoved assetId))"

definition handleDeregisterAssets :: "'x gateway_world \<Rightarrow> SolPostRequest \<Rightarrow> ('x, unit) gateway" where
  "handleDeregisterAssets w request =
     bindC (from_hyperbridge w request) (\<lambda>_.
     bindC (reads (\<lambda>_. mw_decode_deregister w (drop 1 (sq_body request)))) (\<lambda>assetIds.
       for_each deregister_asset assetIds))"

definition handleChangeAssetAdmin :: "'x gateway_world \<Rightarrow> SolPostRequest \<Rightarrow> ('x, unit) gateway" where
  "handleChangeAssetAdmin w request =
     bindC (from_hyperbridge w request) (\<lambda>_.
     bindC (reads (\<lambda>_. mw_decode_change_admin w (drop 1 (sq_body request)))) (\<lambda>asset.
     bindC (asks (\<lambda>s. tg_erc6160s s (ca_assetId asset))) (\<lambda>erc6160Address.
     bindC (ensure (ca_newAdmin asset \<noteq> 0) (GatewayRevert TgZeroAddress)) (\<lambda>_.
     bindC (ensure (erc6160Address \<noteq> 0) (GatewayRevert TgUnknownAsset)) (\<lambda>_.
     bindC (mw_changeAdmin w erc6160Address (ca_newAdmin asset)) (\<lambda>_.
       tg_emit (TgAssetAdminChanged erc6160Address (ca_newAdmin asset))))))))"

definition handleNewContractInstance :: "'x gateway_world \<Rightarrow> SolPostRequest \<Rightarrow> ('x, unit) gateway" where
  "handleNewContractInstance w request =
     bindC (from_hyperbridge w request) (\<lambda>_.
     bindC (reads (\<lambda>_. mw_decode_instance w (drop 1 (sq_body request)))) (\<lambda>newInstance.
     bindC (modify (\<lambda>s. s\<lparr>tg_instances := (tg_instances s)(mw_keccak256 w (ci_chain newInstance) := ci_moduleId newInstance)\<rparr>)) (\<lambda>_.
       tg_emit (TgNewContractInstance (ci_chain newInstance) (ci_moduleId newInstance)))))"

definition gateway_onAccept :: "'x gateway_world \<Rightarrow> Msg \<Rightarrow> SolPostRequest \<Rightarrow> ('x, unit) gateway" where
  "gateway_onAccept w m request = transactional
     (bindC (tg_restrict m (\<lambda>s. tgp_host (tg_params s))) (\<lambda>_.
      bindC (ensure (sq_body request \<noteq> []) (SolidityPanic 50)) (\<lambda>_.
      bindC (ok_or (OnAcceptActions_from (hd (sq_body request))) (SolidityPanic 33)) (\<lambda>action.
        case action of
          IncomingAsset \<Rightarrow>
            if length (sq_body request) > BODY_BYTES_SIZE then handleIncomingAssetWithCall w request
            else handleIncomingAssetWithoutCall w request
        | GovernanceAction \<Rightarrow> handleGovernance w request
        | CreateAsset \<Rightarrow> handleCreateAsset w request
        | DeregisterAsset \<Rightarrow> handleDeregisterAssets w request
        | ChangeAdmin \<Rightarrow> handleChangeAssetAdmin w request
        | NewInstance \<Rightarrow> handleNewContractInstance w request))))"

definition refund :: "'x gateway_world \<Rightarrow> Body \<Rightarrow> ('x, unit) gateway" where
  "refund w body =
     bindC (asks (\<lambda>s. tg_erc20s s (bd_assetId body))) (\<lambda>erc20.
     bindC (asks (\<lambda>s. tg_erc6160s s (bd_assetId body))) (\<lambda>erc6160.
     let from = bytes32ToAddress (bd_from body) in
       if erc20 \<noteq> 0 \<and> \<not> bd_redeem body then mw_safeTransfer w erc20 from (bd_amount body)
       else if erc6160 \<noteq> 0 then mw_mint w erc6160 from (bd_amount body)
       else fail (GatewayRevert TgInconsistentState)))"

definition gateway_onPostRequestTimeout :: "'x gateway_world \<Rightarrow> Msg \<Rightarrow> SolPostRequest \<Rightarrow> ('x, unit) gateway" where
  "gateway_onPostRequestTimeout w m request = transactional
     (bindC (tg_restrict m (\<lambda>s. tgp_host (tg_params s))) (\<lambda>_.
      bindC (if length (sq_body request) > BODY_BYTES_SIZE
             then bindC (reads (\<lambda>_. mw_decode_call w (drop 1 (sq_body request)))) (\<lambda>b. ret (without_call b))
             else bindC (ensure (sq_body request \<noteq> []) (CalleeRevert [])) (\<lambda>_.
                    reads (\<lambda>_. mw_decode_body w (drop 1 (sq_body request))))) (\<lambda>body.
      bindC (refund w body) (\<lambda>_.
        tg_emit (TgAssetRefunded (bd_amount body) (mw_hash_post w request) (bytes32ToAddress (bd_from body)) (bd_assetId body))))))"

section \<open>The dispatcher of calls\<close>

definition dispatch_call :: "'s ModuleWorld \<Rightarrow> CallDispatcherParams \<Rightarrow> ('s, EvmRevert, unit) comp" where
  "dispatch_call w call =
     bindC (asks (mw_extcodesize w (cd_target call))) (\<lambda>size.
       if size > 0 then
         (\<lambda>s. case mw_call w (cd_target call) (cd_data call) s of
            (Ok _, s') \<Rightarrow> (Ok (), s')
          | (Err (CalleeRevert result), _) \<Rightarrow> (Err (CalleeRevert result), s)
          | _ \<Rightarrow> (Err (CalleeRevert []), s))
       else ret ())"

definition CallDispatcher_dispatch :: "'s ModuleWorld \<Rightarrow> bytes \<Rightarrow> ('s, EvmRevert, unit) comp" where
  "CallDispatcher_dispatch w encoded = transactional
     (bindC (reads (\<lambda>_. mw_decode_calls w encoded)) (\<lambda>calls.
        for_each (dispatch_call w) calls))"

section \<open>The token registrar\<close>

datatype RegistrarEvent = TrRegistrationBegun h256 h160 u256 | TrParamsUpdated RegistrarParams RegistrarParams

record 'x TokenRegistrar =
  tr_params :: RegistrarParams
  tr_admin :: h160
  tr_events :: "RegistrarEvent list"
  tr_world :: 'x

type_synonym ('x, 'a) registrar = "('x TokenRegistrar, EvmRevert, 'a) comp"
type_synonym 'x registrar_world = "'x TokenRegistrar ModuleWorld"

definition tr_emit :: "RegistrarEvent \<Rightarrow> ('x, unit) registrar" where
  "tr_emit e = modify (\<lambda>s. s\<lparr>tr_events := tr_events s @ [e]\<rparr>)"

definition tr_restrict :: "Msg \<Rightarrow> ('x TokenRegistrar \<Rightarrow> h160) \<Rightarrow> ('x, unit) registrar" where
  "tr_restrict m who = bindC (asks who) (\<lambda>caller. ensure (msg_sender m = caller) RegistrarUnauthorizedAction)"

definition TokenRegistrar_constructor :: "h160 \<Rightarrow> 'x TokenRegistrar \<Rightarrow> 'x TokenRegistrar" where
  "TokenRegistrar_constructor admin s = s\<lparr>tr_admin := admin\<rparr>"

definition registrar_init :: "Msg \<Rightarrow> RegistrarParams \<Rightarrow> ('x, unit) registrar" where
  "registrar_init m p = transactional
     (bindC (tr_restrict m tr_admin) (\<lambda>_.
        modify (\<lambda>s. s\<lparr>tr_params := p, tr_admin := 0\<rparr>)))"

definition tr_host :: "('x, h160) registrar" where
  "tr_host = asks (\<lambda>s. rp_host (tr_params s))"

definition collect_registration_fee ::
  "'x registrar_world \<Rightarrow> Msg \<Rightarrow> h160 \<Rightarrow> u256 \<Rightarrow> u256 \<Rightarrow> u256 \<Rightarrow> ('x, unit) registrar" where
  "collect_registration_fee w m feeToken baseFee messagingFee fee =
     bindC tr_host (\<lambda>host.
       if msg_value m > 0 then
         bindC (reads (mw_uniswapV2Router w host)) (\<lambda>uniswapV2.
         bindC (reads (mw_WETH w uniswapV2)) (\<lambda>weth.
         bindC (asks (mw_block_timestamp w)) (\<lambda>deadline.
         bindC (mw_swapETHForExactTokens w uniswapV2 (msg_value m) fee [weth, feeToken] (mw_this w) deadline) (\<lambda>_.
         bindC tr_host (\<lambda>host.
           mw_safeTransfer w feeToken host baseFee)))))
       else
         bindC (mw_safeTransferFrom w feeToken (msg_sender m) host baseFee) (\<lambda>_.
           mw_safeTransferFrom w feeToken (msg_sender m) (mw_this w) messagingFee))"

definition registerAsset :: "'x registrar_world \<Rightarrow> Msg \<Rightarrow> h256 \<Rightarrow> ('x, unit) registrar" where
  "registerAsset w m assetId = transactional
     (bindC tr_host (\<lambda>host.
      bindC (reads (mw_feeToken w host)) (\<lambda>feeToken.
      bindC (reads (mw_perByteFee w host [])) (\<lambda>perByte.
      bindC (mul_checked 64 perByte) (\<lambda>messagingFee.
      bindC (asks (\<lambda>s. rp_baseFee (tr_params s))) (\<lambda>baseFee.
      bindC (add_checked baseFee messagingFee) (\<lambda>fee.
      bindC (collect_registration_fee w m feeToken baseFee messagingFee fee) (\<lambda>_.
      bindC tr_host (\<lambda>host.
      bindC (mw_safeIncreaseAllowance w feeToken host fee) (\<lambda>_.
      bindC tr_host (\<lambda>host.
      bindC (reads (mw_hyperbridge w host)) (\<lambda>hyperbridge.
      bindC (mw_dispatch w host 0
               \<lparr>sdp_dest = hyperbridge, sdp_to = ascii ''registry'', sdp_body = mw_encode_registration w (msg_sender m) assetId,
                sdp_timeout = 0, sdp_fee = 0, sdp_payer = msg_sender m\<rparr>) (\<lambda>_.
        tr_emit (TrRegistrationBegun assetId (msg_sender m) baseFee))))))))))))))"

definition registrar_onAccept :: "'x registrar_world \<Rightarrow> Msg \<Rightarrow> SolPostRequest \<Rightarrow> ('x, unit) registrar" where
  "registrar_onAccept w m request = transactional
     (bindC (tr_restrict m (\<lambda>s. rp_host (tr_params s))) (\<lambda>_.
      bindC (asks tr_params) (\<lambda>oldParams.
      bindC (reads (mw_hyperbridge w (rp_host oldParams))) (\<lambda>hyperbridge.
      bindC (ensure (sq_source request = hyperbridge) RegistrarUnauthorizedAction) (\<lambda>_.
      bindC (reads (\<lambda>_. mw_decode_registrar w (sq_body request))) (\<lambda>update.
      bindC (tr_emit (TrParamsUpdated oldParams update)) (\<lambda>_.
        modify (\<lambda>s. s\<lparr>tr_params := update\<rparr>))))))))"

end
