(* ===== verification/Gateway_Properties.thy ===== *)
theory Gateway_Properties
  imports Evm_Gateway Evm_Properties
begin

text \<open>
  The token gateway: a timeout gives back what a teleport took, governance alone changes the registry,
  what is authenticated as a gateway of another chain, and the fee a teleport collects is the fee the
  host charges.
\<close>

section \<open>Teleports and refunds\<close>

lemma address_roundtrip [simp]: "bytes32ToAddress (addressToBytes32 a) = a"
  unfolding bytes32ToAddress_def addressToBytes32_def by (rule bit_word_eqI) (simp add: bit_ucast_iff)

text \<open>How the ABI encodes the two bodies: it is read back, and a body without a call has five words.\<close>

definition abi_bodies :: "'x gateway_world \<Rightarrow> bool" where
  "abi_bodies w \<longleftrightarrow>
     (\<forall>b. mw_decode_body w (mw_encode_body w b) = Ok b \<and> length (mw_encode_body w b) = 160) \<and>
     (\<forall>b. mw_decode_call w (mw_encode_call w b) = Ok b \<and> 160 < length (mw_encode_call w b))"

lemma teleport_Ok:
  assumes "teleport w m tp s = (Ok (), s')"
  shows "\<exists>feeToken left t c u. tp_to tp \<noteq> 0 \<and> tp_amount tp \<noteq> 0 \<and> mw_feeToken w (tgp_host (tg_params s)) s = Ok feeToken \<and>
    take_funds w m tp s = (Ok left, t) \<and> dispatch_teleport w m tp feeToken left t = (Ok c, u)"
  using assms unfolding teleport_def by (auto simp: comp_ok)

lemma take_funds_Ok:
  assumes "take_funds w m tp s = (Ok left, t)"
  shows "if tg_erc20s s (tp_assetId tp) \<noteq> 0 \<and> \<not> tp_redeem tp
    then mw_send w (tg_erc20s s (tp_assetId tp)) (tp_amount tp) s = (Ok (), t) \<and> left + tp_amount tp = msg_value m \<or>
      mw_safeTransferFrom w (tg_erc20s s (tp_assetId tp)) (msg_sender m) (mw_this w) (tp_amount tp) s = (Ok (), t) \<and> left = msg_value m
    else tg_erc6160s s (tp_assetId tp) \<noteq> 0 \<and> left = msg_value m \<and>
      mw_burn w (tg_erc6160s s (tp_assetId tp)) (msg_sender m) (tp_amount tp) s = (Ok (), t)"
  using assms unfolding take_funds_def
  by (auto simp: comp_ok low_level_call_Ok sub_checked_Ok split: if_splits)

definition teleport_request :: "'x gateway_world \<Rightarrow> Msg \<Rightarrow> TeleportParams \<Rightarrow> 'x TokenGateway \<Rightarrow> SolDispatchPost" where
  "teleport_request w m tp s =
     \<lparr>sdp_dest = tp_dest tp, sdp_to = be_bytes 20 (instance_of w (tp_dest tp) s), sdp_body = teleport_body w m tp,
      sdp_timeout = tp_timeout tp, sdp_fee = tp_relayerFee tp, sdp_payer = msg_sender m\<rparr>"




section \<open>Who may do what\<close>



lemma authenticate_Ok:
  "authenticate w request s = (Ok u, s') \<longleftrightarrow> s' = s \<and>
     (sq_from request = be_bytes 20 (mw_this w) \<or>
      length (sq_from request) = 20 \<and> tg_instances s (mw_keccak256 w (sq_source request)) = from_be_bytes (sq_from request))"
  by (auto simp: authenticate_def tg_bytesToAddress_def comp_ok)

text \<open>What governance configures.\<close>

definition registry :: "'x TokenGateway \<Rightarrow> TokenGatewayParams \<times> h160 \<times> (h256 \<Rightarrow> h160) \<times> (h256 \<Rightarrow> h160) \<times> (h256 \<Rightarrow> h160)" where
  "registry s = (tg_params s, tg_admin s, tg_erc6160s s, tg_erc20s s, tg_instances s)"



lemma registry_events [simp]: "registry (s\<lparr>tg_events := e\<rparr>) = registry s"
  by (simp add: registry_def)



text \<open>A chain for which no instance is registered is represented by the zero address. A request from
  such a chain whose sender is the zero address is authenticated, whatever the chain is, and pays out
  the assets its body names.\<close>

theorem zero_sender_is_trusted:
  assumes "sq_from request = replicate 20 0" and "tg_instances s (mw_keccak256 w (sq_source request)) = 0"
    and "msg_sender m = tgp_host (tg_params s)" and "sq_body request = 0 # mw_encode_body w body" and "abi_bodies w"
  shows "gateway_onAccept w m request s =
    transactional (bindC (handleIncomingAsset w body) (\<lambda>_. asset_received w request body)) s"
proof -
  have "authenticate w request s = (Ok (), s)"
    using assms(1,2) by (simp add: authenticate_Ok from_be_bytes_def numeral_eq_Suc)
  with assms(3-5) show ?thesis
    unfolding gateway_onAccept_def handleIncomingAssetWithoutCall_def
    by (simp add: comp_app tg_restrict_def OnAcceptActions_from_def BODY_BYTES_SIZE_def abi_bodies_def)
qed

section \<open>The gateway on its host\<close>

text \<open>The calls of the gateway on its host are those of the host's model, with the gateway as the caller.\<close>

definition on_host :: "'y evm_world \<Rightarrow> 'y EvmHost gateway_world \<Rightarrow> bool" where
  "on_host hw w \<longleftrightarrow>
     (\<forall>h v post t. mw_dispatch w h v post t =
        (case dispatch_post hw \<lparr>msg_sender = mw_this w, msg_value = v\<rparr> post (tg_world t) of (r, x) \<Rightarrow> (r, t\<lparr>tg_world := x\<rparr>))) \<and>
     (\<forall>h d t. mw_perByteFee w h d t = Ok (perByteFee hw d (tg_world t))) \<and>
     (\<forall>h t. mw_feeToken w h t = Ok (hp_feeToken (eh_hostParams (tg_world t))))"

definition fee_schedule :: "'y EvmHost TokenGateway \<Rightarrow> SolHostParams \<times> (h256 \<Rightarrow> u256)" where
  "fee_schedule t = (eh_hostParams (tg_world t), eh_perByteFees (tg_world t))"

text \<open>Moving tokens does not change what the host charges.\<close>

definition tokens_leave_fees :: "'y EvmHost gateway_world \<Rightarrow> bool" where
  "tokens_leave_fees w \<longleftrightarrow>
     (\<forall>v a n. keeps (\<lambda>t. fee_schedule t = v) (mw_send w a n)) \<and> (\<forall>v a b n. keeps (\<lambda>t. fee_schedule t = v) (mw_burn w a b n)) \<and>
     (\<forall>v a b c n. keeps (\<lambda>t. fee_schedule t = v) (mw_safeTransferFrom w a b c n))"

lemma tokens_leave_feesD:
  assumes "tokens_leave_fees w"
  shows "mw_send w a n t = (r, t') \<Longrightarrow> fee_schedule t' = fee_schedule t"
    "mw_burn w a b n t = (r, t') \<Longrightarrow> fee_schedule t' = fee_schedule t"
    "mw_safeTransferFrom w a b c n t = (r, t') \<Longrightarrow> fee_schedule t' = fee_schedule t"
  using assms keepsD [of "\<lambda>u. fee_schedule u = fee_schedule t" _ t r t'] unfolding tokens_leave_fees_def by blast+

lemma take_funds_leaves_fees:
  assumes "take_funds w m tp s = (Ok left, t)" and "tokens_leave_fees w"
  shows "fee_schedule t = fee_schedule s"
  using take_funds_Ok [OF assms(1)] tokens_leave_feesD [OF assms(2)] by (auto split: if_splits)

lemma perByteFee_schedule: "fee_schedule t = fee_schedule s \<Longrightarrow> perByteFee hw d (tg_world t) = perByteFee hw d (tg_world s)"
  by (simp add: fee_schedule_def perByteFee_def Let_def)

lemma teleport_body_length: "abi_bodies w \<Longrightarrow> 32 \<le> length (teleport_body w m tp)"
  unfolding abi_bodies_def teleport_body_def by (simp add: less_imp_le le_trans [of 31 160])

text \<open>A teleport that is paid for with the fee token collects from the sender exactly what the host then
  takes from the gateway for the dispatch: the per-byte fee of the destination for the whole body, plus
  the relayer fee, without wrap-around. Nothing is left in the gateway and nothing is missing.\<close>

theorem teleport_collects_host_fee:
  assumes "teleport w m tp s = (Ok (), s')" and "tp_nativeCost tp = 0" and "on_host hw w" and "tokens_leave_fees w"
    and "abi_bodies w" and "length (teleport_body w m tp) < 2 ^ 256"
    and "token = hp_feeToken (eh_hostParams (tg_world s))"
  shows "\<exists>(fee :: u256) t t' x x'.
    unat fee = unat (perByteFee hw (tp_dest tp) (tg_world s)) * length (teleport_body w m tp) + unat (tp_relayerFee tp) \<and>
    mw_safeTransferFrom w token (msg_sender m) (mw_this w) fee t = (Ok (), t') \<and>
    ew_safeTransferFrom hw token (mw_this w) (ew_this hw) fee x = (Ok (), x')"
proof -
  let ?body = "teleport_body w m tp"
  from teleport_Ok [OF assms(1)] assms(3,7) obtain left t c u where
    f: "take_funds w m tp s = (Ok left, t)" and d: "dispatch_teleport w m tp token left t = (Ok c, u)"
    by (auto simp: on_host_def)
  note same = take_funds_leaves_fees [OF f assms(4)]
  from d assms(2,3) obtain f1 f2 t1 t2 t3 where
    mul: "mul_checked (perByteFee hw (tp_dest tp) (tg_world t)) (of_nat (length ?body)) t = (Ok f1, t1)" and
    add: "add_checked f1 (tp_relayerFee tp) t1 = (Ok f2, t2)" and
    pay: "mw_safeTransferFrom w token (msg_sender m) (mw_this w) f2 t2 = (Ok (), t3)" and
    disp: "mw_dispatch w (tgp_host (tg_params t3)) 0 (teleport_request w m tp t) t3 = (Ok c, u)"
    by (auto simp: dispatch_teleport_def comp_ok Let_def on_host_def teleport_request_def)
  have t2: "t2 = t" using mul_checked_Ok [OF mul] add_checked_Ok [OF add] by simp
  have fee: "unat f2 = unat (perByteFee hw (tp_dest tp) (tg_world s)) * length ?body + unat (tp_relayerFee tp)"
  proof -
    have "unat f1 = unat (perByteFee hw (tp_dest tp) (tg_world t)) * unat (of_nat (length ?body) :: u256)"
      using mul_checked_Ok [OF mul] by blast
    moreover have "unat f2 = unat f1 + unat (tp_relayerFee tp)" using add_checked_Ok [OF add] by blast
    ultimately show ?thesis using perByteFee_schedule [OF same] assms(6) by (simp add: unsigned_of_nat take_bit_nat_eq_self)
  qed
  have after: "fee_schedule t3 = fee_schedule s" using tokens_leave_feesD(3) [OF assms(4) pay] t2 same by simp
  from disp assms(3) obtain x where
    dp: "dispatch_post hw \<lparr>msg_sender = mw_this w, msg_value = 0\<rparr> (teleport_request w m tp t) (tg_world t3) = (Ok c, x)"
    by (auto simp: on_host_def split: prod.splits)
  from dispatch_post_pays [OF dp] assms(6) obtain fee' x' where
    fee': "unat fee' = unat (perByteFee hw (tp_dest tp) (tg_world t3)) * max 32 (length ?body) + unat (tp_relayerFee tp)" and
    take: "ew_safeTransferFrom hw (hp_feeToken (eh_hostParams (tg_world t3))) (mw_this w) (ew_this hw) fee' (tg_world t3) = (Ok (), x')"
    by (auto simp: teleport_request_def)
  have "fee' = f2"
    using fee fee' perByteFee_schedule [OF after] teleport_body_length [OF assms(5)] by (simp add: word_unat_eq_iff max_absorb2)
  moreover have "hp_feeToken (eh_hostParams (tg_world t3)) = token" using after assms(7) by (simp add: fee_schedule_def)
  ultimately show ?thesis using fee pay take by auto
qed

section \<open>A small gateway\<close>

text \<open>An executable world on which the properties are instantiated: the host is the small host, tokens move
  without touching anything, and a body is encoded word by word.\<close>

definition words_of_body :: "Body \<Rightarrow> bytes" where
  "words_of_body b = be_bytes 32 (bd_amount b) @ be_bytes 32 (bd_assetId b) @
     be_bytes 32 (if bd_redeem b then 1 else 0 :: u256) @ be_bytes 32 (bd_from b) @ be_bytes 32 (bd_to b)"

definition word_at :: "nat \<Rightarrow> bytes \<Rightarrow> u256" where
  "word_at i bs = from_be_bytes (take 32 (drop (32 * i) bs))"

definition body_of_words :: "bytes \<Rightarrow> Body" where
  "body_of_words bs = \<lparr>bd_amount = word_at 0 bs, bd_assetId = word_at 1 bs, bd_redeem = (word_at 2 bs \<noteq> 0),
     bd_from = word_at 3 bs, bd_to = word_at 4 bs\<rparr>"

lemma word_back: "from_be_bytes (be_bytes 32 (x :: u256)) = x"
  by (rule from_be_bytes_back) simp

lemma words_roundtrip: "body_of_words (words_of_body b @ rest) = b"
  by (cases b) (simp add: body_of_words_def words_of_body_def word_at_def word_back)

definition small_gateway_world :: "unit EvmHost gateway_world" where
  "small_gateway_world =
     \<lparr>mw_this = 21, mw_block_timestamp = (\<lambda>_. 100), mw_feeToken = (\<lambda>h t. Ok (hp_feeToken (eh_hostParams (tg_world t)))),
      mw_hyperbridge = (\<lambda>h t. Ok [1, 1, 1, 1, 1]), mw_perByteFee = (\<lambda>h d t. Ok (perByteFee small_world d (tg_world t))),
      mw_uniswapV2Router = (\<lambda>h t. Ok 8),
      mw_dispatch = (\<lambda>h v post t. case dispatch_post small_world \<lparr>msg_sender = 21, msg_value = v\<rparr> post (tg_world t) of
        (r, x) \<Rightarrow> (r, t\<lparr>tg_world := x\<rparr>)),
      mw_WETH = (\<lambda>r t. Ok 9), mw_swapETHForExactTokens = (\<lambda>r v f p a d. ret ()), mw_send = (\<lambda>a v. ret ()),
      mw_safeTransferFrom = (\<lambda>t a b v. ret ()), mw_safeTransfer = (\<lambda>t a v. ret ()), mw_approve = (\<lambda>t a v. ret ()),
      mw_safeIncreaseAllowance = (\<lambda>t a v. ret ()), mw_burn = (\<lambda>t a v. ret ()), mw_mint = (\<lambda>t a v. ret ()),
      mw_changeAdmin = (\<lambda>t a. ret ()), mw_new_ERC6160 = (\<lambda>salt a n sy. ret 99), mw_call_dispatcher = (\<lambda>a d. ret ()),
      mw_extcodesize = (\<lambda>a t. 0), mw_call = (\<lambda>a d. ret ()), mw_keccak256 = (\<lambda>b. of_nat (length b)),
      mw_hash_post = (\<lambda>r. 100 + ucast (sq_nonce r)),
      mw_encode_body = words_of_body, mw_encode_call = (\<lambda>b. words_of_body (without_call b) @ [0] @ bc_data b),
      mw_decode_body = (\<lambda>b. Ok (body_of_words b)),
      mw_decode_call = (\<lambda>b. Ok (let c = body_of_words b in \<lparr>bc_amount = bd_amount c, bc_assetId = bd_assetId c,
         bc_redeem = bd_redeem c, bc_from = bd_from c, bc_to = bd_to c, bc_data = drop 161 b\<rparr>)),
      mw_decode_params = (\<lambda>b. Err (CalleeRevert b)), mw_decode_asset = (\<lambda>b. Err (CalleeRevert b)),
      mw_decode_deregister = (\<lambda>b. Ok [7]), mw_decode_change_admin = (\<lambda>b. Err (CalleeRevert b)),
      mw_decode_instance = (\<lambda>b. Err (CalleeRevert b)), mw_encode_registration = (\<lambda>a i. be_bytes 32 i),
      mw_decode_registrar = (\<lambda>b. Err (CalleeRevert b)), mw_decode_calls = (\<lambda>b. Err (CalleeRevert b))\<rparr>"

definition small_gateway :: "unit EvmHost TokenGateway" where
  "small_gateway = \<lparr>tg_params = \<lparr>tgp_host = 1, tgp_dispatcher = 2\<rparr>, tg_admin = 0, tg_erc6160s = (\<lambda>a. if a = 7 then 31 else 0),
     tg_erc20s = (\<lambda>_. 0), tg_instances = (\<lambda>_. 0), tg_events = [], tg_world = small_host\<rparr>"

definition small_teleport :: TeleportParams where
  "small_teleport = \<lparr>tp_amount = 5, tp_relayerFee = 3, tp_assetId = 7, tp_redeem = False, tp_to = 66, tp_dest = [2],
     tp_timeout = 0, tp_nativeCost = 0, tp_data = []\<rparr>"

lemma small_abi: "abi_bodies small_gateway_world"
proof -
  have "length (words_of_body b) = 160" for b by (simp add: words_of_body_def)
  moreover have "body_of_words (words_of_body b) = b" for b using words_roundtrip [of b "[]"] by simp
  ultimately show ?thesis
    unfolding abi_bodies_def by (simp add: small_gateway_world_def words_roundtrip without_call_def Let_def)
qed

lemma small_teleport_runs: "succeeds (teleport small_gateway_world small_msg small_teleport) small_gateway"
proof -
  have "length (words_of_body b) = 160" for b by (simp add: words_of_body_def)
  then show ?thesis
    by (simp add: succeeds_def teleport_def take_funds_def dispatch_teleport_def teleport_body_def small_gateway_world_def
        small_gateway_def small_teleport_def small_msg_def comp_app mul_checked_def add_checked_def checked_def tg_emit_def
        dispatch_post_def notFrozen_def perByteFee_def at_least_a_word_def collect_payment_def adjust_timeout_def
        nextNonce_def emit_def Let_def)
qed


theorem teleport_collects_host_fee_witness:
  "\<exists>fee :: u256. unat fee = 2 * 161 + 3 \<and> (\<exists>x x'. ew_safeTransferFrom (small_world :: unit evm_world) 5 21 1 fee x = (Ok (), x'))"
proof -
  from succeeds_run [OF small_teleport_runs] obtain s' where
    run: "teleport small_gateway_world small_msg small_teleport small_gateway = (Ok (), s')" by auto
  have host: "on_host small_world small_gateway_world" by (simp add: on_host_def small_gateway_world_def)
  have tokens: "tokens_leave_fees small_gateway_world"
    by (simp add: tokens_leave_fees_def small_gateway_world_def keeps_basic)
  have body: "length (teleport_body small_gateway_world small_msg small_teleport) = 161"
    by (simp add: teleport_body_def small_gateway_world_def small_teleport_def words_of_body_def)
  from teleport_collects_host_fee [OF run _ host tokens small_abi _ refl] body show ?thesis
    by (simp add: small_teleport_def small_gateway_def small_gateway_world_def perByteFee_def Let_def)
qed

definition small_incoming :: SolPostRequest where
  "small_incoming = \<lparr>sq_source = [9], sq_dest = [1], sq_nonce = 1, sq_from = replicate 20 0, sq_to = be_bytes 20 (21 :: h160),
     sq_timeoutTimestamp = 0,
     sq_body = 0 # words_of_body \<lparr>bd_amount = 5, bd_assetId = 7, bd_redeem = False, bd_from = 4, bd_to = 66\<rparr>\<rparr>"

theorem zero_sender_is_trusted_witness:
  "fst (gateway_onAccept small_gateway_world \<lparr>msg_sender = 1, msg_value = 0\<rparr> small_incoming small_gateway) = Ok ()"
proof -
  have "gateway_onAccept small_gateway_world \<lparr>msg_sender = 1, msg_value = 0\<rparr> small_incoming small_gateway =
      transactional (bindC (handleIncomingAsset small_gateway_world \<lparr>bd_amount = 5, bd_assetId = 7, bd_redeem = False, bd_from = 4, bd_to = 66\<rparr>)
        (\<lambda>_. asset_received small_gateway_world small_incoming
          \<lparr>bd_amount = 5, bd_assetId = 7, bd_redeem = False, bd_from = 4, bd_to = 66\<rparr>)) small_gateway"
    by (rule zero_sender_is_trusted [OF _ _ _ _ small_abi])
      (simp_all add: small_incoming_def small_gateway_def small_gateway_world_def)
  then show ?thesis
    by (simp add: small_gateway_def small_gateway_world_def comp_app handleIncomingAsset_def asset_received_def tg_emit_def)
qed



end
