(* ===== verification/Pallet_Coprocessor.thy ===== *)
theory Pallet_Coprocessor
  imports Pallet_Relayer
begin

text \<open>
  pallet-state-coprocessor (\<^verbatim>\<open>modules/ismp/pallets/state-coprocessor/src\<close>:
  \<^verbatim>\<open>impls.rs\<close>, \<^verbatim>\<open>lib.rs\<close>): hyperbridge answers get requests that other chains
  dispatched. It checks that the requests were committed to on their source chain, collects the fee
  recorded there for the relayer, verifies the state proof of the requested values, and puts the
  responses into its own overlay tree. The host is that of the ISMP pallet, as in the runtimes.
\<close>

section \<open>Data\<close>

record GetRequestsWithProof =
  gq_requests :: "GetRequest list"
  gq_source :: Proof
  gq_response :: Proof
  gq_address :: bytes

datatype CoprocessorError = CpBadOrigin | HandlingError

type_synonym ('x, 'm, 'a) cop = "(('x, 'm) rl_st, Error, 'a) comp"

section \<open>Handling get requests\<close>

text \<open>The body of the first loop.\<close>

definition check_query :: "('x, 'm) rl_config \<Rightarrow> StateMachine \<Rightarrow> GetRequest \<Rightarrow> ('x, 'm, unit) cop" where
  "check_query cfg source req =
     (let full = ReqGet req; H = pallet_host cfg in
      bindC (asks (h_timestamp H)) (\<lambda>now.
      bindC (ensure (\<not> Request_timed_out full now) (RequestTimeoutError (Meta_of_request full))) (\<lambda>_.
      bindC (ensure (Request_source_chain full = source) (RequestProofMetadataNotValid (Meta_of_request full))) (\<lambda>_.
      bindC (reads (h_request_receipt H full)) (\<lambda>receipt.
        ensure (receipt = None) (DuplicateResponse (Meta_of_request full)))))))"

definition get_request_keys :: "('x, 'm) rl_config \<Rightarrow> GetRequest list \<Rightarrow> StateMachine \<Rightarrow> ('x, 'm, bytes list) cop" where
  "get_request_keys cfg requests source =
     bindC (collect (\<lambda>req.
        bindC (expect (hash_request (cf_keccak256 cfg) (ReqGet req))) (\<lambda>commitment.
          ret (if is_evm source
               then [be_bytes 32 (derive_unhashed_map_key (cf_keccak256 cfg) (be_bytes 32 commitment) REQUEST_COMMITMENTS_SLOT)]
               else if is_substrate source then [request_commitment_storage_key commitment]
               else []))) requests) (\<lambda>kss. ret (concat kss))"

text \<open>The fee in a proven commitment; the state machine that the last error names is left out.\<close>

definition query_fee :: "('x, 'm) rl_config \<Rightarrow> ('x, 'm) RelayerConfig \<Rightarrow> StateMachine \<Rightarrow> bytes \<Rightarrow> ('x, 'm, u256) cop" where
  "query_fee cfg rc source encoded =
     (if is_evm source then ok_or (rc_rlp_u256 rc encoded) (Custom (ascii ''Failed to decode fee''))
      else if is_substrate source then
        bindC (ok_or (cf_decode_meta cfg encoded) (Custom (ascii ''Failed to decode fee''))) (\<lambda>meta.
          ret (ucast (fee_fee (rm_fee meta))))
      else fail (Custom (ascii ''Unsupported State Machine'')))"

text \<open>The loop over the proven commitments. Adding to a \<^verbatim>\<open>U256\<close> panics on overflow.\<close>

fun total_query_fee ::
  "('x, 'm) rl_config \<Rightarrow> ('x, 'm) RelayerConfig \<Rightarrow> StateMachine \<Rightarrow> (bytes, bytes option) btree_map \<Rightarrow> u256 \<Rightarrow> ('x, 'm, u256) cop" where
  "total_query_fee cfg rc source [] acc = ret acc"
| "total_query_fee cfg rc source ((_, value) # result) acc =
     (case value of
        None \<Rightarrow> total_query_fee cfg rc source result acc
      | Some encoded \<Rightarrow>
          bindC (query_fee cfg rc source encoded) (\<lambda>fee.
          bindC (expect (checked_add256 acc fee)) (\<lambda>acc'.
            total_query_fee cfg rc source result acc')))"

text \<open>The source proof, and the fee for the relayer.\<close>

definition collect_query_fee ::
  "('x, 'm) rl_config \<Rightarrow> ('x, 'm) RelayerConfig \<Rightarrow> GetRequestsWithProof \<Rightarrow> ('x, 'm, unit) cop" where
  "collect_query_fee cfg rc msg =
     (let H = pallet_host cfg; source = gq_source msg; chain = state_id (smh_id (proof_height source)) in
      bindC (validate_state_machine H (proof_height source)) (\<lambda>source_state_machine.
      bindC (reads (h_state_machine_commitment H (proof_height source))) (\<lambda>state_root.
      bindC (get_request_keys cfg (gq_requests msg) chain) (\<lambda>source_storage_keys.
      bindC (reads (\<lambda>s. verify_membership source_state_machine s
               (RRRequest (map ReqGet (gq_requests msg))) state_root source)) (\<lambda>_.
      bindC (reads (\<lambda>s. verify_state_proof source_state_machine s source_storage_keys state_root source)) (\<lambda>result.
      bindC (total_query_fee cfg rc chain result 0) (\<lambda>total_fee.
        if total_fee \<noteq> 0 then accumulate_fee chain (gq_address msg) total_fee else ret ())))))))"

text \<open>The response proof: the values of every request.\<close>

definition prove_responses ::
  "('x, 'm) rl_config \<Rightarrow> GetRequestsWithProof \<Rightarrow> ('x, 'm, GetResponse list) cop" where
  "prove_responses cfg msg =
     (let H = pallet_host cfg; response = gq_response msg in
      bindC (validate_state_machine H (proof_height response)) (\<lambda>dest_state_machine.
      bindC (reads (h_state_machine_commitment H (proof_height response))) (\<lambda>state_root.
        collect (\<lambda>req.
          bindC (reads (\<lambda>s. verify_state_proof dest_state_machine s (gr_keys req) state_root response)) (\<lambda>entries.
            ret \<lparr>grs_get = req, grs_values = map (\<lambda>(key, value). \<lparr>sv_key = key, sv_value = value\<rparr>) entries\<rparr>))
          (gq_requests msg))))"

definition dispatch_get_response :: "('x, 'm) rl_config \<Rightarrow> bytes \<Rightarrow> GetResponse \<Rightarrow> ('x, 'm, unit) cop" where
  "dispatch_get_response cfg address get_response =
     bindC (expect (hash_get_response (cf_keccak256 cfg) get_response)) (\<lambda>commitment.
     bindC (expect (hash_request (cf_keccak256 cfg) (ReqGet (grs_get get_response)))) (\<lambda>req_commitment.
     bindC (mmr_push cfg (LeafResponse (ResGet get_response))) (\<lambda>leaf.
     bindC (modify (ResponseCommitments_insert commitment
              \<lparr>rm_mmr = leaf_index_and_pos leaf, rm_fee = \<lparr>fee_payer = 0, fee_fee = 0\<rparr>, rm_claimed = True\<rparr>)) (\<lambda>_.
     bindC (modify (\<lambda>s. s\<lparr>responded := (responded s)(req_commitment \<mapsto> True)\<rparr>)) (\<lambda>_.
     bindC (deposit_event (PeResponse (gr_source (grs_get get_response)) (gr_dest (grs_get get_response))
              (gr_nonce (grs_get get_response)) commitment req_commitment)) (\<lambda>_.
       deposit_event (PeGetRequestHandled \<lparr>rrh_commitment = req_commitment, rrh_relayer = address\<rparr>)))))))"

definition answer_query :: "('x, 'm) rl_config \<Rightarrow> bytes \<Rightarrow> GetResponse \<Rightarrow> ('x, 'm, unit) cop" where
  "answer_query cfg address get_response =
     bindC (h_store_request_receipt (pallet_host cfg) (ReqGet (grs_get get_response)) address) (\<lambda>_.
       map_err (\<lambda>_. Custom (ascii ''Failed to dispatch get response'')) (dispatch_get_response cfg address get_response))"

definition handle_get_requests ::
  "('x, 'm) rl_config \<Rightarrow> ('x, 'm) RelayerConfig \<Rightarrow> GetRequestsWithProof \<Rightarrow> ('x, 'm, unit) cop" where
  "handle_get_requests cfg rc msg =
     bindC (for_each (check_query cfg (state_id (smh_id (proof_height (gq_source msg))))) (gq_requests msg)) (\<lambda>_.
     bindC (ensure (\<forall>get \<in> set (gq_requests msg). gr_height get = smh_height (proof_height (gq_response msg)))
              InsufficientProofHeight) (\<lambda>_.
     bindC (collect_query_fee cfg rc msg) (\<lambda>_.
     bindC (prove_responses cfg msg) (\<lambda>get_responses.
       for_each (answer_query cfg (gq_address msg)) get_responses))))"

section \<open>The call and the transaction check\<close>

definition coprocessor_handle_unsigned ::
  "('x, 'm) rl_config \<Rightarrow> ('x, 'm) RelayerConfig \<Rightarrow> Origin \<Rightarrow> GetRequestsWithProof \<Rightarrow> (('x, 'm) rl_st, CoprocessorError, unit) comp" where
  "coprocessor_handle_unsigned cfg rc origin message = transactional
     (bindC (ensure (origin = OriginNone) CpBadOrigin) (\<lambda>_.
        map_err (\<lambda>_. HandlingError) (handle_get_requests cfg rc message)))"

definition coprocessor_validate_unsigned ::
  "('x, 'm) rl_config \<Rightarrow> ('x, 'm) RelayerConfig \<Rightarrow> (h256 list \<Rightarrow> bytes) \<Rightarrow> GetRequestsWithProof \<Rightarrow>
     (('x, 'm) rl_st, TransactionValidityError, ValidTransaction) comp" where
  "coprocessor_validate_unsigned cfg rc encode_hashes message =
     bindC (map_err (\<lambda>_. InvalidCall) (handle_get_requests cfg rc message)) (\<lambda>_.
     bindC (expect (those (map (\<lambda>get. hash_request (cf_keccak256 cfg) (ReqGet get)) (gq_requests message)))) (\<lambda>messages.
     (let msg_hash = be_bytes 32 (cf_keccak256 cfg (encode_hashes (sort messages))) in
      ret \<lparr>vt_priority = 100, vt_requires = [], vt_provides = [msg_hash], vt_longevity = 25,
           vt_propagate = True\<rparr>)))"

end
