(* ===== verification/Coprocessor_Properties.thy ===== *)
theory Coprocessor_Properties
  imports Relayer_Properties Pallet_Coprocessor
begin

text \<open>
  What the state coprocessor guarantees: which queries it answers, with which values, for which fee,
  and that it answers each of them in one message only.
\<close>

section \<open>The checks\<close>

definition queryable :: "('x, 'm) rl_config \<Rightarrow> StateMachine \<Rightarrow> GetRequest \<Rightarrow> ('x, 'm) rl_st \<Rightarrow> bool" where
  "queryable cfg source req s \<longleftrightarrow>
     \<not> Request_timed_out (ReqGet req) (now s) \<and> gr_source req = source \<and>
     h_request_receipt (pallet_host cfg) (ReqGet req) s = Ok None"

lemma check_query_Ok: "check_query cfg source req s = (Ok u, s') \<longleftrightarrow> s' = s \<and> queryable cfg source req s"
  by (auto simp: check_query_def queryable_def comp_ok Let_def)

lemma readonly_check_query [readonly_intros]: "readonly (check_query cfg source req)"
  unfolding check_query_def Let_def by (intro readonly_intros)

lemma readonly_query_steps [readonly_intros]:
  "readonly (get_request_keys cfg reqs source)" "readonly (query_fee cfg rc source e)"
  "readonly (prove_responses cfg msg)"
  unfolding get_request_keys_def query_fee_def prove_responses_def Let_def by (intro readonly_intros)+

lemma readonly_total_query_fee [readonly_intros]: "readonly (total_query_fee cfg rc source result acc)"
  by (induction result arbitrary: acc)
     (auto intro!: readonly_intros split: option.split prod.split)

section \<open>The fee\<close>




section \<open>The answers\<close>

definition proved_response ::
  "('x, 'm) rl_st StateMachineClient \<Rightarrow> StateCommitment \<Rightarrow> Proof \<Rightarrow> ('x, 'm) rl_st \<Rightarrow> GetResponse \<Rightarrow> bool" where
  "proved_response client root response s r \<longleftrightarrow>
     (\<exists>entries. verify_state_proof client s (gr_keys (grs_get r)) root response = Ok entries \<and>
        grs_values r = map (\<lambda>(k, v). \<lparr>sv_key = k, sv_value = v\<rparr>) entries)"

lemma collect_responses_Ok:
  "collect (\<lambda>req. bindC (reads (\<lambda>s. verify_state_proof client s (gr_keys req) root response)) (\<lambda>entries.
      ret \<lparr>grs_get = req, grs_values = map (\<lambda>(key, value). \<lparr>sv_key = key, sv_value = value\<rparr>) entries\<rparr>)) reqs s = (Ok rs, s') \<longleftrightarrow>
   s' = s \<and> map grs_get rs = reqs \<and> (\<forall>r \<in> set rs. proved_response client root response s r)"
proof (induction reqs arbitrary: rs)
  case Nil
  then show ?case by (auto simp: comp_ok)
next
  case (Cons req reqs)
  have "r = \<lparr>grs_get = grs_get r, grs_values = grs_values r\<rparr>" for r :: GetResponse by simp
  with Cons.IH show ?case
    by (cases rs) (auto simp: comp_ok proved_response_def)
qed

lemma prove_responses_Ok:
  "prove_responses cfg msg s = (Ok rs, s') \<longleftrightarrow>
     (\<exists>client root. s' = s \<and> usable_height (pallet_host cfg) (proof_height (gq_response msg)) client s \<and>
        h_state_machine_commitment (pallet_host cfg) (proof_height (gq_response msg)) s = Ok root \<and>
        map grs_get rs = gq_requests msg \<and> (\<forall>r \<in> set rs. proved_response client root (gq_response msg) s r))"
  unfolding prove_responses_def Let_def
  by (auto simp: comp_ok validate_state_machine_Ok collect_responses_Ok)

definition answered_at :: "h256 \<Rightarrow> h256 \<Rightarrow> ('x, 'm) rl_st \<Rightarrow> bool" where
  "answered_at q c s \<longleftrightarrow>
     RequestReceipts_get q s \<noteq> None \<and> responded s q = Some True \<and>
     (\<exists>m. ResponseCommitments_get c s = Some m \<and> rm_claimed m \<and> fee_fee (rm_fee m) = 0)"

definition answered :: "('x, 'm) rl_config \<Rightarrow> GetResponse \<Rightarrow> ('x, 'm) rl_st \<Rightarrow> bool" where
  "answered cfg r s \<longleftrightarrow>
     (\<exists>q c. hash_request (cf_keccak256 cfg) (ReqGet (grs_get r)) = Some q \<and>
        hash_get_response (cf_keccak256 cfg) r = Some c \<and> answered_at q c s)"

lemma answer_query_run:
  assumes "hash_request (cf_keccak256 cfg) (ReqGet (grs_get r)) = Some q" and "hash_get_response (cf_keccak256 cfg) r = Some c"
  shows "\<exists>s'. answer_query cfg a r s = (Ok (), s') \<and> answered_at q c s' \<and>
    (\<forall>q' c'. answered_at q' c' s \<longrightarrow> answered_at q' c' s') \<and> rl_fees s' = rl_fees s"
proof -
  obtain leaf x where push: "cf_mmr_push cfg (LeafResponse (ResGet r)) (env s) = (leaf, x)" by fastforce
  show ?thesis
    by (simp add: answer_query_def dispatch_get_response_def pallet_store_request_receipt_def assms comp_app
        mmr_push_run deposit_event_def push child_trie_defs answered_at_def)
qed

lemma answer_query_hashes:
  assumes "answer_query cfg a r s = (Ok u, s')"
  shows "\<exists>q c. hash_request (cf_keccak256 cfg) (ReqGet (grs_get r)) = Some q \<and> hash_get_response (cf_keccak256 cfg) r = Some c"
  using assms by (auto simp: answer_query_def dispatch_get_response_def pallet_store_request_receipt_def comp_ok)

lemma answer_queries_Ok:
  assumes "for_each (answer_query cfg a) rs s = (Ok u, s')"
  shows "(\<forall>r \<in> set rs. answered cfg r s') \<and> (\<forall>q c. answered_at q c s \<longrightarrow> answered_at q c s') \<and> rl_fees s' = rl_fees s"
  using assms
proof (induction rs arbitrary: s)
  case Nil
  then show ?case by (simp add: comp_ok)
next
  case (Cons r rs)
  then obtain t where one: "answer_query cfg a r s = (Ok (), t)" and rest: "for_each (answer_query cfg a) rs t = (Ok u, s')"
    by (auto simp: comp_ok)
  from answer_query_hashes [OF one] obtain q c where
    h: "hash_request (cf_keccak256 cfg) (ReqGet (grs_get r)) = Some q" "hash_get_response (cf_keccak256 cfg) r = Some c" by blast
  from answer_query_run [OF h, of a s] one have
    "answered_at q c t" "\<forall>q c. answered_at q c s \<longrightarrow> answered_at q c t" "rl_fees t = rl_fees s" by auto
  with Cons.IH [OF rest] h show ?case by (auto simp: answered_def)
qed

lemma handle_get_requests_Ok:
  assumes "handle_get_requests cfg rc msg s = (Ok u, s')"
  obtains t rs where
    "\<forall>req \<in> set (gq_requests msg). queryable cfg (state_id (smh_id (proof_height (gq_source msg)))) req s \<and>
       gr_height req = smh_height (proof_height (gq_response msg))"
    "collect_query_fee cfg rc msg s = (Ok (), t)" "prove_responses cfg msg t = (Ok rs, t)"
    "for_each (answer_query cfg (gq_address msg)) rs t = (Ok (), s')"
proof -
  from assms obtain t rs t' where
    a: "\<forall>req \<in> set (gq_requests msg). check_query cfg (state_id (smh_id (proof_height (gq_source msg)))) req s = (Ok (), s)"
       "\<forall>req \<in> set (gq_requests msg). gr_height req = smh_height (proof_height (gq_response msg))" and
    b: "collect_query_fee cfg rc msg s = (Ok (), t)" "prove_responses cfg msg t = (Ok rs, t')"
       "for_each (answer_query cfg (gq_address msg)) rs t' = (Ok (), s')"
    unfolding handle_get_requests_def
    by (auto simp: comp_ok for_each_readonly_Ok [OF readonly_check_query])
  with readonlyD [OF readonly_query_steps(3) b(2)] show ?thesis by (intro that) (auto simp: check_query_Ok)
qed

lemma commitment_after_fees: "pallet_state_machine_commitment cfg h (s\<lparr>rl_fees := fees\<rparr>) = pallet_state_machine_commitment cfg h s"
proof -
  have "child_trie (s\<lparr>rl_fees := fees\<rparr>) = child_trie s" "state_commitments (s\<lparr>rl_fees := fees\<rparr>) = state_commitments s" by simp_all
  then show ?thesis unfolding pallet_state_machine_commitment_def StateCommitments_get_def by metis
qed

text \<open>What it takes for a message to be accepted.\<close>

lemma queries_run:
  assumes "\<forall>req \<in> set (gq_requests msg). queryable cfg chain req s \<and> gr_height req = smh_height (proof_height (gq_response msg))"
    and "chain = state_id (smh_id (proof_height (gq_source msg)))"
    and "collect_query_fee cfg rc msg s = (Ok (), t)"
    and "usable_height (pallet_host cfg) (proof_height (gq_response msg)) client t"
    and "h_state_machine_commitment (pallet_host cfg) (proof_height (gq_response msg)) t = Ok root"
    and "map grs_get rs = gq_requests msg"
    and "\<forall>r \<in> set rs. proved_response client root (gq_response msg) t r \<and>
      hash_request (cf_keccak256 cfg) (ReqGet (grs_get r)) \<noteq> None \<and> hash_get_response (cf_keccak256 cfg) r \<noteq> None"
  shows "\<exists>s'. coprocessor_handle_unsigned cfg rc OriginNone msg s = (Ok (), s') \<and> (\<forall>r \<in> set rs. answered cfg r s')"
proof -
  have checks: "for_each (check_query cfg chain) (gq_requests msg) s = (Ok (), s)"
    using assms(1) by (simp add: for_each_readonly_Ok [OF readonly_check_query] check_query_Ok)
  have proofs: "prove_responses cfg msg t = (Ok rs, t)" using assms(4-7) by (auto simp: prove_responses_Ok)
  have "\<exists>t'. answer_query cfg (gq_address msg) r u = (Ok (), t')" if r: "r \<in> set rs" for r u
  proof -
    from assms(7) r obtain q c where "hash_request (cf_keccak256 cfg) (ReqGet (grs_get r)) = Some q"
      "hash_get_response (cf_keccak256 cfg) r = Some c" by blast
    from answer_query_run [OF this] show ?thesis by blast
  qed
  from for_each_succeeds [of rs "answer_query cfg (gq_address msg)" t, OF this] obtain s' where ans: "for_each (answer_query cfg (gq_address msg)) rs t = (Ok (), s')" by blast
  have "handle_get_requests cfg rc msg s = (Ok (), s')"
    unfolding handle_get_requests_def assms(2) [symmetric] using checks assms(1,3) proofs ans by (simp add: comp_app)
  then show ?thesis using answer_queries_Ok [OF ans] by (auto simp: coprocessor_handle_unsigned_def comp_app)
qed

section \<open>Properties\<close>


text \<open>C26: a get request that the coprocessor has answered has a receipt, and no later message containing it is
  accepted: such a message is rejected without effect.\<close>

theorem answered_query_not_answered_again:
  assumes "coprocessor_handle_unsigned cfg rc origin msg s = (Ok (), s')" and "req \<in> set (gq_requests msg)"
  shows "h_request_receipt (pallet_host cfg) (ReqGet req) s' = Ok (Some ()) \<and>
    (\<forall>t msg' origin'. h_request_receipt (pallet_host cfg) (ReqGet req) t = Ok (Some ()) \<and> req \<in> set (gq_requests msg') \<longrightarrow>
       fst (coprocessor_handle_unsigned cfg rc origin' msg' t) \<noteq> Ok () \<and>
       snd (coprocessor_handle_unsigned cfg rc origin' msg' t) = t)"
proof (intro conjI allI impI)
  have "handle_get_requests cfg rc msg s = (Ok (), s')"
    using assms(1) by (auto simp: coprocessor_handle_unsigned_def comp_ok)
  then obtain t rs where
    rs: "prove_responses cfg msg t = (Ok rs, t)" and
    ans: "for_each (answer_query cfg (gq_address msg)) rs t = (Ok (), s')" by (rule handle_get_requests_Ok)
  from rs have gets: "map grs_get rs = gq_requests msg" by (auto simp: prove_responses_Ok)
  have "req \<in> set (map grs_get rs)" unfolding gets by (rule assms(2))
  then obtain r where "r \<in> set rs" "grs_get r = req" by auto
  with answer_queries_Ok [OF ans] show "h_request_receipt (pallet_host cfg) (ReqGet req) s' = Ok (Some ())"
    by (auto simp: answered_def answered_at_def pallet_request_receipt_def)
next
  fix t and msg' :: GetRequestsWithProof and origin'
  assume a: "h_request_receipt (pallet_host cfg) (ReqGet req) t = Ok (Some ()) \<and> req \<in> set (gq_requests msg')"
  have never: "coprocessor_handle_unsigned cfg rc origin' msg' t \<noteq> (Ok (), t')" for t'
  proof
    assume "coprocessor_handle_unsigned cfg rc origin' msg' t = (Ok (), t')"
    then have "handle_get_requests cfg rc msg' t = (Ok (), t')" by (auto simp: coprocessor_handle_unsigned_def comp_ok)
    then have "\<forall>req \<in> set (gq_requests msg'). h_request_receipt (pallet_host cfg) (ReqGet req) t = Ok None"
      by (rule handle_get_requests_Ok) (simp add: queryable_def)
    with a show False by auto
  qed
  then show f: "fst (coprocessor_handle_unsigned cfg rc origin' msg' t) \<noteq> Ok ()" by (metis fst_Ok_run)
  then show "snd (coprocessor_handle_unsigned cfg rc origin' msg' t) = t"
    unfolding coprocessor_handle_unsigned_def transactional_def by (auto split: prod.splits outcome.splits)
qed

text \<open>The coprocessor never compares the chain a get request asks about with the chain of the proof that
  answers it. Requests about other chains, whose source proof is accepted, are answered from any proof
  at the height they name: with its values the responses are committed to.\<close>

theorem coprocessor_ignores_destination:
  assumes "\<forall>req \<in> set (gq_requests msg). queryable cfg chain req s \<and> gr_height req = smh_height (proof_height (gq_response msg)) \<and>
      gr_dest req \<noteq> state_id (smh_id (proof_height (gq_response msg)))"
    and "chain = state_id (smh_id (proof_height (gq_source msg)))"
    and "collect_query_fee cfg rc msg s = (Ok (), t)"
    and "usable_height (pallet_host cfg) (proof_height (gq_response msg)) client t"
    and "h_state_machine_commitment (pallet_host cfg) (proof_height (gq_response msg)) t = Ok root"
    and "map grs_get rs = gq_requests msg"
    and "\<forall>r \<in> set rs. proved_response client root (gq_response msg) t r \<and>
      hash_request (cf_keccak256 cfg) (ReqGet (grs_get r)) \<noteq> None \<and> hash_get_response (cf_keccak256 cfg) r \<noteq> None"
  shows "\<exists>s'. coprocessor_handle_unsigned cfg rc OriginNone msg s = (Ok (), s') \<and> (\<forall>r \<in> set rs. answered cfg r s')"
  using assms(1) by (intro queries_run [OF _ assms(2-7)]) blast

section \<open>A query\<close>

text \<open>A request of the chain Evm 1 about another chain, answered from a proof of Evm 1.\<close>

definition query :: GetRequest where
  "query =
     \<lparr>gr_source = Evm 1, gr_dest = Polkadot 1000, gr_nonce = 0, gr_from = [1], gr_keys = [[1]], gr_height = 5,
      gr_context = [], gr_timeout_timestamp = 20000\<rparr>"

definition query_message :: GetRequestsWithProof where
  "query_message = \<lparr>gq_requests = [query], gq_source = sample_proof, gq_response = sample_proof, gq_address = [9]\<rparr>"

lemma query_message_simps [simp]:
  "gq_requests query_message = [query]" "gq_source query_message = sample_proof" "gq_response query_message = sample_proof"
  "gq_address query_message = [9]" "proof_height sample_proof = sample_height 5" "smh_height (sample_height 5) = 5"
  "state_id (smh_id (sample_height 5)) = Evm 1"
  by (simp_all add: query_message_def sample_proof_def sample_height_def sample_id_def)

lemma query_hashes:
  "hash_request sample_hash (ReqGet query) = Some 44"
  "hash_get_response sample_hash \<lparr>grs_get = query, grs_values = [\<lparr>sv_key = [1], sv_value = Some [7]\<rparr>]\<rparr> = Some 46"
  by (simp_all add: query_def hash_request_def hash_get_response_def GetResponse_encode_def option_cat_def
      sample_hash_def del: StateMachine_fmt.simps)

lemma query_fields [simp]: "gr_source query = Evm 1" "gr_dest query = Polkadot 1000" "gr_height query = 5" "gr_keys query = [[1]]"
  "gr_timeout_timestamp query = 20000"
  by (simp_all add: query_def)

lemma query_source:
  "queryable relay_cfg (Evm 1) query relay_state"
  "usable_height (pallet_host relay_cfg) (proof_height sample_proof) full_client (relay_state\<lparr>rl_fees := fees\<rparr>)"
  "h_state_machine_commitment (pallet_host relay_cfg) (proof_height sample_proof) (relay_state\<lparr>rl_fees := fees\<rparr>) = Ok (sample_commitment 8000)"
    apply (simp add: queryable_def query_hashes Request_timed_out_def Request_timeout_def get_timeout_def RequestReceipts_get_def sample_eval relay_eval)
   apply (simp add: usable_height_def sample_eval relay_eval)
  apply (simp add: commitment_after_fees sample_eval relay_eval)
  done

lemma query_fee_run:
  "\<exists>fees. collect_query_fee relay_cfg relay_rc query_message relay_state = (Ok (), relay_state\<lparr>rl_fees := fees\<rparr>)"
  by (simp add: collect_query_fee_def query_message_def get_request_keys_def query_hashes query_fee_def sample_eval relay_eval)
     (rule exI, rule refl)

definition query_answer :: GetResponse where
  "query_answer = \<lparr>grs_get = query, grs_values = [\<lparr>sv_key = [1], sv_value = Some [7]\<rparr>]\<rparr>"

lemma query_answer_proved:
  "proved_response full_client root sample_proof s query_answer \<and>
   hash_request (cf_keccak256 relay_cfg) (ReqGet (grs_get query_answer)) \<noteq> None \<and> hash_get_response (cf_keccak256 relay_cfg) query_answer \<noteq> None"
  by (simp add: query_answer_def proved_response_def full_client_def query_hashes)

lemma query_answer_get [simp]: "grs_get query_answer = query"
  by (simp add: query_answer_def)

lemma query_run: "\<exists>s'. coprocessor_handle_unsigned relay_cfg relay_rc OriginNone query_message relay_state = (Ok (), s')"
proof -
  from query_fee_run obtain fees where fee: "collect_query_fee relay_cfg relay_rc query_message relay_state = (Ok (), relay_state\<lparr>rl_fees := fees\<rparr>)" by blast
  have "\<exists>s'. coprocessor_handle_unsigned relay_cfg relay_rc OriginNone query_message relay_state = (Ok (), s') \<and>
    (\<forall>r \<in> set [query_answer]. answered relay_cfg r s')"
    by (rule queries_run [OF _ refl fee, where client = full_client and root = "sample_commitment 8000"])
       (use query_source query_answer_proved in simp_all)
  then show ?thesis by blast
qed


theorem answered_query_not_answered_again_witness:
  "\<exists>s'. coprocessor_handle_unsigned relay_cfg relay_rc OriginNone query_message relay_state = (Ok (), s') \<and>
     fst (coprocessor_handle_unsigned relay_cfg relay_rc OriginNone query_message s') \<noteq> Ok ()"
proof -
  from query_run obtain s' where run: "coprocessor_handle_unsigned relay_cfg relay_rc OriginNone query_message relay_state = (Ok (), s')" by blast
  have "query \<in> set (gq_requests query_message)" by (simp add: query_message_def)
  from answered_query_not_answered_again [OF run this] this run show ?thesis by blast
qed

theorem coprocessor_ignores_destination_witness:
  "gr_dest query = Polkadot 1000 \<and> state_id (smh_id (proof_height (gq_response query_message))) = Evm 1 \<and>
   (\<exists>s'. coprocessor_handle_unsigned relay_cfg relay_rc OriginNone query_message relay_state = (Ok (), s') \<and>
      answered relay_cfg query_answer s')"
proof -
  from query_fee_run obtain fees where fee: "collect_query_fee relay_cfg relay_rc query_message relay_state = (Ok (), relay_state\<lparr>rl_fees := fees\<rparr>)" by blast
  have "\<exists>s'. coprocessor_handle_unsigned relay_cfg relay_rc OriginNone query_message relay_state = (Ok (), s') \<and>
    (\<forall>r \<in> set [query_answer]. answered relay_cfg r s')"
    by (rule coprocessor_ignores_destination [OF _ refl fee, where client = full_client and root = "sample_commitment 8000"])
       (use query_source query_answer_proved in simp_all)
  then show ?thesis by (simp add: query_message_def sample_proof_def)
qed

end
