(* ===== verification/Token_Gateway_Types.thy ===== *)
theory Token_Gateway_Types
  imports Evm_State_Machine
begin

text \<open>
  The types that the token gateway pallet, the token governor and the inspector share
  (\<^verbatim>\<open>modules/ismp/pallets/token-gateway/primitives/src/lib.rs\<close> and the struct of
  \<^verbatim>\<open>token-gateway/src/types.rs\<close>), and the conversion between the denominations of an asset
  (\<^verbatim>\<open>token-gateway/src/impls.rs\<close>). Bounded vectors are lists.
\<close>

section \<open>Identifiers\<close>

definition REGISTRY :: bytes where
  "REGISTRY = ascii ''registry''"

definition token_gateway_id :: "(bytes \<Rightarrow> h256) \<Rightarrow> h160" where
  "token_gateway_id keccak = ucast (keccak (ascii ''tokengty''))"

definition token_governor_id :: bytes where
  "token_governor_id = REGISTRY"

section \<open>Messages\<close>

record GatewayMetadata =
  gm_name :: bytes
  gm_symbol :: bytes
  gm_decimals :: u8
  gm_minimum_balance :: "u128 option"

record DeregisterAssets =
  da_asset_ids :: "h256 list"

record GatewayAssetRegistration =
  gar_name :: bytes
  gar_symbol :: bytes
  gar_chains :: "StateMachine list"
  gar_minimum_balance :: "u128 option"

record GatewayAssetUpdate =
  gau_asset_id :: h256
  gau_add_chains :: "StateMachine list"
  gau_remove_chains :: "StateMachine list"
  gau_new_admins :: "(StateMachine \<times> h160) list"

datatype RemoteERC6160AssetRegistration =
    RemoteCreateAsset GatewayAssetRegistration
  | RemoteUpdateAsset GatewayAssetUpdate

text \<open>\<^verbatim>\<open>Body\<close>, the struct that travels between the gateways.\<close>

record GatewayBody =
  gb_amount :: u256
  gb_asset_id :: h256
  gb_redeem :: bool
  gb_from :: h256
  gb_to :: h256

text \<open>\<^verbatim>\<open>&body[1..]\<close>, which panics for an empty body.\<close>

definition after_first :: "bytes \<Rightarrow> ('s, 'e, bytes) comp" where
  "after_first body = expect (case body of [] \<Rightarrow> None | _ # rest \<Rightarrow> Some rest)"

section \<open>Denominations\<close>

text \<open>\<^verbatim>\<open>10u128.pow(n)\<close> wraps in release builds; products of a \<^verbatim>\<open>U256\<close> and divisions by zero panic.\<close>

definition pow10 :: "u8 \<Rightarrow> u128" where
  "pow10 n = 10 ^ unat n"

definition saturating_sub8 :: "u8 \<Rightarrow> u8 \<Rightarrow> u8" where
  "saturating_sub8 a b = (if a < b then 0 else a - b)"

definition checked_mul256 :: "u256 \<Rightarrow> u256 \<Rightarrow> u256 option" where
  "checked_mul256 a b = (if unat a * unat b < 2 ^ 256 then Some (a * b) else None)"

definition convert_to_balance :: "u256 \<Rightarrow> u8 \<Rightarrow> u8 \<Rightarrow> ('s, unit, u128) comp" where
  "convert_to_balance val erc_decimals final_decimals =
     (let scale = (ucast (pow10 (saturating_sub8 erc_decimals final_decimals)) :: u256) in
      bindC (expect (if scale = 0 then None else Some (val div scale))) (\<lambda>q.
      bindC (ensure (unat q < 2 ^ 128) ()) (\<lambda>_.
        ret (ucast q))))"

definition convert_to_erc20 :: "u128 \<Rightarrow> u8 \<Rightarrow> u8 \<Rightarrow> ('s, 'e, u256) comp" where
  "convert_to_erc20 val erc_decimals decimals =
     expect (checked_mul256 (ucast val) (ucast (pow10 (saturating_sub8 erc_decimals decimals))))"

lemma checked_mul256_Some: "checked_mul256 a b = Some c \<Longrightarrow> unat c = unat a * unat b"
  by (auto simp: checked_mul256_def unat_word_ariths split: if_splits)

text \<open>An amount that is converted comes back as it was, and the conversion to local units rounds down.\<close>

lemma unat_ucast_u256: "unat (ucast (v :: u128) :: u256) = unat v"
proof -
  have "unat v < 2 ^ 128" using unsigned_less [of v, where ?'a = nat] by simp
  also have "\<dots> < (2 :: nat) ^ 256" by simp
  finally show ?thesis by (simp add: unsigned_ucast_eq take_bit_eq_mod)
qed

lemma denomination_roundtrip:
  assumes "convert_to_erc20 v e d s = (Ok x, s')" and "pow10 (saturating_sub8 e d) \<noteq> 0"
  shows "convert_to_balance x e d t = (Ok v, t)"
proof -
  define k where "k = (ucast (pow10 (saturating_sub8 e d)) :: u256)"
  have k: "0 < unat k" using assms(2) by (simp add: k_def unat_ucast_u256 unat_gt_0)
  then have nz: "k \<noteq> 0" by auto
  from assms(1) have "unat x = unat (ucast v :: u256) * unat k"
    unfolding convert_to_erc20_def k_def by (auto simp: comp_ok dest: checked_mul256_Some)
  then have q: "unat (x div k) = unat v" using k by (simp add: unat_div unat_ucast_u256)
  then have "ucast (x div k) = v"
    using unsigned_less [of v, where ?'a = nat] by (simp add: word_unat_eq_iff unsigned_ucast_eq take_bit_eq_mod)
  with q nz unsigned_less [of v, where ?'a = nat] show ?thesis by (simp add: convert_to_balance_def comp_app Let_def k_def [symmetric])
qed

end
