(* ===== verification/Pallet_Token_Gateway.thy ===== *)
theory Pallet_Token_Gateway
  imports Token_Gateway_Types
begin

text \<open>
  pallet-token-gateway (\<^verbatim>\<open>modules/ismp/pallets/token-gateway/src\<close>: \<^verbatim>\<open>lib.rs\<close>,
  \<^verbatim>\<open>impls.rs\<close>, \<^verbatim>\<open>types.rs\<close>), the token gateway of substrate chains: assets are taken
  into custody and announced to the gateway of another chain, and paid out of custody for requests of
  such a gateway and for timeouts. Its storage extends the storage of pallet-hyperbridge. The currency,
  the assets of the runtime and the codecs are parameters; identifiers of local assets are 32 bytes
  long as in the runtimes of hyperbridge.
\<close>

section \<open>Data\<close>

record PalletTeleportParams =
  ptp_asset_id :: h256
  ptp_destination :: StateMachine
  ptp_recepient :: h256
  ptp_amount :: balance
  ptp_timeout :: u64
  ptp_token_gateway :: bytes
  ptp_relayer_fee :: balance

record LocalAssetRegistration =
  lar_local_id :: h256
  lar_reg :: GatewayAssetRegistration

datatype PalletGatewayEvent =
    PgAssetTeleported account h256 balance StateMachine h256
  | PgAssetReceived account balance StateMachine
  | PgAssetRefunded account balance StateMachine
  | PgERC6160AssetRegistrationDispatched h256

text \<open>The errors of the calls; \<open>PgToken\<close> is an error of the currency or of the assets.\<close>

datatype PalletGatewayError =
    PgBadOrigin
  | PgToken bytes
  | PgUnregisteredAsset
  | PgAssetTeleportError
  | PgCoprocessorNotConfigured
  | PgDispatchError
  | PgAssetCreationError
  | PgAssetDecimalsNotFound
  | PgNotInitialized
  | PgUnknownAsset
  | PgNotAssetOwner

record 'x token_gateway_state = "'x hyperbridge_state" +
  pg_SupportedAssets :: "h256 \<rightharpoonup> h256"
  pg_LocalAssets :: "h256 \<rightharpoonup> h256"
  pg_Decimals :: "h256 \<rightharpoonup> u8"
  pg_TokenGatewayAddresses :: "StateMachine \<rightharpoonup> bytes"
  pg_events :: "PalletGatewayEvent list"

type_synonym ('x, 'm) pg_st = "('x, 'm) token_gateway_state_scheme"
type_synonym ('x, 'm) pg_config = "('x, 'm token_gateway_state_ext hyperbridge_state_ext) Config"

text \<open>The runtime: \<open>pc_native_transfer\<close> gets whether the sender must be kept alive.\<close>

record ('x, 'm) PgConfig =
  pc_dispatcher :: "('x, 'm) pg_st IsmpDispatcher"
  pc_native_transfer :: "account \<Rightarrow> account \<Rightarrow> balance \<Rightarrow> bool \<Rightarrow> ('x, bytes, unit) comp"
  pc_asset_transfer :: "h256 \<Rightarrow> account \<Rightarrow> account \<Rightarrow> balance \<Rightarrow> ('x, bytes, unit) comp"
  pc_asset_decimals :: "h256 \<Rightarrow> 'x \<Rightarrow> u8"
  pc_asset_admin_of :: "h256 \<Rightarrow> 'x \<Rightarrow> account option"
  pc_create :: "h256 \<Rightarrow> account \<Rightarrow> bool \<Rightarrow> u128 \<Rightarrow> ('x, bytes, unit) comp"
  pc_set_metadata :: "h256 \<Rightarrow> account \<Rightarrow> bytes \<Rightarrow> bytes \<Rightarrow> u8 \<Rightarrow> ('x, bytes, unit) comp"
  pc_create_asset_id :: "bytes \<Rightarrow> ('x, anyhow, h256) comp"
  pc_NativeAssetId :: h256
  pc_AssetAdmin :: account
  pc_Decimals :: u8
  pc_into_account :: "bytes \<Rightarrow> account"
  pc_hyperbridge_account :: account
  pc_encode_body :: "GatewayBody \<Rightarrow> bytes"
  pc_decode_body :: "bytes \<Rightarrow> GatewayBody option"
  pc_encode_remote :: "RemoteERC6160AssetRegistration \<Rightarrow> bytes"
  pc_decode_metadata :: "bytes \<Rightarrow> GatewayMetadata option"
  pc_decode_deregister :: "bytes \<Rightarrow> DeregisterAssets option"

definition MIN_BALANCE :: u128 where
  "MIN_BALANCE = 1000000000"

definition pg_deposit_event :: "PalletGatewayEvent \<Rightarrow> (('x, 'm) pg_st, 'e, unit) comp" where
  "pg_deposit_event e = modify (\<lambda>s. s\<lparr>pg_events := pg_events s @ [e]\<rparr>)"

definition pallet_account :: "('x, 'm) pg_config \<Rightarrow> ('x, 'm) PgConfig \<Rightarrow> account" where
  "pallet_account cfg pc = pc_into_account pc (take 8 (be_bytes 20 (token_gateway_id (cf_keccak256 cfg))))"

definition is_token_gateway :: "('x, 'm) pg_config \<Rightarrow> bytes \<Rightarrow> bool" where
  "is_token_gateway cfg i \<longleftrightarrow> i = be_bytes 20 (token_gateway_id (cf_keccak256 cfg))"

text \<open>\<^verbatim>\<open>decimals\<close> of a local asset.\<close>

definition local_decimals :: "('x, 'm) PgConfig \<Rightarrow> h256 \<Rightarrow> ('x, 'm) pg_st \<Rightarrow> u8" where
  "local_decimals pc local_asset_id s =
     (if local_asset_id = pc_NativeAssetId pc then pc_Decimals pc else pc_asset_decimals pc local_asset_id (env s))"

section \<open>Calls\<close>

definition pg_teleport ::
  "('x, 'm) pg_config \<Rightarrow> ('x, 'm) PgConfig \<Rightarrow> Origin \<Rightarrow> PalletTeleportParams \<Rightarrow> (('x, 'm) pg_st, PalletGatewayError, unit) comp" where
  "pg_teleport cfg pc origin params = transactional
     (bindC (ensure_signed origin PgBadOrigin) (\<lambda>who.
      bindC (asks (\<lambda>s. pg_SupportedAssets s (ptp_asset_id params))) (\<lambda>found.
      bindC (ok_or found PgUnregisteredAsset) (\<lambda>asset_id.
      bindC (map_err PgToken (on_env
               (if ptp_asset_id params = pc_NativeAssetId pc
                then pc_native_transfer pc who (pallet_account cfg pc) (ptp_amount params) True
                else pc_asset_transfer pc (ptp_asset_id params) who (pallet_account cfg pc) (ptp_amount params)))) (\<lambda>_.
      bindC (asks (local_decimals pc (ptp_asset_id params))) (\<lambda>decimals.
      bindC (asks (\<lambda>s. pg_Decimals s (ptp_asset_id params))) (\<lambda>found_decimals.
      bindC (ok_or found_decimals PgAssetDecimalsNotFound) (\<lambda>erc_decimals.
      bindC (convert_to_erc20 (ptp_amount params) erc_decimals decimals) (\<lambda>amount.
      (let body = \<lparr>gb_amount = amount, gb_asset_id = asset_id, gb_redeem = False, gb_from = who, gb_to = ptp_recepient params\<rparr>;
           dispatch_post = \<lparr>dp_dest = ptp_destination params, dp_from = be_bytes 20 (token_gateway_id (cf_keccak256 cfg)),
             dp_to = ptp_token_gateway params, dp_timeout = ptp_timeout params, dp_body = 0 # pc_encode_body pc body\<rparr> in
       bindC (map_err (\<lambda>_. PgAssetTeleportError)
                (d_dispatch_request (pc_dispatcher pc) (DispPost dispatch_post)
                   \<lparr>fee_payer = who, fee_fee = ptp_relayer_fee params\<rparr>)) (\<lambda>commitment.
         pg_deposit_event (PgAssetTeleported who (ptp_recepient params) (ptp_amount params) (ptp_destination params) commitment))))))))))))"

definition set_token_gateway_addresses ::
  "('x, 'm) pg_config \<Rightarrow> Origin \<Rightarrow> (StateMachine, bytes) btree_map \<Rightarrow> (('x, 'm) pg_st, PalletGatewayError, unit) comp" where
  "set_token_gateway_addresses cfg origin addresses = transactional
     (bindC (ensure (cf_admin_origin cfg origin) PgBadOrigin) (\<lambda>_.
        for_each (\<lambda>(chain, address).
          modify (\<lambda>s. s\<lparr>pg_TokenGatewayAddresses := (pg_TokenGatewayAddresses s)(chain \<mapsto> address)\<rparr>)) addresses))"

text \<open>Both calls that announce an asset charge the registration fee and send a request to the governor.\<close>

definition charge_registration_fee ::
  "('x, 'm) pg_config \<Rightarrow> ('x, 'm) PgConfig \<Rightarrow> account \<Rightarrow> (('x, 'm) pg_st, PalletGatewayError, unit) comp" where
  "charge_registration_fee cfg pc who =
     bindC (asks hb_host_params) (\<lambda>params.
       case params of V1 p \<Rightarrow>
         if shp_asset_registration_fee p \<noteq> 0
         then map_err PgToken (on_env (cf_transfer cfg who (pc_hyperbridge_account pc) (shp_asset_registration_fee p)))
         else ret ())"

definition dispatch_to_governor ::
  "('x, 'm) pg_config \<Rightarrow> ('x, 'm) PgConfig \<Rightarrow> account \<Rightarrow> RemoteERC6160AssetRegistration \<Rightarrow>
     (('x, 'm) pg_st, PalletGatewayError, unit) comp" where
  "dispatch_to_governor cfg pc who message =
     bindC (ok_or (cf_coprocessor cfg) PgCoprocessorNotConfigured) (\<lambda>dest.
     bindC (map_err (\<lambda>_. PgDispatchError)
              (d_dispatch_request (pc_dispatcher pc)
                 (DispPost \<lparr>dp_dest = dest, dp_from = be_bytes 20 (token_gateway_id (cf_keccak256 cfg)), dp_to = token_governor_id,
                    dp_timeout = 0, dp_body = pc_encode_remote pc message\<rparr>)
                 \<lparr>fee_payer = who, fee_fee = 0\<rparr>)) (\<lambda>commitment.
       pg_deposit_event (PgERC6160AssetRegistrationDispatched commitment)))"

definition pg_create_erc6160_asset ::
  "('x, 'm) pg_config \<Rightarrow> ('x, 'm) PgConfig \<Rightarrow> Origin \<Rightarrow> LocalAssetRegistration \<Rightarrow> (('x, 'm) pg_st, PalletGatewayError, unit) comp" where
  "pg_create_erc6160_asset cfg pc origin asset = transactional
     (bindC (ensure_signed origin PgBadOrigin) (\<lambda>who.
      bindC (charge_registration_fee cfg pc who) (\<lambda>_.
      (let asset_id = cf_keccak256 cfg (gar_symbol (lar_reg asset)) in
       bindC (modify (\<lambda>s. s\<lparr>pg_SupportedAssets := (pg_SupportedAssets s)(lar_local_id asset \<mapsto> asset_id),
                            pg_LocalAssets := (pg_LocalAssets s)(asset_id \<mapsto> lar_local_id asset),
                            pg_Decimals := (pg_Decimals s)(lar_local_id asset \<mapsto> 18)\<rparr>)) (\<lambda>_.
         dispatch_to_governor cfg pc who (RemoteCreateAsset (lar_reg asset)))))))"

definition ensure_admin ::
  "('x, 'm) PgConfig \<Rightarrow> account \<Rightarrow> h256 \<Rightarrow> (('x, 'm) pg_st, PalletGatewayError, unit) comp" where
  "ensure_admin pc who asset_id =
     bindC (asks (\<lambda>s. pc_asset_admin_of pc asset_id (env s))) (\<lambda>found.
     bindC (ok_or found PgUnknownAsset) (\<lambda>owner.
       ensure (who = owner) PgNotAssetOwner))"

definition pg_update_erc6160_asset ::
  "('x, 'm) pg_config \<Rightarrow> ('x, 'm) PgConfig \<Rightarrow> Origin \<Rightarrow> GatewayAssetUpdate \<Rightarrow> (('x, 'm) pg_st, PalletGatewayError, unit) comp" where
  "pg_update_erc6160_asset cfg pc origin asset = transactional
     (bindC (ensure_signed origin PgBadOrigin) (\<lambda>who.
      bindC (asks (\<lambda>s. pg_LocalAssets s (gau_asset_id asset))) (\<lambda>found.
      bindC (ok_or found PgUnregisteredAsset) (\<lambda>asset_id.
      bindC (ensure_admin pc who asset_id) (\<lambda>_.
      bindC (charge_registration_fee cfg pc who) (\<lambda>_.
        dispatch_to_governor cfg pc who (RemoteUpdateAsset asset)))))))"

section \<open>The module\<close>

definition gateway_error :: "PostRequest \<Rightarrow> string \<Rightarrow> anyhow" where
  "gateway_error request msg = AnyIsmp (ModuleDispatchError (ascii msg) (Meta_of_request (ReqPost request)))"

text \<open>The messages of the governor: the first part of \<^verbatim>\<open>on_accept\<close>. It answers whether the
  function returns there.\<close>

definition register_remote_asset ::
  "('x, 'm) pg_config \<Rightarrow> ('x, 'm) PgConfig \<Rightarrow> GatewayMetadata \<Rightarrow> (('x, 'm) pg_st, anyhow, unit) comp" where
  "register_remote_asset cfg pc metadata =
     (let asset_id = cf_keccak256 cfg (gm_symbol metadata) in
      bindC (asks (\<lambda>s. pg_LocalAssets s asset_id)) (\<lambda>found.
        case found of
          Some local_asset_id \<Rightarrow>
            bindC (asks (\<lambda>s. pc_asset_decimals pc local_asset_id (env s))) (\<lambda>decimals.
            bindC (map_err AnyMsg (on_env (pc_set_metadata pc local_asset_id (pc_AssetAdmin pc)
                     (gm_name metadata) (gm_symbol metadata) decimals))) (\<lambda>_.
              modify (\<lambda>s. s\<lparr>pg_Decimals := (pg_Decimals s)(local_asset_id \<mapsto> gm_decimals metadata)\<rparr>)))
        | None \<Rightarrow>
            (let min_balance = (case gm_minimum_balance metadata of Some b \<Rightarrow> b | None \<Rightarrow> MIN_BALANCE) in
             bindC (on_env (pc_create_asset_id pc (gm_symbol metadata))) (\<lambda>local_asset_id.
             bindC (map_err AnyMsg (on_env (pc_create pc local_asset_id (pc_AssetAdmin pc) True min_balance))) (\<lambda>_.
             bindC (map_err AnyMsg (on_env (pc_set_metadata pc local_asset_id (pc_AssetAdmin pc)
                      (gm_name metadata) (gm_symbol metadata) 18))) (\<lambda>_.
               modify (\<lambda>s. s\<lparr>pg_SupportedAssets := (pg_SupportedAssets s)(local_asset_id \<mapsto> asset_id),
                            pg_LocalAssets := (pg_LocalAssets s)(asset_id \<mapsto> local_asset_id),
                            pg_Decimals := (pg_Decimals s)(local_asset_id \<mapsto> gm_decimals metadata)\<rparr>)))))))"

definition deregister_local_asset :: "h256 \<Rightarrow> (('x, 'm) pg_st, anyhow, unit) comp" where
  "deregister_local_asset asset_id =
     modify (\<lambda>s. case pg_LocalAssets s asset_id of
        None \<Rightarrow> s
      | Some local_asset_id \<Rightarrow>
          s\<lparr>pg_SupportedAssets := (pg_SupportedAssets s)(local_asset_id := None),
            pg_LocalAssets := (pg_LocalAssets s)(asset_id := None),
            pg_Decimals := (pg_Decimals s)(local_asset_id := None)\<rparr>)"

definition obey_governor ::
  "('x, 'm) pg_config \<Rightarrow> ('x, 'm) PgConfig \<Rightarrow> bytes \<Rightarrow> (('x, 'm) pg_st, anyhow, bool) comp" where
  "obey_governor cfg pc body =
     (case pc_decode_metadata pc body of
        Some metadata \<Rightarrow> bindC (register_remote_asset cfg pc metadata) (\<lambda>_. ret True)
      | None \<Rightarrow>
          (case pc_decode_deregister pc body of
             Some meta \<Rightarrow> bindC (for_each deregister_local_asset (da_asset_ids meta)) (\<lambda>_. ret False)
           | None \<Rightarrow> ret False))"

text \<open>Paying out of custody: the common part of \<^verbatim>\<open>on_accept\<close> and \<^verbatim>\<open>on_timeout\<close>.\<close>

definition pay_out ::
  "('x, 'm) pg_config \<Rightarrow> ('x, 'm) PgConfig \<Rightarrow> PostRequest \<Rightarrow> GatewayBody \<Rightarrow> account \<Rightarrow> (('x, 'm) pg_st, anyhow, u128) comp" where
  "pay_out cfg pc request body beneficiary =
     bindC (asks (\<lambda>s. pg_LocalAssets s (gb_asset_id body))) (\<lambda>found.
     bindC (ok_or found (gateway_error request ''Token Gateway: Unknown asset'')) (\<lambda>local_asset_id.
     bindC (asks (local_decimals pc local_asset_id)) (\<lambda>decimals.
     bindC (asks (\<lambda>s. pg_Decimals s local_asset_id)) (\<lambda>found_decimals.
     bindC (ok_or found_decimals (AnyMsg (ascii ''Asset decimals not configured''))) (\<lambda>erc_decimals.
     bindC (map_err (\<lambda>_. gateway_error request ''Token Gateway: Trying to withdraw Invalid amount'')
              (convert_to_balance (gb_amount body) erc_decimals decimals)) (\<lambda>amount.
     bindC (map_err (\<lambda>_. gateway_error request ''Token Gateway: Failed to complete asset transfer'') (on_env
              (if local_asset_id = pc_NativeAssetId pc
               then pc_native_transfer pc (pallet_account cfg pc) beneficiary amount False
               else pc_asset_transfer pc local_asset_id (pallet_account cfg pc) beneficiary amount))) (\<lambda>_.
       ret amount)))))))"

definition decode_body ::
  "('x, 'm) PgConfig \<Rightarrow> PostRequest \<Rightarrow> (('x, 'm) pg_st, anyhow, GatewayBody) comp" where
  "decode_body pc request =
     bindC (after_first (pr_body request)) (\<lambda>encoded.
       ok_or (pc_decode_body pc encoded) (gateway_error request ''Token Gateway: Failed to decode request body''))"

definition pg_on_accept ::
  "('x, 'm) pg_config \<Rightarrow> ('x, 'm) PgConfig \<Rightarrow> PostRequest \<Rightarrow> (('x, 'm) pg_st, anyhow, unit) comp" where
  "pg_on_accept cfg pc request =
     bindC (if pr_from request = token_governor_id \<and> Some (pr_source request) = cf_coprocessor cfg
            then obey_governor cfg pc (pr_body request) else ret False) (\<lambda>returned.
       if returned then ret ()
       else
         bindC (asks (\<lambda>s. pr_from request = (case pg_TokenGatewayAddresses s (pr_source request) of Some a \<Rightarrow> a | None \<Rightarrow> []) \<or>
                          is_token_gateway cfg (pr_from request))) (\<lambda>known.
         bindC (ensure known (gateway_error request ''Token Gateway: Unknown source contract address'')) (\<lambda>_.
         bindC (decode_body pc request) (\<lambda>body.
         bindC (pay_out cfg pc request body (gb_to body)) (\<lambda>amount.
           pg_deposit_event (PgAssetReceived (gb_to body) amount (pr_source request)))))))"

definition pg_on_timeout ::
  "('x, 'm) pg_config \<Rightarrow> ('x, 'm) PgConfig \<Rightarrow> Timeout \<Rightarrow> (('x, 'm) pg_st, anyhow, unit) comp" where
  "pg_on_timeout cfg pc timeout =
     (case timeout of
        TimeoutRequest (ReqPost request) \<Rightarrow>
          bindC (decode_body pc request) (\<lambda>body.
          bindC (pay_out cfg pc request body (gb_from body)) (\<lambda>amount.
            pg_deposit_event (PgAssetRefunded (gb_from body) amount (pr_dest request))))
      | TimeoutRequest (ReqGet get) \<Rightarrow>
          fail (AnyIsmp (ModuleDispatchError (ascii ''Tried to timeout unsupported request type'') (Meta_of_request (ReqGet get))))
      | TimeoutResponse response \<Rightarrow>
          fail (AnyIsmp (ModuleDispatchError (ascii ''Tried to timeout unsupported request type'') (Meta_of_post_response response))))"

definition token_gateway_module :: "('x, 'm) pg_config \<Rightarrow> ('x, 'm) PgConfig \<Rightarrow> ('x, 'm) pg_st IsmpModule" where
  "token_gateway_module cfg pc =
     \<lparr>on_accept = pg_on_accept cfg pc,
      on_response = (\<lambda>_. fail (AnyMsg (ascii ''Module does not accept responses''))),
      on_timeout = pg_on_timeout cfg pc\<rparr>"

end
