(* ===== verification/Pallet_Token_Governor.thy ===== *)
theory Pallet_Token_Governor
  imports Pallet_Relayer Token_Gateway_Types
begin

text \<open>
  pallet-token-governor (\<^verbatim>\<open>modules/ismp/pallets/token-governor/src\<close>: \<^verbatim>\<open>lib.rs\<close>,
  \<^verbatim>\<open>impls.rs\<close>, \<^verbatim>\<open>types.rs\<close>), the registry of assets on hyperbridge: it owns the
  identifiers of assets and tells the token gateways of the other chains which assets, parameters and
  gateways there are. Its storage extends that of the relayer pallet, as the runtimes of hyperbridge
  have both. The ABI and SCALE codecs, the signature scheme and the currency are parameters.
\<close>

section \<open>Data\<close>

record InitialSupply =
  is_beneficiary :: h160
  is_initial_supply :: u256

record ChainWithSupply =
  cs_chain :: StateMachine
  cs_supply :: "InitialSupply option"

record ERC6160AssetUpdate =
  eau_asset_id :: h256
  eau_add_chains :: "ChainWithSupply list"
  eau_remove_chains :: "StateMachine list"
  eau_new_admins :: "(StateMachine \<times> h160) list"

record ERC6160AssetRegistration =
  ear_name :: bytes
  ear_symbol :: bytes
  ear_chains :: "ChainWithSupply list"
  ear_minimum_balance :: "u128 option"

definition ERC6160AssetRegistration_from :: "GatewayAssetRegistration \<Rightarrow> ERC6160AssetRegistration" where
  "ERC6160AssetRegistration_from r =
     \<lparr>ear_name = gar_name r, ear_symbol = gar_symbol r,
      ear_chains = map (\<lambda>chain. \<lparr>cs_chain = chain, cs_supply = None\<rparr>) (gar_chains r),
      ear_minimum_balance = gar_minimum_balance r\<rparr>"

definition ERC6160AssetUpdate_from :: "GatewayAssetUpdate \<Rightarrow> ERC6160AssetUpdate" where
  "ERC6160AssetUpdate_from u =
     \<lparr>eau_asset_id = gau_asset_id u,
      eau_add_chains = map (\<lambda>chain. \<lparr>cs_chain = chain, cs_supply = None\<rparr>) (gau_add_chains u),
      eau_remove_chains = gau_remove_chains u, eau_new_admins = gau_new_admins u\<rparr>"

record GovParams =
  gpa_registration_fee :: balance

record GovParamsUpdate =
  gpu_registration_fee :: "balance option"

record UnsignedERC6160AssetRegistration =
  uar_asset :: ERC6160AssetRegistration
  uar_signature :: bytes
  uar_owner :: account

record Erc20ChainRegistration =
  ecr_chain :: StateMachine
  ecr_erc20 :: "h160 option"
  ecr_erc6160 :: "h160 option"
  ecr_decimals :: u8

record ERC20AssetRegistration =
  e20_name :: bytes
  e20_symbol :: bytes
  e20_chains :: "Erc20ChainRegistration list"
  e20_minimum_balance :: "u128 option"

record GovRegistrarParams =
  grp_host :: h160
  grp_base_fee :: u256
  grp_address :: h160

record RegistrarParamsUpdate =
  rpu_base_fee :: "u256 option"
  rpu_address :: "h160 option"

record GatewayParams =
  gp_host :: h160
  gp_call_dispatcher :: h160
  gp_address :: h160

record TokenGatewayParamsUpdate =
  tgu_call_dispatcher :: "h160 option"
  tgu_address :: "h160 option"

definition GovParams_update :: "GovParams \<Rightarrow> GovParamsUpdate \<Rightarrow> GovParams" where
  "GovParams_update params update =
     (case gpu_registration_fee update of Some fee \<Rightarrow> params\<lparr>gpa_registration_fee := fee\<rparr> | None \<Rightarrow> params)"

text \<open>The host of a chain is the first argument of the next two, \<^verbatim>\<open>EvmHosts::get(state_machine)\<close>.\<close>

definition RegistrarParams_update ::
  "h160 option \<Rightarrow> GovRegistrarParams \<Rightarrow> RegistrarParamsUpdate \<Rightarrow> GovRegistrarParams" where
  "RegistrarParams_update host params update =
     (let params = (case host of Some h \<Rightarrow> params\<lparr>grp_host := h\<rparr> | None \<Rightarrow> params);
          params = (case rpu_address update of Some a \<Rightarrow> params\<lparr>grp_address := a\<rparr> | None \<Rightarrow> params) in
      (case rpu_base_fee update of Some fee \<Rightarrow> params\<lparr>grp_base_fee := fee\<rparr> | None \<Rightarrow> params))"

definition GatewayParams_update :: "h160 option \<Rightarrow> GatewayParams \<Rightarrow> TokenGatewayParamsUpdate \<Rightarrow> GatewayParams" where
  "GatewayParams_update host params update =
     (let params = (case host of Some h \<Rightarrow> params\<lparr>gp_host := h\<rparr> | None \<Rightarrow> params);
          params = (case tgu_address update of Some a \<Rightarrow> params\<lparr>gp_address := a\<rparr> | None \<Rightarrow> params) in
      (case tgu_call_dispatcher update of Some d \<Rightarrow> params\<lparr>gp_call_dispatcher := d\<rparr> | None \<Rightarrow> params))"

definition GatewayParams_default :: GatewayParams where
  "GatewayParams_default = \<lparr>gp_host = 0, gp_call_dispatcher = 0, gp_address = 0\<rparr>"

definition GovRegistrarParams_default :: GovRegistrarParams where
  "GovRegistrarParams_default = \<lparr>grp_host = 0, grp_base_fee = 0, grp_address = 0\<rparr>"

section \<open>The structs of the gateway contracts\<close>

record SolTokenGatewayParams =
  stp_host :: h160
  stp_dispatcher :: h160

record SolAssetMetadata =
  sam_erc20 :: h160
  sam_erc6160 :: h160
  sam_name :: bytes
  sam_symbol :: bytes
  sam_initialSupply :: u256
  sam_beneficiary :: h160

record SolChangeAssetAdmin =
  sca_assetId :: h256
  sca_newAdmin :: h160

record SolContractInstance =
  sci_chain :: bytes
  sci_moduleId :: h160

record SolRegistrarParams =
  srp_host :: h160
  srp_baseFee :: u256

record SolRequestBody =
  srb_owner :: h160
  srb_assetId :: h256

definition SolTokenGatewayParams_from :: "GatewayParams \<Rightarrow> SolTokenGatewayParams" where
  "SolTokenGatewayParams_from p = \<lparr>stp_host = gp_host p, stp_dispatcher = gp_call_dispatcher p\<rparr>"

definition SolRegistrarParams_from :: "GovRegistrarParams \<Rightarrow> SolRegistrarParams" where
  "SolRegistrarParams_from p = \<lparr>srp_host = grp_host p, srp_baseFee = grp_base_fee p\<rparr>"

definition SolAssetMetadata_try_from :: "GatewayMetadata \<Rightarrow> SolAssetMetadata option" where
  "SolAssetMetadata_try_from m =
     (if utf8_valid (gm_name m) \<and> utf8_valid (gm_symbol m)
      then Some \<lparr>sam_erc20 = 0, sam_erc6160 = 0, sam_name = gm_name m, sam_symbol = gm_symbol m,
                 sam_initialSupply = 0, sam_beneficiary = 0\<rparr>
      else None)"

section \<open>Storage\<close>

datatype GovernorEvent =
    GvAssetRegistered h256 h256 StateMachine
  | GvNewPendingAsset h256 h160
  | GvRegistrarParamsUpdated GovRegistrarParams GovRegistrarParams StateMachine
  | GvGatewayParamsUpdated GatewayParams GatewayParams StateMachine
  | GvParamsUpdated GovParams GovParams
  | GvNativeAssetsDeregistered "(StateMachine, h256 list) btree_map"

datatype GovernorError =
    GvBadOrigin
  | GvToken bytes
  | GvAssetAlreadyExists
  | GvNotInitialized
  | GvDispatchFailed
  | GvInvalidUtf8
  | GvUnknownAsset
  | GvNotAssetOwner
  | GvInvalidSignature
  | GvUnknownTokenGateway

record 'x governor_state = "'x relayer_state" +
  gv_PendingAsset :: "h256 \<rightharpoonup> h160"
  gv_SupportedChains :: "h256 \<Rightarrow> StateMachine \<rightharpoonup> bool"
  gv_AssetMetadatas :: "h256 \<rightharpoonup> GatewayMetadata"
  gv_AssetOwners :: "h256 \<rightharpoonup> account"
  gv_ProtocolParams :: "GovParams option"
  gv_TokenRegistrarParams :: "StateMachine \<rightharpoonup> GovRegistrarParams"
  gv_TokenGatewayParams :: "(StateMachine, GatewayParams) btree_map"
  gv_StandaloneChainAssets :: "StateMachine \<Rightarrow> h256 \<rightharpoonup> bool"
  gv_events :: "GovernorEvent list"

type_synonym ('x, 'm) gv_st = "('x, 'm) governor_state_scheme"
type_synonym ('x, 'm) gv_config = "('x, 'm governor_state_ext) rl_config"
type_synonym ('x, 'm, 'a) gov = "(('x, 'm) gv_st, GovernorError, 'a) comp"

text \<open>The runtime; \<open>gc_iter_order\<close> is the order in which the map of the gateways is iterated.\<close>

record ('x, 'm) GovConfig =
  gc_dispatcher :: "('x, 'm) gv_st IsmpDispatcher"
  gc_transfer :: "account \<Rightarrow> account \<Rightarrow> balance \<Rightarrow> ('x, bytes, unit) comp"
  gc_treasury :: account
  gc_into_account :: "bytes \<Rightarrow> account"
  gc_ecdsa_recover :: "bytes \<Rightarrow> h256 \<Rightarrow> bytes option"
  gc_encode_metadata :: "GatewayMetadata \<Rightarrow> bytes"
  gc_encode_deregister :: "DeregisterAssets \<Rightarrow> bytes"
  gc_encode_state_machine :: "StateMachine \<Rightarrow> bytes"
  gc_abi_params :: "SolTokenGatewayParams \<Rightarrow> bytes"
  gc_abi_metadata :: "SolAssetMetadata \<Rightarrow> bytes"
  gc_abi_deregister :: "h256 list \<Rightarrow> bytes"
  gc_abi_admin :: "SolChangeAssetAdmin \<Rightarrow> bytes"
  gc_abi_instance :: "SolContractInstance \<Rightarrow> bytes"
  gc_abi_registrar :: "SolRegistrarParams \<Rightarrow> bytes"
  gc_decode_request_body :: "bytes \<Rightarrow> SolRequestBody option"
  gc_decode_remote :: "bytes \<Rightarrow> RemoteERC6160AssetRegistration option"
  gc_iter_order :: "(StateMachine, GatewayParams) btree_map \<Rightarrow> (StateMachine \<times> GatewayParams) list"

text \<open>\<^verbatim>\<open>encode_request\<close> of each message: the number of the action on the gateway, then the encoding.\<close>

definition encode_params_request :: "('x, 'm) GovConfig \<Rightarrow> SolTokenGatewayParams \<Rightarrow> bytes" where
  "encode_params_request gc b = 1 # gc_abi_params gc b"

definition encode_metadata_request :: "('x, 'm) GovConfig \<Rightarrow> SolAssetMetadata \<Rightarrow> bytes" where
  "encode_metadata_request gc b = 2 # gc_abi_metadata gc b"

definition encode_deregister_request :: "('x, 'm) GovConfig \<Rightarrow> h256 list \<Rightarrow> bytes" where
  "encode_deregister_request gc b = 3 # gc_abi_deregister gc b"

definition encode_admin_request :: "('x, 'm) GovConfig \<Rightarrow> SolChangeAssetAdmin \<Rightarrow> bytes" where
  "encode_admin_request gc b = 4 # gc_abi_admin gc b"

definition encode_instance_request :: "('x, 'm) GovConfig \<Rightarrow> SolContractInstance \<Rightarrow> bytes" where
  "encode_instance_request gc b = 5 # gc_abi_instance gc b"

definition gv_deposit_event :: "GovernorEvent \<Rightarrow> (('x, 'm) gv_st, 'e, unit) comp" where
  "gv_deposit_event e = modify (\<lambda>s. s\<lparr>gv_events := gv_events s @ [e]\<rparr>)"

section \<open>Messages to the gateways\<close>

text \<open>Every message of the governor is a request without timeout and fee.\<close>

definition gv_dispatch :: "('x, 'm) GovConfig \<Rightarrow> StateMachine \<Rightarrow> h160 \<Rightarrow> bytes \<Rightarrow> ('x, 'm, h256) gov" where
  "gv_dispatch gc chain address body =
     map_err (\<lambda>_. GvDispatchFailed)
       (d_dispatch_request (gc_dispatcher gc)
          (DispPost \<lparr>dp_dest = chain, dp_from = REGISTRY, dp_to = be_bytes 20 address, dp_timeout = 0, dp_body = body\<rparr>)
          \<lparr>fee_payer = 0, fee_fee = 0\<rparr>)"

definition evm_gateway_address :: "StateMachine \<Rightarrow> ('x, 'm, h160) gov" where
  "evm_gateway_address chain =
     bindC (asks (\<lambda>s. map_of (gv_TokenGatewayParams s) chain)) (\<lambda>found.
     bindC (ok_or found GvUnknownTokenGateway) (\<lambda>params. ret (gp_address params)))"

definition gateway_address :: "('x, 'm) gv_config \<Rightarrow> StateMachine \<Rightarrow> ('x, 'm, h160) gov" where
  "gateway_address cfg chain =
     (if is_substrate chain then ret (token_gateway_id (cf_keccak256 cfg)) else evm_gateway_address chain)"

definition asset_body :: "('x, 'm) GovConfig \<Rightarrow> GatewayMetadata \<Rightarrow> ChainWithSupply \<Rightarrow> ('x, 'm, bytes) gov" where
  "asset_body gc metadata target =
     (if is_substrate (cs_chain target) then ret (gc_encode_metadata gc metadata)
      else
        bindC (ok_or (SolAssetMetadata_try_from metadata) GvInvalidUtf8) (\<lambda>body.
          ret (encode_metadata_request gc
            (case cs_supply target of
               Some supply \<Rightarrow> body\<lparr>sam_beneficiary := is_beneficiary supply, sam_initialSupply := is_initial_supply supply\<rparr>
             | None \<Rightarrow> body))))"

text \<open>Creating an asset on one chain: the body of the loops over the chains.\<close>

definition create_on ::
  "('x, 'm) gv_config \<Rightarrow> ('x, 'm) GovConfig \<Rightarrow> h256 \<Rightarrow> GatewayMetadata \<Rightarrow> ChainWithSupply \<Rightarrow> ('x, 'm, h256) gov" where
  "create_on cfg gc asset_id metadata target =
     bindC (gateway_address cfg (cs_chain target)) (\<lambda>address.
     bindC (asset_body gc metadata target) (\<lambda>body.
     bindC (gv_dispatch gc (cs_chain target) address body) (\<lambda>commitment.
     bindC (modify (\<lambda>s. s\<lparr>gv_SupportedChains := (gv_SupportedChains s)(asset_id := (gv_SupportedChains s asset_id)(cs_chain target \<mapsto> True))\<rparr>)) (\<lambda>_.
       ret commitment))))"

section \<open>Registration\<close>

definition ensure_root_or_owner :: "Origin \<Rightarrow> h256 \<Rightarrow> ('x, 'm, unit) gov" where
  "ensure_root_or_owner origin asset_id =
     (case origin of
        OriginSigned who \<Rightarrow>
          bindC (asks (\<lambda>s. gv_AssetOwners s asset_id)) (\<lambda>found.
          bindC (ok_or found GvUnknownAsset) (\<lambda>owner.
            ensure (who = owner) GvNotAssetOwner))
      | OriginRoot \<Rightarrow> ret ()
      | OriginNone \<Rightarrow> fail GvUnknownAsset)"

definition register_asset ::
  "('x, 'm) gv_config \<Rightarrow> ('x, 'm) GovConfig \<Rightarrow> ERC6160AssetRegistration \<Rightarrow> account \<Rightarrow> ('x, 'm, unit) gov" where
  "register_asset cfg gc asset who =
     (let asset_id = cf_keccak256 cfg (ear_symbol asset);
          metadata = \<lparr>gm_name = ear_name asset, gm_symbol = ear_symbol asset, gm_decimals = 18,
                      gm_minimum_balance = ear_minimum_balance asset\<rparr> in
      bindC (asks (\<lambda>s. gv_AssetOwners s asset_id)) (\<lambda>owner.
      bindC (ensure (owner = None) GvAssetAlreadyExists) (\<lambda>_.
      bindC (for_each (\<lambda>target.
               bindC (create_on cfg gc asset_id metadata target) (\<lambda>commitment.
                 gv_deposit_event (GvAssetRegistered asset_id commitment (cs_chain target)))) (ear_chains asset)) (\<lambda>_.
        modify (\<lambda>s. s\<lparr>gv_AssetMetadatas := (gv_AssetMetadatas s)(asset_id \<mapsto> metadata),
                      gv_AssetOwners := (gv_AssetOwners s)(asset_id \<mapsto> who)\<rparr>)))))"

text \<open>Copying a signature of another length than 65 panics.\<close>

definition register_asset_unsigned ::
  "('x, 'm) gv_config \<Rightarrow> ('x, 'm) GovConfig \<Rightarrow> UnsignedERC6160AssetRegistration \<Rightarrow> ('x, 'm, unit) gov" where
  "register_asset_unsigned cfg gc registration =
     (let asset_id = cf_keccak256 cfg (ear_symbol (uar_asset registration)) in
      bindC (expect (if length (uar_signature registration) = 65 then Some (uar_signature registration) else None)) (\<lambda>sig.
      bindC (ok_or (gc_ecdsa_recover gc sig asset_id) GvInvalidSignature) (\<lambda>pub_key.
      bindC (asks (\<lambda>s. gv_PendingAsset s asset_id)) (\<lambda>found.
      bindC (ok_or found GvUnknownAsset) (\<lambda>asset_owner.
      bindC (ensure (ucast (cf_keccak256 cfg pub_key) = asset_owner) GvNotAssetOwner) (\<lambda>_.
      bindC (register_asset cfg gc (uar_asset registration) (uar_owner registration)) (\<lambda>_.
        modify (\<lambda>s. s\<lparr>gv_PendingAsset := (gv_PendingAsset s)(asset_id := None)\<rparr>))))))))"

definition remove_from ::
  "('x, 'm) gv_config \<Rightarrow> ('x, 'm) GovConfig \<Rightarrow> h256 \<Rightarrow> StateMachine \<Rightarrow> ('x, 'm, unit) gov" where
  "remove_from cfg gc asset_id chain =
     bindC (asks (\<lambda>s. gv_SupportedChains s asset_id chain)) (\<lambda>supported.
       if supported = None then ret ()
       else
         bindC (gateway_address cfg chain) (\<lambda>address.
         bindC (gv_dispatch gc chain address
                  (if is_substrate chain then gc_encode_deregister gc \<lparr>da_asset_ids = [asset_id]\<rparr>
                   else encode_deregister_request gc [asset_id])) (\<lambda>_.
           ret ())))"

definition change_admin_on :: "('x, 'm) GovConfig \<Rightarrow> h256 \<Rightarrow> StateMachine \<times> h160 \<Rightarrow> ('x, 'm, unit) gov" where
  "change_admin_on gc asset_id = (\<lambda>(chain, admin).
     bindC (asks (\<lambda>s. gv_SupportedChains s asset_id chain)) (\<lambda>supported.
       if supported = None then ret ()
       else
         bindC (evm_gateway_address chain) (\<lambda>address.
         bindC (gv_dispatch gc chain address
                  (encode_admin_request gc \<lparr>sca_assetId = asset_id, sca_newAdmin = admin\<rparr>)) (\<lambda>_.
           ret ()))))"

definition update_erc6160_asset_impl ::
  "('x, 'm) gv_config \<Rightarrow> ('x, 'm) GovConfig \<Rightarrow> ERC6160AssetUpdate \<Rightarrow> ('x, 'm, unit) gov" where
  "update_erc6160_asset_impl cfg gc update =
     bindC (asks (\<lambda>s. gv_AssetMetadatas s (eau_asset_id update))) (\<lambda>found.
     bindC (ok_or found GvUnknownAsset) (\<lambda>metadata.
     bindC (for_each (\<lambda>target.
              bindC (asks (\<lambda>s. gv_SupportedChains s (eau_asset_id update) (cs_chain target))) (\<lambda>supported.
                if supported \<noteq> None then ret ()
                else bindC (create_on cfg gc (eau_asset_id update) metadata target) (\<lambda>_. ret ()))) (eau_add_chains update)) (\<lambda>_.
     bindC (for_each (remove_from cfg gc (eau_asset_id update)) (eau_remove_chains update)) (\<lambda>_.
       for_each (change_admin_on gc (eau_asset_id update)) (eau_new_admins update)))))"

section \<open>Parameters\<close>

definition update_gateway_param ::
  "('x, 'm) GovConfig \<Rightarrow> StateMachine \<times> TokenGatewayParamsUpdate \<Rightarrow> ('x, 'm, unit) gov" where
  "update_gateway_param gc = (\<lambda>(state_machine, update).
     bindC (asks (\<lambda>s. map_of (gv_TokenGatewayParams s) state_machine)) (\<lambda>stored_params.
     bindC (asks (\<lambda>s. hx_evm_hosts s state_machine)) (\<lambda>host.
     (let old_params = (case stored_params of Some p \<Rightarrow> p | None \<Rightarrow> GatewayParams_default);
          new_params = GatewayParams_update host old_params update in
      bindC (modify (\<lambda>s. s\<lparr>gv_TokenGatewayParams := btree_insert state_machine new_params (gv_TokenGatewayParams s)\<rparr>)) (\<lambda>_.
      bindC (case stored_params of
               Some old \<Rightarrow>
                 bindC (gv_dispatch gc state_machine (gp_address old)
                          (encode_params_request gc (SolTokenGatewayParams_from new_params))) (\<lambda>_. ret ())
             | None \<Rightarrow> ret ()) (\<lambda>_.
        gv_deposit_event (GvGatewayParamsUpdated old_params new_params state_machine)))))))"

definition update_gateway_params_impl ::
  "('x, 'm) GovConfig \<Rightarrow> (StateMachine, TokenGatewayParamsUpdate) btree_map \<Rightarrow> ('x, 'm, unit) gov" where
  "update_gateway_params_impl gc updates = for_each (update_gateway_param gc) updates"

text \<open>The second loop of \<^verbatim>\<open>add_new_gateway_instance\<close>: its body for one of the updated chains.\<close>

definition announce_instance :: "('x, 'm) GovConfig \<Rightarrow> StateMachine \<Rightarrow> ('x, 'm, unit) gov" where
  "announce_instance gc state_machine =
     bindC (asks (\<lambda>s. map_of (gv_TokenGatewayParams s) state_machine)) (\<lambda>found.
     bindC (expect found) (\<lambda>params.
     bindC (expect (StateMachine_fmt state_machine)) (\<lambda>name.
     (let body = \<lparr>sci_chain = name, sci_moduleId = gp_address params\<rparr> in
      bindC (asks (\<lambda>s. gc_iter_order gc (gv_TokenGatewayParams s))) (\<lambda>all.
        for_each (\<lambda>(chain, other).
          if chain = state_machine then ret ()
          else bindC (gv_dispatch gc state_machine (gp_address other) (encode_instance_request gc body)) (\<lambda>_. ret ())) all)))))"

definition add_new_gateway_instance ::
  "('x, 'm) GovConfig \<Rightarrow> (StateMachine, TokenGatewayParamsUpdate) btree_map \<Rightarrow> ('x, 'm, unit) gov" where
  "add_new_gateway_instance gc updates =
     bindC (for_each (\<lambda>(state_machine, update).
              bindC (asks (\<lambda>s. hx_evm_hosts s state_machine)) (\<lambda>host.
                modify (\<lambda>s. s\<lparr>gv_TokenGatewayParams :=
                  btree_insert state_machine (GatewayParams_update host GatewayParams_default update) (gv_TokenGatewayParams s)\<rparr>))) updates) (\<lambda>_.
       for_each (\<lambda>(state_machine, _). announce_instance gc state_machine) updates)"

definition update_registrar_param ::
  "('x, 'm) GovConfig \<Rightarrow> StateMachine \<times> RegistrarParamsUpdate \<Rightarrow> ('x, 'm, unit) gov" where
  "update_registrar_param gc = (\<lambda>(state_machine, update).
     bindC (asks (\<lambda>s. gv_TokenRegistrarParams s state_machine)) (\<lambda>stored_params.
     bindC (asks (\<lambda>s. hx_evm_hosts s state_machine)) (\<lambda>host.
     (let old_params = (case stored_params of Some p \<Rightarrow> p | None \<Rightarrow> GovRegistrarParams_default);
          new_params = RegistrarParams_update host old_params update in
      bindC (modify (\<lambda>s. s\<lparr>gv_TokenRegistrarParams := (gv_TokenRegistrarParams s)(state_machine \<mapsto> new_params)\<rparr>)) (\<lambda>_.
      bindC (case stored_params of
               Some old \<Rightarrow>
                 bindC (gv_dispatch gc state_machine (grp_address old)
                          (gc_abi_registrar gc (SolRegistrarParams_from new_params))) (\<lambda>_. ret ())
             | None \<Rightarrow> ret ()) (\<lambda>_.
        gv_deposit_event (GvRegistrarParamsUpdated old_params new_params state_machine)))))))"

definition update_registrar_params_impl ::
  "('x, 'm) GovConfig \<Rightarrow> (StateMachine, RegistrarParamsUpdate) btree_map \<Rightarrow> ('x, 'm, unit) gov" where
  "update_registrar_params_impl gc updates = for_each (update_registrar_param gc) updates"

section \<open>Existing tokens\<close>

text \<open>The loop of \<^verbatim>\<open>create_erc20_asset_impl\<close>, with the metadata that it overwrites.\<close>

fun create_erc20_on ::
  "('x, 'm) GovConfig \<Rightarrow> h256 \<Rightarrow> Erc20ChainRegistration list \<Rightarrow> GatewayMetadata \<Rightarrow> ('x, 'm, GatewayMetadata) gov" where
  "create_erc20_on gc asset_id [] metadata = ret metadata"
| "create_erc20_on gc asset_id (r # rs) metadata =
     (let metadata = metadata\<lparr>gm_decimals := ecr_decimals r\<rparr> in
      bindC (ok_or (SolAssetMetadata_try_from metadata) GvInvalidUtf8) (\<lambda>body.
      (let body = (case ecr_erc20 r of Some a \<Rightarrow> body\<lparr>sam_erc20 := a\<rparr> | None \<Rightarrow> body);
           body = (case ecr_erc6160 r of Some a \<Rightarrow> body\<lparr>sam_erc6160 := a\<rparr> | None \<Rightarrow> body) in
       bindC (evm_gateway_address (ecr_chain r)) (\<lambda>address.
       bindC (gv_dispatch gc (ecr_chain r) address (encode_metadata_request gc body)) (\<lambda>commitment.
       bindC (modify (\<lambda>s. s\<lparr>gv_SupportedChains := (gv_SupportedChains s)(asset_id := (gv_SupportedChains s asset_id)(ecr_chain r \<mapsto> True))\<rparr>)) (\<lambda>_.
       bindC (gv_deposit_event (GvAssetRegistered asset_id commitment (ecr_chain r))) (\<lambda>_.
         create_erc20_on gc asset_id rs metadata)))))))"

definition create_erc20_asset_impl ::
  "('x, 'm) gv_config \<Rightarrow> ('x, 'm) GovConfig \<Rightarrow> ERC20AssetRegistration \<Rightarrow> ('x, 'm, unit) gov" where
  "create_erc20_asset_impl cfg gc asset =
     (let asset_id = cf_keccak256 cfg (e20_symbol asset) in
      bindC (asks (\<lambda>s. gv_AssetOwners s asset_id)) (\<lambda>owner.
      bindC (ensure (owner = None) GvAssetAlreadyExists) (\<lambda>_.
      bindC (create_erc20_on gc asset_id (e20_chains asset)
               \<lparr>gm_name = e20_name asset, gm_symbol = e20_symbol asset, gm_decimals = 0, gm_minimum_balance = None\<rparr>) (\<lambda>metadata.
        modify (\<lambda>s. s\<lparr>gv_AssetMetadatas := (gv_AssetMetadatas s)(asset_id \<mapsto> metadata),
                      gv_AssetOwners := (gv_AssetOwners s)(asset_id \<mapsto> gc_into_account gc REGISTRY)\<rparr>)))))"

section \<open>Calls\<close>

definition gv_create_erc6160_asset ::
  "('x, 'm) gv_config \<Rightarrow> ('x, 'm) GovConfig \<Rightarrow> Origin \<Rightarrow> ERC6160AssetRegistration \<Rightarrow> ('x, 'm, unit) gov" where
  "gv_create_erc6160_asset cfg gc origin asset = transactional
     (bindC (ensure_signed origin GvBadOrigin) (\<lambda>who.
      bindC (asks gv_ProtocolParams) (\<lambda>found.
      bindC (ok_or found GvNotInitialized) (\<lambda>params.
      bindC (map_err GvToken (on_env (gc_transfer gc who (gc_treasury gc) (gpa_registration_fee params)))) (\<lambda>_.
        register_asset cfg gc asset who)))))"

definition create_erc6160_asset_unsigned ::
  "('x, 'm) gv_config \<Rightarrow> ('x, 'm) GovConfig \<Rightarrow> Origin \<Rightarrow> UnsignedERC6160AssetRegistration \<Rightarrow> ('x, 'm, unit) gov" where
  "create_erc6160_asset_unsigned cfg gc origin registration = transactional
     (bindC (ensure (origin = OriginNone) GvBadOrigin) (\<lambda>_. register_asset_unsigned cfg gc registration))"

definition update_registrar_params ::
  "('x, 'm) gv_config \<Rightarrow> ('x, 'm) GovConfig \<Rightarrow> Origin \<Rightarrow> (StateMachine, RegistrarParamsUpdate) btree_map \<Rightarrow> ('x, 'm, unit) gov" where
  "update_registrar_params cfg gc origin update = transactional
     (bindC (ensure (cf_admin_origin cfg origin) GvBadOrigin) (\<lambda>_. update_registrar_params_impl gc update))"

definition update_gateway_params ::
  "('x, 'm) gv_config \<Rightarrow> ('x, 'm) GovConfig \<Rightarrow> Origin \<Rightarrow> (StateMachine, TokenGatewayParamsUpdate) btree_map \<Rightarrow> ('x, 'm, unit) gov" where
  "update_gateway_params cfg gc origin update = transactional
     (bindC (ensure (cf_admin_origin cfg origin) GvBadOrigin) (\<lambda>_. update_gateway_params_impl gc update))"

definition gv_update_params :: "('x, 'm) gv_config \<Rightarrow> Origin \<Rightarrow> GovParamsUpdate \<Rightarrow> ('x, 'm, unit) gov" where
  "gv_update_params cfg origin update = transactional
     (bindC (ensure (cf_admin_origin cfg origin) GvBadOrigin) (\<lambda>_.
      bindC (asks gv_ProtocolParams) (\<lambda>stored_params.
      (let old_params = (case stored_params of Some p \<Rightarrow> p | None \<Rightarrow> \<lparr>gpa_registration_fee = 0\<rparr>) in
       modify (\<lambda>s. s\<lparr>gv_ProtocolParams := Some (GovParams_update old_params update)\<rparr>)))))"

definition gv_update_erc6160_asset ::
  "('x, 'm) gv_config \<Rightarrow> ('x, 'm) GovConfig \<Rightarrow> Origin \<Rightarrow> ERC6160AssetUpdate \<Rightarrow> ('x, 'm, unit) gov" where
  "gv_update_erc6160_asset cfg gc origin update = transactional
     (bindC (ensure_root_or_owner origin (eau_asset_id update)) (\<lambda>_. update_erc6160_asset_impl cfg gc update))"

definition create_erc20_asset ::
  "('x, 'm) gv_config \<Rightarrow> ('x, 'm) GovConfig \<Rightarrow> Origin \<Rightarrow> ERC20AssetRegistration \<Rightarrow> ('x, 'm, unit) gov" where
  "create_erc20_asset cfg gc origin asset = transactional
     (bindC (ensure (cf_admin_origin cfg origin) GvBadOrigin) (\<lambda>_. create_erc20_asset_impl cfg gc asset))"

definition new_contract_instance ::
  "('x, 'm) gv_config \<Rightarrow> ('x, 'm) GovConfig \<Rightarrow> Origin \<Rightarrow> (StateMachine, TokenGatewayParamsUpdate) btree_map \<Rightarrow> ('x, 'm, unit) gov" where
  "new_contract_instance cfg gc origin updates = transactional
     (bindC (ensure (cf_admin_origin cfg origin) GvBadOrigin) (\<lambda>_. add_new_gateway_instance gc updates))"

definition deregister_standalone_chain_native_assets ::
  "('x, 'm) gv_config \<Rightarrow> Origin \<Rightarrow> (StateMachine, h256 list) btree_map \<Rightarrow> ('x, 'm, unit) gov" where
  "deregister_standalone_chain_native_assets cfg origin assets = transactional
     (bindC (ensure (cf_admin_origin cfg origin) GvBadOrigin) (\<lambda>_.
      bindC (for_each (\<lambda>(state_machine, new_asset_ids).
               for_each (\<lambda>i. modify (\<lambda>s. s\<lparr>gv_StandaloneChainAssets :=
                 (gv_StandaloneChainAssets s)(state_machine := (gv_StandaloneChainAssets s state_machine)(i := None))\<rparr>)) new_asset_ids) assets) (\<lambda>_.
        gv_deposit_event (GvNativeAssetsDeregistered assets))))"

definition governor_validate_unsigned ::
  "('x, 'm) gv_config \<Rightarrow> ('x, 'm) GovConfig \<Rightarrow> UnsignedERC6160AssetRegistration \<Rightarrow>
     (('x, 'm) gv_st, TransactionValidityError, ValidTransaction) comp" where
  "governor_validate_unsigned cfg gc registration =
     (let asset_id = cf_keccak256 cfg (ear_symbol (uar_asset registration)) in
      bindC (map_err (\<lambda>_. InvalidCall) (register_asset_unsigned cfg gc registration)) (\<lambda>_.
        ret \<lparr>vt_priority = 1, vt_requires = [], vt_provides = [be_bytes 32 asset_id], vt_longevity = 25,
             vt_propagate = True\<rparr>))"

section \<open>The module\<close>

text \<open>The texts of the errors of the pallet and of the decoder are left out of the messages.\<close>

definition remote_registration ::
  "('x, 'm) gv_config \<Rightarrow> ('x, 'm) GovConfig \<Rightarrow> StateMachine \<Rightarrow> RemoteERC6160AssetRegistration \<Rightarrow> (('x, 'm) gv_st, anyhow, unit) comp" where
  "remote_registration cfg gc source remote_reg =
     (case remote_reg of
        RemoteCreateAsset asset \<Rightarrow>
          (let asset_id = cf_keccak256 cfg (gar_symbol asset) in
           bindC (map_err (\<lambda>_. AnyIsmp (Custom (ascii ''Failed create asset'')))
                    (register_asset cfg gc (ERC6160AssetRegistration_from asset)
                       (cf_keccak256 cfg (gc_encode_state_machine gc source)))) (\<lambda>_.
             modify (\<lambda>s. s\<lparr>gv_StandaloneChainAssets :=
               (gv_StandaloneChainAssets s)(source := (gv_StandaloneChainAssets s source)(asset_id \<mapsto> True))\<rparr>)))
      | RemoteUpdateAsset asset \<Rightarrow>
          map_err (\<lambda>_. AnyIsmp (Custom (ascii ''Failed create asset'')))
            (update_erc6160_asset_impl cfg gc (ERC6160AssetUpdate_from asset)))"

definition governor_on_accept ::
  "('x, 'm) gv_config \<Rightarrow> ('x, 'm) GovConfig \<Rightarrow> PostRequest \<Rightarrow> (('x, 'm) gv_st, anyhow, unit) comp" where
  "governor_on_accept cfg gc request =
     (if is_substrate (pr_source request) \<and> pr_from request = be_bytes 20 (token_gateway_id (cf_keccak256 cfg)) then
        bindC (ok_or (gc_decode_remote gc (pr_body request)) (AnyIsmp (Custom (ascii ''Failed to decode data'')))) (\<lambda>remote_reg.
          remote_registration cfg gc (pr_source request) remote_reg)
      else
        bindC (asks (\<lambda>s. gv_TokenRegistrarParams s (pr_source request))) (\<lambda>found.
        bindC (ok_or found (AnyIsmp (Custom (ascii ''Pallet is not initialized'')))) (\<lambda>params.
        bindC (ensure (pr_from request = be_bytes 20 (grp_address params)) (AnyIsmp (Custom (ascii ''Unauthorized action'')))) (\<lambda>_.
        bindC (ok_or (gc_decode_request_body gc (pr_body request)) (AnyIsmp (Custom (ascii ''Decode error'')))) (\<lambda>body.
        bindC (asks (\<lambda>s. gv_AssetOwners s (srb_assetId body) \<noteq> None \<or> gv_PendingAsset s (srb_assetId body) \<noteq> None)) (\<lambda>exists.
        bindC (ensure (\<not> exists) (AnyIsmp (Custom (ascii ''Asset already exists'')))) (\<lambda>_.
        bindC (modify (\<lambda>s. s\<lparr>gv_PendingAsset := (gv_PendingAsset s)(srb_assetId body \<mapsto> srb_owner body)\<rparr>)) (\<lambda>_.
          gv_deposit_event (GvNewPendingAsset (srb_assetId body) (srb_owner body))))))))))"

definition governor_module :: "('x, 'm) gv_config \<Rightarrow> ('x, 'm) GovConfig \<Rightarrow> ('x, 'm) gv_st IsmpModule" where
  "governor_module cfg gc =
     \<lparr>on_accept = governor_on_accept cfg gc,
      on_response = (\<lambda>_. fail (AnyMsg (ascii ''Module does not expect responses''))),
      on_timeout = (\<lambda>_. fail (AnyMsg (ascii ''Module does not expect timeouts'')))\<rparr>"

end
