(* ===== verification/Governor_Properties.thy ===== *)
theory Governor_Properties
  imports Pallet_Token_Governor Gateway_Properties Dispatch_Properties
begin

text \<open>
  What the token governor guarantees: who owns an asset, that its parameters arrive at the gateways of
  EVM chains, and which of its messages go astray. The dispatcher is that of the ISMP pallet.
\<close>

section \<open>Frames\<close>

lemma more_governor:
  assumes "ismp_state.more s' = ismp_state.more (s :: ('x, 'm) gv_st)"
  shows "gv_AssetOwners s' = gv_AssetOwners s" "gv_TokenGatewayParams s' = gv_TokenGatewayParams s"
    "gv_PendingAsset s' = gv_PendingAsset s" "gv_SupportedChains s' = gv_SupportedChains s" "gv_AssetMetadatas s' = gv_AssetMetadatas s"
    "gv_StandaloneChainAssets s' = gv_StandaloneChainAssets s" "gv_TokenRegistrarParams s' = gv_TokenRegistrarParams s"
  using assms by (cases s; cases s'; simp)+

lemma gv_dispatch_more:
  assumes "gc_dispatcher gc = pallet_dispatcher cfg" and "gv_dispatch gc chain address body s = (r, s')"
  shows "ismp_state.more s' = ismp_state.more s"
proof -
  have "keeps (\<lambda>t. RequestReceipts_get 0 t = RequestReceipts_get 0 s \<and> ismp_state.more t = ismp_state.more s) (gv_dispatch gc chain address body)"
    unfolding gv_dispatch_def assms(1) by (intro keeps_map_err pd.request_frame)
  from keepsD [OF this assms(2)] show ?thesis by simp
qed

lemma keeps_gv_dispatch:
  assumes "gc_dispatcher gc = pallet_dispatcher cfg" and "\<And>s s'. ismp_state.more s' = ismp_state.more s \<Longrightarrow> P s \<Longrightarrow> P s'"
  shows "keeps P (gv_dispatch gc chain address body)"
  by (rule keepsI) (metis assms gv_dispatch_more prod.collapse)

definition owned :: "h256 \<Rightarrow> account \<Rightarrow> ('x, 'm) gv_st \<Rightarrow> bool" where
  "owned asset who s \<longleftrightarrow> gv_AssetOwners s asset = Some who"

lemma keeps_owned_dispatch:
  "gc_dispatcher gc = pallet_dispatcher cfg \<Longrightarrow> keeps (owned asset who) (gv_dispatch gc chain address body)"
  unfolding owned_def by (erule keeps_gv_dispatch) (drule more_governor(1), simp)

lemma keeps_owned_event: "keeps (owned asset who) (gv_deposit_event e)"
  unfolding gv_deposit_event_def by (rule keeps_modify) (simp add: owned_def)

lemma keeps_owned_address: "keeps (owned asset who) (evm_gateway_address chain)" "keeps (owned asset who) (gateway_address cfg' chain)"
  "keeps (owned asset who) (asset_body gc metadata target)"
  unfolding gateway_address_def evm_gateway_address_def asset_body_def by (auto intro!: keeps_intros)

lemma keeps_owned_create:
  "gc_dispatcher gc = pallet_dispatcher cfg \<Longrightarrow> keeps (owned asset who) (create_on cfg' gc asset_id metadata target)"
  unfolding create_on_def
  by (intro keeps_intros keeps_owned_address keeps_owned_dispatch keeps_modify) (simp_all add: owned_def)

lemma keeps_owned_register:
  assumes "gc_dispatcher gc = pallet_dispatcher cfg"
  shows "keeps (owned asset who) (register_asset cfg' gc reg owner)"
proof (cases "cf_keccak256 cfg' (ear_symbol reg) = asset")
  case True
  show ?thesis
  proof (rule keepsI)
    fix s :: "('a, 'b) gv_st"
    assume "owned asset who s"
    with True show "owned asset who (snd (register_asset cfg' gc reg owner s))"
      by (simp add: register_asset_def Let_def comp_app owned_def)
  qed
next
  case False
  with assms show ?thesis
    unfolding register_asset_def Let_def
    by (intro keeps_intros keeps_owned_create keeps_owned_event keeps_modify) (auto simp: owned_def)
qed

lemma keeps_owned_erc20_on:
  assumes "gc_dispatcher gc = pallet_dispatcher cfg"
  shows "keeps (owned asset who) (create_erc20_on gc asset_id rs metadata)"
proof (induction rs arbitrary: metadata)
  case Nil
  show ?case by (simp add: keeps_basic)
next
  case (Cons r rs)
  show ?case
    unfolding create_erc20_on.simps Let_def
    by (intro keeps_intros keeps_owned_address keeps_owned_dispatch [OF assms] keeps_owned_event keeps_modify Cons.IH)
       (simp add: owned_def)
qed

lemma keeps_owned_erc20:
  assumes "gc_dispatcher gc = pallet_dispatcher cfg"
  shows "keeps (owned asset who) (create_erc20_asset_impl cfg' gc reg)"
proof (cases "cf_keccak256 cfg' (e20_symbol reg) = asset")
  case True
  show ?thesis
  proof (rule keepsI)
    fix s :: "('a, 'b) gv_st"
    assume "owned asset who s"
    with True show "owned asset who (snd (create_erc20_asset_impl cfg' gc reg s))"
      by (simp add: create_erc20_asset_impl_def Let_def comp_app owned_def)
  qed
next
  case False
  with assms show ?thesis
    unfolding create_erc20_asset_impl_def Let_def
    by (intro keeps_intros keeps_owned_erc20_on keeps_modify) (auto simp: owned_def)
qed

lemma keeps_owned_update:
  assumes "gc_dispatcher gc = pallet_dispatcher cfg"
  shows "keeps (owned asset who) (update_erc6160_asset_impl cfg' gc update)"
  unfolding update_erc6160_asset_impl_def remove_from_def change_admin_on_def
  by (auto intro!: keeps_intros keeps_owned_address keeps_owned_dispatch [OF assms] keeps_owned_create [OF assms])

lemma keeps_owned_params:
  assumes "gc_dispatcher gc = pallet_dispatcher cfg"
  shows "keeps (owned asset who) (update_gateway_param gc x)" "keeps (owned asset who) (update_registrar_param gc y)"
    "keeps (owned asset who) (announce_instance gc chain)"
  unfolding update_gateway_param_def update_registrar_param_def announce_instance_def Let_def
  by (auto intro!: keeps_intros keeps_owned_dispatch [OF assms] keeps_owned_event keeps_modify simp: owned_def split: prod.split option.split)

lemma keeps_owned_instances:
  assumes "gc_dispatcher gc = pallet_dispatcher cfg"
  shows "keeps (owned asset who) (add_new_gateway_instance gc updates)"
  unfolding add_new_gateway_instance_def
  by (auto intro!: keeps_intros keeps_owned_params [OF assms] keeps_modify simp: owned_def split: prod.split)

lemma keeps_owned_on_env: "keeps (owned asset who) (on_env m)"
  by (rule keeps_on_env) (simp add: owned_def)

lemma keeps_owned_unsigned:
  assumes "gc_dispatcher gc = pallet_dispatcher cfg"
  shows "keeps (owned asset who) (register_asset_unsigned cfg' gc registration)"
  unfolding register_asset_unsigned_def Let_def
  by (intro keeps_intros keeps_owned_register [OF assms] keeps_modify) (simp add: owned_def)

section \<open>All that happens to the governor\<close>

datatype GovernorCall =
    GcCreate Origin ERC6160AssetRegistration
  | GcCreateUnsigned Origin UnsignedERC6160AssetRegistration
  | GcUpdateRegistrar Origin "(StateMachine, RegistrarParamsUpdate) btree_map"
  | GcUpdateGateway Origin "(StateMachine, TokenGatewayParamsUpdate) btree_map"
  | GcUpdateParams Origin GovParamsUpdate
  | GcUpdateAsset Origin ERC6160AssetUpdate
  | GcCreateErc20 Origin ERC20AssetRegistration
  | GcNewInstance Origin "(StateMachine, TokenGatewayParamsUpdate) btree_map"
  | GcDeregisterNative Origin "(StateMachine, h256 list) btree_map"
  | GcAccept PostRequest

text \<open>The state after a call or a delivered request, whatever its result.\<close>

fun governor_step :: "('x, 'm) gv_config \<Rightarrow> ('x, 'm) GovConfig \<Rightarrow> GovernorCall \<Rightarrow> ('x, 'm) gv_st \<Rightarrow> ('x, 'm) gv_st" where
  "governor_step cfg gc (GcCreate origin asset) s = snd (gv_create_erc6160_asset cfg gc origin asset s)"
| "governor_step cfg gc (GcCreateUnsigned origin registration) s = snd (create_erc6160_asset_unsigned cfg gc origin registration s)"
| "governor_step cfg gc (GcUpdateRegistrar origin update) s = snd (update_registrar_params cfg gc origin update s)"
| "governor_step cfg gc (GcUpdateGateway origin update) s = snd (update_gateway_params cfg gc origin update s)"
| "governor_step cfg gc (GcUpdateParams origin update) s = snd (gv_update_params cfg origin update s)"
| "governor_step cfg gc (GcUpdateAsset origin update) s = snd (gv_update_erc6160_asset cfg gc origin update s)"
| "governor_step cfg gc (GcCreateErc20 origin asset) s = snd (create_erc20_asset cfg gc origin asset s)"
| "governor_step cfg gc (GcNewInstance origin updates) s = snd (new_contract_instance cfg gc origin updates s)"
| "governor_step cfg gc (GcDeregisterNative origin assets) s = snd (deregister_standalone_chain_native_assets cfg origin assets s)"
| "governor_step cfg gc (GcAccept request) s = snd (governor_on_accept cfg gc request s)"

lemma keeps_owned_calls:
  assumes "gc_dispatcher gc = pallet_dispatcher cfg"
  shows "keeps (owned asset who) (gv_create_erc6160_asset cfg gc origin a)"
    "keeps (owned asset who) (create_erc6160_asset_unsigned cfg gc origin b)"
    "keeps (owned asset who) (update_registrar_params cfg gc origin c)"
    "keeps (owned asset who) (update_gateway_params cfg gc origin d)"
    "keeps (owned asset who) (gv_update_params cfg origin e)"
    "keeps (owned asset who) (gv_update_erc6160_asset cfg gc origin f)"
    "keeps (owned asset who) (create_erc20_asset cfg gc origin g)"
    "keeps (owned asset who) (new_contract_instance cfg gc origin d)"
    "keeps (owned asset who) (deregister_standalone_chain_native_assets cfg origin h)"
    "keeps (owned asset who) (governor_on_accept cfg gc request)"
  unfolding gv_create_erc6160_asset_def create_erc6160_asset_unsigned_def update_registrar_params_def update_gateway_params_def
    gv_update_params_def gv_update_erc6160_asset_def create_erc20_asset_def new_contract_instance_def
    deregister_standalone_chain_native_assets_def governor_on_accept_def remote_registration_def
    update_registrar_params_impl_def update_gateway_params_impl_def ensure_signed_def ensure_root_or_owner_def Let_def
  by (auto intro!: keeps_intros keeps_transactional keeps_owned_register [OF assms] keeps_owned_unsigned [OF assms]
      keeps_owned_params [OF assms] keeps_owned_instances [OF assms] keeps_owned_update [OF assms] keeps_owned_erc20 [OF assms]
      keeps_owned_on_env keeps_owned_event keeps_modify
      split: Origin.split RemoteERC6160AssetRegistration.split prod.split simp: owned_def)

lemma governor_step_owned:
  assumes "gc_dispatcher gc = pallet_dispatcher cfg" and "owned asset who s"
  shows "owned asset who (governor_step cfg gc call s)"
  using keeps_owned_calls [OF assms(1)] assms(2) by (cases call) (auto simp: keeps_def)

text \<open>C28: an asset keeps its owner. Whatever calls are made to the governor, by whomever, and whatever
  requests are delivered to it, in any order: the owner of a registered asset stays the owner, and the
  same symbol is never registered again.\<close>

theorem owners_are_permanent:
  assumes "gc_dispatcher gc = pallet_dispatcher cfg" and "gv_AssetOwners s (cf_keccak256 cfg symbol) = Some who"
    and "s' = foldl (\<lambda>s call. governor_step cfg gc call s) s calls"
  shows "gv_AssetOwners s' (cf_keccak256 cfg symbol) = Some who \<and>
    (\<forall>asset owner. ear_symbol asset = symbol \<longrightarrow> register_asset cfg gc asset owner s' = (Err GvAssetAlreadyExists, s'))"
proof -
  have "owned (cf_keccak256 cfg symbol) who (foldl (\<lambda>s call. governor_step cfg gc call s) t calls)"
    if "owned (cf_keccak256 cfg symbol) who t" for t
    using that by (induction calls arbitrary: t) (simp_all add: governor_step_owned [OF assms(1)])
  with assms(2,3) have "gv_AssetOwners s' (cf_keccak256 cfg symbol) = Some who" by (simp add: owned_def)
  then show ?thesis by (simp add: register_asset_def comp_app Let_def)
qed

section \<open>Registration\<close>

text \<open>The signature that claims a paid registration covers the symbol only. Whoever sees an accepted
  registration can send it with another owner: in the same state it is accepted as well, and the asset
  belongs to the other owner.\<close>

theorem registration_signature_reusable:
  assumes "create_erc6160_asset_unsigned cfg gc OriginNone registration s = (Ok (), s')"
    and "asset_id = cf_keccak256 cfg (ear_symbol (uar_asset registration))"
  shows "create_erc6160_asset_unsigned cfg gc OriginNone (registration\<lparr>uar_owner := thief\<rparr>) s =
    (Ok (), s'\<lparr>gv_AssetOwners := (gv_AssetOwners s')(asset_id \<mapsto> thief)\<rparr>)"
proof -
  from assms(1) obtain pub_key owner t where
    sig: "length (uar_signature registration) = 65" "gc_ecdsa_recover gc (uar_signature registration) asset_id = Some pub_key"
      "gv_PendingAsset s asset_id = Some owner" "ucast (cf_keccak256 cfg pub_key) = owner" and
    fresh: "gv_AssetOwners s asset_id = None" and
    loop: "for_each (\<lambda>target. bindC (create_on cfg gc asset_id
        \<lparr>gm_name = ear_name (uar_asset registration), gm_symbol = ear_symbol (uar_asset registration), gm_decimals = 18,
         gm_minimum_balance = ear_minimum_balance (uar_asset registration)\<rparr> target) (\<lambda>commitment.
           gv_deposit_event (GvAssetRegistered asset_id commitment (cs_chain target)))) (ear_chains (uar_asset registration)) s = (Ok (), t)" and
    s': "s' = t\<lparr>gv_AssetMetadatas := (gv_AssetMetadatas t)(asset_id \<mapsto>
        \<lparr>gm_name = ear_name (uar_asset registration), gm_symbol = ear_symbol (uar_asset registration), gm_decimals = 18,
         gm_minimum_balance = ear_minimum_balance (uar_asset registration)\<rparr>),
        gv_AssetOwners := (gv_AssetOwners t)(asset_id \<mapsto> uar_owner registration),
        gv_PendingAsset := (gv_PendingAsset t)(asset_id := None)\<rparr>"
    unfolding create_erc6160_asset_unsigned_def register_asset_unsigned_def register_asset_def Let_def assms(2)
    by (auto simp: comp_ok split: if_splits)
  from sig fresh loop show ?thesis
    unfolding create_erc6160_asset_unsigned_def register_asset_unsigned_def register_asset_def Let_def s' assms(2)
    by (simp add: comp_app)
qed

text \<open>Every connected substrate chain has the power of root over every asset. An update that root could
  make is executed in the same way when the gateway of any substrate chain asks for it; the owner of
  the asset does not matter.\<close>

theorem remote_update_ignores_owner:
  assumes "gv_update_erc6160_asset cfg gc OriginRoot (ERC6160AssetUpdate_from u) s = (Ok (), s')"
    and "is_substrate (pr_source request)" and "pr_from request = be_bytes 20 (token_gateway_id (cf_keccak256 cfg))"
    and "gc_decode_remote gc (pr_body request) = Some (RemoteUpdateAsset u)"
  shows "governor_on_accept cfg gc request s = (Ok (), s')"
proof -
  from assms(1) have "update_erc6160_asset_impl cfg gc (ERC6160AssetUpdate_from u) s = (Ok (), s')"
    by (auto simp: gv_update_erc6160_asset_def ensure_root_or_owner_def comp_ok)
  with assms(2-4) show ?thesis by (simp add: governor_on_accept_def remote_registration_def comp_app)
qed

section \<open>Messages to the gateways\<close>

lemma keeps_dispatch_events:
  assumes "\<And>src n c. PeRequest (dp_dest p) src n c \<in> E"
  shows "keeps (\<lambda>t. set (events t) \<subseteq> E) (dispatch_request cfg (DispPost p) fee)"
  unfolding dispatch_request_def prepare_request_def DispatchRequest.case bindC_assoc bindC_ret
    pallet_dispatch_request_def mmr_push_def deposit_event_def
  by (intro keeps_intros keeps_collect_fee keeps_on_env keeps_modify keeps_next_nonce)
     (auto simp: assms child_trie_defs)

text \<open>The announcement of a new gateway goes to the chain of that gateway itself. All requests that the
  governor dispatches for new instances have one of the updated chains as their destination; a chain
  that is not updated hears nothing of the new gateway.\<close>

theorem new_instance_told_to_itself:
  assumes "new_contract_instance cfg gc origin updates s = (r, s')" and "gc_dispatcher gc = pallet_dispatcher cfg"
  shows "set (events s') \<subseteq> set (events s) \<union> {PeRequest chain source n c |chain source n c. chain \<in> fst ` set updates}"
proof -
  define E where "E = set (events s) \<union> {PeRequest chain source n c |chain source n c. chain \<in> fst ` set updates}"
  have announce: "keeps (\<lambda>t. set (events t) \<subseteq> E) (announce_instance gc chain)" if "chain \<in> fst ` set updates" for chain
  proof -
    have "PeRequest chain source n c \<in> E" for source n c using that by (auto simp: E_def)
    then show ?thesis
      unfolding announce_instance_def gv_dispatch_def assms(2) pallet_dispatcher_def Let_def
      by (auto intro!: keeps_intros keeps_dispatch_events split: prod.split)
  qed
  have "keeps (\<lambda>t. set (events t) \<subseteq> E) (new_contract_instance cfg gc origin updates)"
    unfolding new_contract_instance_def add_new_gateway_instance_def
    by (intro keeps_transactional keeps_bindC keeps_for_each_set keeps_basic)
       (auto intro!: keeps_intros keeps_modify announce rev_image_eqI split: prod.split)
  from keepsD [OF this assms(1)] show ?thesis by (simp add: E_def)
qed


section \<open>A governor\<close>

definition gov_cfg :: "(sample_env, unit) gv_config" where
  "gov_cfg = runtime_cfg"

definition gov_gc :: "(sample_env, unit) GovConfig" where
  "gov_gc =
     \<lparr>gc_dispatcher = pallet_dispatcher gov_cfg, gc_transfer = sample_transfer, gc_treasury = 4, gc_into_account = (\<lambda>b. 5),
      gc_ecdsa_recover = (\<lambda>sig h. Some [1, 2, 3]), gc_encode_metadata = (\<lambda>m. []), gc_encode_deregister = (\<lambda>d. []),
      gc_encode_state_machine = (\<lambda>m. []), gc_abi_params = (\<lambda>p. be_bytes 20 (stp_host p) @ be_bytes 20 (stp_dispatcher p)),
      gc_abi_metadata = (\<lambda>m. []), gc_abi_deregister = (\<lambda>l. []), gc_abi_admin = (\<lambda>a. []), gc_abi_instance = (\<lambda>i. []),
      gc_abi_registrar = (\<lambda>r. []), gc_decode_request_body = (\<lambda>b. None),
      gc_decode_remote = (\<lambda>b. Some (RemoteUpdateAsset \<lparr>gau_asset_id = 3, gau_add_chains = [], gau_remove_chains = [Evm 1], gau_new_admins = []\<rparr>)),
      gc_iter_order = (\<lambda>m. m)\<rparr>"

text \<open>The asset 3 belongs to account 9 and is on the chain Evm 1, whose gateway has the address 7; a
  registration of the symbol with the identifier 4 has been paid for.\<close>

definition gov_state :: "(sample_env, unit) gv_st" where
  "gov_state = relayer_state.extend
     (host_exec_state.extend
       (ismp_state.extend empty_state (host_exec_state.fields (\<lambda>_. None) (\<lambda>_. Some 31) []))
       (relayer_state.fields (\<lambda>_ _. 0) (\<lambda>_ _. 0) 1 []))
     (governor_state.fields [4 \<mapsto> 3] (\<lambda>a. if a = 3 then [Evm 1 \<mapsto> True] else (\<lambda>_. None))
        [3 \<mapsto> \<lparr>gm_name = [], gm_symbol = [1, 1, 1], gm_decimals = 18, gm_minimum_balance = None\<rparr>] [3 \<mapsto> 9] None (\<lambda>_. None)
        [(Evm 1, \<lparr>gp_host = 1, gp_call_dispatcher = 2, gp_address = 7\<rparr>)] (\<lambda>_ _. None) [])"

lemmas gov_eval =
  gov_cfg_def gov_gc_def gov_state_def gv_dispatch_def evm_gateway_address_def gateway_address_def pallet_dispatcher_def
  gv_deposit_event_def ismp_state.defs host_exec_state.defs relayer_state.defs governor_state.defs REGISTRY_def

lemma gov_dispatcher: "gc_dispatcher gov_gc = pallet_dispatcher gov_cfg"
  by (simp add: gov_gc_def)

theorem owners_are_permanent_witness:
  "gv_AssetOwners (governor_step gov_cfg gov_gc (GcCreate (OriginSigned 77)
     \<lparr>ear_name = [], ear_symbol = [1, 1, 1], ear_chains = [], ear_minimum_balance = None\<rparr>) gov_state) 3 = Some 9"
proof -
  have hash: "cf_keccak256 gov_cfg [1, 1, 1] = 3" by (simp add: gov_cfg_def sample_hash_def)
  have "gv_AssetOwners gov_state 3 = Some 9" by (simp add: gov_eval)
  from owners_are_permanent [OF gov_dispatcher this [folded hash] refl,
      of "[GcCreate (OriginSigned 77) \<lparr>ear_name = [], ear_symbol = [1, 1, 1], ear_chains = [], ear_minimum_balance = None\<rparr>]"]
  show ?thesis by (simp add: hash)
qed

definition gov_registration :: UnsignedERC6160AssetRegistration where
  "gov_registration =
     \<lparr>uar_asset = \<lparr>ear_name = [], ear_symbol = [1, 1, 1, 1], ear_chains = [], ear_minimum_balance = None\<rparr>,
      uar_signature = replicate 65 0, uar_owner = 11\<rparr>"

theorem registration_signature_reusable_witness:
  "\<exists>s'. create_erc6160_asset_unsigned gov_cfg gov_gc OriginNone gov_registration gov_state = (Ok (), s') \<and>
     (\<exists>t. create_erc6160_asset_unsigned gov_cfg gov_gc OriginNone (gov_registration\<lparr>uar_owner := 66\<rparr>) gov_state = (Ok (), t) \<and>
        gv_AssetOwners t 4 = Some 66)"
proof -
  have "succeeds (create_erc6160_asset_unsigned gov_cfg gov_gc OriginNone gov_registration) gov_state"
    by (simp add: create_erc6160_asset_unsigned_def register_asset_unsigned_def register_asset_def gov_registration_def
        gov_eval sample_eval sample_hash_def empty_state_def)
  from succeeds_run [OF this] obtain s' where
    run: "create_erc6160_asset_unsigned gov_cfg gov_gc OriginNone gov_registration gov_state = (Ok (), s')" by fastforce
  have "cf_keccak256 gov_cfg (ear_symbol (uar_asset gov_registration)) = 4"
    by (simp add: gov_cfg_def gov_registration_def sample_hash_def)
  with registration_signature_reusable [OF run refl, of 66] run show ?thesis by simp
qed

definition gov_remote :: PostRequest where
  "gov_remote = (sample_post [1] [2])\<lparr>pr_source := Polkadot 2000, pr_from := be_bytes 20 (token_gateway_id (cf_keccak256 gov_cfg))\<rparr>"

theorem remote_update_ignores_owner_witness:
  "gv_AssetOwners gov_state 3 = Some 9 \<and> (\<exists>s'. governor_on_accept gov_cfg gov_gc gov_remote gov_state = (Ok (), s'))"
proof -
  let ?u = "\<lparr>gau_asset_id = 3, gau_add_chains = [], gau_remove_chains = [Evm 1], gau_new_admins = []\<rparr>"
  have "succeeds (gv_update_erc6160_asset gov_cfg gov_gc OriginRoot (ERC6160AssetUpdate_from ?u)) gov_state"
    by (simp add: gv_update_erc6160_asset_def ensure_root_or_owner_def update_erc6160_asset_impl_def ERC6160AssetUpdate_from_def
        remove_from_def encode_deregister_request_def gov_eval sample_eval dispatch_eval del: StateMachine_fmt.simps)
  from succeeds_run [OF this] obtain s' where
    run: "gv_update_erc6160_asset gov_cfg gov_gc OriginRoot (ERC6160AssetUpdate_from ?u) gov_state = (Ok (), s')" by fastforce
  have "governor_on_accept gov_cfg gov_gc gov_remote gov_state = (Ok (), s')"
    by (rule remote_update_ignores_owner [OF run]) (simp_all add: gov_remote_def gov_gc_def)
  then show ?thesis by (simp add: gov_eval)
qed

theorem new_instance_told_to_itself_witness:
  "PeRequest (Evm 2) (Polkadot 1000) 0 0 \<notin>
     set (events (snd (new_contract_instance gov_cfg gov_gc OriginRoot [(Evm 1, \<lparr>tgu_call_dispatcher = None, tgu_address = Some 8\<rparr>)] gov_state)))"
proof -
  obtain r s' where
    run: "new_contract_instance gov_cfg gov_gc OriginRoot [(Evm 1, \<lparr>tgu_call_dispatcher = None, tgu_address = Some 8\<rparr>)] gov_state = (r, s')"
    by fastforce
  have "events gov_state = []" by (simp add: gov_eval empty_state_def)
  with new_instance_told_to_itself [OF run gov_dispatcher] run show ?thesis by auto
qed



end
