(* ===== verification/Hyperbridge_Runtime.thy ===== *)
theory Hyperbridge_Runtime
  imports Pallet_Token_Governor
begin

text \<open>
  pallet-token-gateway-inspector (\<^verbatim>\<open>modules/ismp/pallets/token-gateway-inspector/src/lib.rs\<close>),
  which keeps a balance of every asset that flowed into a standalone chain, and the module of the
  hyperbridge runtime that routes requests and responses between other chains
  (\<^verbatim>\<open>parachain/runtimes/nexus/src/ismp.rs\<close>, \<^verbatim>\<open>ProxyModule\<close> and \<^verbatim>\<open>Router\<close>). The
  gateway for cross consensus messages and the ABI decoder are parameters.
\<close>

section \<open>The inspector\<close>

datatype InspectorEvent = IllegalRequest StateMachine

record 'x inspector_state = "'x governor_state" +
  in_InflowBalances :: "StateMachine \<Rightarrow> h256 \<Rightarrow> u256"
  in_events :: "InspectorEvent list"

type_synonym ('x, 'm) in_st = "('x, 'm) inspector_state_scheme"
type_synonym ('x, 'm) in_config = "('x, 'm inspector_state_ext) gv_config"
type_synonym abi_decoder = "bytes \<Rightarrow> GatewayBody option"

definition checked_sub256 :: "u256 \<Rightarrow> u256 \<Rightarrow> u256 option" where
  "checked_sub256 a b = (if a < b then None else Some (a - b))"

text \<open>Adding to and taking from an entry of \<^verbatim>\<open>InflowBalances\<close>; both panic out of range.\<close>

definition add_inflow :: "StateMachine \<Rightarrow> h256 \<Rightarrow> u256 \<Rightarrow> (('x, 'm) in_st, Error, unit) comp" where
  "add_inflow chain asset amount =
     bindC (asks (\<lambda>s. in_InflowBalances s chain asset)) (\<lambda>val.
     bindC (expect (checked_add256 val amount)) (\<lambda>new.
       modify (\<lambda>s. s\<lparr>in_InflowBalances := (in_InflowBalances s)(chain := (in_InflowBalances s chain)(asset := new))\<rparr>)))"

definition take_inflow :: "StateMachine \<Rightarrow> h256 \<Rightarrow> u256 \<Rightarrow> (('x, 'm) in_st, Error, unit) comp" where
  "take_inflow chain asset amount =
     bindC (asks (\<lambda>s. in_InflowBalances s chain asset)) (\<lambda>val.
     bindC (expect (checked_sub256 val amount)) (\<lambda>new.
       modify (\<lambda>s. s\<lparr>in_InflowBalances := (in_InflowBalances s)(chain := (in_InflowBalances s chain)(asset := new))\<rparr>)))"

definition is_token_gateway_request :: "abi_decoder \<Rightarrow> bytes \<Rightarrow> ('s, Error, GatewayBody option) comp" where
  "is_token_gateway_request decode body = bindC (after_first body) (\<lambda>encoded. ret (decode encoded))"

definition is_native_asset :: "StateMachine \<Rightarrow> h256 \<Rightarrow> ('x, 'm) in_st \<Rightarrow> bool" where
  "is_native_asset source asset s = (case gv_StandaloneChainAssets s source asset of Some b \<Rightarrow> b | None \<Rightarrow> False)"

definition inspect_request :: "abi_decoder \<Rightarrow> PostRequest \<Rightarrow> (('x, 'm) in_st, Error, unit) comp" where
  "inspect_request decode post =
     (let source = pr_source post; dest = pr_dest post in
      if is_evm source \<and> is_evm dest then ret ()
      else
        bindC (is_token_gateway_request decode (pr_body post)) (\<lambda>found.
          case found of
            None \<Rightarrow> ret ()
          | Some body \<Rightarrow>
              bindC (if \<not> is_evm dest then add_inflow dest (gb_asset_id body) (gb_amount body) else ret ()) (\<lambda>_.
              bindC (asks (is_native_asset source (gb_asset_id body))) (\<lambda>is_native.
                if \<not> is_native \<and> \<not> is_evm source then
                  bindC (asks (\<lambda>s. in_InflowBalances s source (gb_asset_id body))) (\<lambda>balance.
                  bindC (ensure (\<not> gb_amount body > balance) (Custom (ascii ''Illegal Token Gateway request''))) (\<lambda>_.
                    take_inflow source (gb_asset_id body) (gb_amount body)))
                else ret ()))))"

definition inspector_handle_timeout :: "abi_decoder \<Rightarrow> PostRequest \<Rightarrow> (('x, 'm) in_st, Error, unit) comp" where
  "inspector_handle_timeout decode post =
     (let source = pr_source post; dest = pr_dest post in
      if is_evm source \<and> is_evm dest then ret ()
      else
        bindC (is_token_gateway_request decode (pr_body post)) (\<lambda>found.
          case found of
            None \<Rightarrow> ret ()
          | Some body \<Rightarrow>
              bindC (asks (is_native_asset source (gb_asset_id body))) (\<lambda>is_native.
              bindC (if \<not> is_native \<and> \<not> is_evm source then add_inflow source (gb_asset_id body) (gb_amount body)
                     else ret ()) (\<lambda>_.
                if \<not> is_evm dest then take_inflow dest (gb_asset_id body) (gb_amount body) else ret ()))))"

section \<open>The proxy module\<close>

text \<open>The modules of the runtime: the gateway for cross consensus messages with the address its pallet
  has for a chain, and the governor.\<close>

record ('x, 'm) ProxyConfig =
  px_decode_body :: abi_decoder
  px_xcm_address :: "StateMachine \<Rightarrow> ('x, 'm) in_st \<Rightarrow> h160"
  px_xcm_gateway :: "('x, 'm) in_st IsmpModule"
  px_governor :: "('x, 'm inspector_state_ext) GovConfig"

definition no_fee :: "(account, balance) FeeMetadata" where
  "no_fee = \<lparr>fee_payer = 0, fee_fee = 0\<rparr>"

definition module_id :: "bytes \<Rightarrow> ('s, anyhow, ModuleId) comp" where
  "module_id b = map_err (\<lambda>err. AnyIsmp (Custom err)) (propagate (ModuleId_from_bytes b))"

definition proxy_on_accept ::
  "('x, 'm) in_config \<Rightarrow> ('x, 'm) ProxyConfig \<Rightarrow> PostRequest \<Rightarrow> (('x, 'm) in_st, anyhow, unit) comp" where
  "proxy_on_accept cfg px request =
     (if pr_dest request \<noteq> cf_host_state_machine cfg then
        bindC (map_err AnyIsmp (inspect_request (px_decode_body px) request)) (\<lambda>_.
        bindC (map_err AnyIsmp (pallet_dispatch_request cfg (ReqPost request) no_fee)) (\<lambda>_.
          ret ()))
      else
        bindC (module_id (pr_to request)) (\<lambda>pallet_id.
        bindC (asks (\<lambda>s. MiEvm (be_bytes 20 (px_xcm_address px (pr_source request) s)))) (\<lambda>xcm_gateway.
          if pallet_id = xcm_gateway then on_accept (px_xcm_gateway px) request
          else if pallet_id = MiPallet REGISTRY then on_accept (governor_module cfg (px_governor px)) request
          else fail (AnyMsg (ascii ''Destination module not found'')))))"

definition proxy_on_response ::
  "('x, 'm) in_config \<Rightarrow> Response \<Rightarrow> (('x, 'm) in_st, anyhow, unit) comp" where
  "proxy_on_response cfg response =
     (if Response_dest_chain response \<noteq> cf_host_state_machine cfg then
        bindC (map_err AnyIsmp (pallet_dispatch_response cfg response no_fee)) (\<lambda>_. ret ())
      else fail (AnyMsg (ascii ''Destination module not found'')))"

definition proxy_on_timeout ::
  "('x, 'm) in_config \<Rightarrow> ('x, 'm) ProxyConfig \<Rightarrow> Timeout \<Rightarrow> (('x, 'm) in_st, anyhow, unit) comp" where
  "proxy_on_timeout cfg px timeout =
     bindC (case timeout of
              TimeoutRequest (ReqPost post) \<Rightarrow>
                bindC (if pr_source post \<noteq> cf_host_state_machine cfg
                       then map_err AnyIsmp (inspector_handle_timeout (px_decode_body px) post) else ret ()) (\<lambda>_.
                  ret (pr_from post, pr_dest post))
            | TimeoutRequest (ReqGet get) \<Rightarrow> ret (gr_from get, gr_dest get)
            | TimeoutResponse res \<Rightarrow> ret (pr_to (prs_post res), pr_dest (prs_post res))) (\<lambda>(from, dest).
     bindC (module_id from) (\<lambda>pallet_id.
     bindC (asks (\<lambda>s. MiEvm (be_bytes 20 (px_xcm_address px dest s)))) (\<lambda>xcm_gateway.
       if pallet_id = xcm_gateway then on_timeout (px_xcm_gateway px) timeout else ret ())))"

definition ProxyModule :: "('x, 'm) in_config \<Rightarrow> ('x, 'm) ProxyConfig \<Rightarrow> ('x, 'm) in_st IsmpModule" where
  "ProxyModule cfg px =
     \<lparr>on_accept = proxy_on_accept cfg px, on_response = proxy_on_response cfg, on_timeout = proxy_on_timeout cfg px\<rparr>"

definition Router_module_for_id :: "('x, 'm) in_config \<Rightarrow> ('x, 'm) ProxyConfig \<Rightarrow> ('x, 'm) in_st IsmpRouter" where
  "Router_module_for_id cfg px = (\<lambda>_ _. Ok (ProxyModule cfg px))"

text \<open>The configuration of the runtime with this router. No call of the modules reads the router of its
  configuration.\<close>

definition nexus_config :: "('x, 'm) in_config \<Rightarrow> ('x, 'm) ProxyConfig \<Rightarrow> ('x, 'm) in_config" where
  "nexus_config cfg px = cfg\<lparr>cf_router := Router_module_for_id cfg px\<rparr>"

end
