(* ===== verification/Runtime_Properties.thy ===== *)
theory Runtime_Properties
  imports Hyperbridge_Runtime Relayer_Properties Request_Properties Dispatch_Properties
begin

text \<open>
  What the runtime of hyperbridge guarantees as a router: a request it routes is committed to for its
  destination, and the inspector never lets more of an asset out of a standalone chain than came in.
  It also shows which requests it cannot route.
\<close>

section \<open>The ledger of the inspector\<close>

datatype Inspection = Routed PostRequest | TimedOut PostRequest

fun inspect :: "abi_decoder \<Rightarrow> Inspection \<Rightarrow> (('x, 'm) in_st, Error, unit) comp" where
  "inspect decode (Routed post) = inspect_request decode post"
| "inspect decode (TimedOut post) = inspector_handle_timeout decode post"

text \<open>The amount of an asset that a request carries, and what an inspection moves into and out of a chain.\<close>

definition carried :: "abi_decoder \<Rightarrow> h256 \<Rightarrow> PostRequest \<Rightarrow> nat" where
  "carried decode asset post =
     (case decode (tl (pr_body post)) of
        Some body \<Rightarrow> if gb_asset_id body = asset then unat (gb_amount body) else 0
      | None \<Rightarrow> 0)"

fun entering :: "abi_decoder \<Rightarrow> StateMachine \<Rightarrow> h256 \<Rightarrow> Inspection \<Rightarrow> nat" where
  "entering decode chain asset (Routed post) = (if pr_dest post = chain then carried decode asset post else 0)"
| "entering decode chain asset (TimedOut post) = (if pr_source post = chain then carried decode asset post else 0)"

fun leaving :: "abi_decoder \<Rightarrow> StateMachine \<Rightarrow> h256 \<Rightarrow> Inspection \<Rightarrow> nat" where
  "leaving decode chain asset (Routed post) = (if pr_source post = chain then carried decode asset post else 0)"
| "leaving decode chain asset (TimedOut post) = (if pr_dest post = chain then carried decode asset post else 0)"

definition balanced :: "StateMachine \<Rightarrow> h256 \<Rightarrow> nat \<Rightarrow> nat \<Rightarrow> ('x, 'm) in_st \<Rightarrow> ('x, 'm) in_st \<Rightarrow> bool" where
  "balanced chain asset inn out s s' \<longleftrightarrow>
     unat (in_InflowBalances s' chain asset) + out = unat (in_InflowBalances s chain asset) + inn \<and>
     gv_StandaloneChainAssets s' = gv_StandaloneChainAssets s"

lemma checked_sub256_Some: "checked_sub256 a b = Some c \<Longrightarrow> unat c + unat b = unat a"
  by (auto simp: checked_sub256_def not_less unat_sub word_le_nat_alt split: if_splits)

lemma add_inflow_balanced:
  assumes "(if g then add_inflow c a n else ret ()) s = (Ok u, s')"
  shows "balanced chain asset (if g \<and> c = chain \<and> a = asset then unat n else 0) 0 s s'"
  using assms by (auto simp: balanced_def add_inflow_def comp_ok dest!: checked_add256_Some split: if_splits)

lemma take_inflow_balanced:
  assumes "(if g then take_inflow c a n else ret ()) s = (Ok u, s')"
  shows "balanced chain asset 0 (if g \<and> c = chain \<and> a = asset then unat n else 0) s s'"
  using assms by (auto simp: balanced_def take_inflow_def comp_ok dest!: checked_sub256_Some split: if_splits)

lemma balanced_trans:
  "balanced chain asset i 0 s t \<Longrightarrow> balanced chain asset 0 j t u \<Longrightarrow> balanced chain asset i j s u"
  by (simp add: balanced_def)

lemma balanced_native: "balanced chain asset i j s t \<Longrightarrow> is_native_asset c a t = is_native_asset c a s"
  by (simp add: balanced_def is_native_asset_def)

text \<open>The two cases of an inspection that finds the body of a gateway.\<close>

lemma inspect_request_Ok:
  assumes "inspect_request decode post s = (Ok (), s')" and "\<not> (is_evm (pr_source post) \<and> is_evm (pr_dest post))"
    and "decode (tl (pr_body post)) = Some gb"
  shows "\<exists>t. (if \<not> is_evm (pr_dest post) then add_inflow (pr_dest post) (gb_asset_id gb) (gb_amount gb) else ret ()) s = (Ok (), t) \<and>
    (if \<not> is_native_asset (pr_source post) (gb_asset_id gb) t \<and> \<not> is_evm (pr_source post)
     then take_inflow (pr_source post) (gb_asset_id gb) (gb_amount gb) else ret ()) t = (Ok (), s')"
  using assms
  by (cases "pr_body post")
     (auto simp: inspect_request_def is_token_gateway_request_def after_first_def comp_ok Let_def split: if_splits)

lemma handle_timeout_Ok:
  assumes "inspector_handle_timeout decode post s = (Ok (), s')" and "\<not> (is_evm (pr_source post) \<and> is_evm (pr_dest post))"
    and "decode (tl (pr_body post)) = Some gb"
  shows "\<exists>t. (if \<not> is_native_asset (pr_source post) (gb_asset_id gb) s \<and> \<not> is_evm (pr_source post)
     then add_inflow (pr_source post) (gb_asset_id gb) (gb_amount gb) else ret ()) s = (Ok (), t) \<and>
    (if \<not> is_evm (pr_dest post) then take_inflow (pr_dest post) (gb_asset_id gb) (gb_amount gb) else ret ()) t = (Ok (), s')"
  using assms
  by (cases "pr_body post")
     (auto simp: inspector_handle_timeout_def is_token_gateway_request_def after_first_def comp_ok Let_def split: if_splits)

lemma inspect_nothing:
  assumes "inspect decode x s = (Ok (), s')" and "x = Routed post \<or> x = TimedOut post"
    and "is_evm (pr_source post) \<and> is_evm (pr_dest post) \<or> decode (tl (pr_body post)) = None"
  shows "s' = s"
  using assms
  by (cases "pr_body post")
     (auto simp: inspect_request_def inspector_handle_timeout_def is_token_gateway_request_def after_first_def comp_ok Let_def split: if_splits)

lemma inspect_balanced:
  assumes "inspect decode x s = (Ok (), s')" and "\<not> is_evm chain" and "\<not> is_native_asset chain asset s"
  shows "balanced chain asset (entering decode chain asset x) (leaving decode chain asset x) s s'"
proof -
  obtain post where post: "x = Routed post \<or> x = TimedOut post" by (cases x) auto
  show ?thesis
  proof (cases "is_evm (pr_source post) \<and> is_evm (pr_dest post) \<or> decode (tl (pr_body post)) = None")
    case True
    with inspect_nothing [OF assms(1) post] post assms(2) show ?thesis by (auto simp: balanced_def carried_def)
  next
    case False
    then obtain gb where evm: "\<not> (is_evm (pr_source post) \<and> is_evm (pr_dest post))" and
      gb: "decode (tl (pr_body post)) = Some gb" by blast
    from post show ?thesis
    proof
      assume x: "x = Routed post"
      with assms(1) have "inspect_request decode post s = (Ok (), s')" by simp
      from inspect_request_Ok [OF this evm gb] obtain t where
        a: "(if \<not> is_evm (pr_dest post) then add_inflow (pr_dest post) (gb_asset_id gb) (gb_amount gb) else ret ()) s = (Ok (), t)" and
        b: "(if \<not> is_native_asset (pr_source post) (gb_asset_id gb) t \<and> \<not> is_evm (pr_source post)
          then take_inflow (pr_source post) (gb_asset_id gb) (gb_amount gb) else ret ()) t = (Ok (), s')" by blast
      note in' = add_inflow_balanced [OF a, of chain asset] and out = take_inflow_balanced [OF b, of chain asset]
      have "\<not> is_native_asset chain asset t" using balanced_native [OF in'] assms(3) by simp
      with balanced_trans [OF in' out] assms(2) x gb show ?thesis by (auto simp: balanced_def carried_def split: if_splits)
    next
      assume x: "x = TimedOut post"
      with assms(1) have "inspector_handle_timeout decode post s = (Ok (), s')" by simp
      from handle_timeout_Ok [OF this evm gb] obtain t where
        a: "(if \<not> is_native_asset (pr_source post) (gb_asset_id gb) s \<and> \<not> is_evm (pr_source post)
          then add_inflow (pr_source post) (gb_asset_id gb) (gb_amount gb) else ret ()) s = (Ok (), t)" and
        b: "(if \<not> is_evm (pr_dest post) then take_inflow (pr_dest post) (gb_asset_id gb) (gb_amount gb) else ret ()) t = (Ok (), s')" by blast
      note in' = add_inflow_balanced [OF a, of chain asset] and out = take_inflow_balanced [OF b, of chain asset]
      from balanced_trans [OF in' out] assms(2,3) x gb show ?thesis by (auto simp: balanced_def carried_def split: if_splits)
    qed
  qed
qed

text \<open>C17: no standalone chain releases more of a foreign asset than it has received. Over any sequence of
  requests routed through hyperbridge and of timeouts, the balance of an asset that is not native to a
  chain is what the balance was, plus all that was sent there or returned to it, minus all that was sent
  from there or taken back, without wrap-around; so what left is covered by what came in.\<close>

theorem inflow_is_conserved:
  assumes "for_each (inspect decode) xs s = (Ok (), s')" and "\<not> is_evm chain" and "\<not> is_native_asset chain asset s"
  shows "unat (in_InflowBalances s' chain asset) + sum_list (map (leaving decode chain asset) xs) =
    unat (in_InflowBalances s chain asset) + sum_list (map (entering decode chain asset) xs)"
  using assms
proof (induction xs arbitrary: s)
  case Nil
  then show ?case by (simp add: comp_ok)
next
  case (Cons x xs)
  then obtain t where x: "inspect decode x s = (Ok (), t)" and rest: "for_each (inspect decode) xs t = (Ok (), s')"
    by (auto simp: comp_ok)
  note step = inspect_balanced [OF x Cons.prems(2,3)]
  from Cons.IH [OF rest Cons.prems(2)] balanced_native [OF step] step Cons.prems(3) show ?case
    by (simp add: balanced_def)
qed

text \<open>A runtime that routes for the chains its one client knows, with a trusted height of a standalone
  chain.\<close>

definition nexus_height :: StateMachineHeight where
  "nexus_height = \<lparr>smh_id = \<lparr>state_id = Polkadot 1000, consensus_state_id = sample_csid\<rparr>, smh_height = 5\<rparr>"

definition nexus_state :: "(sample_env, unit) in_st" where
  "nexus_state = governor_state.extend
     (relayer_state.extend
       (host_exec_state.extend
         (ismp_state.extend
            (empty_state\<lparr>consensus_states := [sample_csid \<mapsto> [9]], state_commitments := [nexus_height \<mapsto> sample_commitment 8000],
              consensus_state_client := [sample_csid \<mapsto> (0, 0, 0, 1)],
              unbonding_periods := [sample_csid \<mapsto> 5000], challenge_periods := [smh_id nexus_height \<mapsto> 60],
              latest_heights := [smh_id nexus_height \<mapsto> 5], consensus_update_times := [sample_csid \<mapsto> 9000],
              state_machine_update_times := [nexus_height \<mapsto> 9000]\<rparr>)
           (host_exec_state.fields (\<lambda>_. None) (\<lambda>_. None) []))
         (relayer_state.fields (\<lambda>_ _. 0) (\<lambda>_ _. 0) 1 []))
       (governor_state.fields (\<lambda>_. None) (\<lambda>_ _. None) (\<lambda>_. None) (\<lambda>_. None) None (\<lambda>_. None) [] (\<lambda>_ _. None) []))
     (inspector_state.fields (\<lambda>_ _. 0) [])"

lemmas nexus_eval = nexus_state_def governor_state.defs relayer_state.defs host_exec_state.defs ismp_state.defs
  inspector_state.defs

lemma nexus_balances [simp]: "in_InflowBalances nexus_state = (\<lambda>_ _. 0)"
  by (simp add: nexus_eval)

lemma nexus_native [simp]: "\<not> is_native_asset chain asset nexus_state"
  by (simp add: nexus_eval is_native_asset_def)

definition sample_decode :: abi_decoder where
  "sample_decode b = Some \<lparr>gb_amount = of_nat (length b), gb_asset_id = 3, gb_redeem = False, gb_from = 0, gb_to = 0\<rparr>"

text \<open>Four units come into a standalone chain from an EVM chain and two of them leave it again.\<close>

definition round_trip :: "Inspection list" where
  "round_trip =
     [Routed (sample_post [1] [0, 0, 0, 0, 0]),
      Routed ((sample_post [1] [0, 0, 0])\<lparr>pr_source := Polkadot 1000, pr_dest := Evm 1\<rparr>)]"

theorem inflow_is_conserved_witness:
  "unat (in_InflowBalances (snd (for_each (inspect sample_decode) round_trip nexus_state)) (Polkadot 1000) 3) = 2"
proof -
  have "succeeds (for_each (inspect sample_decode) round_trip) nexus_state"
    by (simp add: succeeds_def round_trip_def sample_post_def inspect_request_def is_token_gateway_request_def after_first_def
        sample_decode_def add_inflow_def take_inflow_def comp_app checked_add256_def checked_sub256_def Let_def nexus_eval
        is_native_asset_def)
  from succeeds_run [OF this] obtain s' where run: "for_each (inspect sample_decode) round_trip nexus_state = (Ok (), s')"
    by fastforce
  have "unat (in_InflowBalances s' (Polkadot 1000) 3) + 2 = 4"
    using inflow_is_conserved [OF run, of "Polkadot 1000" 3]
    by (simp add: round_trip_def sample_post_def carried_def sample_decode_def)
  with run show ?thesis by simp
qed

section \<open>Requests the inspector refuses\<close>

text \<open>The inspector records the inflow of the destination before it checks the balance of the source; the
  call that executes the message takes the record back.\<close>

lemma inspect_request_illegal:
  assumes "decode (tl (pr_body p)) = Some gb" and "pr_body p \<noteq> []"
    and "\<not> is_evm (pr_source p)" and "\<not> is_evm (pr_dest p)" and "pr_source p \<noteq> pr_dest p"
    and "\<not> is_native_asset (pr_source p) (gb_asset_id gb) s"
    and "in_InflowBalances s (pr_source p) (gb_asset_id gb) < gb_amount gb"
    and "checked_add256 (in_InflowBalances s (pr_dest p) (gb_asset_id gb)) (gb_amount gb) = Some new"
  shows "inspect_request decode p s = (Err (Custom (ascii ''Illegal Token Gateway request'')),
    s\<lparr>in_InflowBalances := (in_InflowBalances s)(pr_dest p := (in_InflowBalances s (pr_dest p))(gb_asset_id gb := new))\<rparr>)"
  using assms
  by (cases "pr_body p")
     (auto simp: inspect_request_def is_token_gateway_request_def after_first_def add_inflow_def comp_app Let_def
        is_native_asset_def)

lemma nexus_router:
  "h_ismp_router (pallet_host (nexus_config cfg px)) i s = Ok (RefundingModule (nexus_config cfg px) (ProxyModule cfg px))"
  by (simp add: nexus_config_def RefundingRouter_def Router_module_for_id_def)

lemma nexus_config_simps [simp]:
  "cf_keccak256 (nexus_config cfg px) = cf_keccak256 cfg"
  "cf_host_state_machine (nexus_config cfg px) = cf_host_state_machine cfg"
  by (simp_all add: nexus_config_def)

lemma nexus_on_accept [simp]:
  "on_accept (RefundingModule c (ProxyModule cfg px)) = proxy_on_accept cfg px"
  by (simp add: RefundingModule_def ProxyModule_def)

lemma child_trie_inflow [simp]:
  "RequestReceipts_get c (s\<lparr>in_InflowBalances := f\<rparr>) = RequestReceipts_get c s"
  "RequestReceipts_remove c (s\<lparr>in_InflowBalances := f\<rparr>) = (RequestReceipts_remove c s)\<lparr>in_InflowBalances := f\<rparr>"
  "RequestCommitments_get c (s\<lparr>in_InflowBalances := f\<rparr>) = RequestCommitments_get c s"
  by (simp_all add: child_trie_defs)

lemma inflow_child_trie [simp]:
  "in_InflowBalances (RequestReceipts_insert c r s) = in_InflowBalances s"
  "is_native_asset chain asset (RequestReceipts_insert c r s) = is_native_asset chain asset s"
  by (simp_all add: child_trie_defs is_native_asset_def)

text \<open>A standalone chain cannot send more of a foreign asset than has come in. A message with a request
  for more passes every check of the handler, but the inspector refuses the request, and with it the
  whole call is refused in the state it started from: also the inflow that the inspector had already
  recorded for the destination, before it looked at the source, is taken back.\<close>

theorem illegal_request_leaves_no_trace:
  assumes "request_checks (pallet_host (nexus_config cfg px)) msg s" and "rqm_requests msg = [p]"
    and "pr_dest p \<noteq> cf_host_state_machine cfg" and "hash_request (cf_keccak256 cfg) (ReqPost p) = Some c"
    and "px_decode_body px (tl (pr_body p)) = Some gb" and "pr_body p \<noteq> []"
    and "\<not> is_evm (pr_source p)" and "\<not> is_evm (pr_dest p)" and "pr_source p \<noteq> pr_dest p"
    and "\<not> is_native_asset (pr_source p) (gb_asset_id gb) s"
    and "in_InflowBalances s (pr_source p) (gb_asset_id gb) < gb_amount gb"
    and "checked_add256 (in_InflowBalances s (pr_dest p) (gb_asset_id gb)) (gb_amount gb) = Some new"
  shows "handle_unsigned (nexus_config cfg px) OriginNone [MsgRequest msg] s = (Err InvalidMessage, s) \<and>
    handle_signed (nexus_config cfg px) (OriginSigned a) [MsgRequest msg] s = (Err InvalidMessage, s)"
proof -
  let ?H = "pallet_host (nexus_config cfg px)" and ?t = "RequestReceipts_insert c (rqm_signer msg) s"
  let ?u = "?t\<lparr>in_InflowBalances := (in_InflowBalances s)(pr_dest p := (in_InflowBalances s (pr_dest p))(gb_asset_id gb := new))\<rparr>"
  let ?e = "AnyIsmp (Custom (ascii ''Illegal Token Gateway request''))"
  have run: "runs_under_receipt ?H (rqm_signer msg) p s (RefundingModule (nexus_config cfg px) (ProxyModule cfg px)) ?t"
    using nexus_router [of cfg px "pr_to p" s] assms(4)
    by (simp add: runs_under_receipt_def pallet_store_request_receipt_def comp_app)
  have "inspect_request (px_decode_body px) p ?t = (Err (Custom (ascii ''Illegal Token Gateway request'')), ?u)"
    using inspect_request_illegal [of "px_decode_body px" p gb ?t new] assms(5-12) by simp
  then have refused: "on_accept (RefundingModule (nexus_config cfg px) (ProxyModule cfg px)) p ?t = (Err ?e, ?u)"
    using assms(3) by (simp add: proxy_on_accept_def comp_app)
  have removed: "h_delete_request_receipt ?H (ReqPost p) ?u = (Ok (rqm_signer msg), RequestReceipts_remove c ?u)"
    using assms(4) by (simp add: pallet_delete_request_receipt_def comp_app child_trie_defs)
  from deliver_request_failed [OF run refused removed]
  have "deliver_requests ?H (rqm_signer msg) (rqm_requests msg) s = (Ok [Inl ?e], RequestReceipts_remove c ?u)"
    by (simp add: deliver_requests_def assms(2) comp_app)
  with assms(1) have "handle_request ?H msg s = (Ok (MrRequest [Inl ?e]), RequestReceipts_remove c ?u)"
    unfolding handle_request_Ok by blast
  then show ?thesis
    by (simp add: handle_unsigned_def handle_signed_def ensure_signed_def handle_messages_def handle_incoming_messages_def
        handle_incoming_message_def deposit_event_def comp_app)
qed

section \<open>Requests the runtime routes\<close>

text \<open>One request with an empty body that is for another chain, unless it is between two EVM
  chains, makes the message that contains it panic: the byte after the first is read without a test
  of the length. No batch with such a request is ever executed.\<close>

theorem empty_body_never_routed:
  assumes "p \<in> set (rqm_requests msg)" and "pr_body p = []" and "pr_dest p \<noteq> cf_host_state_machine cfg"
    and "\<not> (is_evm (pr_source p) \<and> is_evm (pr_dest p))"
  shows "handle_request (pallet_host (nexus_config cfg px)) msg s \<noteq> (Ok r, s')"
proof
  let ?H = "pallet_host (nexus_config cfg px)"
  assume "handle_request ?H msg s = (Ok r, s')"
  then obtain res where run: "deliver_requests ?H (rqm_signer msg) (rqm_requests msg) s = (Ok res, s')"
    unfolding handle_request_Ok by blast
  have "proxy_on_accept cfg px p t = (Panic, t)" for t
    using assms(2-4) by (auto simp: proxy_on_accept_def inspect_request_def is_token_gateway_request_def after_first_def
        comp_app Let_def)
  then have "fst (attempt (deliver_request ?H (rqm_signer msg) p) t) = Panic" for t
    using nexus_router [of cfg px "pr_to p"]
    by (cases "hash_request (cf_keccak256 cfg) (ReqPost p)")
       (auto simp: deliver_request_def pallet_store_request_receipt_def comp_app Let_def)
  from collect_panics [OF assms(1), of "\<lambda>q. attempt (deliver_request ?H (rqm_signer msg) q)", OF this] run show False
    unfolding deliver_requests_def by blast
qed









section \<open>A batch\<close>

definition nexus_base :: "(sample_env, unit) in_config" where
  "nexus_base = runtime_cfg\<lparr>cf_host_state_machine := Kusama 3367, cf_coprocessor := Some (Kusama 3367),
     cf_consensus_clients := [sample_client\<lparr>cc_state_machine := (\<lambda>s sm. Ok sample_sm_client)\<rparr>]\<rparr>"

definition nexus_px :: "(sample_env, unit) ProxyConfig" where
  "nexus_px = \<lparr>px_decode_body = sample_decode, px_xcm_address = (\<lambda>_ _. 0), px_xcm_gateway = good_module,
     px_governor = \<lparr>gc_dispatcher = pallet_dispatcher nexus_base, gc_transfer = sample_transfer, gc_treasury = 4,
       gc_into_account = (\<lambda>b. 5), gc_ecdsa_recover = (\<lambda>sig h. None), gc_encode_metadata = (\<lambda>m. []),
       gc_encode_deregister = (\<lambda>d. []), gc_encode_state_machine = (\<lambda>m. []), gc_abi_params = (\<lambda>p. []),
       gc_abi_metadata = (\<lambda>m. []), gc_abi_deregister = (\<lambda>l. []), gc_abi_admin = (\<lambda>a. []), gc_abi_instance = (\<lambda>i. []),
       gc_abi_registrar = (\<lambda>r. []), gc_decode_request_body = (\<lambda>b. None), gc_decode_remote = (\<lambda>b. None),
       gc_iter_order = (\<lambda>m. m)\<rparr>\<rparr>"

definition nexus_post :: "StateMachine \<Rightarrow> bytes \<Rightarrow> PostRequest" where
  "nexus_post to body = (sample_post [1] body)\<lparr>pr_source := Polkadot 1000, pr_dest := to\<rparr>"

definition nexus_batch :: "PostRequest list \<Rightarrow> RequestMessage" where
  "nexus_batch ps = (sample_request ps)\<lparr>rqm_proof := \<lparr>proof_height = nexus_height, proof_proof = [1]\<rparr>\<rparr>"

lemma nexus_fields [simp]:
  "pr_source (nexus_post to body) = Polkadot 1000" "pr_dest (nexus_post to body) = to" "pr_body (nexus_post to body) = body"
  "pr_timeout_timestamp (nexus_post to body) = 20000" "rqm_requests (nexus_batch ps) = ps"
  by (simp_all add: nexus_post_def nexus_batch_def sample_post_def sample_request_def)

lemma nexus_fmt [simp]: "StateMachine_fmt (Polkadot 2000) = Some (ascii ''POLKADOT-2000'')"
  by (simp add: decimal_def digit_byte_def ascii_def decimal_digits.simps)

lemma nexus_hash:
  "hash_request sample_hash (ReqPost (nexus_post (Evm 1) [0])) = Some 37"
  "hash_request sample_hash (ReqPost (nexus_post (Polkadot 2000) [0, 0])) = Some 46"
  by (simp_all add: hash_request_def option_cat_def nexus_post_def sample_post_def sample_hash_def ac_simps del: StateMachine_fmt.simps)

lemma nexus_checks:
  assumes "ps = [nexus_post (Evm 1) [0]] \<or> ps = [nexus_post (Polkadot 2000) [0, 0]]"
  shows "request_checks (pallet_host (nexus_config nexus_base nexus_px)) (nexus_batch ps) nexus_state"
proof -
  let ?H = "pallet_host (nexus_config nexus_base nexus_px)"
  have "succeeds (verify_requests ?H (nexus_batch ps)) nexus_state"
    using assms
    by (auto simp: verify_requests_def nexus_batch_def nexus_config_def nexus_base_def nexus_hash sample_eval request_eval nexus_height_def
        nexus_eval empty_state_def is_router_def)
  from succeeds_run [OF this] show ?thesis by (auto simp: verify_requests_Ok)
qed

lemma nexus_base_simps [simp]:
  "cf_keccak256 nexus_base = sample_hash" "cf_host_state_machine nexus_base = Kusama 3367" "cf_mmr_push nexus_base = sample_push"
  "px_decode_body nexus_px = sample_decode"
  by (simp_all add: nexus_base_def nexus_px_def)

theorem illegal_request_leaves_no_trace_witness:
  "handle_unsigned (nexus_config nexus_base nexus_px) OriginNone [MsgRequest (nexus_batch [nexus_post (Polkadot 2000) [0, 0]])]
     nexus_state = (Err InvalidMessage, nexus_state)"
  by (rule illegal_request_leaves_no_trace [where p = "nexus_post (Polkadot 2000) [0, 0]" and
        gb = "the (sample_decode [0])" and new = 1 and c = 46, OF nexus_checks, THEN conjunct1])
     (simp_all add: nexus_hash sample_decode_def checked_add256_def)

theorem empty_body_never_routed_witness:
  "handle_request (pallet_host (nexus_config nexus_base nexus_px)) (nexus_batch [nexus_post (Evm 1) [0], nexus_post (Evm 1) []])
     nexus_state \<noteq> (Ok (MrRequest []), nexus_state)"
  by (rule empty_body_never_routed [where p = "nexus_post (Evm 1) []"]) simp_all


end
