(* ===== verification/Evm_Beefy.thy ===== *)
theory Evm_Beefy
  imports Evm_Base
begin

text \<open>
  The consensus clients of EVM chains: the light clients of the relay chain of hyperbridge
  (\<^verbatim>\<open>evm/src/consensus/BeefyV1.sol\<close>, \<^verbatim>\<open>SP1Beefy.sol\<close>) with the encodings of what the
  authorities sign (\<^verbatim>\<open>Codec.sol\<close>), headers (\<^verbatim>\<open>Header.sol\<close>) and structs (\<^verbatim>\<open>Types.sol\<close>).
  The functions are pure; they are calls that leave a state alone. The libraries for Merkle proofs, signatures and
  SCALE numbers, the ABI codec and the verifier of the SP1 program are parameters.
\<close>

section \<open>Structs\<close>

record Payload =
  pl_id :: "16 word"
  pl_data :: bytes

record Commitment =
  co_payload :: "Payload list"
  co_blockNumber :: u256
  co_validatorSetId :: u256

record AuthoritySetCommitment =
  as_id :: u256
  as_len :: u256
  as_root :: h256

record PartialBeefyMmrLeaf =
  ml_version :: u256
  ml_parentNumber :: u256
  ml_parentHash :: h256
  ml_nextAuthoritySet :: AuthoritySetCommitment
  ml_extra :: h256

record BeefyMmrLeaf = PartialBeefyMmrLeaf +
  ml_kIndex :: u256
  ml_leafIndex :: u256

record BeefyConsensusState =
  bs_latestHeight :: u256
  bs_beefyActivationBlock :: u256
  bs_currentAuthoritySet :: AuthoritySetCommitment
  bs_nextAuthoritySet :: AuthoritySetCommitment

record Vote =
  vo_signature :: bytes
  vo_authorityIndex :: u256

record SignedCommitment =
  si_commitment :: Commitment
  si_votes :: "Vote list"

record SolNode =
  nd_k_index :: u256
  nd_node :: h256

record RelayChainProof =
  rp_signedCommitment :: SignedCommitment
  rp_latestMmrLeaf :: BeefyMmrLeaf
  rp_mmrProof :: "h256 list"
  rp_proof :: "SolNode list list"

record SolParachain =
  pa_index :: u256
  pa_id :: u256
  pa_header :: bytes

record ParachainProof =
  pp_parachain :: SolParachain
  pp_proof :: "SolNode list list"

record BeefyConsensusProof =
  bp_relay :: RelayChainProof
  bp_parachain :: ParachainProof

record MiniCommitment =
  mc_blockNumber :: u256
  mc_validatorSetId :: u256

record ParachainHeader =
  ph_id :: u256
  ph_header :: bytes

record SP1BeefyProof =
  sp_commitment :: MiniCommitment
  sp_mmrLeaf :: PartialBeefyMmrLeaf
  sp_headers :: "ParachainHeader list"
  sp_proof :: bytes

record PublicInputs =
  pi_authorities_root :: h256
  pi_authorities_len :: u256
  pi_leaf_hash :: h256
  pi_headers :: "h256 list"

text \<open>A digest has one flag set, or none for a kind that is not known.\<close>

record SolDigestItem =
  di_consensusId :: u32
  di_data :: bytes

record SolDigest =
  dg_isPreRuntime :: bool
  dg_preruntime :: SolDigestItem
  dg_isConsensus :: bool
  dg_consensus :: SolDigestItem
  dg_isSeal :: bool
  dg_seal :: SolDigestItem
  dg_isOther :: bool
  dg_other :: bytes
  dg_isRuntimeEnvironmentUpdated :: bool

record SolHeader =
  hd_parentHash :: h256
  hd_number :: u256
  hd_stateRoot :: h256
  hd_extrinsicRoot :: h256
  hd_digests :: "SolDigest list"

record ByteSlice =
  sl_data :: bytes
  sl_offset :: u256

datatype BeefyError =
    UnknownAuthoritySet
  | StaleHeight
  | MmrRootHashMissing
  | InvalidMmrProof
  | IllegalGenesisBlock
  | SuperMajorityRequired
  | InvalidAuthoritiesProof
  | TimestampNotFound
  | ChildTrieRootNotFound
  | MmrRootHashNotFound
  | BeefyRequire string
  | BeefyEvm EvmRevert

type_synonym ('s, 'a) beefy = "('s, BeefyError, 'a) comp"

text \<open>The libraries. What a library function does when its input is not as it should be is an outcome.\<close>

record beefy_lib =
  bl_keccak256 :: "bytes \<Rightarrow> h256"
  bl_recover :: "h256 \<Rightarrow> bytes \<Rightarrow> (BeefyError, h160) outcome"
  bl_multi_verify :: "h256 \<Rightarrow> SolNode list list \<Rightarrow> SolNode list \<Rightarrow> (BeefyError, bool) outcome"
  bl_mmr_verify :: "h256 \<Rightarrow> h256 list \<Rightarrow> SolMmrLeaf list \<Rightarrow> u256 \<Rightarrow> (BeefyError, bool) outcome"
  bl_encodeBytes :: "bytes \<Rightarrow> (BeefyError, bytes) outcome"
  bl_encodeUintCompact :: "u256 \<Rightarrow> (BeefyError, bytes) outcome"
  bl_encode32 :: "u32 \<Rightarrow> bytes"
  bl_encode64 :: "u64 \<Rightarrow> bytes"
  bl_decodeUint256 :: "bytes \<Rightarrow> (BeefyError, u256) outcome"
  bl_decodeUintCompact :: "ByteSlice \<Rightarrow> (BeefyError, u256 \<times> ByteSlice) outcome"
  bl_read :: "ByteSlice \<Rightarrow> u256 \<Rightarrow> (BeefyError, bytes \<times> ByteSlice) outcome"
  bl_readByte :: "ByteSlice \<Rightarrow> (BeefyError, u8 \<times> ByteSlice) outcome"
  bl_toBytes32 :: "bytes \<Rightarrow> (BeefyError, h256) outcome"
  bl_toBytes4 :: "bytes \<Rightarrow> (BeefyError, u32) outcome"
  bl_memory_copy :: "bytes \<Rightarrow> u256 \<Rightarrow> u256 \<Rightarrow> bytes"
  bl_decode_state :: "bytes \<Rightarrow> (BeefyError, BeefyConsensusState) outcome"
  bl_encode_state :: "BeefyConsensusState \<Rightarrow> bytes"
  bl_decode_proof :: "bytes \<Rightarrow> (BeefyError, RelayChainProof \<times> ParachainProof) outcome"
  bl_decode_sp1_proof :: "bytes \<Rightarrow> (BeefyError, MiniCommitment \<times> PartialBeefyMmrLeaf \<times> ParachainHeader list \<times> bytes) outcome"
  bl_encode_inputs :: "PublicInputs \<Rightarrow> bytes"

definition lib_call :: "(BeefyError, 'a) outcome \<Rightarrow> ('s, 'a) beefy" where
  "lib_call r = reads (\<lambda>_. r)"

section \<open>Codec\<close>

text \<open>\<^verbatim>\<open>Encode(Commitment)\<close>: the loop assigns the accumulator, it does not append to it.\<close>

primrec encode_payloads :: "beefy_lib \<Rightarrow> bytes \<Rightarrow> Payload list \<Rightarrow> ('s, bytes) beefy" where
  "encode_payloads L accumulator [] = ret accumulator"
| "encode_payloads L accumulator (p # ps) =
     bindC (lib_call (bl_encodeBytes L (pl_data p))) (\<lambda>encoded.
       encode_payloads L (be_bytes 2 (pl_id p) @ encoded) ps)"

definition encode_commitment :: "beefy_lib \<Rightarrow> Commitment \<Rightarrow> ('s, bytes) beefy" where
  "encode_commitment L commitment =
     bindC (encode_payloads L [] (co_payload commitment)) (\<lambda>accumulator.
     bindC (lib_call (bl_encodeUintCompact L (of_nat (length (co_payload commitment))))) (\<lambda>payloadLen.
       ret (payloadLen @ accumulator @ bl_encode32 L (ucast (co_blockNumber commitment)) @
            bl_encode64 L (ucast (co_validatorSetId commitment)))))"

definition encode_leaf :: "beefy_lib \<Rightarrow> PartialBeefyMmrLeaf \<Rightarrow> bytes" where
  "encode_leaf L leaf =
     be_bytes 1 (ucast (ml_version leaf) :: u8) @ bl_encode32 L (ucast (ml_parentNumber leaf)) @
     be_bytes 32 (ml_parentHash leaf) @ bl_encode64 L (ucast (as_id (ml_nextAuthoritySet leaf))) @
     bl_encode32 L (ucast (as_len (ml_nextAuthoritySet leaf))) @ be_bytes 32 (as_root (ml_nextAuthoritySet leaf)) @
     be_bytes 32 (ml_extra leaf)"

text \<open>\<^verbatim>\<open>read\<close> and \<^verbatim>\<open>readByte\<close> of the codec itself.\<close>

definition codec_read :: "beefy_lib \<Rightarrow> ByteSlice \<Rightarrow> u256 \<Rightarrow> ('s, bytes \<times> ByteSlice) beefy" where
  "codec_read L self len =
     bindC (map_err BeefyEvm (add_checked (sl_offset self) len)) (\<lambda>limit.
     bindC (ensure (limit \<le> of_nat (length (sl_data self))) (BeefyRequire '''')) (\<lambda>_.
       if len = 0 then ret ([], self)
       else ret (bl_memory_copy L (sl_data self) (sl_offset self) len, self\<lparr>sl_offset := limit\<rparr>)))"

definition codec_readByte :: "ByteSlice \<Rightarrow> ('s, u8 \<times> ByteSlice) beefy" where
  "codec_readByte self =
     bindC (map_err BeefyEvm (add_checked (sl_offset self) 1)) (\<lambda>limit.
     bindC (ensure (limit \<le> of_nat (length (sl_data self))) (BeefyRequire '''')) (\<lambda>_.
       ret (sl_data self ! unat (sl_offset self), self\<lparr>sl_offset := limit\<rparr>)))"

unbundle bit_operations_syntax

text \<open>\<^verbatim>\<open>decodeUintCompact\<close> of the codec itself. The last branch of the source cannot be reached.\<close>

definition codec_decodeUintCompact :: "beefy_lib \<Rightarrow> ByteSlice \<Rightarrow> ('s, u256 \<times> ByteSlice) beefy" where
  "codec_decodeUintCompact L data =
     bindC (codec_readByte data) (\<lambda>(b, data).
       let mode = b AND 3 in
       if mode = 0 then ret (ucast (drop_bit 2 b), data)
       else if mode = 1 then
         bindC (codec_readByte data) (\<lambda>(bb, data).
         bindC (map_err BeefyEvm (add_checked (push_bit 6 (ucast bb :: u64)) (ucast (drop_bit 2 b)))) (\<lambda>r.
           ret (ucast r, data)))
       else if mode = 2 then
         bindC (codec_readByte data) (\<lambda>(b2, data).
         bindC (codec_readByte data) (\<lambda>(b3, data).
         bindC (codec_readByte data) (\<lambda>(b4, data).
           let x1 = (ucast b :: u32) OR push_bit 8 (ucast b2);
               x2 = x1 OR push_bit 16 (ucast b3);
               x3 = x2 OR push_bit 24 (ucast b4) in
           ret (ucast (drop_bit 2 x3), data))))
       else
         bindC (map_err BeefyEvm (add_checked (drop_bit 2 b) 4)) (\<lambda>l.
         bindC (ensure (l \<le> 8) (BeefyRequire ''unexpected prefix decoding Compact<Uint>'')) (\<lambda>_.
         bindC (codec_read L data (ucast l)) (\<lambda>(bytes, data).
         bindC (lib_call (bl_decodeUint256 L bytes)) (\<lambda>value.
           ret (value, data))))))"

definition no_item :: SolDigestItem where
  "no_item = \<lparr>di_consensusId = 0, di_data = []\<rparr>"

definition no_digest :: SolDigest where
  "no_digest =
     \<lparr>dg_isPreRuntime = False, dg_preruntime = no_item, dg_isConsensus = False, dg_consensus = no_item,
      dg_isSeal = False, dg_seal = no_item, dg_isOther = False, dg_other = [], dg_isRuntimeEnvironmentUpdated = False\<rparr>"

definition decodeDigestItem :: "beefy_lib \<Rightarrow> ByteSlice \<Rightarrow> ('s, SolDigestItem \<times> ByteSlice) beefy" where
  "decodeDigestItem L sl =
     bindC (codec_read L sl 4) (\<lambda>(raw, sl).
     bindC (lib_call (bl_toBytes4 L raw)) (\<lambda>i.
     bindC (lib_call (bl_decodeUintCompact L sl)) (\<lambda>(len, sl).
     bindC (lib_call (bl_read L sl len)) (\<lambda>(data, sl).
       ret (\<lparr>di_consensusId = i, di_data = data\<rparr>, sl)))))"

text \<open>One round of the loop of \<^verbatim>\<open>DecodeHeader\<close>, with the numbers of the kinds. An item of kind other and an
  item of a kind that is not known have their data read as the next items.\<close>

definition decode_digest :: "beefy_lib \<Rightarrow> ByteSlice \<Rightarrow> ('s, SolDigest \<times> ByteSlice) beefy" where
  "decode_digest L sl =
     bindC (lib_call (bl_readByte L sl)) (\<lambda>(kind, sl).
       if kind = 0 then ret (no_digest\<lparr>dg_isOther := True\<rparr>, sl)
       else if kind = 4 then
         bindC (decodeDigestItem L sl) (\<lambda>(item, sl).
           ret (no_digest\<lparr>dg_isConsensus := True, dg_consensus := item\<rparr>, sl))
       else if kind = 5 then
         bindC (decodeDigestItem L sl) (\<lambda>(item, sl).
           ret (no_digest\<lparr>dg_isSeal := True, dg_seal := item\<rparr>, sl))
       else if kind = 6 then
         bindC (decodeDigestItem L sl) (\<lambda>(item, sl).
           ret (no_digest\<lparr>dg_isPreRuntime := True, dg_preruntime := item\<rparr>, sl))
       else if kind = 8 then ret (no_digest\<lparr>dg_isRuntimeEnvironmentUpdated := True\<rparr>, sl)
       else ret (no_digest, sl))"

primrec decode_digests :: "beefy_lib \<Rightarrow> nat \<Rightarrow> ByteSlice \<Rightarrow> ('s, SolDigest list) beefy" where
  "decode_digests L 0 sl = ret []"
| "decode_digests L (Suc n) sl =
     bindC (decode_digest L sl) (\<lambda>(digest, sl).
     bindC (decode_digests L n sl) (\<lambda>digests.
       ret (digest # digests)))"

definition DecodeHeader :: "beefy_lib \<Rightarrow> bytes \<Rightarrow> ('s, SolHeader) beefy" where
  "DecodeHeader L encoded =
     bindC (lib_call (bl_read L \<lparr>sl_data = encoded, sl_offset = 0\<rparr> 32)) (\<lambda>(raw, sl).
     bindC (lib_call (bl_toBytes32 L raw)) (\<lambda>parentHash.
     bindC (lib_call (bl_decodeUintCompact L sl)) (\<lambda>(blockNumber, sl).
     bindC (lib_call (bl_read L sl 32)) (\<lambda>(raw, sl).
     bindC (lib_call (bl_toBytes32 L raw)) (\<lambda>stateRoot.
     bindC (lib_call (bl_read L sl 32)) (\<lambda>(raw, sl).
     bindC (lib_call (bl_toBytes32 L raw)) (\<lambda>extrinsicsRoot.
     bindC (lib_call (bl_decodeUintCompact L sl)) (\<lambda>(len, sl).
     bindC (decode_digests L (unat len) sl) (\<lambda>digests.
       ret \<lparr>hd_parentHash = parentHash, hd_number = blockNumber, hd_stateRoot = stateRoot,
            hd_extrinsicRoot = extrinsicsRoot, hd_digests = digests\<rparr>)))))))))"

definition toFieldElements :: "h256 \<Rightarrow> h256 \<times> h256" where
  "toFieldElements source = (ucast (ucast (drop_bit 128 source) :: u128), ucast (ucast source :: u128))"

section \<open>Headers\<close>

definition ISMP_CONSENSUS_ID :: u32 where
  "ISMP_CONSENSUS_ID = 0x49534D50"

definition AURA_CONSENSUS_ID :: u32 where
  "AURA_CONSENSUS_ID = 0x61757261"

definition SLOT_DURATION :: u256 where
  "SLOT_DURATION = 12000"

text \<open>The loop of \<^verbatim>\<open>stateCommitment\<close> over the digests, with its three variables.\<close>

primrec scan_digests :: "beefy_lib \<Rightarrow> SolDigest list \<Rightarrow> h256 \<times> h256 \<times> u256 \<Rightarrow> ('s, h256 \<times> h256 \<times> u256) beefy" where
  "scan_digests L [] acc = ret acc"
| "scan_digests L (d # ds) acc =
     (case acc of (mmrRoot, childTrieRoot, timestamp) \<Rightarrow>
       bindC (if dg_isConsensus d \<and> di_consensusId (dg_consensus d) = ISMP_CONSENSUS_ID then
                bindC (ensure (32 \<le> length (di_data (dg_consensus d))) (BeefyEvm (CalleeRevert []))) (\<lambda>_.
                bindC (lib_call (bl_toBytes32 L (take 32 (di_data (dg_consensus d))))) (\<lambda>m.
                bindC (lib_call (bl_toBytes32 L (drop 32 (di_data (dg_consensus d))))) (\<lambda>c.
                  ret (m, c))))
              else ret (mmrRoot, childTrieRoot)) (\<lambda>(mmrRoot, childTrieRoot).
       bindC (if dg_isPreRuntime d \<and> di_consensusId (dg_preruntime d) = AURA_CONSENSUS_ID then
                bindC (lib_call (bl_decodeUint256 L (di_data (dg_preruntime d)))) (\<lambda>slot.
                  map_err BeefyEvm (mul_checked slot SLOT_DURATION))
              else ret timestamp) (\<lambda>timestamp.
         scan_digests L ds (mmrRoot, childTrieRoot, timestamp))))"

definition header_stateCommitment :: "beefy_lib \<Rightarrow> SolHeader \<Rightarrow> ('s, SolStateCommitment) beefy" where
  "header_stateCommitment L self =
     bindC (scan_digests L (hd_digests self) (0, 0, 0)) (\<lambda>(mmrRoot, childTrieRoot, timestamp).
     bindC (ensure (timestamp \<noteq> 0) TimestampNotFound) (\<lambda>_.
     bindC (ensure (childTrieRoot \<noteq> 0) ChildTrieRootNotFound) (\<lambda>_.
     bindC (ensure (mmrRoot \<noteq> 0) MmrRootHashNotFound) (\<lambda>_.
       ret \<lparr>ssc_timestamp = timestamp, ssc_overlayRoot = mmrRoot, ssc_stateRoot = childTrieRoot\<rparr>))))"

section \<open>BeefyV1\<close>

definition MMR_ROOT_PAYLOAD_ID :: "16 word" where
  "MMR_ROOT_PAYLOAD_ID = 0x6D68"

definition leafIndex :: "u256 \<Rightarrow> u256 \<Rightarrow> ('s, u256) beefy" where
  "leafIndex activationBlock parentNumber =
     (if activationBlock = 0 then ret parentNumber
      else map_err BeefyEvm (sub_checked parentNumber activationBlock))"

definition checkParticipationThreshold :: "u256 \<Rightarrow> u256 \<Rightarrow> ('s, bool) beefy" where
  "checkParticipationThreshold len n =
     bindC (map_err BeefyEvm (mul_checked 2 n)) (\<lambda>double.
     bindC (map_err BeefyEvm (add_checked (double div 3) 1)) (\<lambda>threshold.
       ret (len \<ge> threshold)))"

text \<open>The loop that looks for the root of the mountain range: the last payload of that kind.\<close>

primrec find_mmr_root :: "beefy_lib \<Rightarrow> Payload list \<Rightarrow> h256 \<Rightarrow> ('s, h256) beefy" where
  "find_mmr_root L [] mmrRoot = ret mmrRoot"
| "find_mmr_root L (p # ps) mmrRoot =
     bindC (if pl_id p = MMR_ROOT_PAYLOAD_ID \<and> length (pl_data p) = 32
            then lib_call (bl_toBytes32 L (pl_data p)) else ret mmrRoot) (\<lambda>mmrRoot.
       find_mmr_root L ps mmrRoot)"

definition recover_authority :: "beefy_lib \<Rightarrow> h256 \<Rightarrow> Vote \<Rightarrow> ('s, SolNode) beefy" where
  "recover_authority L commitment_hash vote =
     bindC (lib_call (bl_recover L commitment_hash (vo_signature vote))) (\<lambda>authority.
       ret \<lparr>nd_k_index = vo_authorityIndex vote, nd_node = bl_keccak256 L (be_bytes 20 authority)\<rparr>)"

definition partial_leaf :: "BeefyMmrLeaf \<Rightarrow> PartialBeefyMmrLeaf" where
  "partial_leaf leaf = PartialBeefyMmrLeaf.truncate leaf"

definition verifyMmrLeaf :: "beefy_lib \<Rightarrow> BeefyConsensusState \<Rightarrow> RelayChainProof \<Rightarrow> h256 \<Rightarrow> ('s, unit) beefy" where
  "verifyMmrLeaf L trustedState relay mmrRoot =
     (let hash = bl_keccak256 L (encode_leaf L (partial_leaf (rp_latestMmrLeaf relay))) in
      bindC (leafIndex (bs_beefyActivationBlock trustedState) (ml_parentNumber (rp_latestMmrLeaf relay))) (\<lambda>index.
      bindC (map_err BeefyEvm (add_checked index 1)) (\<lambda>leafCount.
      bindC (lib_call (bl_mmr_verify L mmrRoot (rp_mmrProof relay)
               [\<lparr>sml_kIndex = ml_kIndex (rp_latestMmrLeaf relay), sml_leafIndex = ml_leafIndex (rp_latestMmrLeaf relay),
                 sml_hash = hash\<rparr>] leafCount)) (\<lambda>valid.
        ensure valid InvalidMmrProof))))"

definition rotate_authorities :: "AuthoritySetCommitment \<Rightarrow> BeefyConsensusState \<Rightarrow> BeefyConsensusState" where
  "rotate_authorities new trustedState =
     (if as_id new > as_id (bs_nextAuthoritySet trustedState)
      then trustedState\<lparr>bs_currentAuthoritySet := bs_nextAuthoritySet trustedState, bs_nextAuthoritySet := new\<rparr>
      else trustedState)"

definition verifyMmrUpdateProof ::
  "beefy_lib \<Rightarrow> BeefyConsensusState \<Rightarrow> RelayChainProof \<Rightarrow> ('s, BeefyConsensusState \<times> h256) beefy" where
  "verifyMmrUpdateProof L trustedState relayProof =
     (let votes = si_votes (rp_signedCommitment relayProof);
          commitment = si_commitment (rp_signedCommitment relayProof);
          signatures_length = of_nat (length votes);
          latestHeight = co_blockNumber commitment;
          current = bs_currentAuthoritySet trustedState;
          following = bs_nextAuthoritySet trustedState in
      bindC (ensure (\<not> bs_latestHeight trustedState \<ge> latestHeight) StaleHeight) (\<lambda>_.
      bindC (checkParticipationThreshold signatures_length (as_len current)) (\<lambda>enough.
      bindC (if enough then ret True else checkParticipationThreshold signatures_length (as_len following)) (\<lambda>enough.
      bindC (ensure enough SuperMajorityRequired) (\<lambda>_.
      bindC (ensure (\<not> (co_validatorSetId commitment \<noteq> as_id current \<and> co_validatorSetId commitment \<noteq> as_id following))
               UnknownAuthoritySet) (\<lambda>_.
      bindC (find_mmr_root L (co_payload commitment) 0) (\<lambda>mmrRoot.
      bindC (ensure (mmrRoot \<noteq> 0) MmrRootHashMissing) (\<lambda>_.
      bindC (encode_commitment L commitment) (\<lambda>encoded.
      bindC (collect (recover_authority L (bl_keccak256 L encoded)) votes) (\<lambda>authorities.
      bindC (lib_call (bl_multi_verify L
               (if co_validatorSetId commitment = as_id current then as_root current else as_root following)
               (rp_proof relayProof) authorities)) (\<lambda>valid.
      bindC (ensure valid InvalidAuthoritiesProof) (\<lambda>_.
      bindC (verifyMmrLeaf L trustedState relayProof mmrRoot) (\<lambda>_.
        ret ((rotate_authorities (ml_nextAuthoritySet (rp_latestMmrLeaf relayProof)) trustedState)
               \<lparr>bs_latestHeight := latestHeight\<rparr>,
             ml_extra (rp_latestMmrLeaf relayProof)))))))))))))))"

definition verifyParachainHeaderProof :: "beefy_lib \<Rightarrow> h256 \<Rightarrow> ParachainProof \<Rightarrow> ('s, SolIntermediateState) beefy" where
  "verifyParachainHeaderProof L headsRoot pf =
     (let para = pp_parachain pf in
      bindC (DecodeHeader L (pa_header para)) (\<lambda>header.
      bindC (ensure (hd_number header \<noteq> 0) IllegalGenesisBlock) (\<lambda>_.
      bindC (lib_call (bl_encodeBytes L (pa_header para))) (\<lambda>encoded.
      bindC (lib_call (bl_multi_verify L headsRoot (pp_proof pf)
               [\<lparr>nd_k_index = pa_index para,
                 nd_node = bl_keccak256 L (bl_encode32 L (ucast (pa_id para)) @ encoded)\<rparr>])) (\<lambda>valid.
      bindC (ensure valid InvalidMmrProof) (\<lambda>_.
      bindC (header_stateCommitment L header) (\<lambda>commitment.
        ret \<lparr>sis_stateMachineId = pa_id para, sis_height = hd_number header, sis_commitment = commitment\<rparr>)))))))"

definition beefy_verify ::
  "beefy_lib \<Rightarrow> BeefyConsensusState \<Rightarrow> BeefyConsensusProof \<Rightarrow> ('s, BeefyConsensusState \<times> SolIntermediateState) beefy" where
  "beefy_verify L trustedState pf =
     bindC (verifyMmrUpdateProof L trustedState (bp_relay pf)) (\<lambda>(state, headsRoot).
     bindC (verifyParachainHeaderProof L headsRoot (bp_parachain pf)) (\<lambda>intermediate.
       ret (state, intermediate)))"

definition BeefyV1_verifyConsensus ::
  "beefy_lib \<Rightarrow> bytes \<Rightarrow> bytes \<Rightarrow> ('s, bytes \<times> SolIntermediateState list) beefy" where
  "BeefyV1_verifyConsensus L encodedState encodedProof =
     bindC (lib_call (bl_decode_state L encodedState)) (\<lambda>consensusState.
     bindC (lib_call (bl_decode_proof L encodedProof)) (\<lambda>(relay, parachain).
     bindC (beefy_verify L consensusState \<lparr>bp_relay = relay, bp_parachain = parachain\<rparr>) (\<lambda>(newState, intermediate).
       ret (bl_encode_state L newState, [intermediate]))))"

section \<open>SP1Beefy\<close>

record SP1Beefy =
  s1_verificationKey :: h256
  s1_verifier :: h160

definition SP1Beefy_constructor :: "h160 \<Rightarrow> SP1Beefy" where
  "SP1Beefy_constructor verifier =
     \<lparr>s1_verificationKey = 0x00b3830a7bcbd368596446801391435c29bb5319827319de0acb83fb7490ef49, s1_verifier = verifier\<rparr>"

text \<open>The verifier reverts or returns nothing; it is called as a view.\<close>

type_synonym 's sp1_verifier = "h160 \<Rightarrow> h256 \<Rightarrow> bytes \<Rightarrow> bytes \<Rightarrow> 's \<Rightarrow> (BeefyError, unit) outcome"

definition sp1_intermediate :: "beefy_lib \<Rightarrow> ParachainHeader \<Rightarrow> ('s, SolIntermediateState) beefy" where
  "sp1_intermediate L para =
     bindC (DecodeHeader L (ph_header para)) (\<lambda>header.
     bindC (ensure (hd_number header \<noteq> 0) IllegalGenesisBlock) (\<lambda>_.
     bindC (header_stateCommitment L header) (\<lambda>commitment.
       ret \<lparr>sis_stateMachineId = ph_id para, sis_height = hd_number header, sis_commitment = commitment\<rparr>)))"

definition sp1_authority :: "BeefyConsensusState \<Rightarrow> u256 \<Rightarrow> ('s, AuthoritySetCommitment) beefy" where
  "sp1_authority trustedState validatorSetId =
     (if validatorSetId = as_id (bs_nextAuthoritySet trustedState) then ret (bs_nextAuthoritySet trustedState)
      else if validatorSetId = as_id (bs_currentAuthoritySet trustedState) then ret (bs_currentAuthoritySet trustedState)
      else fail UnknownAuthoritySet)"

definition sp1_verify ::
  "beefy_lib \<Rightarrow> 's sp1_verifier \<Rightarrow> SP1Beefy \<Rightarrow> BeefyConsensusState \<Rightarrow> SP1BeefyProof \<Rightarrow>
     ('s, BeefyConsensusState \<times> SolIntermediateState list) beefy" where
  "sp1_verify L verifyProof self trustedState pf =
     (let commitment = sp_commitment pf in
      bindC (ensure (\<not> bs_latestHeight trustedState \<ge> mc_blockNumber commitment) StaleHeight) (\<lambda>_.
      bindC (sp1_authority trustedState (mc_validatorSetId commitment)) (\<lambda>authority.
      bindC (reads (verifyProof (s1_verifier self) (s1_verificationKey self)
               (bl_encode_inputs L
                  \<lparr>pi_authorities_root = as_root authority, pi_authorities_len = as_len authority,
                   pi_leaf_hash = bl_keccak256 L (encode_leaf L (sp_mmrLeaf pf)),
                   pi_headers = map (\<lambda>h. bl_keccak256 L (ph_header h)) (sp_headers pf)\<rparr>)
               (sp_proof pf))) (\<lambda>_.
      bindC (collect (sp1_intermediate L) (sp_headers pf)) (\<lambda>intermediates.
        ret ((rotate_authorities (ml_nextAuthoritySet (sp_mmrLeaf pf)) trustedState)
               \<lparr>bs_latestHeight := mc_blockNumber commitment\<rparr>, intermediates))))))"

definition SP1Beefy_verifyConsensus ::
  "beefy_lib \<Rightarrow> 's sp1_verifier \<Rightarrow> SP1Beefy \<Rightarrow> bytes \<Rightarrow> bytes \<Rightarrow> ('s, bytes \<times> SolIntermediateState list) beefy" where
  "SP1Beefy_verifyConsensus L verifyProof self encodedState encodedProof =
     bindC (lib_call (bl_decode_state L encodedState)) (\<lambda>consensusState.
     bindC (lib_call (bl_decode_sp1_proof L encodedProof)) (\<lambda>(commitment, leaf, headers, plonkProof).
     bindC (sp1_verify L verifyProof self consensusState
              \<lparr>sp_commitment = commitment, sp_mmrLeaf = leaf, sp_headers = headers, sp_proof = plonkProof\<rparr>) (\<lambda>(newState, intermediates).
       ret (bl_encode_state L newState, intermediates))))"

end
