(* ===== verification/Pallet_Parachain.thy ===== *)
theory Pallet_Parachain
  imports Substrate_State_Machine Pallet_Ismp "HOL-Library.AList"
begin

text \<open>
  ismp-parachain (\<^verbatim>\<open>modules/ismp/clients/parachain/client/src\<close>): the consensus client for sibling parachains
  (\<^verbatim>\<open>consensus.rs\<close>), which reads their headers from the state of the relay chain, the pallet that
  remembers the state roots of the relay chain and the parachains of interest (\<^verbatim>\<open>lib.rs\<close>), and its
  storage migration (\<^verbatim>\<open>migration.rs\<close>). The relay chain state that the parachain system reports, the trie
  library, hashes and codecs are parameters.
\<close>

section \<open>Storage\<close>

record ParachainData =
  pd_id :: u32
  pd_slot_duration :: u64

record RelayChainState =
  rs_number :: u32
  rs_state_root :: h256

datatype ParachainEvent =
    ParachainsAdded "ParachainData list"
  | ParachainsRemoved "u32 list"

record 'x parachain_state = "'x ismp_state" +
  pn_RelayChainStateCommitments :: "u32 \<rightharpoonup> h256"
  pn_ConsensusUpdated :: "bool option"
  pn_Parachains :: "(u32 \<times> u64) list"
  pn_storage_version :: nat
  pn_events :: "ParachainEvent list"

type_synonym ('x, 'm) pn_st = "('x, 'm) parachain_state_scheme"
type_synonym ('x, 'm) pn_config = "('x, 'm parachain_state_ext) Config"

section \<open>Parameters\<close>

record ParachainConsensusProof =
  pcp_relay_height :: u32
  pcp_storage_proof :: "bytes list"

record ParaHeader =
  hdr_number :: u32
  hdr_state_root :: h256
  hdr_logs :: "DigestItem list"

text \<open>\<open>pk_iter_keys\<close>: the keys of the storage map in the order of its iteration.\<close>

record 'x ParaConfig =
  pk_relay_state :: "'x \<Rightarrow> RelayChainState"
  pk_iter_keys :: "(u32 \<times> u64) list \<Rightarrow> u32 list"
  pk_storage_prefix :: "bytes \<Rightarrow> bytes \<Rightarrow> bytes"
  pk_twox_64 :: "bytes \<Rightarrow> bytes"
  pk_encode_u32 :: "u32 \<Rightarrow> bytes"
  pk_decode_u32 :: "bytes \<Rightarrow> bytes + u32"
  pk_decode_proof :: "bytes \<Rightarrow> bytes + ParachainConsensusProof"
  pk_decode_header :: "bytes \<Rightarrow> bytes + ParaHeader"
  pk_digest_codec :: DigestCodec
  pk_db_contains :: "bytes list \<Rightarrow> h256 \<Rightarrow> bool"
  pk_trie_get :: "bytes list \<Rightarrow> h256 \<Rightarrow> bytes \<Rightarrow> bytes + bytes option"
  pk_decode_value :: "bytes \<Rightarrow> bytes option"
  pk_error_debug :: "Error \<Rightarrow> bytes"

definition PARACHAIN_CONSENSUS_ID :: ConsensusClientId where
  "PARACHAIN_CONSENSUS_ID = (0x50, 0x41, 0x52, 0x41)"

definition parachain_header_storage_key :: "'x ParaConfig \<Rightarrow> u32 \<Rightarrow> bytes" where
  "parachain_header_storage_key pk para_id =
     pk_storage_prefix pk (ascii ''Paras'') (ascii ''Heads'') @ pk_twox_64 pk (pk_encode_u32 pk para_id) @ pk_encode_u32 pk para_id"

section \<open>The consensus client\<close>

record ParaDigest =
  pg_timestamp :: u64
  pg_overlay_root :: h256
  pg_mmr_root :: h256

definition para_digest_step :: "DigestCodec \<Rightarrow> u64 \<Rightarrow> DigestItem \<Rightarrow> ParaDigest \<Rightarrow> ('s, Error, ParaDigest) comp" where
  "para_digest_step dc slot_duration item acc =
     (case item of
        DiPreRuntime engine value \<Rightarrow>
          if engine = dc_aura_engine_id dc then
            bindC (map_err (\<lambda>e. Custom (ascii ''Cannot slot: '' @ e)) (propagate (dc_decode_slot dc value))) (\<lambda>slot.
              ret (acc\<lparr>pg_timestamp := slot_timestamp slot slot_duration\<rparr>))
          else ret acc
      | DiConsensus engine value \<Rightarrow>
          if engine = ISMP_ID then
            bindC (map_err (\<lambda>_. Custom (ascii ''Header contains an invalid ismp consensus log''))
                     (propagate (dc_decode_digest dc value))) (\<lambda>log.
              ret (acc\<lparr>pg_overlay_root := cd_child_trie_root log, pg_mmr_root := cd_mmr_root log\<rparr>))
          else ret acc
      | DiOther \<Rightarrow> ret acc)"

primrec para_digests :: "DigestCodec \<Rightarrow> u64 \<Rightarrow> DigestItem list \<Rightarrow> ParaDigest \<Rightarrow> ('s, Error, ParaDigest) comp" where
  "para_digests dc slot_duration [] acc = ret acc"
| "para_digests dc slot_duration (item # logs) acc =
     bindC (para_digest_step dc slot_duration item acc) (\<lambda>acc. para_digests dc slot_duration logs acc)"

text \<open>The sibling with the given id, on the relay chain of the host.\<close>

definition sibling :: "StateMachine \<Rightarrow> u32 \<Rightarrow> StateMachine option" where
  "sibling host para_id =
     (case host of
        Kusama _ \<Rightarrow> Some (Kusama para_id)
      | Polkadot _ \<Rightarrow> Some (Polkadot para_id)
      | _ \<Rightarrow> None)"

definition header_error :: "bytes \<Rightarrow> Error" where
  "header_error e = Custom (ascii ''Error decoding parachain header: '' @ e)"

definition para_commitment :: "StateMachine option \<Rightarrow> StateMachine \<Rightarrow> ParaHeader \<Rightarrow> ParaDigest \<Rightarrow> StateCommitmentHeight" where
  "para_commitment coprocessor sm header d =
     \<lparr>sch_commitment =
        (if coprocessor = Some sm
         then \<lparr>sc_timestamp = pg_timestamp d, sc_overlay_root = Some (pg_mmr_root d), sc_state_root = pg_overlay_root d\<rparr>
         else \<lparr>sc_timestamp = pg_timestamp d, sc_overlay_root = Some (pg_overlay_root d), sc_state_root = hdr_state_root header\<rparr>),
      sch_height = ucast (hdr_number header)\<rparr>"

text \<open>The body of the loop over the proved headers, for a header that is there.\<close>

definition verify_header ::
  "('x, 'm) pn_config \<Rightarrow> 'x ParaConfig \<Rightarrow> bytes \<Rightarrow> bytes \<Rightarrow> (('x, 'm) pn_st, Error, StateMachine \<times> StateCommitmentHeight) comp" where
  "verify_header cfg pk key raw =
     bindC (map_err header_error (propagate (pk_decode_u32 pk (drop (length key - 4) key)))) (\<lambda>para_id.
     bindC (asks (\<lambda>s. map_of (pn_Parachains s) para_id)) (\<lambda>found.
     bindC (expect found) (\<lambda>slot_duration.
     bindC (map_err header_error (propagate (pk_decode_header pk raw))) (\<lambda>header.
     bindC (para_digests (pk_digest_codec pk) slot_duration (hdr_logs header)
              \<lparr>pg_timestamp = 0, pg_overlay_root = 0, pg_mmr_root = 0\<rparr>) (\<lambda>d.
     bindC (ensure (pg_timestamp d \<noteq> 0) (Custom (ascii ''Timestamp not found''))) (\<lambda>_.
     bindC (ok_or (sibling (cf_host_state_machine cfg) para_id)
              (Custom (ascii ''Host state machine should be a parachain''))) (\<lambda>sm.
       ret (sm, para_commitment (cf_coprocessor cfg) sm header d))))))))"

primrec verify_headers ::
  "('x, 'm) pn_config \<Rightarrow> 'x ParaConfig \<Rightarrow> (bytes \<times> bytes option) list \<Rightarrow> VerifiedCommitments \<Rightarrow>
     (('x, 'm) pn_st, Error, VerifiedCommitments) comp" where
  "verify_headers cfg pk [] intermediates = ret intermediates"
| "verify_headers cfg pk (entry # headers) intermediates =
     (case snd entry of
        None \<Rightarrow> verify_headers cfg pk headers intermediates
      | Some raw \<Rightarrow>
          bindC (verify_header cfg pk (fst entry) raw) (\<lambda>(sm, intermediate).
            verify_headers cfg pk headers (btree_insert sm [intermediate] intermediates)))"

definition relay_root :: "'x ParaConfig \<Rightarrow> u32 \<Rightarrow> ('x, 'm) pn_st \<Rightarrow> h256 option" where
  "relay_root pk height s =
     (case pn_RelayChainStateCommitments s height of
        Some root \<Rightarrow> Some root
      | None \<Rightarrow> (let state = pk_relay_state pk (env s) in
                 if rs_number state = height then Some (rs_state_root state) else None))"

definition parachain_verify_consensus ::
  "('x, 'm) pn_config \<Rightarrow> 'x ParaConfig \<Rightarrow> bytes \<Rightarrow> bytes \<Rightarrow> (('x, 'm) pn_st, Error, bytes \<times> VerifiedCommitments) comp" where
  "parachain_verify_consensus cfg pk state pf =
     bindC (map_err (\<lambda>e. Custom (ascii ''Cannot decode parachain consensus proof: '' @ e))
              (propagate (pk_decode_proof pk pf))) (\<lambda>update.
     bindC (asks (relay_root pk (pcp_relay_height update))) (\<lambda>found.
     bindC (ok_or found (Custom (ascii ''Cannot find relay chain height: '' @ decimal (unat (pcp_relay_height update))))) (\<lambda>root.
     bindC (asks (\<lambda>s. map (parachain_header_storage_key pk) (pk_iter_keys pk (pn_Parachains s)))) (\<lambda>header_keys.
     bindC (map_err (\<lambda>e. Custom (ascii ''Error verifying parachain header '' @ pk_error_debug pk e))
              (read_proof_check (pk_db_contains pk) (pk_trie_get pk) (pk_decode_value pk) root
                 (pcp_storage_proof update) header_keys)) (\<lambda>headers.
     bindC (verify_headers cfg pk headers []) (\<lambda>intermediates.
       ret (state, intermediates)))))))"

text \<open>The state machine client is a parameter of the client.\<close>

definition parachain_state_machine ::
  "(StateMachine \<Rightarrow> ('x, 'm) pn_st StateMachineClient) \<Rightarrow> StateMachine \<Rightarrow>
     (('x, 'm) pn_st, Error, ('x, 'm) pn_st StateMachineClient) comp" where
  "parachain_state_machine S i =
     bindC (ok_or (case i of Polkadot para_id \<Rightarrow> Some para_id | Kusama para_id \<Rightarrow> Some para_id | _ \<Rightarrow> None)
              (Custom (ascii ''State Machine is not supported by this consensus client''))) (\<lambda>para_id.
     bindC (asks (\<lambda>s. map_of (pn_Parachains s) para_id \<noteq> None)) (\<lambda>registered.
     bindC (ensure registered
              (Custom (ascii ''Parachain with id '' @ decimal (unat para_id) @ ascii '' not registered''))) (\<lambda>_.
       ret (S i))))"

definition ParachainConsensusClient ::
  "('x, 'm) pn_config \<Rightarrow> 'x ParaConfig \<Rightarrow> (StateMachine \<Rightarrow> ('x, 'm) pn_st StateMachineClient) \<Rightarrow> ('x, 'm) pn_st ConsensusClient" where
  "ParachainConsensusClient cfg pk S =
     \<lparr>verify_consensus = (\<lambda>s i state pf. fst (parachain_verify_consensus cfg pk state pf s)),
      verify_fraud_proof = (\<lambda>s trusted proof_1 proof_2. Ok ()),
      cc_consensus_client_id = PARACHAIN_CONSENSUS_ID,
      cc_state_machine = (\<lambda>s i. fst (parachain_state_machine S i s))\<rparr>"

section \<open>The pallet\<close>

definition pn_deposit_event :: "ParachainEvent \<Rightarrow> (('x, 'm) pn_st, 'e, unit) comp" where
  "pn_deposit_event e = modify (\<lambda>s. s\<lparr>pn_events := pn_events s @ [e]\<rparr>)"

definition Parachains_insert :: "u32 \<Rightarrow> u64 \<Rightarrow> ('x, 'm) pn_st \<Rightarrow> ('x, 'm) pn_st" where
  "Parachains_insert k v s = s\<lparr>pn_Parachains := AList.update k v (pn_Parachains s)\<rparr>"

definition Parachains_remove :: "u32 \<Rightarrow> ('x, 'm) pn_st \<Rightarrow> ('x, 'm) pn_st" where
  "Parachains_remove k s = s\<lparr>pn_Parachains := AList.delete k (pn_Parachains s)\<rparr>"

definition update_parachain_consensus :: "('x, 'm) pn_config \<Rightarrow> Origin \<Rightarrow> ConsensusMessage \<Rightarrow> (('x, 'm) pn_st, CallError, unit) comp" where
  "update_parachain_consensus cfg origin data = transactional
     (bindC (ensure (origin = OriginNone) BadOrigin) (\<lambda>_.
      bindC (asks pn_ConsensusUpdated) (\<lambda>updated.
      bindC (expect (if updated = None then Some () else None)) (\<lambda>_.
      bindC (expect (if cm_consensus_state_id data = PARACHAIN_CONSENSUS_ID then Some () else None)) (\<lambda>_.
      bindC (attempt (handle_messages cfg [MsgConsensus data])) (\<lambda>handled.
        if isl handled then ret () else modify (\<lambda>s. s\<lparr>pn_ConsensusUpdated := Some True\<rparr>)))))))"

definition track_parachain :: "('x, 'm) pn_config \<Rightarrow> ParachainData \<Rightarrow> (('x, 'm) pn_st, 'e, unit) comp" where
  "track_parachain cfg para =
     (case sibling (cf_host_state_machine cfg) (pd_id para) of
        None \<Rightarrow> ret ()
      | Some sm \<Rightarrow>
          bindC (modify (Parachains_insert (pd_id para) (pd_slot_duration para))) (\<lambda>_.
          bindC (attempt (pallet_store_challenge_period \<lparr>state_id = sm, consensus_state_id = PARACHAIN_CONSENSUS_ID\<rparr> 0)) (\<lambda>_.
            ret ())))"

definition add_parachain :: "('x, 'm) pn_config \<Rightarrow> Origin \<Rightarrow> ParachainData list \<Rightarrow> (('x, 'm) pn_st, CallError, unit) comp" where
  "add_parachain cfg origin para_ids = transactional
     (bindC (ensure (cf_admin_origin cfg origin) BadOrigin) (\<lambda>_.
      bindC (for_each (track_parachain cfg) para_ids) (\<lambda>_.
        pn_deposit_event (ParachainsAdded para_ids))))"

definition remove_parachain :: "('x, 'm) pn_config \<Rightarrow> Origin \<Rightarrow> u32 list \<Rightarrow> (('x, 'm) pn_st, CallError, unit) comp" where
  "remove_parachain cfg origin para_ids = transactional
     (bindC (ensure (cf_admin_origin cfg origin) BadOrigin) (\<lambda>_.
      bindC (for_each (\<lambda>i. modify (Parachains_remove i)) para_ids) (\<lambda>_.
        pn_deposit_event (ParachainsRemoved para_ids))))"

definition para_on_finalize :: "'x ParaConfig \<Rightarrow> (('x, 'm) pn_st, 'e, unit) comp" where
  "para_on_finalize pk =
     modify (\<lambda>s. let state = pk_relay_state pk (env s) in
       if pn_RelayChainStateCommitments s (rs_number state) \<noteq> None then s
       else s\<lparr>pn_RelayChainStateCommitments := (pn_RelayChainStateCommitments s)(rs_number state \<mapsto> rs_state_root state)\<rparr>)"

definition para_initialize :: "('x, 'm) pn_config \<Rightarrow> (('x, 'm) pn_st, 'e, unit) comp" where
  "para_initialize cfg =
     bindC (attempt (create_client (pallet_host cfg)
              \<lparr>ccs_consensus_state = [], ccs_consensus_client_id = PARACHAIN_CONSENSUS_ID,
               ccs_consensus_state_id = PARACHAIN_CONSENSUS_ID, ccs_unbonding_period = - 1, ccs_challenge_periods = [],
               ccs_state_machine_commitments = []\<rparr>)) (\<lambda>created.
       expect (if isl created then None else Some ()))"

definition para_on_initialize :: "('x, 'm) pn_config \<Rightarrow> (('x, 'm) pn_st, 'e, unit) comp" where
  "para_on_initialize cfg =
     bindC (modify (\<lambda>s. s\<lparr>pn_ConsensusUpdated := None\<rparr>)) (\<lambda>_.
     bindC (attempt (reads (pallet_consensus_state PARACHAIN_CONSENSUS_ID))) (\<lambda>state.
       if isl state then para_initialize cfg else ret ()))"

definition migrate_to_v1 :: "(('x, 'm) pn_st, 'e, unit) comp" where
  "migrate_to_v1 =
     modify (\<lambda>s. if pn_storage_version s = 0
       then s\<lparr>pn_Parachains := map (\<lambda>(k, _). (k, 12000)) (pn_Parachains s), pn_storage_version := 1\<rparr>
       else s)"

definition para_genesis :: "('x, 'm) pn_config \<Rightarrow> ParachainData list \<Rightarrow> (('x, 'm) pn_st, 'e, unit) comp" where
  "para_genesis cfg parachains =
     bindC (para_initialize cfg) (\<lambda>_.
       for_each (\<lambda>para.
         bindC (modify (Parachains_insert (pd_id para) (pd_slot_duration para))) (\<lambda>_.
           case sibling (cf_host_state_machine cfg) (pd_id para) of
             None \<Rightarrow> ret ()
           | Some sm \<Rightarrow>
               bindC (attempt (pallet_store_challenge_period
                        \<lparr>state_id = sm, consensus_state_id = PARACHAIN_CONSENSUS_ID\<rparr> 0)) (\<lambda>_. ret ()))) parachains)"

definition para_ids :: "'x ParaConfig \<Rightarrow> ('x, 'm) pn_st \<Rightarrow> u32 list" where
  "para_ids pk s = pk_iter_keys pk (pn_Parachains s)"

end
