(* ===== verification/Parachain_Properties.thy ===== *)
theory Parachain_Properties
  imports Pallet_Parachain Pallet_Hyperbridge Sample_Runtime
begin

text \<open>
  What ismp-parachain guarantees: the inherent trusts only headers of registered siblings that are proved
  in a state of the relay chain which the parachain system reported, verifying such a proof never panics,
  and recorded relay chain states are final. Fraud proofs, on the other hand, are never looked at.
\<close>

section \<open>The digest of a header\<close>

text \<open>The slots and the ISMP logs of a header, in order.\<close>

definition aura_slots :: "DigestCodec \<Rightarrow> DigestItem list \<Rightarrow> bytes list" where
  "aura_slots dc logs = concat (map (\<lambda>item. case item of
     DiPreRuntime engine value \<Rightarrow> if engine = dc_aura_engine_id dc then [value] else [] | _ \<Rightarrow> []) logs)"

definition ismp_logs :: "DigestItem list \<Rightarrow> bytes list" where
  "ismp_logs logs = concat (map (\<lambda>item. case item of
     DiConsensus engine value \<Rightarrow> if engine = ISMP_ID then [value] else [] | _ \<Rightarrow> []) logs)"

text \<open>The last of each counts.\<close>

definition timed_by :: "DigestCodec \<Rightarrow> u64 \<Rightarrow> DigestItem list \<Rightarrow> u64 \<Rightarrow> bool" where
  "timed_by dc slot_duration logs t \<longleftrightarrow> aura_slots dc logs \<noteq> [] \<and>
     (\<exists>slot. dc_decode_slot dc (last (aura_slots dc logs)) = Inr slot \<and> t = slot_timestamp slot slot_duration)"

definition rooted_by :: "DigestCodec \<Rightarrow> DigestItem list \<Rightarrow> ConsensusDigest \<Rightarrow> bool" where
  "rooted_by dc logs d \<longleftrightarrow>
     (if ismp_logs logs = [] then d = \<lparr>cd_mmr_root = 0, cd_child_trie_root = 0\<rparr>
      else dc_decode_digest dc (last (ismp_logs logs)) = Inr d)"

lemma readonly_para_digest_step [readonly_intros]: "readonly (para_digest_step dc slot_duration item acc)"
  by (cases item) (auto simp: para_digest_step_def intro!: readonly_intros)

lemma readonly_para_digests [readonly_intros]: "readonly (para_digests dc slot_duration logs acc)"
  by (induction logs arbitrary: acc) (auto intro!: readonly_intros)

lemma para_digests_Ok:
  assumes "para_digests dc slot_duration logs acc s = (Ok d, s')"
  shows "(if aura_slots dc logs = [] then pg_timestamp d = pg_timestamp acc
          else timed_by dc slot_duration logs (pg_timestamp d)) \<and>
    (if ismp_logs logs = [] then pg_overlay_root d = pg_overlay_root acc \<and> pg_mmr_root d = pg_mmr_root acc
     else dc_decode_digest dc (last (ismp_logs logs)) =
            Inr \<lparr>cd_mmr_root = pg_mmr_root d, cd_child_trie_root = pg_overlay_root d\<rparr>)"
  using assms
proof (induction logs arbitrary: acc)
  case Nil
  then show ?case by (simp add: comp_ok aura_slots_def ismp_logs_def)
next
  case (Cons item logs)
  from Cons.prems obtain acc1 s1 where
    step: "para_digest_step dc slot_duration item acc s = (Ok acc1, s1)" and
    rest: "para_digests dc slot_duration logs acc1 s1 = (Ok d, s')" by (auto simp: comp_ok)
  have "s1 = s" using step by (rule readonlyD [OF readonly_para_digest_step])
  note ih = Cons.IH [OF rest [unfolded this]]
  show ?case
    using ih step
    by (cases item)
       (auto simp: para_digest_step_def comp_ok aura_slots_def ismp_logs_def timed_by_def split: if_splits)
qed

lemma para_digests_found:
  assumes "para_digests dc slot_duration logs \<lparr>pg_timestamp = 0, pg_overlay_root = 0, pg_mmr_root = 0\<rparr> s = (Ok d, s')"
    and "pg_timestamp d \<noteq> 0"
  shows "timed_by dc slot_duration logs (pg_timestamp d)"
    and "rooted_by dc logs \<lparr>cd_mmr_root = pg_mmr_root d, cd_child_trie_root = pg_overlay_root d\<rparr>"
  using para_digests_Ok [OF assms(1)] assms(2) by (auto simp: rooted_by_def split: if_splits)

section \<open>The verified commitments\<close>

text \<open>The encoding of parachain identifiers, and the keys the storage map iterates over.\<close>

definition lawful_ids :: "'x ParaConfig \<Rightarrow> bool" where
  "lawful_ids pk \<longleftrightarrow>
     (\<forall>i. length (pk_encode_u32 pk i) = 4 \<and> pk_decode_u32 pk (pk_encode_u32 pk i) = Inr i) \<and>
     (\<forall>ps. set (pk_iter_keys pk ps) = fst ` set ps)"

text \<open>\<open>header\<close> is what the trie with the given root holds as the head of the parachain.\<close>

definition proved_head :: "'x ParaConfig \<Rightarrow> bytes list \<Rightarrow> h256 \<Rightarrow> u32 \<Rightarrow> ParaHeader \<Rightarrow> bool" where
  "proved_head pk nodes root para_id header \<longleftrightarrow> pk_db_contains pk nodes root \<and>
     (\<exists>value raw. pk_trie_get pk nodes root (parachain_header_storage_key pk para_id) = Inr (Some value) \<and>
        pk_decode_value pk value = Some raw \<and> pk_decode_header pk raw = Inr header)"

definition attested_sibling ::
  "('x, 'm) pn_config \<Rightarrow> 'x ParaConfig \<Rightarrow> ('x, 'm) pn_st \<Rightarrow> bytes \<Rightarrow> StateMachine \<Rightarrow> StateCommitmentHeight \<Rightarrow> bool" where
  "attested_sibling cfg pk s pf sm ch \<longleftrightarrow>
     (\<exists>update root para_id slot_duration header t d.
        pk_decode_proof pk pf = Inr update \<and> relay_root pk (pcp_relay_height update) s = Some root \<and>
        map_of (pn_Parachains s) para_id = Some slot_duration \<and>
        sibling (cf_host_state_machine cfg) para_id = Some sm \<and>
        proved_head pk (pcp_storage_proof update) root para_id header \<and>
        timed_by (pk_digest_codec pk) slot_duration (hdr_logs header) t \<and> t \<noteq> 0 \<and>
        rooted_by (pk_digest_codec pk) (hdr_logs header) d \<and>
        sch_height ch = ucast (hdr_number header) \<and>
        sch_commitment ch =
          (if cf_coprocessor cfg = Some sm
           then \<lparr>sc_timestamp = t, sc_overlay_root = Some (cd_mmr_root d), sc_state_root = cd_child_trie_root d\<rparr>
           else \<lparr>sc_timestamp = t, sc_overlay_root = Some (cd_child_trie_root d), sc_state_root = hdr_state_root header\<rparr>))"

lemma storage_key_id:
  assumes "lawful_ids pk"
  shows "pk_decode_u32 pk (drop (length (parachain_header_storage_key pk i) - 4) (parachain_header_storage_key pk i)) = Inr i"
  using assms by (simp add: lawful_ids_def parachain_header_storage_key_def)

lemma readonly_read_proof_check [readonly_intros]: "readonly (read_proof_check db get dec root nodes keys)"
  unfolding read_proof_check_def by (intro readonly_intros)

lemma read_proof_check_Ok:
  assumes "read_proof_check db get dec root nodes keys s = (Ok m, s')" and "(k, v) \<in> set m"
  shows "db nodes root" "k \<in> set keys" "\<exists>w. get nodes root k = Inr w \<and> v = Option.bind w dec"
proof -
  from assms(1) obtain entries s1 where db: "db nodes root" and m: "m = btree_collect entries" and
    run: "collect (\<lambda>key. bindC (map_err (\<lambda>e. Custom (ascii ''Error reading from trie: '' @ e)) (propagate (get nodes root key)))
            (\<lambda>value. ret (key, Option.bind value dec))) keys s = (Ok entries, s1)"
    by (auto simp: read_proof_check_def comp_ok)
  from assms(2) m btree_collect_set have "(k, v) \<in> set entries" by fastforce
  from collect_Ok_elem [OF run this] show "k \<in> set keys" "\<exists>w. get nodes root k = Inr w \<and> v = Option.bind w dec"
    by (auto simp: comp_ok)
  show "db nodes root" by (fact db)
qed

lemma readonly_verify_header [readonly_intros]: "readonly (verify_header cfg pk key raw)"
  unfolding verify_header_def by (intro readonly_intros)

lemma readonly_verify_headers [readonly_intros]: "readonly (verify_headers cfg pk headers acc)"
  by (induction headers arbitrary: acc) (auto intro!: readonly_intros split: option.split)

lemma readonly_parachain_verify [readonly_intros]: "readonly (parachain_verify_consensus cfg pk state pf)"
  unfolding parachain_verify_consensus_def by (intro readonly_intros)

text \<open>What the loop inserts satisfies what every proved header gives.\<close>

lemma verify_headers_all:
  assumes "verify_headers cfg pk headers acc s = (Ok coms, s')"
    and "\<And>key raw sm ch. (key, Some raw) \<in> set headers \<Longrightarrow> verify_header cfg pk key raw s = (Ok (sm, ch), s) \<Longrightarrow> Q sm ch"
    and "\<And>sm cs ch. (sm, cs) \<in> set acc \<Longrightarrow> ch \<in> set cs \<Longrightarrow> Q sm ch"
    and "(sm, cs) \<in> set coms" and "ch \<in> set cs"
  shows "Q sm ch"
  using assms
proof (induction headers arbitrary: acc)
  case Nil
  then show ?case by (simp add: comp_ok)
next
  case (Cons entry headers)
  show ?case
  proof (cases "snd entry")
    case None
    then show ?thesis using Cons.prems by (intro Cons.IH [of acc]) auto
  next
    case (Some raw)
    with Cons.prems(1) obtain sm1 ch1 s1 where
      h: "verify_header cfg pk (fst entry) raw s = (Ok (sm1, ch1), s1)" and
      rest: "verify_headers cfg pk headers (btree_insert sm1 [ch1] acc) s1 = (Ok coms, s')" by (auto simp: comp_ok)
    have s1: "s1 = s" using h by (rule readonlyD [OF readonly_verify_header])
    have q: "Q sm1 ch1" using Cons.prems(2) [of "fst entry" raw sm1 ch1] h s1 Some by (cases entry) simp
    show ?thesis
    proof (rule Cons.IH [OF rest [unfolded s1]])
      fix sm2 cs2 ch2
      assume "(sm2, cs2) \<in> set (btree_insert sm1 [ch1] acc)" and "ch2 \<in> set cs2"
      with q Cons.prems(3) btree_insert_set [of sm1 "[ch1]" acc] show "Q sm2 ch2" by auto
    qed (use Cons.prems in auto)
  qed
qed

lemma verified_sibling:
  assumes "lawful_ids pk" and "parachain_verify_consensus cfg pk state pf s = (Ok (state', coms), s')"
    and "(sm, cs) \<in> set coms" and "ch \<in> set cs"
  shows "attested_sibling cfg pk s pf sm ch"
proof -
  from assms(2) obtain update root headers s1 where
    dec: "pk_decode_proof pk pf = Inr update" and root: "relay_root pk (pcp_relay_height update) s = Some root" and
    read: "read_proof_check (pk_db_contains pk) (pk_trie_get pk) (pk_decode_value pk) root (pcp_storage_proof update)
             (map (parachain_header_storage_key pk) (pk_iter_keys pk (pn_Parachains s))) s = (Ok headers, s1)" and
    run: "verify_headers cfg pk headers [] s1 = (Ok coms, s')"
    unfolding parachain_verify_consensus_def by (auto simp: comp_ok)
  have "s1 = s" using read by (rule readonlyD [OF readonly_read_proof_check])
  note loop = run [unfolded this]
  show ?thesis
  proof (rule verify_headers_all [OF loop _ _ assms(3,4)])
    fix key raw sm1 ch1
    assume key: "(key, Some raw) \<in> set headers" and h: "verify_header cfg pk key raw s = (Ok (sm1, ch1), s)"
    have db: "pk_db_contains pk (pcp_storage_proof update) root" using read key by (rule read_proof_check_Ok(1))
    from read_proof_check_Ok(2) [OF read key] obtain i where ik: "key = parachain_header_storage_key pk i" by auto
    from read_proof_check_Ok(3) [OF read key] obtain w where
      w: "pk_trie_get pk (pcp_storage_proof update) root key = Inr w" "Some raw = Option.bind w (pk_decode_value pk)" by blast
    obtain v where get: "pk_trie_get pk (pcp_storage_proof update) root key = Inr (Some v)" "pk_decode_value pk v = Some raw"
      using w by (cases w) simp_all
    from h storage_key_id [OF assms(1), of i] obtain slot_duration header d s1 where
      reg: "map_of (pn_Parachains s) i = Some slot_duration" and hd: "pk_decode_header pk raw = Inr header" and
      dig: "para_digests (pk_digest_codec pk) slot_duration (hdr_logs header)
              \<lparr>pg_timestamp = 0, pg_overlay_root = 0, pg_mmr_root = 0\<rparr> s = (Ok d, s1)" and
      t: "pg_timestamp d \<noteq> 0" and sib: "sibling (cf_host_state_machine cfg) i = Some sm1" and
      ch: "ch1 = para_commitment (cf_coprocessor cfg) sm1 header d"
      by (auto simp: verify_header_def comp_ok ik)
    show "attested_sibling cfg pk s pf sm1 ch1"
      unfolding attested_sibling_def
      using dec root reg sib t db get hd para_digests_found [OF dig t]
      by (intro exI [of _ update] exI [of _ root] exI [of _ i] exI [of _ slot_duration] exI [of _ header]
            exI [of _ "pg_timestamp d"] exI [of _ "\<lparr>cd_mmr_root = pg_mmr_root d, cd_child_trie_root = pg_overlay_root d\<rparr>"])
         (auto simp: proved_head_def ik ch para_commitment_def)
  qed simp
qed

section \<open>Verification returns\<close>

definition calm :: "('s, 'e, 'a) comp \<Rightarrow> bool" where
  "calm m \<longleftrightarrow> (\<forall>s. fst (m s) \<noteq> Panic)"

lemma calm_basic:
  "calm (ret a)" "calm (fail e)" "calm (asks g)" "calm (ensure c e)" "calm (ok_or x e)" "calm (propagate q)"
  by (auto simp: calm_def comp_defs split: option.split sum.split)

lemma calm_bindC: "calm m \<Longrightarrow> (\<And>a. calm (f a)) \<Longrightarrow> calm (bindC m f)"
  by (auto simp: calm_def bindC_def split: prod.split outcome.split) (metis fst_conv)

lemma calm_map_err: "calm m \<Longrightarrow> calm (map_err g m)"
  by (auto simp: calm_def map_err_def split: prod.split outcome.split) (metis fst_conv)

lemma calm_collect: "(\<And>x. calm (f x)) \<Longrightarrow> calm (collect f xs)"
  by (induction xs) (auto intro: calm_basic calm_bindC)

lemmas calm_intros = calm_basic calm_bindC calm_map_err calm_collect

lemma calmD: "calm m \<Longrightarrow> fst (m s) \<noteq> Panic"
  by (simp add: calm_def)

lemma calm_para_digest_step: "calm (para_digest_step dc slot_duration item acc)"
  by (cases item) (auto simp: para_digest_step_def intro!: calm_intros)

lemma calm_para_digests: "calm (para_digests dc slot_duration logs acc)"
  by (induction logs arbitrary: acc) (simp_all add: calm_intros calm_para_digest_step)

lemma bindC_returns:
  assumes "fst (m s) \<noteq> Panic" and "\<And>a t. m s = (Ok a, t) \<Longrightarrow> fst (f a t) \<noteq> Panic"
  shows "fst (bindC m f s) \<noteq> Panic"
  using assms by (auto simp: bindC_def split: prod.split outcome.split)

lemma verify_header_returns:
  assumes "lawful_ids pk" and "i \<in> fst ` set (pn_Parachains s)"
  shows "fst (verify_header cfg pk (parachain_header_storage_key pk i) raw s) \<noteq> Panic"
proof -
  from assms(2) obtain d where d: "map_of (pn_Parachains s) i = Some d" by (metis map_of_eq_None_iff not_None_eq)
  show ?thesis
    unfolding verify_header_def
  proof (rule bindC_returns)
    fix para_id t
    assume "map_err header_error (propagate (pk_decode_u32 pk (drop (length (parachain_header_storage_key pk i) - 4)
      (parachain_header_storage_key pk i)))) s = (Ok para_id, t)"
    then have "para_id = i" "t = s" using storage_key_id [OF assms(1), of i] by (auto simp: comp_ok)
    with d show "fst (bindC (asks (\<lambda>s. map_of (pn_Parachains s) para_id)) (\<lambda>found.
       bindC (expect found) (\<lambda>slot_duration.
       bindC (map_err header_error (propagate (pk_decode_header pk raw))) (\<lambda>header.
       bindC (para_digests (pk_digest_codec pk) slot_duration (hdr_logs header)
                \<lparr>pg_timestamp = 0, pg_overlay_root = 0, pg_mmr_root = 0\<rparr>) (\<lambda>d.
       bindC (ensure (pg_timestamp d \<noteq> 0) (Custom (ascii ''Timestamp not found''))) (\<lambda>_.
       bindC (ok_or (sibling (cf_host_state_machine cfg) para_id)
                (Custom (ascii ''Host state machine should be a parachain''))) (\<lambda>sm.
         ret (sm, para_commitment (cf_coprocessor cfg) sm header d))))))) t) \<noteq> Panic"
      by (simp add: bindC_run simple_run guard_run) (intro calmD calm_intros calm_para_digests)
  qed (intro calmD calm_intros)
qed

lemma verify_headers_return:
  assumes "\<And>key raw. (key, Some raw) \<in> set headers \<Longrightarrow> fst (verify_header cfg pk key raw s) \<noteq> Panic"
  shows "fst (verify_headers cfg pk headers acc s) \<noteq> Panic"
  using assms
proof (induction headers arbitrary: acc)
  case (Cons entry headers)
  show ?case
  proof (cases "snd entry")
    case (Some raw)
    have "fst (bindC (verify_header cfg pk (fst entry) raw) (\<lambda>(sm, intermediate).
        verify_headers cfg pk headers (btree_insert sm [intermediate] acc)) s) \<noteq> Panic"
    proof (rule bindC_returns)
      show "fst (verify_header cfg pk (fst entry) raw s) \<noteq> Panic"
        using Cons.prems [of "fst entry" raw] Some by (cases entry) simp
      fix a t
      assume "verify_header cfg pk (fst entry) raw s = (Ok a, t)"
      then have "t = s" by (rule readonlyD [OF readonly_verify_header])
      with Cons show "fst ((\<lambda>(sm, intermediate).
          verify_headers cfg pk headers (btree_insert sm [intermediate] acc)) a t) \<noteq> Panic"
        by (simp split: prod.split)
    qed
    with Some show ?thesis by simp
  qed (use Cons in simp)
qed (simp add: ret_def)

lemma calm_read_proof_check: "calm (read_proof_check db get dec root nodes keys)"
  unfolding read_proof_check_def by (intro calm_intros)

lemma parachain_verify_returns:
  assumes "lawful_ids pk"
  shows "fst (parachain_verify_consensus cfg pk state pf s) \<noteq> Panic"
  unfolding parachain_verify_consensus_def
proof (intro bindC_returns calmD [OF calm_basic(1)] calmD [OF calm_basic(3)] calmD [OF calm_basic(5)] calmD [OF calm_map_err])
  fix update s1 found s2 root s3 header_keys s4 headers s5
  assume steps: "map_err (\<lambda>e. Custom (ascii ''Cannot decode parachain consensus proof: '' @ e))
      (propagate (pk_decode_proof pk pf)) s = (Ok update, s1)"
    "asks (relay_root pk (pcp_relay_height update)) s1 = (Ok found, s2)"
    "ok_or found (Custom (ascii ''Cannot find relay chain height: '' @ decimal (unat (pcp_relay_height update)))) s2 = (Ok root, s3)"
    "asks (\<lambda>s. map (parachain_header_storage_key pk) (pk_iter_keys pk (pn_Parachains s))) s3 = (Ok header_keys, s4)"
    and read: "map_err (\<lambda>e. Custom (ascii ''Error verifying parachain header '' @ pk_error_debug pk e))
      (read_proof_check (pk_db_contains pk) (pk_trie_get pk) (pk_decode_value pk) root
         (pcp_storage_proof update) header_keys) s4 = (Ok headers, s5)"
  have s4: "s4 = s" "header_keys = map (parachain_header_storage_key pk) (pk_iter_keys pk (pn_Parachains s))"
    using steps by (auto simp: comp_ok)
  have run: "read_proof_check (pk_db_contains pk) (pk_trie_get pk) (pk_decode_value pk) root
         (pcp_storage_proof update) header_keys s = (Ok headers, s5)" using read by (simp add: comp_ok s4(1))
  have s5: "s5 = s" using run by (rule readonlyD [OF readonly_read_proof_check])
  show "fst (verify_headers cfg pk headers [] s5) \<noteq> Panic"
    unfolding s5
  proof (rule verify_headers_return)
    fix key raw
    assume "(key, Some raw) \<in> set headers"
    with read_proof_check_Ok(2) [OF run] s4(2) obtain i where "key = parachain_header_storage_key pk i"
      "i \<in> set (pk_iter_keys pk (pn_Parachains s))" by auto
    then show "fst (verify_header cfg pk key raw s) \<noteq> Panic"
      using verify_header_returns [OF assms, of i s] assms by (simp add: lawful_ids_def)
  qed
qed (simp_all add: calm_intros calm_read_proof_check)

section \<open>What the inherent comes to trust\<close>

text \<open>Of the storage of the parachain pallet nothing changes, and what is new among the trusted commitments
  satisfies \<open>Q\<close>.\<close>

definition trusts_only ::
  "('x, 'm) Config \<Rightarrow> (StateMachineHeight \<Rightarrow> StateCommitment \<Rightarrow> bool) \<Rightarrow> ('x, 'm) st \<Rightarrow> ('x, 'm) st \<Rightarrow> bool" where
  "trusts_only cfg Q s t \<longleftrightarrow> ismp_state.more t = ismp_state.more s \<and>
     (\<forall>h c. lone_key (state_commitment_storage_key cfg) h \<longrightarrow> pallet_state_machine_commitment cfg h t = Ok c \<longrightarrow>
        pallet_state_machine_commitment cfg h s = Ok c \<or> Q h c)"

lemma trusts_only_refl: "trusts_only cfg Q s s"
  by (simp add: trusts_only_def)

lemma trusts_only_frame:
  "trusts_only cfg Q s t \<Longrightarrow> child_trie t' = child_trie t \<Longrightarrow> state_commitments t' = state_commitments t \<Longrightarrow>
     ismp_state.more t' = ismp_state.more t \<Longrightarrow> trusts_only cfg Q s t'"
  unfolding trusts_only_def pallet_state_machine_commitment_def StateCommitments_get_def by (simp cong: option.case_cong child_value.case_cong)

lemma keeps_trust_writes:
  "keeps (trusts_only cfg Q s) (pallet_store_consensus_state i b)"
  "keeps (trusts_only cfg Q s) (pallet_store_consensus_update_time i t)"
  "keeps (trusts_only cfg Q s) (pallet_store_state_machine_update_time h t)"
  "keeps (trusts_only cfg Q s) (pallet_store_latest_commitment_height h)"
  "keeps (trusts_only cfg Q s) (deposit_event e)"
  unfolding pallet_store_consensus_state_def pallet_store_consensus_update_time_def
    pallet_store_state_machine_update_time_def pallet_store_latest_commitment_height_def deposit_event_def
  by (rule keeps_modify, erule trusts_only_frame, simp_all)+

lemma keeps_trust_store:
  assumes "Q h c"
  shows "keeps (trusts_only cfg Q s) (pallet_store_state_machine_commitment cfg h c)"
  unfolding pallet_store_state_machine_commitment_def
proof (rule keeps_modify)
  fix t
  assume t: "trusts_only cfg Q s t"
  have "pallet_state_machine_commitment cfg h' (StateCommitments_insert cfg h c t) =
      (if h' = h then Ok c else pallet_state_machine_commitment cfg h' t)"
    if "lone_key (state_commitment_storage_key cfg) h'" for h'
    using that by (auto simp: lone_key_def pallet_state_machine_commitment_def StateCommitments_get_def
        StateCommitments_insert_def child_put_def cong: option.case_cong child_value.case_cong)
  moreover have "ismp_state.more (StateCommitments_insert cfg h c t) = ismp_state.more t"
    by (simp add: StateCommitments_insert_def child_put_def)
  ultimately show "trusts_only cfg Q s (StateCommitments_insert cfg h c t)"
    using t assms by (auto simp: trusts_only_def split: if_splits)
qed

lemma keeps_trust_heights:
  assumes "\<And>ch. ch \<in> set chs \<Longrightarrow> Q (at_height i (sch_height ch)) (sch_commitment ch)"
  shows "keeps (trusts_only cfg Q s) (update_heights (pallet_host cfg) i p chs l)"
  using assms
proof (induction chs arbitrary: l)
  case (Cons ch chs)
  then have rest: "keeps (trusts_only cfg Q s) (update_heights (pallet_host cfg) i p chs l)" for l by simp
  show ?case
    using Cons.prems [of ch]
    by (auto simp: Let_def intro!: keeps_intros keeps_trust_writes keeps_trust_store rest split: sum.split)
qed (simp add: keeps_basic)

lemma keeps_trust_machine:
  assumes "\<And>ch. ch \<in> set (snd e) \<Longrightarrow> Q \<lparr>smh_id = \<lparr>state_id = fst e, consensus_state_id = csid\<rparr>, smh_height = sch_height ch\<rparr> (sch_commitment ch)"
  shows "keeps (trusts_only cfg Q s) (update_state_machine (pallet_host cfg) csid e)"
  unfolding update_state_machine_def Let_def pallet_host_simps
  using assms
  by (intro keeps_intros keeps_trust_heights)
     (auto simp: at_height_def intro!: keeps_intros keeps_trust_writes split: option.split)

lemma readonly_is_expired: "readonly (is_expired H i)"
  unfolding is_expired_def by (intro readonly_intros)

lemma update_client_trusts:
  assumes "\<And>client state v sm cs ch. find_client (the (consensus_state_client s (cm_consensus_state_id msg))) (cf_consensus_clients cfg) = Some client \<Longrightarrow>
      verify_consensus client s (cm_consensus_state_id msg) state (cm_consensus_proof msg) = Ok v \<Longrightarrow>
      (sm, cs) \<in> set (snd v) \<Longrightarrow> ch \<in> set cs \<Longrightarrow>
      Q \<lparr>smh_id = \<lparr>state_id = sm, consensus_state_id = cm_consensus_state_id msg\<rparr>, smh_height = sch_height ch\<rparr> (sch_commitment ch)"
  shows "trusts_only cfg Q s (snd (update_client (pallet_host cfg) msg s))"
proof -
  let ?csid = "cm_consensus_state_id msg"
  let ?rest = "\<lambda>v. bindC (pallet_store_consensus_state ?csid (fst v)) (\<lambda>_.
      bindC (asks now) (\<lambda>timestamp.
      bindC (pallet_store_consensus_update_time ?csid timestamp) (\<lambda>_.
      bindC (collect (update_state_machine (pallet_host cfg) ?csid) (snd v)) (\<lambda>state_updates.
        ret (MrConsensusMessage (concat state_updates))))))"
  have rest: "trusts_only cfg Q s (snd (?rest v s))"
    if "find_client (the (consensus_state_client s ?csid)) (cf_consensus_clients cfg) = Some client"
      "verify_consensus client s ?csid state (cm_consensus_proof msg) = Ok v" for client state v
  proof -
    have "keeps (trusts_only cfg Q s) (collect (update_state_machine (pallet_host cfg) ?csid) (snd v))"
      using assms [OF that] by (intro keeps_collect_set keeps_trust_machine) auto
    then have "keeps (trusts_only cfg Q s) (?rest v)"
      by (intro keeps_bindC keeps_basic keeps_trust_writes)
    then show ?thesis unfolding keeps_def by (elim allE impE) (rule trusts_only_refl)
  qed
  have exp: "snd (is_expired (pallet_host cfg) ?csid s) = s"
    by (simp add: readonly_is_expired [unfolded readonly_def])
  show ?thesis
    unfolding update_client_def Let_def pallet_host_simps snd_map_err
    using rest by (auto simp: snd_bindC simple_run ok_or_def consensus_client_run exp pallet_consensus_client_id_def
        trusts_only_refl split: option.split outcome.split)
qed

lemma collect_propagate_readonly: "readonly (collect propagate qs)"
  by (intro readonly_intros)

lemma consensus_message_trusts:
  assumes "trusts_only cfg Q s (snd (update_client (pallet_host cfg) data s))"
  shows "trusts_only cfg Q s (snd (handle_messages cfg [MsgConsensus data] s))"
proof -
  let ?m = "handle_incoming_messages cfg [MsgConsensus data]"
  have "snd (?m s) = snd (update_client (pallet_host cfg) data s)"
    by (auto simp: handle_incoming_messages_def handle_incoming_message_def snd_bindC simple_run
        collect_propagate_readonly [unfolded readonly_def] split: outcome.split)
  with assms have m: "trusts_only cfg Q s (snd (attempt ?m s))" by (simp add: snd_attempt)
  have "keeps (trusts_only cfg Q s) (case handled of
         Inl err \<Rightarrow> bindC (deposit_event (PeErrors [HandlingError_from cfg err])) (\<lambda>_. fail InvalidMessage)
       | Inr evs \<Rightarrow> deposit_events evs)" for handled
    by (cases handled) (auto simp: deposit_events_def intro!: keeps_intros keeps_trust_writes)
  with m show ?thesis
    by (auto simp: handle_messages_def snd_bindC keeps_def split: outcome.split)
qed

lemma parachain_inherent_trusts:
  assumes "lawful_ids pk" and "consensus_state_client s PARACHAIN_CONSENSUS_ID = Some PARACHAIN_CONSENSUS_ID"
    and "find_client PARACHAIN_CONSENSUS_ID (cf_consensus_clients cfg) = Some (ParachainConsensusClient cfg pk S)"
    and "cm_consensus_state_id data = PARACHAIN_CONSENSUS_ID"
  shows "trusts_only cfg (\<lambda>h c. consensus_state_id (smh_id h) = PARACHAIN_CONSENSUS_ID \<and>
      attested_sibling cfg pk s (cm_consensus_proof data) (state_id (smh_id h)) \<lparr>sch_commitment = c, sch_height = smh_height h\<rparr>) s
    (snd (handle_messages cfg [MsgConsensus data] s))"
proof (rule consensus_message_trusts, rule update_client_trusts)
  fix client state v sm cs ch
  assume "find_client (the (consensus_state_client s (cm_consensus_state_id data))) (cf_consensus_clients cfg) = Some client"
    and run: "verify_consensus client s (cm_consensus_state_id data) state (cm_consensus_proof data) = Ok v"
    and mem: "(sm, cs) \<in> set (snd v)" "ch \<in> set cs"
  then have "client = ParachainConsensusClient cfg pk S" using assms(2-4) by simp
  with run have "parachain_verify_consensus cfg pk state (cm_consensus_proof data) s = (Ok (fst v, snd v), s)"
    using readonly_parachain_verify [of cfg pk state "cm_consensus_proof data"]
    by (simp add: ParachainConsensusClient_def readonly_def prod_eq_iff)
  from verified_sibling [OF assms(1) this mem] assms(4)
  show "consensus_state_id (smh_id \<lparr>smh_id = \<lparr>state_id = sm, consensus_state_id = cm_consensus_state_id data\<rparr>, smh_height = sch_height ch\<rparr>) =
        PARACHAIN_CONSENSUS_ID \<and>
      attested_sibling cfg pk s (cm_consensus_proof data)
        (state_id (smh_id \<lparr>smh_id = \<lparr>state_id = sm, consensus_state_id = cm_consensus_state_id data\<rparr>, smh_height = sch_height ch\<rparr>))
        \<lparr>sch_commitment = sch_commitment ch,
         sch_height = smh_height \<lparr>smh_id = \<lparr>state_id = sm, consensus_state_id = cm_consensus_state_id data\<rparr>, smh_height = sch_height ch\<rparr>\<rparr>"
    by (cases ch) simp
qed

text \<open>What the inherent does, when it has an effect at all.\<close>

lemma update_parachain_consensus_cases:
  assumes "update_parachain_consensus cfg origin data s = (r, s')"
  obtains "s' = s"
  | f where "cm_consensus_state_id data = PARACHAIN_CONSENSUS_ID" and "pn_ConsensusUpdated s = None"
      and "s' = (snd (handle_messages cfg [MsgConsensus data] s))\<lparr>pn_ConsensusUpdated := f\<rparr>"
proof (cases r)
  case (Ok u)
  with assms obtain handled s1 where
    id: "cm_consensus_state_id data = PARACHAIN_CONSENSUS_ID" and new: "pn_ConsensusUpdated s = None" and
    run: "attempt (handle_messages cfg [MsgConsensus data]) s = ((Ok handled) :: (CallError, CallError + unit) outcome, s1)" and
    fin: "(if isl handled then ret () else modify (\<lambda>s. s\<lparr>pn_ConsensusUpdated := Some True\<rparr>)) s1 = ((Ok u) :: (CallError, unit) outcome, s')"
    by (auto simp: update_parachain_consensus_def comp_ok split: if_splits)
  have s1: "s1 = snd (handle_messages cfg [MsgConsensus data] s)" using run by (metis snd_attempt snd_conv)
  have "s' = s1\<lparr>pn_ConsensusUpdated := (if isl handled then pn_ConsensusUpdated s1 else Some True)\<rparr>"
    using fin by (auto simp: comp_ok split: if_splits)
  with that(2) id new s1 show ?thesis by blast
qed (use assms that(1) transactional_rollback in \<open>fastforce simp: update_parachain_consensus_def\<close>)+

text \<open>C14: when the parachain inherent of a block adds a state commitment to those the chain trusts, whether
  or not it ran to its end, then that commitment belongs to a registered parachain of the same relay chain; the
  relay chain state that was recorded, or is reported now, for the height of the proof holds a header of that
  parachain; the commitment has the number of the header as its height, its time is that of the last slot in the
  header, and its roots are those of the header, or of its ISMP log for the coprocessor.\<close>

theorem inherent_trusts_proved_headers:
  assumes "lawful_ids pk" and "consensus_state_client s PARACHAIN_CONSENSUS_ID = Some PARACHAIN_CONSENSUS_ID"
    and "find_client PARACHAIN_CONSENSUS_ID (cf_consensus_clients cfg) = Some (ParachainConsensusClient cfg pk S)"
    and "update_parachain_consensus cfg origin data s = (r, s')"
    and "lone_key (state_commitment_storage_key cfg) h"
    and "pallet_state_machine_commitment cfg h s' = Ok c" and "pallet_state_machine_commitment cfg h s \<noteq> Ok c"
  shows "consensus_state_id (smh_id h) = PARACHAIN_CONSENSUS_ID \<and>
    attested_sibling cfg pk s (cm_consensus_proof data) (state_id (smh_id h)) \<lparr>sch_commitment = c, sch_height = smh_height h\<rparr>"
  using assms(4)
proof (cases rule: update_parachain_consensus_cases)
  case 1
  with assms(6,7) show ?thesis by simp
next
  case (2 f)
  from assms(6) have "pallet_state_machine_commitment cfg h (snd (handle_messages cfg [MsgConsensus data] s)) = Ok c"
    unfolding 2(3) pallet_state_machine_commitment_def StateCommitments_get_def
    by (simp cong: option.case_cong child_value.case_cong)
  with parachain_inherent_trusts [OF assms(1-3) 2(1)] assms(5,7) show ?thesis
    unfolding trusts_only_def by blast
qed

text \<open>C16: verifying a parachain consensus proof never panics: whatever bytes a relayer submits, the identifier in
  every proved key is that of a registered parachain, so that its slot duration is found.\<close>

theorem parachain_verification_returns:
  assumes "lawful_ids pk"
  shows "verify_consensus (ParachainConsensusClient cfg pk S) s i state pf \<noteq> Panic"
  using parachain_verify_returns [OF assms] by (simp add: ParachainConsensusClient_def)

section \<open>Fraud proofs\<close>

text \<open>C38: anyone can freeze the parachain client: as long as it is not frozen, an unsigned fraud proof with
  arbitrary contents is accepted, and from then on every message that relies on the client (an update, or
  a request, a response or a timeout of any sibling parachain) is rejected without effect.\<close>

theorem anyone_freezes_parachain_client:
  assumes "find_client PARACHAIN_CONSENSUS_ID (cf_consensus_clients cfg) = Some (ParachainConsensusClient cfg pk S)"
    and "consensus_state_client s PARACHAIN_CONSENSUS_ID = Some PARACHAIN_CONSENSUS_ID"
    and "consensus_states s PARACHAIN_CONSENSUS_ID = Some st" and "\<not> frozen_clients s PARACHAIN_CONSENSUS_ID"
    and "fp_consensus_state_id fraud = PARACHAIN_CONSENSUS_ID"
  shows "\<exists>s'. handle_unsigned cfg OriginNone [MsgFraudProof fraud] s = (Ok (), s') \<and>
    (\<forall>msg. relies_on msg = Some PARACHAIN_CONSENSUS_ID \<longrightarrow> blocked (handle_incoming_message (pallet_host cfg) msg) s')"
proof -
  obtain s' where run: "freeze_client (pallet_host cfg) fraud s = (Ok (MrFrozenClient PARACHAIN_CONSENSUS_ID), s')"
    using assms
    by (simp add: freeze_client_def Let_def comp_app consensus_client_run pallet_read_defs pallet_write_defs
        ParachainConsensusClient_def)
  have call: "handle_unsigned cfg OriginNone [MsgFraudProof fraud] s = (Ok (), s')"
    by (simp add: handle_unsigned_def handle_messages_def handle_incoming_messages_def handle_incoming_message_def
        comp_app run deposit_events_def)
  have "h_is_consensus_client_frozen (pallet_host cfg) PARACHAIN_CONSENSUS_ID s' \<noteq> Ok ()"
    using ph.freeze_client_frozen [OF run] assms(5) by simp
  from call frozen_blocks_message [OF _ this] show ?thesis by (intro exI [of _ s'] conjI allI impI)
qed

section \<open>Relay chain states\<close>

lemma more_parachain:
  assumes "ismp_state.more s' = ismp_state.more (s :: ('x, 'm) pn_st)"
  shows "pn_RelayChainStateCommitments s' = pn_RelayChainStateCommitments s"
  using assms by (cases s; cases s') simp

definition same_more :: "('x, 'm) st \<Rightarrow> ('x, 'm) st \<Rightarrow> bool" where
  "same_more s t \<longleftrightarrow> ismp_state.more t = ismp_state.more s"

lemma keeps_more_writes:
  "keeps (same_more s) (pallet_store_consensus_state_id i cid)" "keeps (same_more s) (pallet_store_consensus_state i b)"
  "keeps (same_more s) (pallet_store_unbonding_period i p)" "keeps (same_more s) (pallet_store_challenge_period m p)"
  "keeps (same_more s) (pallet_store_consensus_update_time i t)" "keeps (same_more s) (pallet_store_state_machine_update_time h t)"
  "keeps (same_more s) (pallet_store_latest_commitment_height h)" "keeps (same_more s) (pallet_store_state_machine_commitment cfg h c)"
  unfolding pallet_write_defs pallet_store_consensus_state_id_def
  by (rule keeps_modify, simp add: same_more_def child_trie_defs)+

lemma keeps_more_create: "keeps (same_more s) (create_client (pallet_host cfg) msg)"
  unfolding create_client_def create_commitment_def create_challenge_period_def consensus_client_def Let_def pallet_host_simps
  by (intro keeps_intros keeps_more_writes)

text \<open>The steps of a chain with the pallet: its calls and hooks, and whatever else the runtime does, which does
  not write to the storage of the pallet.\<close>

inductive para_step :: "('x, 'm) pn_config \<Rightarrow> 'x ParaConfig \<Rightarrow> ('x, 'm) pn_st \<Rightarrow> ('x, 'm) pn_st \<Rightarrow> bool"
  for cfg pk where
  update: "update_parachain_consensus cfg origin data s = (r, s') \<Longrightarrow> para_step cfg pk s s'"
| add: "add_parachain cfg origin paras s = (r, s') \<Longrightarrow> para_step cfg pk s s'"
| remove: "remove_parachain cfg origin ids s = (r, s') \<Longrightarrow> para_step cfg pk s s'"
| initialize: "para_on_initialize cfg s = (Ok () :: (CallError, unit) outcome, s') \<Longrightarrow> para_step cfg pk s s'"
| finalize: "para_on_finalize pk s = (Ok () :: (CallError, unit) outcome, s') \<Longrightarrow> para_step cfg pk s s'"
| upgrade: "migrate_to_v1 s = (Ok () :: (CallError, unit) outcome, s') \<Longrightarrow> para_step cfg pk s s'"
| elsewhere: "ismp_state.more s' = ismp_state.more s \<Longrightarrow> para_step cfg pk s s'"

abbreviation roots_of :: "('x, 'm) pn_st \<Rightarrow> u32 \<rightharpoonup> h256" where
  "roots_of \<equiv> pn_RelayChainStateCommitments"

definition same_roots :: "('x, 'm) pn_st \<Rightarrow> ('x, 'm) pn_st \<Rightarrow> bool" where
  "same_roots s t \<longleftrightarrow> roots_of t = roots_of s"

lemma keeps_roots_more:
  assumes "\<And>s. keeps (same_more s) m"
  shows "keeps (same_roots s0) (m :: (('x, 'm) pn_st, 'e, 'a) comp)"
proof (rule keepsI)
  fix s :: "('x, 'm) pn_st"
  have "same_more s (snd (m s))" using assms [of s] by (simp add: keeps_def same_more_def)
  then have "roots_of (snd (m s)) = roots_of s" unfolding same_more_def by (rule more_parachain)
  moreover assume "same_roots s0 s"
  ultimately show "same_roots s0 (snd (m s))" by (simp add: same_roots_def)
qed

lemma keeps_rootsD: "(\<And>s0. keeps (same_roots s0) m) \<Longrightarrow> m s = (r, s') \<Longrightarrow> roots_of s' = roots_of s"
  using keepsD [of "same_roots s" m s r s'] by (simp add: same_roots_def)

lemma keeps_roots_modify: "(\<And>s. roots_of (f s) = roots_of s) \<Longrightarrow> keeps (same_roots s0) (modify f)"
  by (rule keeps_modify) (simp add: same_roots_def)

lemma keeps_roots_calls:
  "keeps (same_roots s0) (add_parachain cfg origin paras)" "keeps (same_roots s0) (remove_parachain cfg origin ids)"
  "keeps (same_roots s0) (para_on_initialize cfg)" "keeps (same_roots s0) migrate_to_v1"
  unfolding add_parachain_def remove_parachain_def track_parachain_def para_on_initialize_def para_initialize_def
    migrate_to_v1_def pn_deposit_event_def
  by (auto intro!: keeps_intros keeps_roots_modify keeps_roots_more [OF keeps_more_create]
      keeps_roots_more [OF keeps_more_writes(4)] simp: Parachains_insert_def Parachains_remove_def split: option.split)

lemma keeps_roots_update: "keeps (same_roots s0) (update_parachain_consensus cfg origin data)"
proof (rule keepsI)
  fix s
  assume s0: "same_roots s0 s"
  obtain r s' where run: "update_parachain_consensus cfg origin data s = (r, s')" by fastforce
  then have "same_roots s0 s'"
  proof (cases rule: update_parachain_consensus_cases)
    case (2 f)
    have "trusts_only cfg (\<lambda>_ _. True) s (snd (handle_messages cfg [MsgConsensus data] s))"
      by (intro consensus_message_trusts update_client_trusts) simp
    then have "roots_of (snd (handle_messages cfg [MsgConsensus data] s)) = roots_of s"
      unfolding trusts_only_def by (intro more_parachain) blast
    with s0 2(3) show ?thesis by (simp add: same_roots_def)
  qed (use s0 in simp)
  with run show "same_roots s0 (snd (update_parachain_consensus cfg origin data s))" by simp
qed

lemma para_step_roots:
  assumes "para_step cfg pk s s'"
  shows "roots_of s' = roots_of s \<or>
    (let now_reported = pk_relay_state pk (env s) in
     roots_of s (rs_number now_reported) = None \<and>
     roots_of s' = (roots_of s)(rs_number now_reported \<mapsto> rs_state_root now_reported))"
  using assms
proof cases
  case finalize
  then show ?thesis by (auto simp: para_on_finalize_def comp_ok Let_def)
next
  case elsewhere
  from more_parachain [OF this] show ?thesis ..
next
  case update
  from keeps_rootsD [OF keeps_roots_update this] show ?thesis ..
next
  case add
  from keeps_rootsD [OF keeps_roots_calls(1) this] show ?thesis ..
next
  case remove
  from keeps_rootsD [OF keeps_roots_calls(2) this] show ?thesis ..
next
  case initialize
  from keeps_rootsD [OF keeps_roots_calls(3) this] show ?thesis ..
next
  case upgrade
  from keeps_rootsD [OF keeps_roots_calls(4) this] show ?thesis ..
qed

text \<open>C15: over any sequence of calls, hooks and other activity of the chain, the state root recorded for a height
  of the relay chain is never replaced or forgotten, parachain proofs at that height are always checked against
  it, and a root is only recorded when the parachain system reported it for that height.\<close>

theorem relay_roots_are_final:
  assumes "(para_step cfg pk)\<^sup>*\<^sup>* s s'"
  shows "(\<forall>h root. roots_of s h = Some root \<longrightarrow> roots_of s' h = Some root \<and> relay_root pk h s' = Some root) \<and>
    (\<forall>h root. roots_of s' h = Some root \<longrightarrow> roots_of s h = Some root \<or>
       (\<exists>t. (para_step cfg pk)\<^sup>*\<^sup>* s t \<and> (para_step cfg pk)\<^sup>*\<^sup>* t s' \<and>
          pk_relay_state pk (env t) = \<lparr>rs_number = h, rs_state_root = root\<rparr>))"
  using assms
proof (induction rule: rtranclp_induct)
  case base
  show ?case by (simp add: relay_root_def)
next
  case (step t u)
  note roots = para_step_roots [OF step.hyps(2), unfolded Let_def]
  have kept: "roots_of u h = Some root" if "roots_of t h = Some root" for h root
    using that roots by (auto simp: fun_upd_apply)
  have new: "roots_of t h = Some root \<or> pk_relay_state pk (env t) = \<lparr>rs_number = h, rs_state_root = root\<rparr>"
    if "roots_of u h = Some root" for h root
    using that roots by (cases "pk_relay_state pk (env t)") (auto split: if_splits)
  have on: "(para_step cfg pk)\<^sup>*\<^sup>* v u" if "(para_step cfg pk)\<^sup>*\<^sup>* v t" for v
    using that step.hyps(2) by (rule rtranclp.rtrancl_into_rtrancl)
  have one: "(para_step cfg pk)\<^sup>*\<^sup>* t u" by (rule on) simp
  show ?case
  proof (intro conjI allI impI)
    fix h root
    assume "roots_of s h = Some root"
    with step.IH kept show "roots_of u h = Some root" by blast
    then show "relay_root pk h u = Some root" by (simp add: relay_root_def)
  next
    fix h root
    assume "roots_of u h = Some root"
    from new [OF this] show "roots_of s h = Some root \<or>
       (\<exists>v. (para_step cfg pk)\<^sup>*\<^sup>* s v \<and> (para_step cfg pk)\<^sup>*\<^sup>* v u \<and>
          pk_relay_state pk (env v) = \<lparr>rs_number = h, rs_state_root = root\<rparr>)"
    proof
      assume "roots_of t h = Some root"
      with step.IH on show ?thesis by blast
    next
      assume "pk_relay_state pk (env t) = \<lparr>rs_number = h, rs_state_root = root\<rparr>"
      with step.hyps(1) one show ?thesis by blast
    qed
  qed
qed

section \<open>A sample chain\<close>

text \<open>Parachain 1000 tracks its sibling 2000 with slots of 12 seconds; the relay chain is at height 7 with the
  state root 77, whose trie holds a header with number 3 and slot 5.\<close>

definition para_pk :: "sample_env ParaConfig" where
  "para_pk =
     \<lparr>pk_relay_state = (\<lambda>_. \<lparr>rs_number = 7, rs_state_root = 77\<rparr>), pk_iter_keys = map fst, pk_storage_prefix = (\<lambda>_ _. []),
      pk_twox_64 = (\<lambda>_. []), pk_encode_u32 = be_bytes 4, pk_decode_u32 = (\<lambda>b. Inr (from_be_bytes b)),
      pk_decode_proof = (\<lambda>_. Inr \<lparr>pcp_relay_height = 7, pcp_storage_proof = []\<rparr>),
      pk_decode_header = (\<lambda>_. Inr \<lparr>hdr_number = 3, hdr_state_root = 9, hdr_logs = [DiPreRuntime [1] []]\<rparr>),
      pk_digest_codec = \<lparr>dc_aura_engine_id = [1], dc_babe_engine_id = [2], dc_decode_slot = (\<lambda>_. Inr 5),
        dc_decode_babe_slot = (\<lambda>_. Inl []), dc_decode_digest = (\<lambda>_. Inl [])\<rparr>,
      pk_db_contains = (\<lambda>_ root. root = 77), pk_trie_get = (\<lambda>_ _ k. Inr (Some k)), pk_decode_value = Some,
      pk_error_debug = (\<lambda>_. [])\<rparr>"

definition para_height :: StateMachineHeight where
  "para_height = \<lparr>smh_id = \<lparr>state_id = Polkadot 2000, consensus_state_id = PARACHAIN_CONSENSUS_ID\<rparr>, smh_height = 3\<rparr>"

definition para_base :: "(sample_env, unit) pn_config" where
  "para_base = runtime_cfg\<lparr>cf_encode_height := (\<lambda>h. if h = para_height then [1] else [])\<rparr>"

definition para_cfg :: "(sample_env, unit) pn_config" where
  "para_cfg = para_base\<lparr>cf_consensus_clients := [ParachainConsensusClient para_base para_pk (\<lambda>_. sample_sm_client)]\<rparr>"

definition para_state :: "(sample_env, unit) pn_st" where
  "para_state =
     \<lparr>child_trie = (\<lambda>_. None), state_commitments = (\<lambda>_. None), consensus_states = [PARACHAIN_CONSENSUS_ID \<mapsto> []],
      consensus_state_client = [PARACHAIN_CONSENSUS_ID \<mapsto> PARACHAIN_CONSENSUS_ID],
      unbonding_periods = [PARACHAIN_CONSENSUS_ID \<mapsto> 5000], challenge_periods = (\<lambda>_. None),
      frozen_clients = (\<lambda>_. False), latest_heights = (\<lambda>_. None),
      consensus_update_times = [PARACHAIN_CONSENSUS_ID \<mapsto> 9000],
      state_machine_update_times = (\<lambda>_. None), responded = (\<lambda>_. None), nonce = 0, child_trie_root = 0,
      events = [], now = from_secs 10000, env = (\<lambda>a. 1000, 0),
      pn_RelayChainStateCommitments = (\<lambda>_. None), pn_ConsensusUpdated = None, pn_Parachains = [(2000, 12000)],
      pn_storage_version = 1, pn_events = []\<rparr>"

definition para_data :: ConsensusMessage where
  "para_data = \<lparr>cm_consensus_proof = [], cm_consensus_state_id = PARACHAIN_CONSENSUS_ID, cm_signer = []\<rparr>"

definition para_trusted :: StateCommitment where
  "para_trusted = \<lparr>sc_timestamp = 60, sc_overlay_root = Some 0, sc_state_root = 9\<rparr>"

lemma para_lawful: "lawful_ids para_pk"
  by (simp add: lawful_ids_def para_pk_def from_be_bytes_back)

lemma verify_headers_cong:
  assumes "cf_host_state_machine cfg' = cf_host_state_machine cfg" and "cf_coprocessor cfg' = cf_coprocessor cfg"
  shows "verify_headers cfg' pk headers acc = verify_headers cfg pk headers acc"
  by (induction headers arbitrary: acc) (auto simp: verify_header_def assms split: option.split)

lemma para_client:
  "find_client PARACHAIN_CONSENSUS_ID (cf_consensus_clients para_cfg) =
     Some (ParachainConsensusClient para_cfg para_pk (\<lambda>_. sample_sm_client))"
proof -
  have "verify_headers para_cfg pk headers acc = verify_headers para_base pk headers acc" for pk headers acc
    by (rule verify_headers_cong) (simp_all add: para_cfg_def)
  then have "parachain_verify_consensus para_cfg pk st pf = parachain_verify_consensus para_base pk st pf" for pk st pf
    by (simp add: parachain_verify_consensus_def)
  then have "ParachainConsensusClient para_cfg pk S = ParachainConsensusClient para_base pk S" for pk S
    by (simp add: ParachainConsensusClient_def)
  then show ?thesis by (simp add: para_cfg_def find_client_def ParachainConsensusClient_def)
qed

lemma para_lone: "lone_key (state_commitment_storage_key para_cfg) para_height"
  by (auto simp: lone_key_def state_commitment_storage_key_def para_cfg_def para_base_def runtime_cfg_def sample_hash_def
      split: if_splits)

lemma para_verifies:
  "fst (parachain_verify_consensus para_base para_pk [] [] para_state) =
     Ok ([], [(Polkadot 2000, [\<lparr>sch_commitment = para_trusted, sch_height = 3\<rparr>])])"
  by (simp add: parachain_verify_consensus_def read_proof_check_def verify_header_def comp_app para_pk_def para_state_def
      relay_root_def parachain_header_storage_key_def from_be_bytes_back para_digest_step_def btree_collect_def
      slot_timestamp_def sibling_def para_commitment_def para_base_def para_trusted_def)

lemma para_update:
  "pallet_state_machine_commitment para_cfg para_height
     (snd (update_parachain_consensus para_cfg OriginNone para_data para_state)) = Ok para_trusted"
  "pallet_state_machine_commitment para_cfg para_height para_state = Err (StateCommitmentNotFound para_height)"
proof -
  have client: "find_client PARACHAIN_CONSENSUS_ID (cf_consensus_clients para_cfg) =
      Some (ParachainConsensusClient para_base para_pk (\<lambda>_. sample_sm_client))"
    by (simp add: para_cfg_def find_client_def ParachainConsensusClient_def)
  have fields: "consensus_state_client para_state PARACHAIN_CONSENSUS_ID = Some PARACHAIN_CONSENSUS_ID"
    "consensus_states para_state PARACHAIN_CONSENSUS_ID = Some []" "frozen_clients para_state = (\<lambda>_. False)"
    "unbonding_periods para_state PARACHAIN_CONSENSUS_ID = Some 5000" "now para_state = from_secs 10000"
    "consensus_update_times para_state PARACHAIN_CONSENSUS_ID = Some 9000" "pn_ConsensusUpdated para_state = None"
    "latest_heights para_state = (\<lambda>_. None)" "child_trie para_state = (\<lambda>_. None)" "state_commitments para_state = (\<lambda>_. None)"
    by (simp_all add: para_state_def)
  show "pallet_state_machine_commitment para_cfg para_height para_state = Err (StateCommitmentNotFound para_height)"
    by (simp add: pallet_state_machine_commitment_def StateCommitments_get_def fields)
  show "pallet_state_machine_commitment para_cfg para_height
     (snd (update_parachain_consensus para_cfg OriginNone para_data para_state)) = Ok para_trusted"
    using para_verifies
    by (simp add: update_parachain_consensus_def handle_messages_def handle_incoming_messages_def
        handle_incoming_message_def comp_app para_data_def update_client_def Let_def consensus_client_run client
        is_expired_run pallet_read_defs pallet_write_defs fields ParachainConsensusClient_def from_secs_def nanos_per_sec_def
        update_state_machine_def update_heights_Cons at_height_def deposit_events_def deposit_event_def
        StateCommitments_get_def StateCommitments_insert_def child_put_def para_height_def)
qed

theorem inherent_trusts_proved_headers_witness:
  "attested_sibling para_cfg para_pk para_state [] (Polkadot 2000) \<lparr>sch_commitment = para_trusted, sch_height = 3\<rparr>"
proof -
  have "consensus_state_client para_state PARACHAIN_CONSENSUS_ID = Some PARACHAIN_CONSENSUS_ID"
    by (simp add: para_state_def)
  from inherent_trusts_proved_headers [OF para_lawful this para_client surjective_pairing para_lone para_update(1)]
  have "consensus_state_id (smh_id para_height) = PARACHAIN_CONSENSUS_ID \<and>
    attested_sibling para_cfg para_pk para_state (cm_consensus_proof para_data) (state_id (smh_id para_height))
      \<lparr>sch_commitment = para_trusted, sch_height = smh_height para_height\<rparr>" by (simp add: para_update(2))
  then show ?thesis by (simp add: para_height_def para_data_def)
qed

theorem parachain_verification_returns_witness:
  "verify_consensus (ParachainConsensusClient para_cfg para_pk (\<lambda>_. sample_sm_client)) para_state
     PARACHAIN_CONSENSUS_ID [] [1, 2, 3] \<noteq> Panic"
  by (rule parachain_verification_returns [OF para_lawful])

theorem anyone_freezes_parachain_client_witness:
  "\<exists>s'. handle_unsigned para_cfg OriginNone
       [MsgFraudProof \<lparr>fp_proof_1 = [], fp_proof_2 = [], fp_consensus_state_id = PARACHAIN_CONSENSUS_ID\<rparr>] para_state = (Ok (), s') \<and>
     blocked (handle_incoming_message (pallet_host para_cfg) (MsgConsensus para_data)) s'"
proof -
  have "consensus_state_client para_state PARACHAIN_CONSENSUS_ID = Some PARACHAIN_CONSENSUS_ID"
    "consensus_states para_state PARACHAIN_CONSENSUS_ID = Some []" "\<not> frozen_clients para_state PARACHAIN_CONSENSUS_ID"
    by (simp_all add: para_state_def)
  from anyone_freezes_parachain_client [OF para_client this,
      of "\<lparr>fp_proof_1 = [], fp_proof_2 = [], fp_consensus_state_id = PARACHAIN_CONSENSUS_ID\<rparr>"]
  obtain s' where run: "handle_unsigned para_cfg OriginNone
       [MsgFraudProof \<lparr>fp_proof_1 = [], fp_proof_2 = [], fp_consensus_state_id = PARACHAIN_CONSENSUS_ID\<rparr>] para_state = (Ok (), s')"
    and stop: "\<And>msg. relies_on msg = Some PARACHAIN_CONSENSUS_ID \<Longrightarrow> blocked (handle_incoming_message (pallet_host para_cfg) msg) s'"
    by auto
  from stop [of "MsgConsensus para_data"] run show ?thesis by (auto simp: para_data_def)
qed

theorem relay_roots_are_final_witness:
  "roots_of (snd (add_parachain para_cfg OriginRoot [\<lparr>pd_id = 3000, pd_slot_duration = 6000\<rparr>]
     (para_state\<lparr>pn_RelayChainStateCommitments := [6 \<mapsto> 66]\<rparr>))) 6 = Some 66"
proof -
  let ?s = "para_state\<lparr>pn_RelayChainStateCommitments := [6 \<mapsto> 66]\<rparr>"
  let ?paras = "[\<lparr>pd_id = 3000, pd_slot_duration = 6000\<rparr>]"
  have "para_step para_cfg para_pk ?s (snd (add_parachain para_cfg OriginRoot ?paras ?s))"
    by (rule para_step.add [where origin = OriginRoot and paras = ?paras]) (rule surjective_pairing)
  from relay_roots_are_final [OF r_into_rtranclp, OF this] show ?thesis by simp
qed

end
