(* ===== verification/Spec2Isabelle.thy ===== *)
theory Spec2Isabelle
  imports Consensus_Properties Request_Properties Response_Properties Timeout_Properties
    Pallet_Properties Dispatch_Properties Hyperbridge_Properties State_Machine_Properties
    Relayer_Properties Cross_Chain_Properties Encoding_Properties
    Mmr_Properties Gateway_Properties Coprocessor_Properties Token_Gateway_Properties
    Governor_Properties Runtime_Properties Beefy_Properties Parachain_Properties
begin

text \<open>
  A verification development of Hyperbridge: an interoperability protocol (ISMP), its implementation as
  substrate pallets in Rust and as EVM contracts in Solidity, and the applications on top of it. Paths
  below are relative to \<^verbatim>\<open>src/\<close>.

  \<^bold>\<open>The system.\<close> A chain that takes part has an ISMP \<^emph>\<open>host\<close>. Its consensus clients turn consensus proofs of
  other chains into \<^emph>\<open>state commitments\<close>, each trusted after a challenge period; its state machine clients
  check proofs of storage against a trusted commitment. A \<^emph>\<open>request\<close> is dispatched on its source, which
  commits to its hash; a relayer proves the commitment on the destination, whose host leaves a receipt and
  runs the receiving module; a \<^emph>\<open>response\<close> travels the same way back, and a \<^emph>\<open>timeout\<close> is proved by the absence
  of the receipt. Get requests are answered with values of the other chain's state instead of by a module.
  Hyperbridge is a chain whose runtime routes requests between chains that do not follow each other's
  consensus (a \<^emph>\<open>proxy\<close>, or coprocessor), charges for it, accumulates the fees of relayers, and
  governs the contracts and the token gateways of the connected chains.

  \<^bold>\<open>Conventions.\<close> Machine integers are words of their width, and wrap, saturate or panic where the code does;
  a duration is a number of nanoseconds; byte strings are lists of 8 bit words. A call is a value of type
  \<^verbatim>\<open>comp\<close>: a function from the state to an outcome and a new state, where the outcome is \<^verbatim>\<open>Ok\<close>, \<^verbatim>\<open>Err\<close> (a
  returned error, or a revert) or \<^verbatim>\<open>Panic\<close>. \<^verbatim>\<open>bindC\<close> sequences calls, \<^verbatim>\<open>transactional\<close> is the storage layer
  that an error rolls back (every extrinsic of a pallet, every transaction of a contract), \<^verbatim>\<open>attempt\<close> is a
  \<^verbatim>\<open>match\<close> on a result, \<^verbatim>\<open>for_each\<close> and \<^verbatim>\<open>collect\<close> are the loops of the code. An extrinsic that catches an error of
  an inner call keeps the effects of that call, as the code does. The storage of a pallet is a
  record; a pallet that uses another extends its record. A storage map with hashed keys is a partial map, one
  that is iterated over is an association list or a \<^verbatim>\<open>BTreeMap\<close> (Rust_BTree).

  Code that is not part of the sources is a parameter: fields of configuration records (\<^verbatim>\<open>cf_*\<close> of
  \<^verbatim>\<open>Config\<close> for pallet-ismp, and one such record for every other component) stand for hash functions, codecs, the
  currency, trie and Merkle libraries, signature recovery, the tree library and the modules of a runtime;
  what a theorem needs of them is among its hypotheses. \<^verbatim>\<open>Sample_Runtime\<close> and the samples of the
  property theories instantiate all parameters with small executable functions; the witness of a
  theorem applies it there.

  \<^bold>\<open>Theories, in the order of the code.\<close>

  \<^item> \<^verbatim>\<open>Rust_Prelude\<close>, \<^verbatim>\<open>Rust_Bytes\<close>, \<^verbatim>\<open>Rust_BTree\<close>: the prelude. Outcomes and calls with their three
    collections of rules (\<^verbatim>\<open>comp_ok\<close> inverts a successful run, \<^verbatim>\<open>comp_app\<close> evaluates one,
    \<^verbatim>\<open>readonly_intros\<close> and \<^verbatim>\<open>keeps_intros\<close> carry frame properties), bytes and decimal numbers, ordered maps.
  \<^item> \<^verbatim>\<open>Ismp_State_Machine\<close>, \<^verbatim>\<open>Ismp_Types\<close>, \<^verbatim>\<open>Ismp_Host\<close> (\<^verbatim>\<open>modules/ismp/core/src\<close>: \<^verbatim>\<open>host.rs\<close>, \<^verbatim>\<open>consensus.rs\<close>, \<^verbatim>\<open>router.rs\<close>,
    \<^verbatim>\<open>messaging.rs\<close>, \<^verbatim>\<open>error.rs\<close>, \<^verbatim>\<open>events.rs\<close>, \<^verbatim>\<open>module.rs\<close>, \<^verbatim>\<open>handlers.rs\<close>): identifiers of chains with their text form
    and order, messages with their hashes and timeouts, the traits as records of operations with their default methods.
    The locales \<^verbatim>\<open>commitment_store\<close>, \<^verbatim>\<open>receipt_store\<close> and \<^verbatim>\<open>outbox_store\<close>, joined in \<^verbatim>\<open>ismp_host\<close>, are the
    contract of a host; \<^verbatim>\<open>Pallet_Host\<close> interprets them (\<^verbatim>\<open>ph\<close>) on pallet-ismp.
  \<^item> \<^verbatim>\<open>Ismp_Consensus\<close>, \<^verbatim>\<open>Ismp_Request\<close>, \<^verbatim>\<open>Ismp_Response\<close>, \<^verbatim>\<open>Ismp_Timeout\<close>, \<^verbatim>\<open>Ismp_Handlers\<close>
    (\<^verbatim>\<open>modules/ismp/core/src/handlers\<close>): \<^verbatim>\<open>update_client\<close>, \<^verbatim>\<open>create_client\<close>, \<^verbatim>\<open>freeze_client\<close>, \<^verbatim>\<open>handle_request\<close>,
    \<^verbatim>\<open>handle_response\<close>, \<^verbatim>\<open>handle_timeout\<close> and \<^verbatim>\<open>handle_incoming_message\<close>, with their lemmas proved in those locales.
  \<^item> \<^verbatim>\<open>Pallet_Child_Trie\<close>, \<^verbatim>\<open>Pallet_Host\<close>, \<^verbatim>\<open>Pallet_Ismp\<close> (\<^verbatim>\<open>modules/ismp/pallets/pallet/src\<close>): storage, host and
    refunding router, the calls, dispatching, the transaction check, the hook at the end of a block.
  \<^item> \<^verbatim>\<open>Pallet_Hyperbridge\<close>, \<^verbatim>\<open>Pallet_Fishermen\<close>, \<^verbatim>\<open>Pallet_Host_Executive\<close>, \<^verbatim>\<open>Pallet_Relayer\<close>, \<^verbatim>\<open>Pallet_Coprocessor\<close>
    (\<^verbatim>\<open>modules/ismp/pallets\<close>: \<^verbatim>\<open>hyperbridge\<close>, \<^verbatim>\<open>fishermen\<close>, \<^verbatim>\<open>host-executive\<close>, \<^verbatim>\<open>relayer\<close>, \<^verbatim>\<open>state-coprocessor\<close>).
    The locale \<^verbatim>\<open>ismp_dispatcher\<close> is the contract of the dispatcher that other pallets call, interpreted on
    pallet-ismp (\<^verbatim>\<open>pd\<close>); \<^verbatim>\<open>hyperbridge_over\<close> shows that pallet-hyperbridge on top of a dispatcher is one again.
  \<^item> \<^verbatim>\<open>Token_Gateway_Types\<close>, \<^verbatim>\<open>Pallet_Token_Gateway\<close>, \<^verbatim>\<open>Pallet_Token_Governor\<close> (\<^verbatim>\<open>token-gateway\<close>, \<^verbatim>\<open>token-governor\<close>) and
    \<^verbatim>\<open>Hyperbridge_Runtime\<close> (\<^verbatim>\<open>token-gateway-inspector\<close>, and \<^verbatim>\<open>ProxyModule\<close> and \<^verbatim>\<open>Router\<close> of
    \<^verbatim>\<open>parachain/runtimes/nexus/src/ismp.rs\<close>).
  \<^item> \<^verbatim>\<open>Substrate_State_Machine\<close>, \<^verbatim>\<open>Hyperbridge_State_Machine\<close>, \<^verbatim>\<open>Evm_State_Machine\<close>
    (\<^verbatim>\<open>modules/ismp/state-machines\<close>, \<^verbatim>\<open>modules/ismp/clients/sync-committee/evm-common\<close>): the state machine clients.
  \<^item> \<^verbatim>\<open>Pallet_Parachain\<close> (\<^verbatim>\<open>modules/ismp/clients/parachain/client/src\<close>): the consensus client for
    sibling parachains and the pallet that remembers the states of the relay chain.
  \<^item> \<^verbatim>\<open>Mmr_Pallet\<close> (\<^verbatim>\<open>modules/trees/mmr\<close>): the mountain range of outgoing messages.
  \<^item> \<^verbatim>\<open>Evm_Base\<close>, \<^verbatim>\<open>Evm_Host\<close>, \<^verbatim>\<open>Evm_Handler\<close>, \<^verbatim>\<open>Evm_Contract\<close> (\<^verbatim>\<open>evm/src/hosts/EvmHost.sol\<close>,
    \<^verbatim>\<open>evm/src/modules/HandlerV1.sol\<close>, \<^verbatim>\<open>HostManager.sol\<close>): the contracts. The locale \<^verbatim>\<open>replay_protected\<close> relates the
    batches of the handler to the receipts of the host, interpreted for requests (\<^verbatim>\<open>posts\<close>) and get responses (\<^verbatim>\<open>gets\<close>).
  \<^item> \<^verbatim>\<open>Evm_Gateway\<close> (\<^verbatim>\<open>evm/src/modules\<close>: \<^verbatim>\<open>TokenGateway.sol\<close>, \<^verbatim>\<open>Registrar.sol\<close>, \<^verbatim>\<open>CallDispatcher.sol\<close>).
  \<^item> \<^verbatim>\<open>Evm_Beefy\<close> (\<^verbatim>\<open>evm/src/consensus\<close>): the light clients \<^verbatim>\<open>BeefyV1\<close> and \<^verbatim>\<open>SP1Beefy\<close>; the locale \<^verbatim>\<open>light_client\<close>
    in \<^verbatim>\<open>Beefy_Properties\<close>, interpreted on both (\<^verbatim>\<open>beefy\<close>, \<^verbatim>\<open>sp1\<close>), is what makes a proof acceptable only once.

  \<^bold>\<open>What is shown.\<close>

  \<^item> Consensus (\<^verbatim>\<open>Consensus_Properties\<close>): an update extends what is trusted and never rewrites it, fresh commitments
    wait, frozen and expired clients accept nothing. \<^verbatim>\<open>Beefy_Properties\<close> and \<^verbatim>\<open>Parachain_Properties\<close> show for three clients
    what they attest: BEEFY updates carry a supermajority of votes, heights and authority sets only move
    forward, and the parachain inherent trusts only headers proved in a reported relay chain state. They also show
    what is \<^emph>\<open>not\<close> bound: SP1 proofs leave height and chains open, header times are in
    the wrong unit on EVM chains, and any fraud proof freezes the parachain client.
  \<^item> Messages (\<^verbatim>\<open>Request_\<close>, \<^verbatim>\<open>Response_\<close>, \<^verbatim>\<open>Timeout_\<close>, \<^verbatim>\<open>Dispatch_\<close> and \<^verbatim>\<open>Pallet_Properties\<close>): what an accepted message
    has been checked for, no replay by a later message, receipts and commitments after a failed module, fees and
    timeouts of dispatched requests, and that a batch is atomic and, once validated, executes.
  \<^item> Proofs of storage (\<^verbatim>\<open>State_Machine_Properties\<close>, \<^verbatim>\<open>Encoding_Properties\<close>): which receipts a timeout depends on,
    that hyperbridge's price is what the source collected, the typing of the answers, and the text and byte forms.
  \<^item> Hyperbridge (\<^verbatim>\<open>Hyperbridge_\<close>, \<^verbatim>\<open>Relayer_\<close>, \<^verbatim>\<open>Coprocessor_\<close>, \<^verbatim>\<open>Runtime_Properties\<close>): vetoes, protocol fees,
    relayer fees credited and withdrawn once, answers of the coprocessor, committed routing, and conservation of
    the inflow of assets as an invariant of a step relation.
  \<^item> Tokens (\<^verbatim>\<open>Gateway_\<close>, \<^verbatim>\<open>Token_Gateway_\<close>, \<^verbatim>\<open>Governor_Properties\<close>): a refund mirrors the teleport on both
    kinds of chains, who may change a gateway, who owns an asset, and that parameters stored by the governor
    arrive field by field in the contract (a refinement across the two languages).
  \<^item> EVM chains (\<^verbatim>\<open>Evm_Properties\<close>, \<^verbatim>\<open>Cross_Chain_Properties\<close>): replay protection, monotone commitments, access
    control over all calls of the host, refunds, payments, and host parameters from pallet to contract.
  \<^item> \<^verbatim>\<open>Mmr_Properties\<close>: the loop over the peaks ends, the stored nodes are the peaks, leaves keep their indices.

  Some theorems show a behaviour that contradicts a comment or the evident intent of the code; they are stated as
  what the code does.

  \<^bold>\<open>Bounds and loops.\<close> Every loop of the modelled code iterates over a list or a number known beforehand and is
  structural recursion, or recursion on a decreasing number (decimal digits), so that no fuel is needed. The one
  loop that need not end (\<^verbatim>\<open>skip_common\<close>, in the code that prunes peaks) is a partial function, and when it
  returns is shown (\<^verbatim>\<open>append_returns\<close>). Hypotheses such as times below \<^verbatim>\<open>2 ^ 64\<close> seconds keep words from
  wrapping where the code would too. A hypothesis \<^verbatim>\<open>lone_key\<close> says that the storage key of a height, a
  hash, belongs to no other height. A contract called from the EVM host may do anything with the state, unless
  a hypothesis \<^verbatim>\<open>callees_keep\<close> limits it.

  \<^bold>\<open>Not modelled.\<close> Weights, logging, gas and the bounds of bounded vectors. The verifiers under
  \<^verbatim>\<open>modules/consensus\<close> and the other clients under \<^verbatim>\<open>modules/ismp/clients\<close> (signature schemes and codecs of libraries;
  the host takes any client as a parameter). The asset gateway (executed by the XCM executor), the call
  decompressor and the demo pallet. RPC, runtime APIs, the inherent provider, the MMR gadget, the node, the
  chain specifications and the configuration of runtimes except routing: node side code and type
  assignments without on-chain behaviour of their own. \<^verbatim>\<open>tesseract\<close> and \<^verbatim>\<open>modules/hyperclient\<close>: asynchronous relayers
  and clients that only submit messages, against which the on-chain code must be safe whatever they do. Example
  contracts (\<^verbatim>\<open>Inscriptions.sol\<close>, \<^verbatim>\<open>TokenFaucet.sol\<close>), generated bindings except the structs, tests and utilities.
\<close>

end
